(* ===== verification/Memc_Prelude.thy ===== *)
theory Memc_Prelude
  imports Complex_Main "HOL-Library.Word" "HOL-Library.Monad_Syntax" "HOL-Library.AList"
begin

unbundle bit_operations_syntax

text \<open>
  Shared vocabulary of the development: the machine types of the C code, byte buffers
  that fail on a read outside their bounds, the ordered hash tables of the Zend engine,
  and the generic facts on lists and options that several components use.
\<close>

section \<open>Machine types\<close>

type_synonym u8 = "8 word"
type_synonym u16 = "16 word"
type_synonym u32 = "32 word"
type_synonym u64 = "64 word"

text \<open>
  A \<open>zend_long\<close> is a 64-bit word read as two's complement (\<open>sint\<close>); a C string or a
  \<open>zend_string\<close> is a list of 8-bit characters, and \<open>flzuint8\<close> casts of it are words.
\<close>

type_synonym zend_long = "64 word"

definition flzuint8_of :: "char \<Rightarrow> u8" where
  "flzuint8_of c = word_of_nat (of_char c)"

definition char_of_u8 :: "u8 \<Rightarrow> char" where
  "char_of_u8 b = char_of (unat b)"

lemma char_of_u8_of_char [simp]: "char_of_u8 (flzuint8_of c) = c"
proof -
  have "(of_char c :: nat) < 256" by simp
  then have "unat (word_of_nat (of_char c) :: u8) = of_char c"
    by (simp add: unat_of_nat take_bit_nat_eq_self)
  then show ?thesis by (simp add: char_of_u8_def flzuint8_of_def)
qed

lemma flzuint8_of_char_of_u8 [simp]: "flzuint8_of (char_of_u8 b) = b"
proof -
  have "unat b < 2 ^ LENGTH(8)" by (rule unsigned_less)
  then have "(of_char (char_of (unat b)) :: nat) = unat b" by simp
  then show ?thesis by (simp add: char_of_u8_def flzuint8_of_def)
qed

lemma map_char_flz [simp]: "map (char_of_u8 \<circ> flzuint8_of) s = s"
  by (simp add: comp_def)

lemma unat_of_nat_small: "m < 2 ^ LENGTH('a) \<Longrightarrow> unat (of_nat m :: 'a::len word) = m"
  by (simp add: unat_of_nat take_bit_nat_eq_self)

lemma sint_eq_uint_small: "uint w < 2 ^ (LENGTH('a) - 1) \<Longrightarrow> sint (w :: 'a::len word) = uint w"
proof -
  assume less: "uint w < 2 ^ (LENGTH('a) - 1)"
  have "- (2 ^ (LENGTH('a) - 1)) \<le> (0 :: int)" by simp
  also have "0 \<le> uint w" by simp
  finally have "signed_take_bit (LENGTH('a) - 1) (uint w) = uint w"
    using less by (rule signed_take_bit_int_eq_self)
  then show "sint w = uint w" by (simp add: sint_uint)
qed

lemma sint_ucast_nonneg [simp]: "sint (ucast (w :: 32 word) :: 64 word) = uint w"
proof -
  have "uint w < 2 ^ 32" using unsigned_less [of w, where ?'a = int] by simp
  then have "uint (ucast w :: 64 word) = uint w" by (simp add: unsigned_ucast_eq take_bit_int_eq_self)
  with \<open>uint w < 2 ^ 32\<close> show ?thesis using sint_eq_uint_small [of "ucast w :: 64 word"] by simp
qed

section \<open>Character classes (C locale)\<close>

definition isspace :: "char \<Rightarrow> bool" where
  "isspace c = (let n = of_char c :: nat in n = 32 \<or> (9 \<le> n \<and> n \<le> 13))"

definition isgraph :: "char \<Rightarrow> bool" where
  "isgraph c = (let n = of_char c :: nat in 33 \<le> n \<and> n \<le> 126)"

text \<open>\<open>strlen\<close> stops at the first NUL.\<close>

definition strlen :: "string \<Rightarrow> nat" where
  "strlen s = length (takeWhile (\<lambda>c. c \<noteq> CHR 0x00) s)"

text \<open>What code that takes a \<open>char *\<close> sees of a string.\<close>

definition c_string :: "string \<Rightarrow> string" where
  "c_string s = takeWhile (\<lambda>c. c \<noteq> CHR 0x00) s"

lemma length_c_string [simp]: "length (c_string s) = strlen s"
  by (simp add: c_string_def strlen_def)

lemma c_string_id: "CHR 0x00 \<notin> set s \<Longrightarrow> c_string s = s"
  by (simp add: c_string_def takeWhile_eq_all_conv) metis

lemma c_string_idem [simp]: "c_string (c_string s) = c_string s"
  by (simp add: c_string_def)

lemma isgraph_not_isspace: "isgraph c \<Longrightarrow> \<not> isspace c"
  by (auto simp: isgraph_def isspace_def Let_def)

section \<open>Buffers with bounds\<close>

text \<open>\<open>rd buf i\<close> is the C expression \<open>buf[i]\<close>; \<open>None\<close> is a read outside the buffer.\<close>

definition rd :: "'a list \<Rightarrow> nat \<Rightarrow> 'a option" where
  "rd buf i = (if i < length buf then Some (buf ! i) else None)"

lemma rd_Some [simp]: "i < length buf \<Longrightarrow> rd buf i = Some (buf ! i)"
  by (simp add: rd_def)

lemma rd_eq_Some_iff: "rd buf i = Some x \<longleftrightarrow> i < length buf \<and> x = buf ! i"
  by (auto simp: rd_def)

lemma rd_append1: "i < length xs \<Longrightarrow> rd (xs @ ys) i = Some (xs ! i)"
  by (simp add: rd_def nth_append)

lemma rd_append_at [simp]: "rd (xs @ y # ys) (length xs) = Some y"
  by (simp add: rd_def)

end
