(* ===== verification/Flags.thy ===== *)
theory Flags
  imports Memc_Prelude
begin

text \<open>
  The 32-bit flags word stored with every item (\<open>php_memcached.c\<close>, "Payload value flags"
  and "User-defined flags"): four bits of value type, twelve internal bits (compression),
  sixteen bits for the user. The macros are the definitions below; the three fields are
  instances of one interface, \<open>bit_field\<close>, and pairwise disjoint.
\<close>

section \<open>The macros\<close>

definition MEMC_CREATE_MASK :: "nat \<Rightarrow> nat \<Rightarrow> u32" where
  "MEMC_CREATE_MASK start n_bits = push_bit start (push_bit n_bits 1 - 1)"

definition MEMC_MASK_TYPE :: u32 where "MEMC_MASK_TYPE = MEMC_CREATE_MASK 0 4"
definition MEMC_MASK_INTERNAL :: u32 where "MEMC_MASK_INTERNAL = MEMC_CREATE_MASK 4 12"
definition MEMC_MASK_USER :: u32 where "MEMC_MASK_USER = MEMC_CREATE_MASK 16 16"

definition MEMC_VAL_GET_TYPE :: "u32 \<Rightarrow> u32" where
  "MEMC_VAL_GET_TYPE flags = flags AND MEMC_MASK_TYPE"
definition MEMC_VAL_SET_TYPE :: "u32 \<Rightarrow> u32 \<Rightarrow> u32" where
  "MEMC_VAL_SET_TYPE flags type = flags OR (type AND MEMC_MASK_TYPE)"

abbreviation (input) MEMC_VAL_IS_STRING :: u32 where "MEMC_VAL_IS_STRING \<equiv> 0"
abbreviation (input) MEMC_VAL_IS_LONG :: u32 where "MEMC_VAL_IS_LONG \<equiv> 1"
abbreviation (input) MEMC_VAL_IS_DOUBLE :: u32 where "MEMC_VAL_IS_DOUBLE \<equiv> 2"
abbreviation (input) MEMC_VAL_IS_BOOL :: u32 where "MEMC_VAL_IS_BOOL \<equiv> 3"
abbreviation (input) MEMC_VAL_IS_SERIALIZED :: u32 where "MEMC_VAL_IS_SERIALIZED \<equiv> 4"
abbreviation (input) MEMC_VAL_IS_IGBINARY :: u32 where "MEMC_VAL_IS_IGBINARY \<equiv> 5"
abbreviation (input) MEMC_VAL_IS_JSON :: u32 where "MEMC_VAL_IS_JSON \<equiv> 6"
abbreviation (input) MEMC_VAL_IS_MSGPACK :: u32 where "MEMC_VAL_IS_MSGPACK \<equiv> 7"

abbreviation (input) MEMC_VAL_COMPRESSED :: u32 where "MEMC_VAL_COMPRESSED \<equiv> 1"
abbreviation (input) MEMC_VAL_COMPRESSION_ZLIB :: u32 where "MEMC_VAL_COMPRESSION_ZLIB \<equiv> 2"
abbreviation (input) MEMC_VAL_COMPRESSION_FASTLZ :: u32 where "MEMC_VAL_COMPRESSION_FASTLZ \<equiv> 4"
abbreviation (input) MEMC_VAL_COMPRESSION_ZSTD :: u32 where "MEMC_VAL_COMPRESSION_ZSTD \<equiv> 8"

definition MEMC_VAL_GET_FLAGS :: "u32 \<Rightarrow> u32" where
  "MEMC_VAL_GET_FLAGS internal_flags = drop_bit 4 (internal_flags AND MEMC_MASK_INTERNAL)"
definition MEMC_VAL_SET_FLAG :: "u32 \<Rightarrow> u32 \<Rightarrow> u32" where
  "MEMC_VAL_SET_FLAG internal_flags internal_flag =
     internal_flags OR (push_bit 4 internal_flag AND MEMC_MASK_INTERNAL)"
definition MEMC_VAL_HAS_FLAG :: "u32 \<Rightarrow> u32 \<Rightarrow> bool" where
  "MEMC_VAL_HAS_FLAG internal_flags internal_flag \<longleftrightarrow>
     MEMC_VAL_GET_FLAGS internal_flags AND internal_flag = internal_flag"
definition MEMC_VAL_DEL_FLAG :: "u32 \<Rightarrow> u32 \<Rightarrow> u32" where
  "MEMC_VAL_DEL_FLAG internal_flags internal_flag =
     internal_flags AND NOT (push_bit 4 internal_flag AND MEMC_MASK_INTERNAL)"

definition MEMC_VAL_GET_USER_FLAGS :: "u32 \<Rightarrow> u32" where
  "MEMC_VAL_GET_USER_FLAGS flags = drop_bit 16 (flags AND MEMC_MASK_USER)"
definition MEMC_VAL_SET_USER_FLAGS :: "u32 \<Rightarrow> u32 \<Rightarrow> u32" where
  "MEMC_VAL_SET_USER_FLAGS flags udf_flags = flags OR (push_bit 16 udf_flags AND MEMC_MASK_USER)"

abbreviation (input) MEMC_VAL_USER_FLAGS_MAX :: int where
  "MEMC_VAL_USER_FLAGS_MAX \<equiv> 2 ^ 16 - 1"

lemma memc_masks:
  "MEMC_MASK_TYPE = mask 4" "MEMC_MASK_INTERNAL = push_bit 4 (mask 12)"
  "MEMC_MASK_USER = push_bit 16 (mask 16)"
  by (simp_all add: MEMC_MASK_TYPE_def MEMC_MASK_INTERNAL_def MEMC_MASK_USER_def
      MEMC_CREATE_MASK_def mask_eq_exp_minus_1 push_bit_eq_mult)

lemmas flag_defs = MEMC_VAL_GET_TYPE_def MEMC_VAL_SET_TYPE_def MEMC_VAL_GET_FLAGS_def
  MEMC_VAL_SET_FLAG_def MEMC_VAL_DEL_FLAG_def MEMC_VAL_GET_USER_FLAGS_def
  MEMC_VAL_SET_USER_FLAGS_def memc_masks

section \<open>The interface of a field\<close>

text \<open>
  A setter ORs a value into its field and leaves the other bits alone; \<open>top\<close> is the largest
  value the field holds.
\<close>

locale bit_field =
  fixes field :: u32 and get :: "u32 \<Rightarrow> u32" and set :: "u32 \<Rightarrow> u32 \<Rightarrow> u32" and top :: u32
  assumes get_inside: "get (f AND field) = get f"
    and set_outside: "set f v AND NOT field = f AND NOT field"
    and get_set: "get (set f v) = get f OR (v AND top)"
begin

lemma get_set_fresh: "get f = 0 \<Longrightarrow> v AND top = v \<Longrightarrow> get (set f v) = v"
  by (simp add: get_set)

lemma get_set_idem: "get (set (set f v) v) = get (set f v)"
  by (simp add: get_set or.assoc)

end

locale two_bit_fields =
  a: bit_field field get set top + b: bit_field field2 get2 set2 top2
  for field get set top field2 get2 set2 top2 +
  assumes disjoint: "field AND field2 = 0"
begin

lemma field2_outside: "f AND field2 = (f AND NOT field) AND field2"
proof (rule bit_word_eqI)
  fix n
  assume "n < LENGTH(32)"
  moreover have "bit (field AND field2) n = bit (0 :: u32) n" by (simp only: disjoint)
  ultimately show "bit (f AND field2) n = bit ((f AND NOT field) AND field2) n"
    by (auto simp: bit_simps)
qed

lemma get2_set [simp]: "get2 (set f v) = get2 f"
  by (metis b.get_inside field2_outside a.set_outside)

end

sublocale two_bit_fields \<subseteq> swapped: two_bit_fields field2 get2 set2 top2 field get set top
  by unfold_locales (simp add: disjoint and.commute)

interpretation type_field: bit_field MEMC_MASK_TYPE MEMC_VAL_GET_TYPE MEMC_VAL_SET_TYPE "mask 4"
  by unfold_locales (simp_all add: flag_defs bit_eq_iff, auto simp: bit_simps)

interpretation internal_field:
  bit_field MEMC_MASK_INTERNAL MEMC_VAL_GET_FLAGS MEMC_VAL_SET_FLAG "mask 12"
  by unfold_locales (simp_all add: flag_defs bit_eq_iff, auto simp: bit_simps)

interpretation user_field:
  bit_field MEMC_MASK_USER MEMC_VAL_GET_USER_FLAGS MEMC_VAL_SET_USER_FLAGS "mask 16"
  by unfold_locales (simp_all add: flag_defs bit_eq_iff, auto simp: bit_simps)

interpretation type_internal: two_bit_fields
  MEMC_MASK_TYPE MEMC_VAL_GET_TYPE MEMC_VAL_SET_TYPE "mask 4"
  MEMC_MASK_INTERNAL MEMC_VAL_GET_FLAGS MEMC_VAL_SET_FLAG "mask 12"
  by unfold_locales (simp add: memc_masks bit_eq_iff, auto simp: bit_simps)

interpretation type_user: two_bit_fields
  MEMC_MASK_TYPE MEMC_VAL_GET_TYPE MEMC_VAL_SET_TYPE "mask 4"
  MEMC_MASK_USER MEMC_VAL_GET_USER_FLAGS MEMC_VAL_SET_USER_FLAGS "mask 16"
  by unfold_locales (simp add: memc_masks bit_eq_iff, auto simp: bit_simps)

interpretation internal_user: two_bit_fields
  MEMC_MASK_INTERNAL MEMC_VAL_GET_FLAGS MEMC_VAL_SET_FLAG "mask 12"
  MEMC_MASK_USER MEMC_VAL_GET_USER_FLAGS MEMC_VAL_SET_USER_FLAGS "mask 16"
  by unfold_locales (simp add: memc_masks bit_eq_iff, auto simp: bit_simps)

section \<open>Properties\<close>

text \<open>The three parts of the flags word do not disturb each other: after the type, the
  compression bits and the user's bits have been set on a fresh word, in any order of the
  last two, each of them is read back as it was given (cut to its field).\<close>

theorem flags_fields_independent:
  "MEMC_VAL_GET_TYPE (MEMC_VAL_SET_USER_FLAGS (MEMC_VAL_SET_FLAG (MEMC_VAL_SET_TYPE 0 t) c) u) = t AND 15 \<and>
   MEMC_VAL_GET_FLAGS (MEMC_VAL_SET_USER_FLAGS (MEMC_VAL_SET_FLAG (MEMC_VAL_SET_TYPE 0 t) c) u) = c AND 4095 \<and>
   MEMC_VAL_GET_USER_FLAGS (MEMC_VAL_SET_FLAG (MEMC_VAL_SET_USER_FLAGS (MEMC_VAL_SET_TYPE 0 t) u) c) = u AND 65535"
proof -
  have "MEMC_VAL_GET_TYPE 0 = 0" "MEMC_VAL_GET_FLAGS 0 = 0" "MEMC_VAL_GET_USER_FLAGS 0 = 0"
    by (simp_all add: MEMC_VAL_GET_TYPE_def MEMC_VAL_GET_FLAGS_def MEMC_VAL_GET_USER_FLAGS_def)
  then show ?thesis
    by (simp add: type_field.get_set internal_field.get_set user_field.get_set mask_eq_exp_minus_1)
qed

end
