(* ===== verification/Memc_Types.thy ===== *)
theory Memc_Types
  imports Flags
begin

text \<open>
  The data the components share: PHP values, the result codes and behaviours of libmemcached
  that the extension names, the object and its user data, the ini globals; and, as records
  of functions, the interfaces of the code that is not in this repository: libmemcached
  (over an abstract client state \<open>'m\<close>), the Zend engine, the serializers and the zlib and
  zstd codecs. Definitions that call such code take these records as arguments.
\<close>

section \<open>PHP values\<close>

text \<open>
  \<open>'d\<close> is the type of C doubles. Arrays are ordered lists of entries; an object is its
  handle. Integer keys of arrays are \<open>zend_long\<close>s.
\<close>

datatype hkey = HInt zend_long | HStr string

datatype 'd zval =
    IS_NULL | IS_FALSE | IS_TRUE | IS_LONG zend_long | IS_DOUBLE 'd | IS_STRING string
  | IS_ARRAY "(hkey \<times> 'd zval) list" | IS_OBJECT nat

abbreviation ZVAL_BOOL :: "bool \<Rightarrow> 'd zval" where
  "ZVAL_BOOL b \<equiv> (if b then IS_TRUE else IS_FALSE)"

section \<open>libmemcached\<close>

text \<open>
  The result codes registered as \<open>Memcached::RES_*\<close>, with the extension's own
  \<open>MEMC_RES_PAYLOAD_FAILURE\<close>; any further code of the library is \<open>MEMCACHED_OTHER\<close>.
\<close>

datatype memcached_return =
    MEMCACHED_SUCCESS | MEMCACHED_FAILURE | MEMCACHED_HOST_LOOKUP_FAILURE
  | MEMCACHED_CONNECTION_FAILURE | MEMCACHED_CONNECTION_BIND_FAILURE | MEMCACHED_WRITE_FAILURE
  | MEMCACHED_READ_FAILURE | MEMCACHED_UNKNOWN_READ_FAILURE | MEMCACHED_PROTOCOL_ERROR
  | MEMCACHED_CLIENT_ERROR | MEMCACHED_SERVER_ERROR | MEMCACHED_DATA_EXISTS
  | MEMCACHED_DATA_DOES_NOT_EXIST | MEMCACHED_NOTSTORED | MEMCACHED_STORED | MEMCACHED_NOTFOUND
  | MEMCACHED_PARTIAL_READ | MEMCACHED_SOME_ERRORS | MEMCACHED_NO_SERVERS | MEMCACHED_END
  | MEMCACHED_DELETED | MEMCACHED_VALUE | MEMCACHED_STAT | MEMCACHED_ITEM | MEMCACHED_ERRNO
  | MEMCACHED_FAIL_UNIX_SOCKET | MEMCACHED_NOT_SUPPORTED | MEMCACHED_NO_KEY_PROVIDED
  | MEMCACHED_FETCH_NOTFINISHED | MEMCACHED_TIMEOUT | MEMCACHED_BUFFERED
  | MEMCACHED_BAD_KEY_PROVIDED | MEMCACHED_INVALID_HOST_PROTOCOL | MEMCACHED_SERVER_MARKED_DEAD
  | MEMCACHED_UNKNOWN_STAT_KEY | MEMCACHED_INVALID_ARGUMENTS | MEMCACHED_PARSE_ERROR
  | MEMCACHED_PARSE_USER_ERROR | MEMCACHED_DEPRECATED | MEMCACHED_IN_PROGRESS
  | MEMCACHED_MAXIMUM_RETURN | MEMCACHED_MEMORY_ALLOCATION_FAILURE
  | MEMCACHED_CONNECTION_SOCKET_CREATE_FAILURE | MEMCACHED_E2BIG | MEMCACHED_KEY_TOO_BIG
  | MEMCACHED_SERVER_TEMPORARILY_DISABLED | MEMCACHED_SERVER_MEMORY_ALLOCATION_FAILURE
  | MEMCACHED_AUTH_PROBLEM | MEMCACHED_AUTH_FAILURE | MEMCACHED_AUTH_CONTINUE
  | MEMC_RES_PAYLOAD_FAILURE | MEMCACHED_OTHER nat

text \<open>The behaviours the code reads or sets by name; all others by their number.\<close>

datatype memcached_behavior =
    MEMCACHED_BEHAVIOR_BINARY_PROTOCOL | MEMCACHED_BEHAVIOR_VERIFY_KEY
  | MEMCACHED_BEHAVIOR_SUPPORT_CAS | MEMCACHED_BEHAVIOR_NO_BLOCK
  | MEMCACHED_BEHAVIOR_DISTRIBUTION | MEMCACHED_BEHAVIOR_TCP_NODELAY
  | MEMCACHED_BEHAVIOR_CONNECT_TIMEOUT | MEMCACHED_BEHAVIOR_KETAMA
  | MEMCACHED_BEHAVIOR_KETAMA_WEIGHTED | MEMCACHED_BEHAVIOR_SOCKET_SEND_SIZE
  | MEMCACHED_BEHAVIOR_SOCKET_RECV_SIZE | MEMCACHED_BEHAVIOR_NUMBER_OF_REPLICAS
  | MEMCACHED_BEHAVIOR_SERVER_FAILURE_LIMIT | MEMCACHED_BEHAVIOR_RANDOMIZE_REPLICA_READ
  | MEMCACHED_BEHAVIOR_REMOVE_FAILED_SERVERS | MEMCACHED_BEHAVIOR_OTHER nat

text \<open>
  A fetched item; \<open>res_value = None\<close> is a NULL value pointer with a claimed length. \<open>res_slack\<close>
  is the readable memory behind the value.
\<close>

record memcached_result_st =
  res_key :: string
  res_value :: "string option"
  res_null_length :: nat
  res_slack :: string
  res_cas :: u64
  res_flags :: u32

definition memcached_result_length :: "memcached_result_st \<Rightarrow> nat" where
  "memcached_result_length r =
     (case res_value r of None \<Rightarrow> res_null_length r | Some v \<Rightarrow> length v)"

datatype php_memc_write_op =
  MEMC_OP_SET | MEMC_OP_TOUCH | MEMC_OP_ADD | MEMC_OP_REPLACE | MEMC_OP_APPEND | MEMC_OP_PREPEND

text \<open>
  The library calls. A \<open>_by_key\<close> variant is the same call with \<open>Some server_key\<close>.
  \<open>lm_return_code\<close> is the number of a result code. The counter calls take the value their out
  parameter holds before the call and return the one it holds afterwards.
  \<open>lm_store\<close> is \<open>memcached_set\<close>, \<open>add\<close>, \<open>replace\<close>, \<open>append\<close> or \<open>prepend\<close>, by the operation.
\<close>

record 'm libmemcached =
  lm_behavior_get :: "'m \<Rightarrow> memcached_behavior \<Rightarrow> u64"
  lm_behavior_set :: "'m \<Rightarrow> memcached_behavior \<Rightarrow> u64 \<Rightarrow> memcached_return \<times> 'm"
  lm_prefix_get :: "'m \<Rightarrow> memcached_return \<times> string option"
  lm_server_count :: "'m \<Rightarrow> u32"
  lm_last_error_errno :: "'m \<Rightarrow> int"
  lm_return_code :: "memcached_return \<Rightarrow> zend_long"
  lm_store :: "php_memc_write_op \<Rightarrow> string option \<Rightarrow> string \<Rightarrow> string \<Rightarrow> zend_long \<Rightarrow> u32 \<Rightarrow>
    'm \<Rightarrow> memcached_return \<times> 'm"
  lm_touch :: "string option \<Rightarrow> string \<Rightarrow> zend_long \<Rightarrow> 'm \<Rightarrow> memcached_return \<times> 'm"
  lm_cas :: "string option \<Rightarrow> string \<Rightarrow> string \<Rightarrow> zend_long \<Rightarrow> u32 \<Rightarrow> u64 \<Rightarrow>
    'm \<Rightarrow> memcached_return \<times> 'm"
  lm_delete :: "string option \<Rightarrow> string \<Rightarrow> zend_long \<Rightarrow> 'm \<Rightarrow> memcached_return \<times> 'm"
  lm_incdec :: "bool \<Rightarrow> string option \<Rightarrow> string \<Rightarrow> u64 \<Rightarrow> u64 \<Rightarrow>
    'm \<Rightarrow> memcached_return \<times> u64 \<times> 'm"
  lm_incdec_initial :: "bool \<Rightarrow> string option \<Rightarrow> string \<Rightarrow> u64 \<Rightarrow> u64 \<Rightarrow> zend_long \<Rightarrow> u64 \<Rightarrow>
    'm \<Rightarrow> memcached_return \<times> u64 \<times> 'm"
  lm_mget :: "string option \<Rightarrow> string list \<Rightarrow> 'm \<Rightarrow> memcached_return \<times> 'm"
  lm_fetch_result :: "'m \<Rightarrow> memcached_result_st option \<times> memcached_return \<times> 'm"
  lm_quit :: "'m \<Rightarrow> 'm"

section \<open>The Zend engine, the serializers and the codecs\<close>

text \<open>
  \<open>z_dtoa x\<close> is \<open>zend_dtoa(x, 0, 0, &decpt, &sign, &se)\<close>: digits, \<open>decpt\<close> and \<open>sign\<close>.
  \<open>z_get_long\<close> and \<open>z_get_string\<close> are \<open>zval_get_long\<close> and \<open>zval_get_string\<close> on values that are
  not already of that type, \<open>z_lval\<close> the integer member of the value union of such a value,
  \<open>z_heap\<close> the bytes a fresh allocation happens to hold. A
  serializer returns its buffer (\<open>None\<close>: \<open>buf->s\<close> is NULL, or the call failed) and whether an
  exception is pending afterwards; an unserializer returns whether it succeeded, the value
  it left, and whether an exception is pending.
\<close>

datatype serializer = S_php | S_igbinary | S_json | S_json_array | S_msgpack

record 'd zend =
  z_dtoa :: "'d \<Rightarrow> string \<times> int \<times> bool"
  z_strtod :: "string \<Rightarrow> 'd"
  z_inf :: 'd
  z_minus_inf :: 'd
  z_nan :: 'd
  z_double_negative :: "'d \<Rightarrow> bool"
  z_double_to_u64 :: "'d \<Rightarrow> u64"
  z_lval :: "'d zval \<Rightarrow> zend_long"
  z_heap :: "nat \<Rightarrow> char"
  z_get_long :: "'d zval \<Rightarrow> zend_long"
  z_get_string :: "'d zval \<Rightarrow> string"
  z_symtable_key :: "string \<Rightarrow> hkey"
  z_serialize :: "serializer \<Rightarrow> 'd zval \<Rightarrow> string option \<times> bool"
  z_unserialize :: "serializer \<Rightarrow> string \<Rightarrow> bool \<times> 'd zval \<times> bool"

datatype zstd_size = ZSTD_CONTENTSIZE_ERROR | ZSTD_CONTENTSIZE_UNKNOWN | ZSTD_size nat

text \<open>zlib and zstd: \<open>Inl\<close> is an error code of zstd; a size argument is the output buffer's.\<close>

record codecs =
  c_compress2 :: "int \<Rightarrow> string \<Rightarrow> nat \<Rightarrow> string option"
  c_uncompress :: "string \<Rightarrow> nat \<Rightarrow> string option"
  c_zstd_compress :: "string \<Rightarrow> nat \<Rightarrow> int \<Rightarrow> nat + string"
  c_zstd_frame_size :: "string \<Rightarrow> zstd_size"
  c_zstd_decompress :: "string \<Rightarrow> nat \<Rightarrow> nat + string"

section \<open>Build configuration, globals, object\<close>

record config =
  HAVE_MEMCACHED_IGBINARY :: bool
  HAVE_JSON_API :: bool
  HAVE_MEMCACHED_MSGPACK :: bool
  HAVE_ZSTD_H :: bool

text \<open>
  \<open>MEMC_G\<close>: the module globals of the clients. \<open>compression_factor\<close> is the rational the double
  stands for. A \<open>zend_long\<close> that is passed where one of the two C enumerations is declared is
  converted to 32 bits, hence the \<open>u32\<close> constants.
\<close>

record memc_globals =
  G_serializer_name :: "string option"
  G_compression_name :: "string option"
  G_compression_threshold :: zend_long
  G_compression_factor :: rat
  G_store_retry_count :: zend_long
  G_compression_level :: zend_long
  G_item_size_limit :: zend_long
  G_serializer_type :: u32
  G_compression_type :: u32
  G_sasl_initialised :: bool
  G_consistent_hash_enabled :: bool
  G_binary_protocol_enabled :: bool
  G_connect_timeout :: zend_long

abbreviation (input) SERIALIZER_PHP :: u32 where "SERIALIZER_PHP \<equiv> 1"
abbreviation (input) SERIALIZER_IGBINARY :: u32 where "SERIALIZER_IGBINARY \<equiv> 2"
abbreviation (input) SERIALIZER_JSON :: u32 where "SERIALIZER_JSON \<equiv> 3"
abbreviation (input) SERIALIZER_JSON_ARRAY :: u32 where "SERIALIZER_JSON_ARRAY \<equiv> 4"
abbreviation (input) SERIALIZER_MSGPACK :: u32 where "SERIALIZER_MSGPACK \<equiv> 5"
abbreviation (input) COMPRESSION_TYPE_ZLIB :: u32 where "COMPRESSION_TYPE_ZLIB \<equiv> 1"
abbreviation (input) COMPRESSION_TYPE_FASTLZ :: u32 where "COMPRESSION_TYPE_FASTLZ \<equiv> 2"
abbreviation (input) COMPRESSION_TYPE_ZSTD :: u32 where "COMPRESSION_TYPE_ZSTD \<equiv> 3"

record php_memc_user_data =
  is_persistent :: bool
  compression_enabled :: bool
  encoding_enabled :: bool
  ud_serializer :: zend_long
  ud_compression_type :: zend_long
  ud_compression_level :: zend_long
  store_retry_count :: zend_long
  set_udf_flags :: zend_long
  item_size_limit :: zend_long
  has_sasl_data :: bool

text \<open>
  The object. \<open>memc\<close> is the client with its library state; the user data hangs off it in C
  (\<open>memcached_get_user_data\<close>) and is a field here. \<open>EG_exception\<close> is the executor's pending
  exception, kept beside the object because a method's calls read and set it.
\<close>

record 'm php_memc_object =
  memc :: 'm
  user_data :: php_memc_user_data
  is_pristine :: bool
  rescode :: memcached_return
  memc_errno :: int
  EG_exception :: bool

text \<open>Everything a method depends on besides its object and arguments.\<close>

record ('m, 'd) env =
  lib :: "'m libmemcached"
  zend :: "'d zend"
  codec_lib :: codecs
  cfg :: config
  globals :: memc_globals

definition zval_get_long :: "'d zend \<Rightarrow> 'd zval \<Rightarrow> zend_long" where
  "zval_get_long Z v = (case v of IS_LONG l \<Rightarrow> l | _ \<Rightarrow> z_get_long Z v)"

definition zval_get_string :: "'d zend \<Rightarrow> 'd zval \<Rightarrow> string" where
  "zval_get_string Z v = (case v of IS_STRING s \<Rightarrow> s | _ \<Rightarrow> z_get_string Z v)"

definition Z_LVAL :: "'d zend \<Rightarrow> 'd zval \<Rightarrow> zend_long" where
  "Z_LVAL Z v = (case v of IS_LONG l \<Rightarrow> l | _ \<Rightarrow> z_lval Z v)"

end
