(* ===== verification/Decimal.thy ===== *)
theory Decimal
  imports Memc_Prelude
begin

text \<open>
  Numbers as text: what the extension uses of the C library's \<open>printf\<close> conversions of
  integers, of \<open>strtoull\<close> (base 0) and of \<open>strtol\<close> (base 10), with the facts on reading back
  what was printed.
\<close>

section \<open>Printing\<close>

definition digit :: "nat \<Rightarrow> char" where "digit d = char_of (48 + d)"

fun dec_of_nat :: "nat \<Rightarrow> string" where
  "dec_of_nat n = (if n < 10 then [digit n] else dec_of_nat (n div 10) @ [digit (n mod 10)])"

declare dec_of_nat.simps [simp del]

text \<open>\<open>smart_str_append_long\<close> and \<open>"%ld"\<close> of a \<open>zend_long\<close>; \<open>"%llu"\<close> of a \<open>uint64_t\<close>.\<close>

definition dec_of_long :: "zend_long \<Rightarrow> string" where
  "dec_of_long l = (if sint l < 0 then CHR ''-'' # dec_of_nat (nat (- sint l))
                    else dec_of_nat (nat (sint l)))"

definition dec_of_u64 :: "u64 \<Rightarrow> string" where "dec_of_u64 v = dec_of_nat (unat v)"

section \<open>Reading\<close>

definition digit_val :: "nat \<Rightarrow> char \<Rightarrow> nat option" where
  "digit_val base c =
     (let n = of_char c :: nat;
          d = (if 48 \<le> n \<and> n \<le> 57 then n - 48
               else if 97 \<le> n \<and> n \<le> 122 then n - 87
               else if 65 \<le> n \<and> n \<le> 90 then n - 55 else 36)
      in if d < base then Some d else None)"

text \<open>The longest run of digits: its value and what follows.\<close>

fun strto_digits :: "nat \<Rightarrow> nat \<Rightarrow> string \<Rightarrow> nat \<times> string" where
  "strto_digits base acc [] = (acc, [])"
| "strto_digits base acc (c # cs) =
     (case digit_val base c of
        None \<Rightarrow> (acc, c # cs)
      | Some d \<Rightarrow> strto_digits base (acc * base + d) cs)"

definition strto_sign :: "string \<Rightarrow> bool \<times> string" where
  "strto_sign s =
     (case s of
        c # cs \<Rightarrow> if c = CHR ''-'' then (True, cs) else if c = CHR ''+'' then (False, cs) else (False, s)
      | [] \<Rightarrow> (False, s))"

definition starts_with_digit :: "nat \<Rightarrow> string \<Rightarrow> bool" where
  "starts_with_digit base s = (case s of [] \<Rightarrow> False | c # _ \<Rightarrow> digit_val base c \<noteq> None)"

text \<open>Base 0: the prefix decides; \<open>0x\<close> counts only when a hexadecimal digit follows.\<close>

definition strto_base0 :: "string \<Rightarrow> nat \<times> string" where
  "strto_base0 s =
     (case s of
        c # t \<Rightarrow>
          if c \<noteq> CHR ''0'' then (10, s)
          else (case t of
             x # cs \<Rightarrow>
               if (x = CHR ''x'' \<or> x = CHR ''X'') \<and> starts_with_digit 16 cs then (16, cs) else (8, s)
           | [] \<Rightarrow> (8, s))
      | [] \<Rightarrow> (10, s))"

text \<open>Value, rest (\<open>end\<close>), and whether \<open>errno\<close> is \<open>ERANGE\<close>. No digits: 0, and \<open>end\<close> is the start.\<close>

definition strtoull :: "string \<Rightarrow> u64 \<times> string \<times> bool" where
  "strtoull s =
     (let (neg, s1) = strto_sign (dropWhile isspace s);
          (base, s2) = strto_base0 s1
      in if \<not> starts_with_digit base s2 then (0, s, False)
         else let (n, rest) = strto_digits base 0 s2
              in if n \<ge> 2 ^ 64 then (- 1, rest, True)
                 else (if neg then - of_nat n else of_nat n, rest, False))"

definition strtol10 :: "string \<Rightarrow> zend_long" where
  "strtol10 s =
     (let (neg, s1) = strto_sign (dropWhile isspace s);
          n = fst (strto_digits 10 0 s1)
      in if neg then (if n > 2 ^ 63 then of_int (- (2 ^ 63)) else of_int (- int n))
         else (if n \<ge> 2 ^ 63 then of_int (2 ^ 63 - 1) else of_int (int n)))"

section \<open>Facts\<close>

lemma of_char_digit: "d < 10 \<Longrightarrow> (of_char (digit d) :: nat) = 48 + d"
  by (simp add: digit_def)

lemma digit_val_digit [simp]: "d < 10 \<Longrightarrow> digit_val 10 (digit d) = Some d"
  by (simp add: digit_val_def of_char_digit Let_def)

lemma digit_eq_char: "d < 10 \<Longrightarrow> digit d = c \<longleftrightarrow> 48 + d = (of_char c :: nat)"
  using of_char_eq_iff [where 'a = nat, of "digit d" c] by (simp add: of_char_digit)

lemma digit_neq [simp]:
  assumes "d < 10"
  shows "digit d \<noteq> CHR ''-''" "digit d \<noteq> CHR ''+''" "digit d \<noteq> CHR ''.''" "digit d \<noteq> CHR ''e''"
    "digit d = CHR ''0'' \<longleftrightarrow> d = 0" "\<not> isspace (digit d)"
  using assms by (simp_all add: digit_eq_char isspace_def of_char_digit)

lemma dec_of_nat_digits: "\<forall>c \<in> set (dec_of_nat n). \<exists>d < 10. c = digit d"
proof (induction n rule: dec_of_nat.induct)
  case (1 n)
  show ?case
  proof (cases "n < 10")
    case True
    then show ?thesis by (auto simp: dec_of_nat.simps [of n])
  next
    case False
    have "n mod 10 < 10" by simp
    then show ?thesis using 1 False by (auto simp: dec_of_nat.simps [of n] simp del: mod_less_divisor)
  qed
qed

lemma dec_of_nat_Cons:
  obtains d ds where "dec_of_nat n = digit d # ds" "d < 10" "d = 0 \<longleftrightarrow> n = 0"
proof -
  have "\<exists>d ds. dec_of_nat n = digit d # ds \<and> d < 10 \<and> (d = 0 \<longleftrightarrow> n = 0)"
  proof (induction n rule: dec_of_nat.induct)
    case (1 n)
    show ?case
    proof (cases "n < 10")
      case True
      then show ?thesis by (auto simp: dec_of_nat.simps [of n])
    next
      case False
      obtain d ds where "dec_of_nat (n div 10) = digit d # ds" "d < 10" "d = 0 \<longleftrightarrow> n div 10 = 0"
        using 1 [OF False] by metis
      with False show ?thesis by (auto simp: dec_of_nat.simps [of n])
    qed
  qed
  then show ?thesis using that by blast
qed

lemma strto_digits_dec:
  "strto_digits 10 acc (dec_of_nat n @ rest)
     = strto_digits 10 (acc * 10 ^ length (dec_of_nat n) + n) rest"
proof (induction n arbitrary: acc rest rule: dec_of_nat.induct)
  case (1 n)
  show ?case
  proof (cases "n < 10")
    case True
    then show ?thesis by (simp add: dec_of_nat.simps [of n])
  next
    case False
    have "strto_digits 10 acc (dec_of_nat (n div 10) @ (digit (n mod 10) # rest))
        = strto_digits 10 (acc * 10 ^ length (dec_of_nat (n div 10)) + n div 10) (digit (n mod 10) # rest)"
      by (rule 1 [OF False])
    also have "\<dots> = strto_digits 10 ((acc * 10 ^ length (dec_of_nat (n div 10)) + n div 10) * 10 + n mod 10) rest"
      by simp
    also have "(acc * 10 ^ length (dec_of_nat (n div 10)) + n div 10) * 10 + n mod 10
        = acc * 10 ^ Suc (length (dec_of_nat (n div 10))) + n"
      by (simp add: algebra_simps)
    finally show ?thesis using False by (simp add: dec_of_nat.simps [of n])
  qed
qed

lemma strto_digits_dec_of_nat: "strto_digits 10 0 (dec_of_nat n) = (n, [])"
  using strto_digits_dec [of 0 n "[]"] by simp

lemma dec_of_nat_start:
  "dropWhile isspace (dec_of_nat n) = dec_of_nat n" "strto_sign (dec_of_nat n) = (False, dec_of_nat n)"
  "starts_with_digit 10 (dec_of_nat n)"
  by (cases rule: dec_of_nat_Cons [of n]; simp add: strto_sign_def starts_with_digit_def)+

lemma strto_base0_dec: "0 < n \<Longrightarrow> strto_base0 (dec_of_nat n) = (10, dec_of_nat n)"
  by (cases rule: dec_of_nat_Cons [of n]) (simp add: strto_base0_def)

lemma strtoull_dec_of_u64:
  assumes "0 < v"
  shows "strtoull (dec_of_u64 v) = (v, [], False)"
proof -
  have "0 < unat v" using assms by (simp add: word_greater_zero_iff unat_gt_0)
  moreover have "unat v < 2 ^ 64" using unsigned_less [of v] by simp
  ultimately show ?thesis
    by (simp add: strtoull_def dec_of_u64_def dec_of_nat_start strto_base0_dec strto_digits_dec_of_nat)
qed

lemma strtol10_dec_of_long: "strtol10 (dec_of_long l) = l"
proof -
  have range: "- (2 ^ 63) \<le> sint l" "sint l < 2 ^ 63"
    using sint_greater_eq [of l] sint_less [of l] by simp_all
  show ?thesis
  proof (cases "sint l < 0")
    case True
    moreover have "\<not> 2 ^ 63 < nat (- sint l)" using range by (simp add: not_less nat_le_iff)
    ultimately have "strtol10 (dec_of_long l) = of_int (sint l)"
      by (simp add: strtol10_def dec_of_long_def strto_sign_def strto_digits_dec_of_nat isspace_def Let_def)
    then show ?thesis by simp
  next
    case False
    moreover have "\<not> 2 ^ 63 \<le> nat (sint l)" using range by (simp add: not_le nat_less_iff)
    ultimately have "strtol10 (dec_of_long l) = of_int (sint l)"
      by (simp add: strtol10_def dec_of_long_def dec_of_nat_start strto_digits_dec_of_nat Let_def)
    then show ?thesis by simp
  qed
qed

end
