(* ===== verification/G_Fmt.thy ===== *)
theory G_Fmt
  imports Memc_Types Decimal Complex_Main
begin

text \<open>
  Doubles as text (\<open>g_fmt.c\<close>): the layout of the digits \<open>zend_dtoa\<close> returns. The reader
  \<open>dec_value\<close> gives a decimal numeral its rational value; the layout keeps the value, uses only
  characters such a numeral has, and fits the buffers its callers pass.
\<close>

section \<open>The formatter\<close>

text \<open>
  The exponent digits. The first loop finds the number \<open>j\<close> of digits (at least 2) and the
  power of ten \<open>k\<close> of the first one, the second prints them.
\<close>

function g_fmt_exp_size :: "nat \<Rightarrow> nat \<Rightarrow> nat \<Rightarrow> nat \<times> nat" where
  "g_fmt_exp_size decpt j k =
     (if 0 < k \<and> 10 * k \<le> decpt then g_fmt_exp_size decpt (j + 1) (k * 10) else (j, k))"
  by auto
termination by (relation "measure (\<lambda>(decpt, j, k). decpt - k)") auto

declare g_fmt_exp_size.simps [simp del]

fun g_fmt_exp_digits :: "nat \<Rightarrow> nat \<Rightarrow> nat \<Rightarrow> string" where
  "g_fmt_exp_digits 0 decpt k = []"
| "g_fmt_exp_digits (Suc j) decpt k =
     (let i = decpt div k in
      digit i # (if j = 0 then [] else g_fmt_exp_digits j ((decpt - i * k) * 10) k))"

definition g_fmt_exponent :: "int \<Rightarrow> string" where
  "g_fmt_exponent decpt =
     (let decpt = decpt - 1;
          sgn = (if decpt < 0 then CHR ''-'' else CHR ''+'');
          d = nat \<bar>decpt\<bar>;
          (j, k) = g_fmt_exp_size d 2 10
      in CHR ''e'' # sgn # g_fmt_exp_digits j d k)"

text \<open>The digits before and after the point, when there are digits before it.\<close>

fun g_fmt_copy :: "string \<Rightarrow> int \<Rightarrow> string \<times> int" where
  "g_fmt_copy [] decpt = ([], decpt)"
| "g_fmt_copy (c # s) decpt =
     (let decpt = decpt - 1;
          dot = (if decpt = 0 \<and> s \<noteq> [] then ''.'' else []);
          (out, decpt) = g_fmt_copy s decpt
      in (c # dot @ out, decpt))"

definition g_fmt_layout :: "string \<Rightarrow> int \<Rightarrow> bool \<Rightarrow> string" where
  "g_fmt_layout s decpt sign =
     (if sign then ''-'' else []) @
     (if decpt = 9999 then s
      else if decpt \<le> - 4 \<or> decpt > int (length s) + 5 then
        take 1 s @ (if drop 1 s \<noteq> [] then CHR ''.'' # drop 1 s else []) @ g_fmt_exponent decpt
      else if decpt \<le> 0 then
        ''.'' @ replicate (nat (- decpt)) (CHR ''0'') @ s
      else
        (let (out, decpt) = g_fmt_copy s decpt in out @ replicate (nat decpt) (CHR ''0'')))"

definition php_memcached_g_fmt :: "'d zend \<Rightarrow> 'd \<Rightarrow> string" where
  "php_memcached_g_fmt Z x = (case z_dtoa Z x of (s, decpt, sign) \<Rightarrow> g_fmt_layout s decpt sign)"

section \<open>Reading a numeral\<close>

text \<open>\<open>[-]ddd[.ddd][e(+|-)dd]\<close>: its sign and its value.\<close>

definition isdigit :: "char \<Rightarrow> bool" where "isdigit c = (digit_val 10 c \<noteq> None)"

definition dec_num :: "string \<Rightarrow> nat" where "dec_num s = fst (strto_digits 10 0 s)"

definition dec_exp :: "string \<Rightarrow> int" where
  "dec_exp r =
     (case r of
        c # r \<Rightarrow>
          if c = CHR ''e''
          then (case strto_sign r of (eneg, ds) \<Rightarrow>
            if eneg then - int (dec_num ds) else int (dec_num ds))
          else 0
      | [] \<Rightarrow> 0)"

definition dec_fraction :: "string \<Rightarrow> string \<times> string" where
  "dec_fraction r =
     (case r of
        c # r' \<Rightarrow> if c = CHR ''.'' then (takeWhile isdigit r', dropWhile isdigit r') else ([], r)
      | [] \<Rightarrow> ([], r))"

definition dec_body :: "string \<Rightarrow> rat" where
  "dec_body s =
     (let ip = takeWhile isdigit s;
          (fp, r) = dec_fraction (dropWhile isdigit s)
      in of_nat (dec_num (ip @ fp)) * 10 powi (dec_exp r - int (length fp)))"

definition dec_value :: "string \<Rightarrow> bool \<times> rat" where
  "dec_value s = (case strto_sign s of (neg, s) \<Rightarrow> (neg, dec_body s))"

section \<open>Facts\<close>

lemma isdigit_digit [simp]: "d < 10 \<Longrightarrow> isdigit (digit d)"
  by (simp add: isdigit_def)

lemma not_isdigit [simp]: "\<not> isdigit CHR ''.''" "\<not> isdigit CHR ''e''" "isdigit CHR ''0''"
  "\<not> isdigit CHR ''-''" "\<not> isdigit CHR ''+''"
  by (simp_all add: isdigit_def digit_val_def Let_def)

lemma strto_digits_all:
  "\<forall>c \<in> set s. isdigit c \<Longrightarrow>
     strto_digits 10 acc (s @ t) = strto_digits 10 (acc * 10 ^ length s + dec_num s) t"
proof (induction s arbitrary: acc t)
  case Nil
  then show ?case by (simp add: dec_num_def)
next
  case (Cons c s)
  then obtain d where d: "digit_val 10 c = Some d" by (auto simp: isdigit_def)
  have IH: "strto_digits 10 a (s @ u) = strto_digits 10 (a * 10 ^ length s + dec_num s) u" for a u
    using Cons by simp
  have "dec_num (c # s) = d * 10 ^ length s + dec_num s"
    using IH [of d "[]"] by (simp add: dec_num_def d)
  then show ?case by (simp add: d IH algebra_simps)
qed

lemma dec_num_append:
  "\<forall>c \<in> set s. isdigit c \<Longrightarrow> \<forall>c \<in> set t. isdigit c \<Longrightarrow>
     dec_num (s @ t) = dec_num s * 10 ^ length t + dec_num t"
  using strto_digits_all [of s 0 t] strto_digits_all [of t "dec_num s" "[]"] by (simp add: dec_num_def)

lemma dec_num_zeros [simp]: "dec_num (replicate n CHR ''0'') = 0"
  by (induction n) (simp_all add: dec_num_def digit_val_def)

lemma set_replicate_digit [simp]: "c \<in> set (replicate n CHR ''0'') \<Longrightarrow> isdigit c"
  by (auto split: if_splits)

lemma g_fmt_exp_size:
  "g_fmt_exp_size d j k = (j', k') \<Longrightarrow> k = 10 ^ (j - 1) \<Longrightarrow> 0 < j \<Longrightarrow> d < 10 ^ m \<Longrightarrow> j \<le> m \<Longrightarrow>
     k' = 10 ^ (j' - 1) \<and> d < 10 * k' \<and> j \<le> j' \<and> j' \<le> m"
proof (induction d j k rule: g_fmt_exp_size.induct)
  case (1 d j k)
  show ?case
  proof (cases "0 < k \<and> 10 * k \<le> d")
    case True
    have eq: "10 * k = 10 ^ j" using "1.prems" by (cases j) simp_all
    have "j < m"
    proof (rule ccontr)
      assume "\<not> j < m"
      then have "(10 :: nat) ^ m \<le> 10 ^ j" by simp
      with True eq "1.prems" show False by simp
    qed
    have "g_fmt_exp_size d (j + 1) (k * 10) = (j', k')"
      using "1.prems"(1) True by (simp add: g_fmt_exp_size.simps [of d j k])
    from "1.IH" [OF True this] eq \<open>j < m\<close> "1.prems" show ?thesis by (simp add: mult.commute)
  next
    case False
    then have "g_fmt_exp_size d j k = (j, k)" by (simp only: g_fmt_exp_size.simps [of d j k] if_False)
    then have "j' = j" "k' = k" using "1.prems"(1) by simp_all
    with "1.prems" False show ?thesis by simp
  qed
qed

lemma g_fmt_exp_digits:
  assumes "0 < k" "d < 10 * k" "0 < j"
  shows "(\<forall>c \<in> set (g_fmt_exp_digits j d k). isdigit c) \<and> length (g_fmt_exp_digits j d k) = j
    \<and> dec_num (g_fmt_exp_digits j d k) = d * 10 ^ (j - 1) div k"
  using assms(2,3)
proof (induction j arbitrary: d)
  case 0
  then show ?case by simp
next
  case (Suc j)
  have i: "d div k < 10" using Suc.prems assms(1) by (simp add: div_less_iff_less_mult)
  have r: "d - d div k * k = d mod k" by (simp add: minus_div_mult_eq_mod)
  show ?case
  proof (cases "j = 0")
    case True
    with i show ?thesis by (simp add: dec_num_def)
  next
    case False
    have "d mod k * 10 < 10 * k" using assms(1) by simp
    from Suc.IH [OF this] False
    have IH: "\<forall>c \<in> set (g_fmt_exp_digits j (d mod k * 10) k). isdigit c"
      "length (g_fmt_exp_digits j (d mod k * 10) k) = j"
      "dec_num (g_fmt_exp_digits j (d mod k * 10) k) = d mod k * 10 * 10 ^ (j - 1) div k"
      by simp_all
    have pow: "10 * 10 ^ (j - 1) = (10 :: nat) ^ j" using False by (cases j) simp_all
    have "dec_num ([digit (d div k)] @ g_fmt_exp_digits j (d mod k * 10) k)
        = d div k * 10 ^ j + d mod k * 10 ^ j div k"
      using IH i pow by (subst dec_num_append) (simp_all add: dec_num_def mult.assoc)
    also have "\<dots> = (d mod k * 10 ^ j + d div k * 10 ^ j * k) div k"
      using assms(1) by (simp only: div_mult_self1)
    also have "d mod k * 10 ^ j + d div k * 10 ^ j * k = (d div k * k + d mod k) * 10 ^ j"
      by (simp only: distrib_left distrib_right ac_simps)
    also have "\<dots> = d * 10 ^ j" by simp
    finally show ?thesis using IH i r False by simp
  qed
qed

lemma g_fmt_exponent:
  assumes "\<bar>decpt - 1\<bar> < 10 ^ m" "2 \<le> m"
  obtains sgn ds where "g_fmt_exponent decpt = CHR ''e'' # sgn # ds" "length ds \<le> m"
    "strto_sign (sgn # ds) = (decpt - 1 < 0, ds)" "int (dec_num ds) = \<bar>decpt - 1\<bar>"
proof -
  define d where "d = nat \<bar>decpt - 1\<bar>"
  obtain j k where jk: "g_fmt_exp_size d 2 10 = (j, k)" by fastforce
  have "d < 10 ^ m" using assms(1) by (simp add: d_def nat_less_iff)
  from g_fmt_exp_size [OF jk _ _ this] assms(2)
  have k: "k = 10 ^ (j - 1)" "d < 10 * k" "2 \<le> j" "j \<le> m" by auto
  then have ds: "length (g_fmt_exp_digits j d k) = j" "dec_num (g_fmt_exp_digits j d k) = d"
    using g_fmt_exp_digits [of k d j] by simp_all
  have "g_fmt_exponent decpt = CHR ''e'' # (if decpt - 1 < 0 then CHR ''-'' else CHR ''+'')
      # g_fmt_exp_digits j d k"
    using jk by (simp add: g_fmt_exponent_def d_def)
  then show thesis by (rule that) (use ds k in \<open>simp_all add: strto_sign_def d_def\<close>)
qed

lemma g_fmt_copy_neg: "decpt \<le> 0 \<Longrightarrow> g_fmt_copy s decpt = (s, decpt - int (length s))"
  by (induction s arbitrary: decpt) simp_all

lemma g_fmt_copy:
  "0 < decpt \<Longrightarrow> g_fmt_copy s decpt =
     (if decpt < int (length s) then take (nat decpt) s @ CHR ''.'' # drop (nat decpt) s else s,
      decpt - int (length s))"
proof (induction s arbitrary: decpt)
  case Nil
  then show ?case by simp
next
  case (Cons c s)
  show ?case
  proof (cases "decpt = 1")
    case True
    then show ?thesis by (cases s) (simp_all add: g_fmt_copy_neg)
  next
    case False
    with Cons.prems obtain n where n: "nat decpt = Suc n" "decpt - 1 = int n" "0 < n"
      by (cases "nat decpt") auto
    with Cons.IH [of "decpt - 1"] show ?thesis by auto
  qed
qed

lemma takeWhile_digits:
  "\<forall>c \<in> set s. isdigit c \<Longrightarrow> t = [] \<or> \<not> isdigit (hd t) \<Longrightarrow>
     takeWhile isdigit (s @ t) = s \<and> dropWhile isdigit (s @ t) = t"
  by (cases t) (auto simp: takeWhile_append dropWhile_append)

lemma dec_body_point:
  assumes "\<forall>c \<in> set ip. isdigit c" "\<forall>c \<in> set fp. isdigit c" "t = [] \<or> \<not> isdigit (hd t)"
  shows "dec_body (ip @ CHR ''.'' # fp @ t) =
    of_nat (dec_num (ip @ fp)) * 10 powi (dec_exp t - int (length fp))"
  using takeWhile_digits [OF assms(1), of "CHR ''.'' # fp @ t"] takeWhile_digits [OF assms(2,3)]
  by (simp add: dec_body_def dec_fraction_def)

lemma dec_body_no_point:
  assumes "\<forall>c \<in> set ip. isdigit c" "t = [] \<or> hd t = CHR ''e''"
  shows "dec_body (ip @ t) = of_nat (dec_num ip) * 10 powi (dec_exp t)"
proof -
  have "t = [] \<or> \<not> isdigit (hd t)" using assms(2) by auto
  from takeWhile_digits [OF assms(1) this] have
    "takeWhile isdigit (ip @ t) = ip" "dropWhile isdigit (ip @ t) = t" by simp_all
  moreover have "dec_fraction t = ([], t)" using assms(2) by (cases t) (auto simp: dec_fraction_def)
  ultimately show ?thesis by (simp add: dec_body_def)
qed

lemma dec_exp_g_fmt_exponent [simp]: "dec_exp (g_fmt_exponent decpt) = decpt - 1"
proof -
  have "\<bar>decpt - 1\<bar> < 10 ^ (nat \<bar>decpt - 1\<bar> + 2)"
  proof -
    have "nat \<bar>decpt - 1\<bar> < 10 ^ nat \<bar>decpt - 1\<bar>" by (rule power_gt_expt) simp
    also have "\<dots> \<le> 10 ^ (nat \<bar>decpt - 1\<bar> + 2)" by (rule power_increasing) simp_all
    finally have "nat \<bar>decpt - 1\<bar> < 10 ^ (nat \<bar>decpt - 1\<bar> + 2)" .
    then show ?thesis by (simp add: nat_less_iff)
  qed
  then obtain sgn ds where
    "g_fmt_exponent decpt = CHR ''e'' # sgn # ds"
    "strto_sign (sgn # ds) = (decpt - 1 < 0, ds)" "int (dec_num ds) = \<bar>decpt - 1\<bar>"
    by (rule g_fmt_exponent) auto
  then show ?thesis by (simp add: dec_exp_def)
qed

lemma dec_value_sign:
  assumes "s \<noteq> []" "hd s = CHR ''.'' \<or> isdigit (hd s)"
  shows "dec_value ((if sign then ''-'' else []) @ s) = (sign, dec_body s)"
proof -
  obtain c t where s: "s = c # t" using assms(1) by (cases s) auto
  have "c \<noteq> CHR ''-''" "c \<noteq> CHR ''+''" using assms(2) s by auto
  with s show ?thesis by (simp add: dec_value_def strto_sign_def)
qed

lemma g_fmt_layout_value:
  assumes digits: "s \<noteq> []" "\<forall>c \<in> set s. isdigit c" and fin: "decpt \<noteq> 9999"
  shows "dec_value (g_fmt_layout s decpt sign)
    = (sign, of_nat (dec_num s) * 10 powi (decpt - int (length s)))"
proof -
  consider (exp) "decpt \<le> - 4 \<or> decpt > int (length s) + 5"
    | (small) "- 4 < decpt" "decpt \<le> 0" | (point) "0 < decpt" "decpt < int (length s)"
    | (zeros) "int (length s) \<le> decpt" "decpt \<le> int (length s) + 5" "0 < decpt"
    by linarith
  then show ?thesis
  proof cases
    case exp
    obtain c cs where s: "s = c # cs" using digits(1) by (cases s) auto
    let ?t = "g_fmt_exponent decpt"
    have hd_t: "hd ?t = CHR ''e''" by (simp add: g_fmt_exponent_def Let_def split: prod.split)
    define body where "body = [c] @ (if cs \<noteq> [] then CHR ''.'' # cs else []) @ ?t"
    have "dec_body body = of_nat (dec_num s) * 10 powi (decpt - int (length s))"
    proof (cases "cs = []")
      case True
      then show ?thesis
        using digits s hd_t dec_body_no_point [of "[c]" ?t] by (simp add: body_def)
    next
      case False
      then show ?thesis
        using digits s hd_t dec_body_point [of "[c]" cs ?t] by (simp add: body_def algebra_simps)
    qed
    moreover have "g_fmt_layout s decpt sign = (if sign then ''-'' else []) @ body"
      using exp fin s by (simp add: g_fmt_layout_def body_def)
    ultimately show ?thesis
      using dec_value_sign [of body sign] digits s by (simp add: body_def)
  next
    case small
    define z where "z = replicate (nat (- decpt)) CHR ''0''"
    have z: "\<forall>c \<in> set z. isdigit c" by (simp add: z_def)
    have num: "dec_num (z @ s) = dec_num s" using dec_num_append [OF z digits(2)] by (simp add: z_def)
    have "dec_body ([] @ CHR ''.'' # (z @ s) @ []) =
        of_nat (dec_num ([] @ (z @ s))) * 10 powi (dec_exp [] - int (length (z @ s)))"
      by (rule dec_body_point) (use z digits(2) in auto)
    then have "dec_body (CHR ''.'' # z @ s) = of_nat (dec_num s) * 10 powi (decpt - int (length s))"
      using small num by (simp add: dec_exp_def z_def)
    moreover have "g_fmt_layout s decpt sign = (if sign then ''-'' else []) @ (CHR ''.'' # z @ s)"
      using small fin by (simp add: g_fmt_layout_def z_def)
    ultimately show ?thesis using dec_value_sign [of "CHR ''.'' # z @ s" sign] by simp
  next
    case point
    define ip fp where "ip = take (nat decpt) s" and "fp = drop (nat decpt) s"
    have d: "\<forall>c \<in> set ip. isdigit c" "\<forall>c \<in> set fp. isdigit c" "ip @ fp = s"
      "int (length fp) = int (length s) - decpt" "ip \<noteq> []"
      using digits point by (auto simp: ip_def fp_def dest: in_set_takeD in_set_dropD)
    have "dec_body (ip @ CHR ''.'' # fp) = of_nat (dec_num s) * 10 powi (decpt - int (length s))"
      using dec_body_point [OF d(1,2), of "[]"] d(3,4) by (simp add: dec_exp_def)
    moreover have "g_fmt_layout s decpt sign = (if sign then ''-'' else []) @ (ip @ CHR ''.'' # fp)"
      using point fin by (simp add: g_fmt_layout_def g_fmt_copy ip_def fp_def)
    ultimately show ?thesis using dec_value_sign [of "ip @ CHR ''.'' # fp" sign] d by simp
  next
    case zeros
    define z where "z = replicate (nat (decpt - int (length s))) CHR ''0''"
    have z: "\<forall>c \<in> set z. isdigit c" by (simp add: z_def)
    have num: "dec_num (s @ z) = dec_num s * 10 ^ length z"
      using dec_num_append [OF digits(2) z] by (simp add: z_def)
    have "dec_body (s @ z) = of_nat (dec_num (s @ z))"
      using dec_body_no_point [of "s @ z" "[]"] digits(2) z by (auto simp: dec_exp_def)
    also have "\<dots> = of_nat (dec_num s) * 10 powi (decpt - int (length s))"
      unfolding num using zeros by (simp add: z_def power_int_def)
    finally have "dec_body (s @ z) = of_nat (dec_num s) * 10 powi (decpt - int (length s))" .
    moreover have "g_fmt_layout s decpt sign = (if sign then ''-'' else []) @ (s @ z)"
      using zeros fin by (simp add: g_fmt_layout_def g_fmt_copy z_def)
    ultimately show ?thesis using dec_value_sign [of "s @ z" sign] digits by simp
  qed
qed

text \<open>The length written, without the terminating NUL.\<close>

lemma g_fmt_exponent_length: "\<bar>decpt - 1\<bar> < 1000 \<Longrightarrow> length (g_fmt_exponent decpt) \<le> 5"
  by (rule g_fmt_exponent [of decpt 3]) simp_all

lemma g_fmt_layout_length:
  assumes "s \<noteq> []" "length s \<le> 17" "- 998 \<le> decpt \<and> decpt \<le> 1000 \<or> decpt = 9999"
  shows "length (g_fmt_layout s decpt sign) \<le> 24"
proof -
  have "length (g_fmt_exponent decpt) \<le> 5" if "decpt \<noteq> 9999"
    using that assms(3) by (intro g_fmt_exponent_length) auto
  then show ?thesis
    using assms(1,2) by (auto simp: g_fmt_layout_def g_fmt_copy not_le)
qed

text \<open>A finite number never looks like one of the literals \<open>Infinity\<close> and \<open>NaN\<close>.\<close>

lemma g_fmt_layout_start:
  assumes "s \<noteq> []" "\<forall>c \<in> set s. isdigit c" "decpt \<noteq> 9999"
  obtains c body where "g_fmt_layout s decpt sign = (if sign then ''-'' else []) @ c # body"
    "c = CHR ''.'' \<or> isdigit c"
proof -
  obtain d t where s: "s = d # t" "isdigit d" using assms(1,2) by (cases s) auto
  have "\<exists>c body. (c = CHR ''.'' \<or> isdigit c) \<and>
      g_fmt_layout s decpt sign = (if sign then ''-'' else []) @ c # body"
    using assms(3) s by (auto simp: g_fmt_layout_def split: prod.splits)
  then show thesis using that by blast
qed

lemma g_fmt_layout_not_literal:
  assumes "s \<noteq> []" "\<forall>c \<in> set s. isdigit c" "decpt \<noteq> 9999"
  shows "g_fmt_layout s decpt sign \<notin> {''Infinity'', ''-Infinity'', ''NaN''}"
proof -
  have "\<not> isdigit CHR ''I''" "\<not> isdigit CHR ''N''" by (simp_all add: isdigit_def digit_val_def)
  then show ?thesis by (cases rule: g_fmt_layout_start [OF assms, of sign]) (auto split: if_splits)
qed

section \<open>Properties\<close>

text \<open>C30: The text written for a finite double denotes exactly the decimal number that
  \<open>zend_dtoa\<close> returned, \<open>0.d1d2...dn\<close> times ten to the \<open>decpt\<close>, with its sign, in each of the three
  layouts (exponent, leading point, point inside or trailing zeros).\<close>

theorem g_fmt_denotes:
  assumes "z_dtoa Z x = (s, decpt, sign)" "s \<noteq> []" "\<forall>c \<in> set s. isdigit c" "decpt \<noteq> 9999"
  shows "dec_value (php_memcached_g_fmt Z x) = (sign, of_nat (dec_num s) * 10 powi (decpt - int (length s)))"
  using assms by (simp add: php_memcached_g_fmt_def g_fmt_layout_value)

text \<open>The buffers \<open>php_memcached_g_fmt\<close> writes to hold 40 bytes, its comment asks for 32: with
  the at most 17 digits and the exponents of a double the text and its NUL need at most 25.\<close>

theorem g_fmt_fits:
  assumes "z_dtoa Z x = (s, decpt, sign)" "s \<noteq> []" "length s \<le> 17"
    "- 998 \<le> decpt \<and> decpt \<le> 1000 \<or> decpt = 9999"
  shows "length (php_memcached_g_fmt Z x) + 1 \<le> 25"
  using g_fmt_layout_length [OF assms(2-4), of sign] by (simp add: php_memcached_g_fmt_def assms(1))

end
