(* ===== verification/Sample.thy ===== *)
theory Sample
  imports Memc_Types G_Fmt
begin

text \<open>
  A small instance of the code outside the repository, on which the hypotheses of the
  theorems are shown to hold: a client that keeps its items in a list, doubles as signed
  rationals, a serializer for null only, and codecs that copy. It models nothing of the
  program.
\<close>

record sample_client =
  sc_items :: "(string \<times> string \<times> u32) list"
  sc_pending :: "memcached_result_st list"
  sc_binary :: u64
  sc_cas :: u64

definition sample_item :: "string \<Rightarrow> string \<times> u32 \<Rightarrow> memcached_result_st" where
  "sample_item key v = \<lparr>res_key = key, res_value = Some (fst v), res_null_length = 0,
     res_slack = [], res_cas = 7, res_flags = snd v\<rparr>"

definition sample_fetch ::
  "sample_client \<Rightarrow> memcached_result_st option \<times> memcached_return \<times> sample_client" where
  "sample_fetch m =
     (case sc_pending m of
        [] \<Rightarrow> (None, MEMCACHED_END, m)
      | r # rs \<Rightarrow> (Some r, MEMCACHED_SUCCESS, m\<lparr>sc_pending := rs\<rparr>))"

definition sample_mget ::
  "string option \<Rightarrow> string list \<Rightarrow> sample_client \<Rightarrow> memcached_return \<times> sample_client" where
  "sample_mget server_key keys m =
     (MEMCACHED_SUCCESS,
      m\<lparr>sc_pending := List.map_filter
          (\<lambda>k. map_option (sample_item k) (map_of (sc_items m) k)) keys\<rparr>)"

definition sample_lib :: "sample_client libmemcached" where
  "sample_lib =
     \<lparr>lm_behavior_get = (\<lambda>m b. if b = MEMCACHED_BEHAVIOR_BINARY_PROTOCOL then sc_binary m
        else if b = MEMCACHED_BEHAVIOR_SUPPORT_CAS then sc_cas m else 0),
      lm_behavior_set = (\<lambda>m b v. (MEMCACHED_SUCCESS,
        if b = MEMCACHED_BEHAVIOR_BINARY_PROTOCOL then m\<lparr>sc_binary := v\<rparr>
        else if b = MEMCACHED_BEHAVIOR_SUPPORT_CAS then m\<lparr>sc_cas := v\<rparr> else m)),
      lm_prefix_get = (\<lambda>m. (MEMCACHED_SUCCESS, Some ''app.'')),
      lm_server_count = (\<lambda>m. 1),
      lm_last_error_errno = (\<lambda>m. 0),
      lm_return_code = (\<lambda>rc. if rc = MEMCACHED_SUCCESS then 0 else 16),
      lm_store = (\<lambda>op sk key p e f m.
        if sk = Some ''down'' then (MEMCACHED_CONNECTION_FAILURE, m)
        else (MEMCACHED_SUCCESS, m\<lparr>sc_items := (key, p, f) # sc_items m\<rparr>)),
      lm_touch = (\<lambda>sk key e m. (MEMCACHED_NOTFOUND, m)),
      lm_cas = (\<lambda>sk key p e f c m.
        if c = 7 then (MEMCACHED_SUCCESS, m\<lparr>sc_items := (key, p, f) # sc_items m\<rparr>)
        else (MEMCACHED_DATA_EXISTS, m)),
      lm_delete = (\<lambda>sk key e m. (MEMCACHED_NOTFOUND, m)),
      lm_incdec = (\<lambda>incr sk key offset v m. (MEMCACHED_SUCCESS, offset + 41, m)),
      lm_incdec_initial = (\<lambda>incr sk key offset i e v m. (MEMCACHED_SUCCESS, i, m)),
      lm_mget = sample_mget,
      lm_fetch_result = sample_fetch,
      lm_quit = (\<lambda>m. m)\<rparr>"

definition sample_zend :: "(bool \<times> rat) zend" where
  "sample_zend =
     \<lparr>z_dtoa = (\<lambda>x. (''15'', 1, False)), z_strtod = dec_value,
      z_inf = (False, 1), z_minus_inf = (True, 1), z_nan = (False, 0),
      z_double_negative = fst, z_double_to_u64 = (\<lambda>_. 0), z_lval = (\<lambda>_. 0), z_heap = (\<lambda>_. CHR 0x00),
      z_get_long = (\<lambda>_. 0), z_get_string = (\<lambda>_. []), z_symtable_key = HStr,
      z_serialize = (\<lambda>k v. if v = IS_NULL then (Some ''N;'', False) else (None, False)),
      z_unserialize = (\<lambda>k s. if s = ''N;'' then (True, IS_NULL, False) else (False, IS_FALSE, False))\<rparr>"

definition sample_codecs :: codecs where
  "sample_codecs =
     \<lparr>c_compress2 = (\<lambda>lvl p n. Some p), c_uncompress = (\<lambda>b n. Some b),
      c_zstd_compress = (\<lambda>p n lvl. Inr p), c_zstd_frame_size = (\<lambda>b. ZSTD_size (length b)),
      c_zstd_decompress = (\<lambda>b n. Inr b)\<rparr>"

definition sample_env :: "(sample_client, bool \<times> rat) env" where
  "sample_env =
     \<lparr>lib = sample_lib, zend = sample_zend, codec_lib = sample_codecs,
      cfg = \<lparr>HAVE_MEMCACHED_IGBINARY = False, HAVE_JSON_API = True, HAVE_MEMCACHED_MSGPACK = False,
             HAVE_ZSTD_H = True\<rparr>,
      globals = \<lparr>G_serializer_name = None, G_compression_name = None, G_compression_threshold = 20,
             G_compression_factor = 13 / 10, G_store_retry_count = 2, G_compression_level = 3,
             G_item_size_limit = 0, G_serializer_type = 1, G_compression_type = 2,
             G_sasl_initialised = False, G_consistent_hash_enabled = False,
             G_binary_protocol_enabled = True, G_connect_timeout = 0\<rparr>\<rparr>"

definition sample_user_data :: php_memc_user_data where
  "sample_user_data =
     \<lparr>is_persistent = False, compression_enabled = True, encoding_enabled = False, ud_serializer = 1,
      ud_compression_type = 2, ud_compression_level = 3, store_retry_count = 2, set_udf_flags = 5,
      item_size_limit = 1000, has_sasl_data = False\<rparr>"

definition sample_client0 :: sample_client where
  "sample_client0 = \<lparr>sc_items = [(''old'', ''41'', 1)], sc_pending = [], sc_binary = 0, sc_cas = 0\<rparr>"

definition sample_object :: "sample_client php_memc_object" where
  "sample_object =
     \<lparr>memc = sample_client0, user_data = sample_user_data, is_pristine = True,
      rescode = MEMCACHED_SUCCESS, memc_errno = 0, EG_exception = False\<rparr>"

lemmas sample_defs = sample_lib_def sample_zend_def sample_codecs_def sample_env_def
  sample_user_data_def sample_client0_def sample_object_def

lemma sample_sel [simp]:
  "lib sample_env = sample_lib" "zend sample_env = sample_zend" "codec_lib sample_env = sample_codecs"
  "memc sample_object = sample_client0" "user_data sample_object = sample_user_data"
  "rescode sample_object = MEMCACHED_SUCCESS" "memc_errno sample_object = 0" "\<not> EG_exception sample_object"
  "sample_object\<lparr>rescode := MEMCACHED_SUCCESS, memc_errno := 0\<rparr> = sample_object"
  "lm_mget sample_lib = sample_mget" "lm_fetch_result sample_lib = sample_fetch"
  by (simp_all add: sample_env_def sample_object_def sample_lib_def)

section \<open>Witnesses for the formatter\<close>

theorem g_fmt_denotes_witness: "dec_value (php_memcached_g_fmt sample_zend (False, 3 / 2)) = (False, 3 / 2)"
  using g_fmt_denotes [of sample_zend "(False, 3 / 2)" "''15''" 1 False]
  by (simp add: sample_zend_def isdigit_def digit_val_def dec_num_def)

theorem g_fmt_fits_witness: "length (php_memcached_g_fmt sample_zend (False, 3 / 2)) + 1 \<le> 25"
  by (rule g_fmt_fits [of sample_zend _ "''15''" 1 False]) (simp_all add: sample_zend_def)

end
