(* ===== verification/Fastlz.thy ===== *)
theory Fastlz
  imports Memc_Prelude
begin

text \<open>
  The bundled FastLZ codec (\<open>fastlz/fastlz.c\<close>). The C file includes itself twice, once per
  \<open>FASTLZ_LEVEL\<close>; here the level is the argument \<open>lvl\<close> (1 or 2) of one definition, tested
  exactly where the C text has an \<open>#if FASTLZ_LEVEL\<close>. Pointers into the input and output
  are indices, the output buffer up to \<open>op\<close> is the list written so far, and every read goes
  through \<open>rd\<close>, so a read outside the memory behind the input pointer is \<open>None\<close>. The
  memory \<open>buf\<close> may be longer than the \<open>length\<close> argument \<open>n\<close>, as in C. Lengths are natural
  numbers, except for the match length of the decompressor, which is kept modulo \<open>2 ^ 32\<close>.
\<close>

section \<open>Parameters and helpers\<close>

text \<open>The macros; \<open>MAX_DISTANCE\<close> is redefined between the two inclusions.\<close>

abbreviation (input) MAX_COPY :: nat where "MAX_COPY \<equiv> 32"
abbreviation (input) MAX_LEN :: nat where "MAX_LEN \<equiv> 264"
abbreviation (input) MAX_DISTANCE1 :: nat where "MAX_DISTANCE1 \<equiv> 8192"
abbreviation (input) MAX_DISTANCE2 :: nat where "MAX_DISTANCE2 \<equiv> 8191"
abbreviation (input) MAX_FARDISTANCE :: nat where "MAX_FARDISTANCE \<equiv> 65535 + 8191 - 1"

text \<open>Storing an \<open>int\<close> expression in an output byte, \<open>*op++ = e\<close>, truncates it.\<close>

definition flzuint8 :: "nat \<Rightarrow> u8" where
  "flzuint8 k = word_of_nat k"

lemma unat_flzuint8 [simp]: "k < 256 \<Longrightarrow> unat (flzuint8 k) = k"
  by (simp add: flzuint8_def unat_of_nat take_bit_nat_eq_self)

lemma uint_flzuint8 [simp]: "k < 256 \<Longrightarrow> uint (flzuint8 k) = int k"
  using unat_flzuint8 [of k] by (metis uint_nat)

definition flz_readu16 :: "u8 list \<Rightarrow> nat \<Rightarrow> u32 option" where
  "flz_readu16 buf p = do {
     a \<leftarrow> rd buf p;
     b \<leftarrow> rd buf (p + 1);
     Some (ucast a OR push_bit 8 (ucast b))
   }"

definition flz_hash :: "u8 list \<Rightarrow> nat \<Rightarrow> u32 option" where
  "flz_hash buf p = do {
     v \<leftarrow> flz_readu16 buf p;
     w \<leftarrow> flz_readu16 buf (p + 1);
     Some ((v XOR (w XOR drop_bit (16 - 13) v)) AND (2 ^ 13 - 1))
   }"

section \<open>Compressor\<close>

record flz_state =
  fl_ip :: nat
  fl_out :: "u8 list"
  fl_copy :: nat
  fl_htab :: "u32 \<Rightarrow> nat"

text \<open>\<open>k\<close> comparisons \<open>*ref++ != *ip++\<close>, stopping at the first difference.\<close>

fun flz_cmp :: "u8 list \<Rightarrow> nat \<Rightarrow> nat \<Rightarrow> nat \<Rightarrow> bool option" where
  "flz_cmp buf 0 ref ip = Some True"
| "flz_cmp buf (Suc k) ref ip = do {
     a \<leftarrow> rd buf ref;
     b \<leftarrow> rd buf ip;
     if a \<noteq> b then Some False else flz_cmp buf k (ref + 1) (ip + 1)
   }"

definition flz_run_check :: "nat \<Rightarrow> u8 list \<Rightarrow> nat \<Rightarrow> bool option" where
  "flz_run_check lvl buf ip =
     (if lvl = 2 then do {
        a \<leftarrow> rd buf ip;
        b \<leftarrow> rd buf (ip - 1);
        if a = b then do {
          v \<leftarrow> flz_readu16 buf (ip - 1);
          w \<leftarrow> flz_readu16 buf (ip + 1);
          Some (v = w)
        } else Some False
      } else Some False)"

text \<open>
  The search at the top of the main loop. The result is the match found (distance, \<open>ref\<close>
  behind the compared bytes, their number \<open>len\<close>) or \<open>None\<close> for \<open>goto literal\<close>, and the
  updated hash table.
\<close>

definition flz_find ::
  "nat \<Rightarrow> u8 list \<Rightarrow> nat \<Rightarrow> (u32 \<Rightarrow> nat) \<Rightarrow> ((nat \<times> nat \<times> nat) option \<times> (u32 \<Rightarrow> nat)) option" where
  "flz_find lvl buf anchor htab = do {
     run \<leftarrow> flz_run_check lvl buf anchor;
     if run then Some (Some (1, anchor - 1 + 3, 3), htab)
     else do {
       hval \<leftarrow> flz_hash buf anchor;
       let ref = htab hval;
       let distance = anchor - ref;
       let htab = htab(hval := anchor);
       if distance = 0 \<or> distance \<ge> (if lvl = 1 then MAX_DISTANCE1 else MAX_FARDISTANCE)
       then Some (None, htab)
       else do {
         m \<leftarrow> flz_cmp buf 3 ref anchor;
         if \<not> m then Some (None, htab)
         else if lvl = 2 \<and> distance \<ge> MAX_DISTANCE2 then do {
           m2 \<leftarrow> flz_cmp buf 2 (ref + 3) (anchor + 3);
           Some (if m2 then Some (distance, ref + 5, 3 + 2) else None, htab)
         }
         else Some (Some (distance, ref + 3, 3), htab)
       }
     }
   }"

text \<open>
  The three ways a match is extended: a run (biased distance 0) compares with the last
  byte matched; otherwise eight unrolled comparisons, then a loop up to \<open>ip_bound\<close>.
  Each returns the final \<open>ip\<close>.
\<close>

function flz_ext_run :: "u8 list \<Rightarrow> u8 \<Rightarrow> nat \<Rightarrow> nat \<Rightarrow> nat \<Rightarrow> nat option" where
  "flz_ext_run buf x ref ip bound =
     (if ip < bound then do {
        a \<leftarrow> rd buf ref;
        if a \<noteq> x then Some ip else flz_ext_run buf x (ref + 1) (ip + 1) bound
      } else Some ip)"
  by pat_completeness auto
termination
  by (relation "measure (\<lambda>(buf, x, ref, ip, bound). bound - ip)") auto

function flz_ext_while :: "u8 list \<Rightarrow> nat \<Rightarrow> nat \<Rightarrow> nat \<Rightarrow> nat option" where
  "flz_ext_while buf ref ip bound =
     (if ip < bound then do {
        a \<leftarrow> rd buf ref;
        b \<leftarrow> rd buf ip;
        if a \<noteq> b then Some (ip + 1) else flz_ext_while buf (ref + 1) (ip + 1) bound
      } else Some ip)"
  by pat_completeness auto
termination
  by (relation "measure (\<lambda>(buf, ref, ip, bound). bound - ip)") auto

declare flz_ext_run.simps [simp del] flz_ext_while.simps [simp del]

fun flz_ext :: "u8 list \<Rightarrow> nat \<Rightarrow> nat \<Rightarrow> nat \<Rightarrow> nat \<Rightarrow> nat option" where
  "flz_ext buf 0 ref ip bound = flz_ext_while buf ref ip bound"
| "flz_ext buf (Suc k) ref ip bound = do {
     a \<leftarrow> rd buf ref;
     b \<leftarrow> rd buf ip;
     if a \<noteq> b then Some (ip + 1) else flz_ext buf k (ref + 1) (ip + 1) bound
   }"

definition flz_extend :: "u8 list \<Rightarrow> nat \<Rightarrow> nat \<Rightarrow> nat \<Rightarrow> nat \<Rightarrow> nat option" where
  "flz_extend buf distance ref ip bound =
     (if distance - 1 = 0 then do {
        x \<leftarrow> rd buf (ip - 1);
        flz_ext_run buf x ref ip bound
      } else flz_ext buf 8 ref ip bound)"

text \<open>The bytes of a match; \<open>d\<close> is the biased distance, \<open>len\<close> the biased length.\<close>

fun flz_match1 :: "nat \<Rightarrow> nat \<Rightarrow> u8 list" where
  "flz_match1 d len =
     (if len > MAX_LEN - 2 then
        [flzuint8 (7 * 32 + d div 256), flzuint8 (MAX_LEN - 2 - 7 - 2), flzuint8 (d mod 256)]
        @ flz_match1 d (len - (MAX_LEN - 2))
      else if len < 7 then [flzuint8 (len * 32 + d div 256), flzuint8 (d mod 256)]
      else [flzuint8 (7 * 32 + d div 256), flzuint8 (len - 7), flzuint8 (d mod 256)])"

declare flz_match1.simps [simp del]

fun flz_len2 :: "nat \<Rightarrow> u8 list" where
  "flz_len2 len = (if len \<ge> 255 then 255 # flz_len2 (len - 255) else [flzuint8 len])"

declare flz_len2.simps [simp del]

definition flz_match2 :: "nat \<Rightarrow> nat \<Rightarrow> u8 list" where
  "flz_match2 d len =
     (if d < MAX_DISTANCE2 then
        if len < 7 then [flzuint8 (len * 32 + d div 256), flzuint8 (d mod 256)]
        else flzuint8 (7 * 32 + d div 256) # flz_len2 (len - 7) @ [flzuint8 (d mod 256)]
      else
        let d' = d - MAX_DISTANCE2 in
        if len < 7 then [flzuint8 (len * 32 + 31), 255, flzuint8 (d' div 256), flzuint8 (d' mod 256)]
        else flzuint8 (7 * 32 + 31) # flz_len2 (len - 7)
             @ [255, flzuint8 (d' div 256), flzuint8 (d' mod 256)])"

definition flz_match :: "nat \<Rightarrow> nat \<Rightarrow> nat \<Rightarrow> u8 list" where
  "flz_match lvl d len = (if lvl = 2 then flz_match2 d len else flz_match1 d len)"

text \<open>Patch the count of the open literal run, or drop its unused control byte.\<close>

definition flz_close :: "nat \<Rightarrow> u8 list \<Rightarrow> u8 list" where
  "flz_close copy out =
     (if copy \<noteq> 0 then out[length out - copy - 1 := flzuint8 (copy - 1)] else butlast out)"

definition flz_put_literal :: "u8 \<Rightarrow> flz_state \<Rightarrow> flz_state" where
  "flz_put_literal c s =
     (if fl_copy s + 1 = MAX_COPY
      then s\<lparr>fl_ip := fl_ip s + 1, fl_out := fl_out s @ [c, flzuint8 (MAX_COPY - 1)], fl_copy := 0\<rparr>
      else s\<lparr>fl_ip := fl_ip s + 1, fl_out := fl_out s @ [c], fl_copy := fl_copy s + 1\<rparr>)"

text \<open>One iteration of the main loop.\<close>

definition flz_comp_step :: "nat \<Rightarrow> u8 list \<Rightarrow> nat \<Rightarrow> flz_state \<Rightarrow> flz_state option" where
  "flz_comp_step lvl buf n s = do {
     (m, htab) \<leftarrow> flz_find lvl buf (fl_ip s) (fl_htab s);
     case m of
       None \<Rightarrow> do {
         c \<leftarrow> rd buf (fl_ip s);
         Some (flz_put_literal c (s\<lparr>fl_htab := htab\<rparr>))
       }
     | Some (distance, ref, len) \<Rightarrow> do {
         let anchor = fl_ip s;
         ip \<leftarrow> flz_extend buf distance ref (anchor + len) (n - 2);
         let ip = ip - 3;
         let out = flz_close (fl_copy s) (fl_out s) @ flz_match lvl (distance - 1) (ip - anchor);
         h \<leftarrow> flz_hash buf ip;
         let htab = htab(h := ip);
         h \<leftarrow> flz_hash buf (ip + 1);
         let htab = htab(h := ip + 1);
         Some \<lparr>fl_ip = ip + 2, fl_out = out @ [flzuint8 (MAX_COPY - 1)], fl_copy = 0,
               fl_htab = htab\<rparr>
       }
   }"

lemma flz_ext_run_le: "flz_ext_run buf x ref ip bound = Some r \<Longrightarrow> ip \<le> r"
proof (induction buf x ref ip bound rule: flz_ext_run.induct)
  case (1 buf x ref ip bound)
  then show ?case
    by (subst (asm) (2) flz_ext_run.simps) (fastforce split: if_splits bind_splits)
qed

lemma flz_ext_while_le: "flz_ext_while buf ref ip bound = Some r \<Longrightarrow> ip \<le> r"
proof (induction buf ref ip bound rule: flz_ext_while.induct)
  case (1 buf ref ip bound)
  then show ?case
    by (subst (asm) (2) flz_ext_while.simps) (fastforce split: if_splits bind_splits)
qed

lemma flz_ext_le: "flz_ext buf k ref ip bound = Some r \<Longrightarrow> ip \<le> r"
  by (induction k arbitrary: ref ip)
    (fastforce dest: flz_ext_while_le split: if_splits bind_splits)+

lemma flz_extend_le: "flz_extend buf distance ref ip bound = Some r \<Longrightarrow> ip \<le> r"
  by (auto simp: flz_extend_def dest: flz_ext_run_le flz_ext_le split: if_splits bind_splits)

lemma flz_find_len: "flz_find lvl buf anchor htab = Some (Some (distance, ref, len), htab') \<Longrightarrow> 3 \<le> len"
  by (auto simp: flz_find_def Let_def split: if_splits bind_splits)

lemma flz_put_literal_ip [simp]: "fl_ip (flz_put_literal c s) = Suc (fl_ip s)"
  by (simp add: flz_put_literal_def)

lemma flz_comp_step_advances:
  assumes "flz_comp_step lvl buf n s = Some s'"
  shows "fl_ip s < fl_ip s'"
proof -
  from assms obtain m htab where find: "flz_find lvl buf (fl_ip s) (fl_htab s) = Some (m, htab)"
    by (auto simp: flz_comp_step_def split: bind_splits)
  show ?thesis
  proof (cases m)
    case None
    with assms find show ?thesis by (auto simp: flz_comp_step_def split: bind_splits)
  next
    case (Some t)
    obtain distance ref len where t: "t = (distance, ref, len)" by (cases t)
    with assms find Some obtain ip where
      ip: "flz_extend buf distance ref (fl_ip s + len) (n - 2) = Some ip" and
      s': "fl_ip s' = ip - 3 + 2"
      by (auto simp: flz_comp_step_def Let_def split: bind_splits)
    from find Some t have "3 \<le> len" by (auto dest: flz_find_len)
    moreover from ip have "fl_ip s + len \<le> ip" by (rule flz_extend_le)
    ultimately show ?thesis using s' by linarith
  qed
qed

function flz_comp_loop :: "nat \<Rightarrow> u8 list \<Rightarrow> nat \<Rightarrow> flz_state \<Rightarrow> flz_state option" where
  "flz_comp_loop lvl buf n s =
     (if fl_ip s + 12 < n then
        case flz_comp_step lvl buf n s of
          None \<Rightarrow> None
        | Some s' \<Rightarrow> flz_comp_loop lvl buf n s'
      else Some s)"
  by pat_completeness auto
termination
proof (relation "measure (\<lambda>(lvl, buf, n, s). n - fl_ip s)", goal_cases)
  case (2 lvl buf n s s')
  from flz_comp_step_advances [OF this(2)] this(1) show ?case by simp
qed simp

text \<open>Left-over input as literals; the loop bound is \<open>ip <= ip_bound\<close> after \<open>ip_bound++\<close>.\<close>

function flz_comp_tail :: "u8 list \<Rightarrow> nat \<Rightarrow> flz_state \<Rightarrow> flz_state option" where
  "flz_comp_tail buf n s =
     (if fl_ip s \<le> n - 2 + 1 then do {
        c \<leftarrow> rd buf (fl_ip s);
        flz_comp_tail buf n (flz_put_literal c s)
      } else Some s)"
  by pat_completeness auto
termination
  by (relation "measure (\<lambda>(buf, n, s). n - 2 + 2 - fl_ip s)") auto

declare flz_comp_loop.simps [simp del] flz_comp_tail.simps [simp del]

text \<open>\<open>k\<close> bytes from position \<open>i\<close> on.\<close>

definition rd_block :: "'a list \<Rightarrow> nat \<Rightarrow> nat \<Rightarrow> 'a list option" where
  "rd_block buf i k = (if i + k \<le> length buf then Some (take k (drop i buf)) else None)"

definition flz_init :: "u8 \<Rightarrow> u8 \<Rightarrow> flz_state" where
  "flz_init a b =
     \<lparr>fl_ip = 2, fl_out = [flzuint8 (MAX_COPY - 1), a, b], fl_copy = 2, fl_htab = (\<lambda>_. 0)\<rparr>"

definition fastlz_compressor :: "nat \<Rightarrow> u8 list \<Rightarrow> nat \<Rightarrow> u8 list option" where
  "fastlz_compressor lvl buf n =
     (if n < 4 then
        if n \<noteq> 0 then do { bs \<leftarrow> rd_block buf 0 n; Some (flzuint8 (n - 1) # bs) }
        else Some []
      else do {
        a \<leftarrow> rd buf 0;
        b \<leftarrow> rd buf 1;
        s \<leftarrow> flz_comp_loop lvl buf n (flz_init a b);
        s \<leftarrow> flz_comp_tail buf n s;
        let out = flz_close (fl_copy s) (fl_out s);
        Some (if lvl = 2 then out[0 := out ! 0 OR 32] else out)
      })"

definition fastlz_compress :: "u8 list \<Rightarrow> nat \<Rightarrow> u8 list option" where
  "fastlz_compress buf n =
     (if n < 65536 then fastlz_compressor 1 buf n else fastlz_compressor 2 buf n)"

definition fastlz_compress_level :: "nat \<Rightarrow> u8 list \<Rightarrow> nat \<Rightarrow> u8 list option" where
  "fastlz_compress_level level buf n =
     (if level = 1 then fastlz_compressor 1 buf n
      else if level = 2 then fastlz_compressor 2 buf n
      else Some [])"

section \<open>Decompressor\<close>

text \<open>
  One iteration of the \<open>do\<close> loop: \<open>D_fault\<close> is a read outside the memory behind the
  input, \<open>D_return0\<close> the \<open>return 0\<close> of the checks, \<open>D_done\<close> the end of the loop and
  \<open>D_next ctrl ip out\<close> another round.
\<close>

datatype flz_dec = D_fault | D_return0 | D_done "u8 list" | D_next nat nat "u8 list"

function flz_read_len2 :: "u8 list \<Rightarrow> nat \<Rightarrow> nat \<Rightarrow> (nat \<times> nat) option" where
  "flz_read_len2 buf ip len =
     (case rd buf ip of
        None \<Rightarrow> None
      | Some code \<Rightarrow>
          let len = (len + unat code) mod 2 ^ 32 in
          if code = 255 then flz_read_len2 buf (ip + 1) len else Some (ip + 1, len))"
  by pat_completeness auto
termination
  by (relation "measure (\<lambda>(buf, ip, len). length buf - ip)") (auto simp: rd_eq_Some_iff)

declare flz_read_len2.simps [simp del]

text \<open>The operands of a match: the new \<open>ip\<close>, \<open>len\<close> and \<open>ref\<close> (which may point before the output).\<close>

definition flz_operands ::
  "nat \<Rightarrow> u8 list \<Rightarrow> nat \<Rightarrow> nat \<Rightarrow> nat \<Rightarrow> (nat \<times> nat \<times> int) option" where
  "flz_operands lvl buf ctrl ip op = do {
     let len = ctrl div 32 - 1;
     let ofs = ctrl mod 32 * 256;
     if lvl = 2 then do {
       (ip, len) \<leftarrow> (if len = 7 - 1 then flz_read_len2 buf ip len else Some (ip, len));
       code \<leftarrow> rd buf ip;
       if code = 255 \<and> ofs = 31 * 256 then do {
         hi \<leftarrow> rd buf (ip + 1);
         lo \<leftarrow> rd buf (ip + 2);
         Some (ip + 3, len, int op - int (unat hi * 256 + unat lo) - int MAX_DISTANCE2)
       } else Some (ip + 1, len, int op - int ofs - int (unat code))
     } else do {
       (ip, len) \<leftarrow> (if len = 7 - 1
                    then do { c \<leftarrow> rd buf ip; Some (ip + 1, len + unat c) } else Some (ip, len));
       code \<leftarrow> rd buf ip;
       Some (ip + 1, len, int op - int ofs - int (unat code))
     }
   }"

text \<open>
  \<open>*op++ = *ref++\<close>, \<open>k\<close> times: the source may overlap what is being written. A run copies
  one byte \<open>k\<close> times. Both read the output through \<open>rd\<close>.
\<close>

fun flz_copy :: "u8 list \<Rightarrow> nat \<Rightarrow> nat \<Rightarrow> u8 list option" where
  "flz_copy out ref 0 = Some out"
| "flz_copy out ref (Suc k) = do { b \<leftarrow> rd out ref; flz_copy (out @ [b]) (ref + 1) k }"

definition flz_run :: "u8 list \<Rightarrow> nat \<Rightarrow> nat \<Rightarrow> u8 list option" where
  "flz_run out ref k = do { b \<leftarrow> rd out ref; Some (out @ replicate k b) }"

text \<open>The end of an iteration: read the next control byte, or leave the loop.\<close>

definition flz_next :: "u8 list \<Rightarrow> nat \<Rightarrow> nat \<Rightarrow> u8 list \<Rightarrow> flz_dec" where
  "flz_next buf n ip out =
     (if ip < n then case rd buf ip of None \<Rightarrow> D_fault | Some c \<Rightarrow> D_next (unat c) (ip + 1) out
      else D_done out)"

definition flz_dec_step ::
  "nat \<Rightarrow> u8 list \<Rightarrow> nat \<Rightarrow> nat \<Rightarrow> nat \<Rightarrow> nat \<Rightarrow> u8 list \<Rightarrow> flz_dec" where
  "flz_dec_step lvl buf n maxout ctrl ip out =
     (let op = length out in
      if ctrl \<ge> 32 then
        case flz_operands lvl buf ctrl ip op of
          None \<Rightarrow> D_fault
        | Some (ip, len, ref) \<Rightarrow>
            if op + len + 3 > maxout then D_return0
            else if ref - 1 < 0 then D_return0
            else (case (if ref = int op then flz_run out (nat (ref - 1)) (len + 3)
                        else flz_copy out (nat (ref - 1)) (len + 3)) of
                    None \<Rightarrow> D_fault
                  | Some out \<Rightarrow> flz_next buf n ip out)
      else
        let ctrl = ctrl + 1 in
        if op + ctrl > maxout then D_return0
        else if ip + ctrl > n then D_return0
        else case rd_block buf ip ctrl of
               None \<Rightarrow> D_fault
             | Some bs \<Rightarrow> flz_next buf n (ip + ctrl) (out @ bs))"

lemma flz_read_len2_le: "flz_read_len2 buf ip len = Some (ip', len') \<Longrightarrow> ip \<le> ip'"
proof (induction buf ip len rule: flz_read_len2.induct)
  case (1 buf ip len)
  then show ?case
    by (subst (asm) (2) flz_read_len2.simps) (fastforce simp: Let_def split: if_splits option.splits)
qed

lemma flz_operands_le: "flz_operands lvl buf ctrl ip op = Some (ip', len, ref) \<Longrightarrow> ip \<le> ip'"
  by (auto simp: flz_operands_def Let_def dest: flz_read_len2_le split: if_splits bind_splits)

lemma flz_next_D_next:
  "flz_next buf n ip out = D_next c i out' \<longleftrightarrow>
     ip < n \<and> ip < length buf \<and> c = unat (buf ! ip) \<and> i = ip + 1 \<and> out' = out"
  by (auto simp: flz_next_def rd_def split: if_splits)

lemma length_flz_copy: "flz_copy out ref k = Some out' \<Longrightarrow> length out' = length out + k"
  by (induction k arbitrary: out ref) (auto split: bind_splits)

lemma length_flz_run: "flz_run out ref k = Some out' \<Longrightarrow> length out' = length out + k"
  by (auto simp: flz_run_def split: bind_splits)

lemma length_rd_block: "rd_block buf i k = Some bs \<Longrightarrow> length bs = k"
  by (auto simp: rd_block_def split: if_splits)

text \<open>
  What one iteration can do: stop, or go on behind the operands it read with an output that
  has grown and still fits. Termination and the output bound both follow from it.
\<close>

lemma flz_dec_step_cases:
  obtains (fault) "flz_dec_step lvl buf n maxout ctrl ip out = D_fault"
  | (return0) "flz_dec_step lvl buf n maxout ctrl ip out = D_return0"
  | (go) ip' out' where "flz_dec_step lvl buf n maxout ctrl ip out = flz_next buf n ip' out'"
      "ip \<le> ip'" "length out < length out'" "length out' \<le> maxout"
proof (cases "32 \<le> ctrl")
  case True
  show thesis
  proof (cases "flz_operands lvl buf ctrl ip (length out)")
    case None
    with True fault show thesis by (simp add: flz_dec_step_def Let_def)
  next
    case (Some t)
    obtain ip' len ref where t: "t = (ip', len, ref)" by (cases t)
    let ?c = "if ref = int (length out) then flz_run out (nat (ref - 1)) (len + 3)
              else flz_copy out (nat (ref - 1)) (len + 3)"
    have step: "flz_dec_step lvl buf n maxout ctrl ip out =
        (if length out + len + 3 > maxout then D_return0 else if ref - 1 < 0 then D_return0
         else case ?c of None \<Rightarrow> D_fault | Some out \<Rightarrow> flz_next buf n ip' out)"
      using True Some t by (simp add: flz_dec_step_def Let_def)
    have "ip \<le> ip'" using Some t by (simp add: flz_operands_le)
    show thesis
    proof (cases "length out + len + 3 > maxout \<or> ref - 1 < 0")
      case True
      with step return0 show thesis by (simp split: if_splits)
    next
      case ok: False
      show thesis
      proof (cases ?c)
        case None
        with step ok fault show thesis by simp
      next
        case (Some out')
        then have len: "length out' = length out + (len + 3)"
          by (auto dest: length_flz_copy length_flz_run split: if_splits)
        from Some ok step have "flz_dec_step lvl buf n maxout ctrl ip out = flz_next buf n ip' out'"
          by simp
        from go [OF this \<open>ip \<le> ip'\<close>] len ok show thesis by simp
      qed
    qed
  qed
next
  case False
  show thesis
  proof (cases "rd_block buf ip (ctrl + 1)")
    case None
    with False fault return0 show thesis
      by (cases "length out + (ctrl + 1) > maxout \<or> ip + (ctrl + 1) > n")
        (auto simp: flz_dec_step_def Let_def)
  next
    case (Some bs)
    with False go [of "ip + (ctrl + 1)" "out @ bs"] length_rd_block [OF Some] return0 show thesis
      by (cases "length out + (ctrl + 1) > maxout \<or> ip + (ctrl + 1) > n")
        (auto simp: flz_dec_step_def Let_def)
  qed
qed

lemma flz_dec_step_advances:
  assumes "flz_dec_step lvl buf n maxout ctrl ip out = D_next c i out'"
  shows "ip < i \<and> i \<le> n"
proof (cases rule: flz_dec_step_cases [of lvl buf n maxout ctrl ip out])
  case (go ip' out'')
  with assms have "flz_next buf n ip' out'' = D_next c i out'" by simp
  with go(2) show ?thesis by (simp add: flz_next_D_next)
qed (use assms in simp_all)

function flz_dec_loop ::
  "nat \<Rightarrow> u8 list \<Rightarrow> nat \<Rightarrow> nat \<Rightarrow> nat \<Rightarrow> nat \<Rightarrow> u8 list \<Rightarrow> u8 list option" where
  "flz_dec_loop lvl buf n maxout ctrl ip out =
     (case flz_dec_step lvl buf n maxout ctrl ip out of
        D_fault \<Rightarrow> None
      | D_return0 \<Rightarrow> Some []
      | D_done out \<Rightarrow> Some out
      | D_next ctrl ip out \<Rightarrow> flz_dec_loop lvl buf n maxout ctrl ip out)"
  by pat_completeness auto
termination
proof (relation "measure (\<lambda>(lvl, buf, n, maxout, ctrl, ip, out). n - ip)", goal_cases)
  case (2 lvl buf n maxout ctrl ip out c i out')
  from flz_dec_step_advances [OF this] have "ip < i" "i \<le> n" by simp_all
  then show ?case by simp
qed simp

declare flz_dec_loop.simps [simp del]

text \<open>The level-specific decompressor. The returned list is the output; \<open>return 0\<close> is \<open>[]\<close>.\<close>

definition fastlz_decompressor :: "nat \<Rightarrow> u8 list \<Rightarrow> nat \<Rightarrow> nat \<Rightarrow> u8 list option" where
  "fastlz_decompressor lvl buf n maxout = do {
     c \<leftarrow> rd buf 0;
     flz_dec_loop lvl buf n maxout (unat (c AND 31)) 1 []
   }"

definition fastlz_decompress :: "u8 list \<Rightarrow> nat \<Rightarrow> nat \<Rightarrow> u8 list option" where
  "fastlz_decompress buf n maxout = do {
     c \<leftarrow> rd buf 0;
     let level = unat (drop_bit 5 c) + 1;
     if level = 1 then fastlz_decompressor 1 buf n maxout
     else if level = 2 then fastlz_decompressor 2 buf n maxout
     else Some []
   }"

section \<open>The decompressor never writes past the output buffer\<close>

lemma flz_dec_step_bound:
  "case flz_dec_step lvl buf n maxout ctrl ip out of
     D_done out' \<Rightarrow> length out' \<le> maxout \<and> length out < length out'
   | D_next c i out' \<Rightarrow> length out' \<le> maxout \<and> length out < length out'
   | _ \<Rightarrow> True"
  by (rule flz_dec_step_cases [of lvl buf n maxout ctrl ip out])
    (simp_all add: flz_next_def split: option.splits)

lemma flz_dec_loop_bound:
  assumes "flz_dec_loop lvl buf n maxout ctrl ip out = Some res"
  shows "length res \<le> maxout"
  using assms
proof (induction lvl buf n maxout ctrl ip out rule: flz_dec_loop.induct)
  case (1 lvl buf n maxout ctrl ip out)
  show ?case
    using "1.prems" "1.IH" flz_dec_step_bound [where out = out and lvl = lvl and buf = buf and n = n and maxout = maxout and ctrl = ctrl and ip = ip]
    by (auto simp: flz_dec_loop.simps [of lvl buf n maxout ctrl ip out] split: flz_dec.splits)
qed

lemma fastlz_decompressor_bound:
  "fastlz_decompressor lvl buf n maxout = Some res \<Longrightarrow> length res \<le> maxout"
  by (auto simp: fastlz_decompressor_def dest!: flz_dec_loop_bound split: bind_splits)

end
