(* ===== verification/Fastlz_Roundtrip.thy ===== *)
theory Fastlz_Roundtrip
  imports Fastlz
begin

text \<open>
  Correctness of the bundled FastLZ codec against an abstract LZ77 format: a stream of
  tokens (literal runs and back references) with an expansion function. The decompressor
  run on an encoded token stream computes its expansion; the compressor always emits the
  encoding of a token stream whose expansion is its input. Together: the round trip, for
  both levels, and the absence of reads outside the input.
\<close>

section \<open>The token format\<close>

datatype flz_tok = Lit "u8 list" | Ref nat nat

text \<open>Expanding a back reference copies byte by byte, so it may reach into its own output.\<close>

fun lz_copy :: "u8 list \<Rightarrow> nat \<Rightarrow> nat \<Rightarrow> u8 list" where
  "lz_copy out d 0 = out"
| "lz_copy out d (Suc k) = lz_copy (out @ [out ! (length out - d)]) d k"

fun lz_tok :: "u8 list \<Rightarrow> flz_tok \<Rightarrow> u8 list" where
  "lz_tok out (Lit bs) = out @ bs"
| "lz_tok out (Ref d l) = lz_copy out d l"

fun lz_expand :: "u8 list \<Rightarrow> flz_tok list \<Rightarrow> u8 list" where
  "lz_expand out [] = out"
| "lz_expand out (t # ts) = lz_expand (lz_tok out t) ts"

text \<open>What a level can encode: the length of a run, and the reach and length of a reference.\<close>

fun tok_ok :: "nat \<Rightarrow> u8 list \<Rightarrow> flz_tok \<Rightarrow> bool" where
  "tok_ok lvl out (Lit bs) = (1 \<le> length bs \<and> length bs \<le> 32)"
| "tok_ok lvl out (Ref d l) =
     (3 \<le> l \<and> 1 \<le> d \<and> d \<le> length out \<and>
      (if lvl = 1 then l \<le> 264 \<and> d \<le> 8192 else l < 2 ^ 32 \<and> d \<le> 73725))"

fun toks_ok :: "nat \<Rightarrow> u8 list \<Rightarrow> flz_tok list \<Rightarrow> bool" where
  "toks_ok lvl out [] = True"
| "toks_ok lvl out (t # ts) = (tok_ok lvl out t \<and> toks_ok lvl (lz_tok out t) ts)"

fun enc_tok :: "nat \<Rightarrow> flz_tok \<Rightarrow> u8 list" where
  "enc_tok lvl (Lit bs) = flzuint8 (length bs - 1) # bs"
| "enc_tok lvl (Ref d l) = flz_match lvl (d - 1) (l - 2)"

definition enc_toks :: "nat \<Rightarrow> flz_tok list \<Rightarrow> u8 list" where
  "enc_toks lvl ts = concat (map (enc_tok lvl) ts)"

lemma enc_toks_simps [simp]:
  "enc_toks lvl [] = []"
  "enc_toks lvl (t # ts) = enc_tok lvl t @ enc_toks lvl ts"
  "enc_toks lvl (ts @ us) = enc_toks lvl ts @ enc_toks lvl us"
  by (simp_all add: enc_toks_def)

lemma lz_expand_append [simp]: "lz_expand out (ts @ us) = lz_expand (lz_expand out ts) us"
  by (induction ts arbitrary: out) simp_all

lemma toks_ok_append [simp]:
  "toks_ok lvl out (ts @ us) \<longleftrightarrow> toks_ok lvl out ts \<and> toks_ok lvl (lz_expand out ts) us"
  by (induction ts arbitrary: out) auto

lemma length_lz_copy [simp]: "length (lz_copy out d k) = length out + k"
  by (induction k arbitrary: out) simp_all

lemma lz_copy_add: "lz_copy out d (a + b) = lz_copy (lz_copy out d a) d b"
  by (induction a arbitrary: out) simp_all

lemma length_lz_tok: "tok_ok lvl out t \<Longrightarrow> length out < length (lz_tok out t)"
  by (cases t) auto

lemma length_lz_expand: "length out \<le> length (lz_expand out ts)"
proof (induction ts arbitrary: out)
  case (Cons t ts)
  have "length out \<le> length (lz_tok out t)" by (cases t) auto
  also have "\<dots> \<le> length (lz_expand (lz_tok out t) ts)" by (rule Cons.IH)
  finally show ?case by simp
qed simp

text \<open>The decompressor's two copy loops compute the expansion of a reference.\<close>

lemma flz_copy_eq: "1 \<le> d \<Longrightarrow> d \<le> length out \<Longrightarrow>
  flz_copy out (length out - d) k = Some (lz_copy out d k)"
proof (induction k arbitrary: out)
  case (Suc k)
  then have "flz_copy (out @ [out ! (length out - d)]) (length out - d + 1) k =
      Some (lz_copy (out @ [out ! (length out - d)]) d k)"
    using Suc.IH [of "out @ [out ! (length out - d)]"] by (simp add: Suc_diff_le)
  with Suc.prems show ?case by simp
qed simp

lemma lz_copy_run: "out \<noteq> [] \<Longrightarrow> lz_copy out 1 k = out @ replicate k (out ! (length out - 1))"
proof (induction k arbitrary: out)
  case (Suc k)
  from Suc.IH [of "out @ [out ! (length out - 1)]"] show ?case by simp
qed simp

lemma flz_run_eq: "out \<noteq> [] \<Longrightarrow> flz_run out (length out - 1) k = Some (lz_copy out 1 k)"
  by (simp add: flz_run_def lz_copy_run [simplified])

text \<open>A reference whose source agrees with what follows in \<open>buf\<close> extends a prefix of \<open>buf\<close>.\<close>

lemma lz_copy_take:
  assumes "1 \<le> d" "d \<le> i" "i + k \<le> length buf"
    "\<And>j. j < k \<Longrightarrow> buf ! (i - d + j) = buf ! (i + j)"
  shows "lz_copy (take i buf) d k = take (i + k) buf"
  using assms
proof (induction k arbitrary: i)
  case (Suc k)
  have "take i buf ! (length (take i buf) - d) = buf ! i"
    using Suc.prems(1-3) Suc.prems(4) [of 0] by simp
  then have "lz_copy (take i buf) d (Suc k) = lz_copy (take (Suc i) buf) d k"
    using Suc.prems by (simp add: take_Suc_conv_app_nth)
  also have "\<dots> = take (Suc i + k) buf"
  proof (rule Suc.IH)
    show "buf ! (Suc i - d + j) = buf ! (Suc i + j)" if "j < k" for j
      using Suc.prems(2) Suc.prems(4) [of "Suc j"] that by (simp add: Suc_diff_le)
  qed (use Suc.prems in simp_all)
  finally show ?case by simp
qed simp

section \<open>The decompressor on an encoded token\<close>

lemma flz_read_len2_eq:
  "l + k < 2 ^ 32 \<Longrightarrow>
   flz_read_len2 (pre @ flz_len2 k @ rest) (length pre) l =
     Some (length pre + length (flz_len2 k), l + k)"
proof (induction k arbitrary: pre l rule: flz_len2.induct)
  case (1 k)
  show ?case
  proof (cases "255 \<le> k")
    case True
    with "1.IH" [of "l + 255" "pre @ [255]"] "1.prems" show ?thesis
      by (simp add: flz_len2.simps [of k] flz_read_len2.simps [of _ "length pre"] Let_def)
  next
    case False
    then have "unat (flzuint8 k) \<noteq> unat (255 :: u8)" by simp
    then have "flzuint8 k \<noteq> 255" by metis
    with False "1.prems" show ?thesis
      by (simp add: flz_len2.simps [of k] flz_read_len2.simps [of _ "length pre"] Let_def)
  qed
qed

text \<open>The control byte of a match: three bits of length, five of distance.\<close>

lemma ctrl_byte:
  assumes "len \<le> 7" "q < 32"
  shows "unat (flzuint8 (len * 32 + q)) = len * 32 + q"
    and "(len * 32 + q) div 32 = len" and "(len * 32 + q) mod 32 = q"
  using assms by simp_all

text \<open>A distance as its five high and eight low bits.\<close>

lemma distance_bits:
  assumes "d < (8192 :: nat)"
  obtains q r where "d = q * 256 + r" "q < 32" "r < 256"
proof
  show "d = d div 256 * 256 + d mod 256" by simp
qed (use assms in simp_all)

lemma rd_block_append: "rd_block (pre @ bs @ rest) (length pre) (length bs) = Some bs"
  by (simp add: rd_block_def)

lemma rd_append_Suc [simp]: "rd (pre @ x # y # ys) (Suc (length pre)) = Some y"
  by (simp add: rd_def nth_append)

lemma rd_append_Suc2 [simp]: "rd (pre @ x # y # z # ys) (Suc (Suc (length pre))) = Some z"
  by (simp add: rd_def nth_append)

lemma ctrl_long [simp]: "q < 32 \<Longrightarrow> (224 + q) mod 32 = q" "q < 32 \<Longrightarrow> (224 + q) div 32 = 7"
  for q :: nat
proof -
  assume "q < 32"
  then have "(7 * 32 + q) mod 32 = q" "(7 * 32 + q) div 32 = 7" by (simp_all only: ctrl_byte(2,3))
  then show "(224 + q) mod 32 = q" "(224 + q) div 32 = 7" by simp_all
qed

lemma flz_operands_match1:
  assumes "1 \<le> len" "len \<le> 262" "d < 8192" "flz_match1 d len = c # ops"
  shows "32 \<le> unat c \<and>
    flz_operands 1 (pre @ ops @ rest) (unat c) (length pre) op =
      Some (length pre + length ops, len - 1, int op - int d)"
proof -
  obtain q r where d: "d = q * 256 + r" and q: "q < 32" and r: "r < 256"
    using assms(3) by (rule distance_bits)
  show ?thesis
  proof (cases "len < 7")
    case True
    with assms(1,4) q r show ?thesis
      by (auto simp: d flz_match1.simps [of _ len] flz_operands_def Let_def)
  next
    case False
    with assms(2,4) q r show ?thesis
      by (auto simp: d flz_match1.simps [of _ len] flz_operands_def Let_def)
  qed
qed

text \<open>Reading behind the variable-length part of a level-2 match.\<close>

lemma flz_operands2_long:
  assumes "7 \<le> len" "len < 2 ^ 32" "q < 32"
  shows "flz_operands 2 (pre @ (flz_len2 (len - 7) @ ops) @ rest) (224 + q) (length pre) op =
    do {
      let ip = length pre + length (flz_len2 (len - 7));
      let buf = (pre @ flz_len2 (len - 7)) @ ops @ rest;
      code \<leftarrow> rd buf ip;
      if code = 255 \<and> q * 256 = 31 * 256 then do {
        hi \<leftarrow> rd buf (ip + 1);
        lo \<leftarrow> rd buf (ip + 2);
        Some (ip + 3, len - 1, int op - int (unat hi * 256 + unat lo) - int MAX_DISTANCE2)
      } else Some (ip + 1, len - 1, int op - int (q * 256) - int (unat code))
    }"
proof -
  have "flz_read_len2 (pre @ flz_len2 (len - 7) @ (ops @ rest)) (length pre) 6 =
      Some (length pre + length (flz_len2 (len - 7)), 6 + (len - 7))"
    by (rule flz_read_len2_eq) (use assms in simp)
  moreover have "6 + (len - 7) = len - 1" using assms(1) by simp
  ultimately show ?thesis using assms(3) by (simp add: flz_operands_def Let_def cong: if_cong)
qed

lemma flz_operands_match2_near:
  assumes "1 \<le> len" "len < 2 ^ 32" "d < 8191" "flz_match2 d len = c # ops"
  shows "32 \<le> unat c \<and>
    flz_operands 2 (pre @ ops @ rest) (unat c) (length pre) op =
      Some (length pre + length ops, len - 1, int op - int d)"
proof -
  have "d < 8192" using assms(3) by simp
  then obtain q r where d: "d = q * 256 + r" and q: "q < 32" and r: "r < 256"
    by (rule distance_bits)
  have far: "\<not> (flzuint8 r = 255 \<and> q = 31)"
  proof
    assume "flzuint8 r = 255 \<and> q = 31"
    then have "r = unat (255 :: u8)" "q = 31" using unat_flzuint8 [OF r] by metis+
    then show False using assms(3) by (simp add: d)
  qed
  show ?thesis
  proof (cases "len < 7")
    case True
    with assms(1,3,4) q r far show ?thesis
      by (auto simp: d flz_match2_def flz_operands_def Let_def)
  next
    case False
    with assms(3,4) q r have c: "c = flzuint8 (224 + q)"
      and ops: "ops = flz_len2 (len - 7) @ [flzuint8 r]"
      by (simp_all add: d flz_match2_def)
    have "rd ((pre @ flz_len2 (len - 7)) @ flzuint8 r # rest)
        (length pre + length (flz_len2 (len - 7))) = Some (flzuint8 r)"
      using rd_append_at [of "pre @ flz_len2 (len - 7)" "flzuint8 r" rest] by simp
    with flz_operands2_long [of len q pre "[flzuint8 r]" rest op] False assms(2) q r far
    show ?thesis by (auto simp: c ops d)
  qed
qed

lemma flz_operands_match2_far:
  assumes "1 \<le> len" "len < 2 ^ 32" "8191 \<le> d" "d < 8191 + 65536" "flz_match2 d len = c # ops"
  shows "32 \<le> unat c \<and>
    flz_operands 2 (pre @ ops @ rest) (unat c) (length pre) op =
      Some (length pre + length ops, len - 1, int op - int d)"
proof -
  define q r where "q = (d - 8191) div 256" and "r = (d - 8191) mod 256"
  then have d: "d = q * 256 + r + 8191" and q: "q < 256" and r: "r < 256"
    using assms(3,4) by auto
  have dd: "int op - int (q * 256 + r) - 8191 = int op - int d" by (simp add: d)
  show ?thesis
  proof (cases "len < 7")
    case True
    with assms(1,5) q r show ?thesis
      by (auto simp: d flz_match2_def flz_operands_def Let_def)
  next
    case False
    with assms(5) q r have c: "c = flzuint8 (224 + 31)"
      and ops: "ops = flz_len2 (len - 7) @ [255, flzuint8 q, flzuint8 r]"
      by (simp_all add: d flz_match2_def Let_def)
    let ?pre = "pre @ flz_len2 (len - 7)"
    have rds: "rd (?pre @ [255, flzuint8 q, flzuint8 r] @ rest) (length ?pre + 0) = Some 255"
      "rd (?pre @ [255, flzuint8 q, flzuint8 r] @ rest) (length ?pre + 1) = Some (flzuint8 q)"
      "rd (?pre @ [255, flzuint8 q, flzuint8 r] @ rest) (length ?pre + 2) = Some (flzuint8 r)"
      by (simp_all add: rd_def nth_append)
    with flz_operands2_long [of len 31 pre "[255, flzuint8 q, flzuint8 r]" rest op]
      False assms(2) q r dd
    show ?thesis by (simp add: c ops)
  qed
qed

lemma flz_operands_ref:
  assumes "lvl = 1 \<or> lvl = 2" "tok_ok lvl out (Ref d l)" "enc_tok lvl (Ref d l) = c # ops"
  shows "32 \<le> unat c \<and>
    flz_operands lvl (pre @ ops @ rest) (unat c) (length pre) (length out) =
      Some (length pre + length ops, l - 3, int (length out) - int (d - 1))"
proof -
  have len: "1 \<le> l - 2" "l - 2 - 1 = l - 3" using assms(2) by auto
  show ?thesis
  proof (cases "lvl = 1")
    case True
    with assms(2,3) have "l - 2 \<le> 262" "d - 1 < 8192" "flz_match1 (d - 1) (l - 2) = c # ops"
      by (auto simp: flz_match_def)
    from flz_operands_match1 [OF len(1) this] show ?thesis using True len(2) by simp
  next
    case False
    with assms have two: "lvl = 2" and m: "flz_match2 (d - 1) (l - 2) = c # ops"
      and ls: "l - 2 < 2 ^ 32" and ds: "d - 1 < 8191 + 65536"
      by (auto simp: flz_match_def)
    show ?thesis
    proof (cases "d - 1 < 8191")
      case True
      from flz_operands_match2_near [OF len(1) ls True m] show ?thesis using two len(2) by simp
    next
      case False
      then have "8191 \<le> d - 1" by simp
      from flz_operands_match2_far [OF len(1) ls this ds m] show ?thesis using two len(2) by simp
    qed
  qed
qed

lemma flz_dec_step_tok:
  assumes "lvl = 1 \<or> lvl = 2" "tok_ok lvl out t" "enc_tok lvl t = c # ops"
    "length (lz_tok out t) \<le> maxout" "length pre + length ops \<le> n"
  shows "flz_dec_step lvl (pre @ ops @ rest) n maxout (unat c) (length pre) out =
    flz_next (pre @ ops @ rest) n (length pre + length ops) (lz_tok out t)"
proof (cases t)
  case (Lit bs)
  with assms(2,3) have c: "unat c = length bs - 1" and ops: "ops = bs" and "1 \<le> length bs"
    by auto
  then have len: "length bs - 1 + 1 = length bs" "unat c < 32" using Lit assms(2) by auto
  with Lit assms(4,5) show ?thesis
    by (simp add: flz_dec_step_def Let_def c ops rd_block_append)
next
  case (Ref d l)
  have ok: "tok_ok lvl out (Ref d l)" using assms(2) unfolding Ref .
  then have l: "3 \<le> l" "l - 3 + 3 = l" "1 \<le> d" "d \<le> length out" by auto
  from flz_operands_ref [OF assms(1) ok assms(3) [unfolded Ref]]
  have c: "32 \<le> unat c" and opd: "flz_operands lvl (pre @ ops @ rest) (unat c) (length pre) (length out) =
      Some (length pre + length ops, l - 3, int (length out) - int (d - 1))" by blast+
  define ref where "ref = int (length out) - int (d - 1)"
  have pos: "\<not> ref - 1 < 0" "nat (ref - 1) = length out - d" "ref = int (length out) \<longleftrightarrow> d = 1"
    using l by (auto simp: ref_def)
  have copy: "(if d = 1 then flz_run out (length out - d) l else flz_copy out (length out - d) l) =
      Some (lz_tok out t)"
  proof (cases "d = 1")
    case True
    then have "out \<noteq> []" using l by auto
    with True Ref show ?thesis by (simp add: flz_run_eq [simplified])
  next
    case False
    with l Ref show ?thesis by (simp add: flz_copy_eq)
  qed
  have "\<not> maxout < length out + l" using assms(4) Ref l by simp
  with c opd [folded ref_def] pos copy l(2) show ?thesis
    by (simp only: flz_dec_step_def Let_def add.assoc if_True if_False option.case prod.case)
qed

lemma flz_match1_nonempty: "flz_match1 d len \<noteq> []"
  by (subst flz_match1.simps) simp

lemma enc_tok_nonempty: "enc_tok lvl t \<noteq> []"
  by (cases t) (simp_all add: flz_match_def flz_match2_def Let_def flz_match1_nonempty)

theorem flz_dec_loop_toks:
  assumes "lvl = 1 \<or> lvl = 2" "toks_ok lvl out (t # ts)" "enc_tok lvl t = c # ops"
    "length (lz_expand out (t # ts)) \<le> maxout"
    "buf = pre @ ops @ enc_toks lvl ts @ slack" "n + length slack = length buf"
  shows "flz_dec_loop lvl buf n maxout (unat c) (length pre) out = Some (lz_expand out (t # ts))"
  using assms(2-)
proof (induction ts arbitrary: out t c ops pre)
  case Nil
  from flz_dec_step_tok [OF assms(1), of out t c ops maxout pre n slack] Nil
  show ?case by (simp add: flz_dec_loop.simps [of lvl] flz_next_def)
next
  case (Cons t' ts)
  obtain c' ops' where e': "enc_tok lvl t' = c' # ops'"
    using enc_tok_nonempty [of lvl t'] by (cases "enc_tok lvl t'") auto
  have fits: "length (lz_tok out t) \<le> maxout"
    using Cons.prems(3) length_lz_expand [of "lz_tok out t" "t' # ts"] by simp
  have "flz_dec_step lvl buf n maxout (unat c) (length pre) out =
      flz_next buf n (length pre + length ops) (lz_tok out t)"
    using flz_dec_step_tok [OF assms(1) _ Cons.prems(2) fits, of pre n "enc_toks lvl (t' # ts) @ slack"]
      Cons.prems by simp
  also have "\<dots> = D_next (unat c') (length (pre @ ops @ [c'])) (lz_tok out t)"
    using Cons.prems(4,5) e' by (simp add: flz_next_def rd_def nth_append)
  finally have step: "flz_dec_step lvl buf n maxout (unat c) (length pre) out =
      D_next (unat c') (length (pre @ ops @ [c'])) (lz_tok out t)" .
  have "flz_dec_loop lvl buf n maxout (unat c') (length (pre @ ops @ [c'])) (lz_tok out t) =
      Some (lz_expand (lz_tok out t) (t' # ts))"
    by (rule Cons.IH [OF _ e']) (use Cons.prems e' in simp_all)
  then show ?case by (simp add: flz_dec_loop.simps [of lvl buf n maxout "unat c"] step)
qed

section \<open>The match finder\<close>

lemma flz_cmp_eq:
  "ref + k \<le> length buf \<Longrightarrow> ip + k \<le> length buf \<Longrightarrow>
   flz_cmp buf k ref ip = Some (\<forall>j<k. buf ! (ref + j) = buf ! (ip + j))"
  by (induction k arbitrary: ref ip) (auto simp: All_less_Suc2)

text \<open>
  \<open>agree buf ref ip m\<close>: the \<open>m\<close> bytes at \<open>ref\<close> and at \<open>ip\<close> are the same. An extension that ends at
  \<open>r\<close> has compared its last byte unsuccessfully, or stopped at the bound, so all but the
  last byte before \<open>r\<close> agree.
\<close>

definition agree :: "u8 list \<Rightarrow> nat \<Rightarrow> nat \<Rightarrow> nat \<Rightarrow> bool" where
  "agree buf ref ip m \<longleftrightarrow> (\<forall>j<m. buf ! (ref + j) = buf ! (ip + j))"

lemma agree_0 [simp]: "agree buf ref ip 0"
  by (simp add: agree_def)

lemma agree_Suc: "agree buf ref ip (Suc m) \<longleftrightarrow> buf ! ref = buf ! ip \<and> agree buf (Suc ref) (Suc ip) m"
  by (simp add: agree_def All_less_Suc2)

lemma agree_step:
  assumes "buf ! ref = buf ! ip" "agree buf (Suc ref) (Suc ip) (r - Suc (Suc ip))"
  shows "agree buf ref ip (r - Suc ip)"
proof (cases "r - Suc ip")
  case (Suc m)
  then have "r - Suc (Suc ip) = m" by simp
  with assms Suc show ?thesis by (simp add: agree_Suc)
qed simp

lemma agree_add: "agree buf ref ip (m + k) \<longleftrightarrow> agree buf ref ip m \<and> agree buf (ref + m) (ip + m) k"
  by (induction m arbitrary: ref ip) (auto simp: agree_Suc)

lemma flz_ext_while_agree:
  assumes "ref \<le> ip" "bound \<le> length buf"
  shows "\<exists>r. flz_ext_while buf ref ip bound = Some r \<and> ip \<le> r \<and> r \<le> max ip bound \<and>
    agree buf ref ip (r - ip - 1)"
  using assms
proof (induction buf ref ip bound rule: flz_ext_while.induct)
  case (1 buf ref ip bound)
  show ?case
  proof (cases "ip < bound \<and> buf ! ref = buf ! ip")
    case True
    with "1.IH" "1.prems" obtain r where r:
      "flz_ext_while buf (ref + 1) (ip + 1) bound = Some r" "ip + 1 \<le> r" "r \<le> max (ip + 1) bound"
      "agree buf (ref + 1) (ip + 1) (r - (ip + 1) - 1)"
      by (auto simp: rd_eq_Some_iff)
    then have "agree buf ref ip (r - ip - 1)"
      using True by (simp add: agree_step)
    with r True "1.prems" show ?thesis
      by (auto simp: flz_ext_while.simps [of buf ref ip bound])
  next
    case False
    with "1.prems" show ?thesis by (auto simp: flz_ext_while.simps [of buf ref ip bound])
  qed
qed

lemma flz_ext_agree:
  assumes "ref \<le> ip" "ip + k \<le> length buf" "bound \<le> length buf"
  shows "\<exists>r. flz_ext buf k ref ip bound = Some r \<and> ip \<le> r \<and> (0 < k \<longrightarrow> ip < r) \<and>
    r \<le> max (ip + k) bound \<and> agree buf ref ip (r - ip - 1)"
  using assms
proof (induction k arbitrary: ref ip)
  case 0
  with flz_ext_while_agree [of ref ip bound buf] show ?case by auto
next
  case (Suc k)
  show ?case
  proof (cases "buf ! ref = buf ! ip")
    case True
    from Suc.IH [of "ref + 1" "ip + 1"] Suc.prems obtain r where r:
      "flz_ext buf k (ref + 1) (ip + 1) bound = Some r" "ip + 1 \<le> r"
      "r \<le> max (ip + Suc k) bound" "agree buf (ref + 1) (ip + 1) (r - (ip + 1) - 1)"
      by auto
    then have "agree buf ref ip (r - ip - 1)"
      using True by (simp add: agree_step)
    with r True Suc.prems show ?thesis by auto
  next
    case False
    with Suc.prems show ?thesis by auto
  qed
qed

lemma flz_ext_run_agree:
  assumes "ref < ip" "bound \<le> length buf"
  shows "\<exists>r. flz_ext_run buf x ref ip bound = Some r \<and> ip \<le> r \<and> r \<le> max ip bound \<and>
    (ip < bound \<and> buf ! ref = x \<longrightarrow> ip < r) \<and> (\<forall>j. ip + j < r \<longrightarrow> buf ! (ref + j) = x)"
  using assms
proof (induction buf x ref ip bound rule: flz_ext_run.induct)
  case (1 buf x ref ip bound)
  show ?case
  proof (cases "ip < bound \<and> buf ! ref = x")
    case True
    with "1.IH" "1.prems" obtain r where r:
      "flz_ext_run buf x (ref + 1) (ip + 1) bound = Some r" "ip + 1 \<le> r" "r \<le> max (ip + 1) bound"
      "\<forall>j. ip + 1 + j < r \<longrightarrow> buf ! (ref + 1 + j) = x"
      by (auto simp: rd_eq_Some_iff)
    have "buf ! (ref + j) = x" if "ip + j < r" for j
      using True r(4) that by (cases j) auto
    with r True "1.prems" show ?thesis
      by (auto simp: flz_ext_run.simps [of buf x ref ip bound])
  next
    case False
    with "1.prems" show ?thesis by (auto simp: flz_ext_run.simps [of buf x ref ip bound])
  qed
qed

lemma readu16_inj:
  fixes a b c d :: u8
  assumes "(ucast a :: u32) OR push_bit 8 (ucast b) = ucast c OR push_bit 8 (ucast d)"
  shows "a = c" "b = d"
proof -
  have low: "(ucast ((ucast x :: u32) OR push_bit 8 (ucast y)) :: u8) = x" for x y :: u8
    by (rule bit_word_eqI) (auto simp: bit_simps)
  have high: "(ucast (drop_bit 8 ((ucast x :: u32) OR push_bit 8 (ucast y))) :: u8) = y" for x y :: u8
    by (rule bit_word_eqI) (auto simp: bit_simps dest: bit_imp_le_length)
  show "a = c" using low [of a b] low [of c d] assms by simp
  show "b = d" using high [of a b] high [of c d] assms by simp
qed

lemma flz_readu16_Some: "p + 1 < length buf \<Longrightarrow>
  flz_readu16 buf p = Some (ucast (buf ! p) OR push_bit 8 (ucast (buf ! (p + 1))))"
  by (simp add: flz_readu16_def)

lemma flz_hash_Some: "p + 2 < length buf \<Longrightarrow> \<exists>h. flz_hash buf p = Some h"
  by (simp add: flz_hash_def flz_readu16_Some)

lemma flz_run_check_agree:
  assumes "1 \<le> anchor" "anchor + 2 < length buf"
  shows "\<exists>r. flz_run_check lvl buf anchor = Some r \<and>
    (r \<longrightarrow> lvl = 2 \<and> agree buf (anchor - 1) anchor 3)"
proof -
  obtain a where a: "anchor = Suc a" using assms(1) by (cases anchor) auto
  have "agree buf a (Suc a) 3" if "buf ! Suc a = buf ! a"
    "(ucast (buf ! a) :: u32) OR push_bit 8 (ucast (buf ! Suc a)) =
      ucast (buf ! Suc (Suc a)) OR push_bit 8 (ucast (buf ! Suc (Suc (Suc a))))"
    using that(1) readu16_inj [OF that(2)] by (simp add: agree_Suc eval_nat_numeral)
  with assms show ?thesis
    by (auto simp: flz_run_check_def flz_readu16_Some a intro: exI [of _ False])
qed

text \<open>What a match returned by the search satisfies.\<close>

definition match_ok :: "nat \<Rightarrow> u8 list \<Rightarrow> nat \<Rightarrow> nat \<Rightarrow> nat \<Rightarrow> nat \<Rightarrow> bool" where
  "match_ok lvl buf anchor d ref len \<longleftrightarrow>
     1 \<le> d \<and> d \<le> anchor \<and> ref = anchor - d + len \<and> agree buf (anchor - d) anchor len \<and>
     (len = 3 \<or> lvl = 2 \<and> len = 5 \<and> 8191 \<le> d) \<and> (lvl = 2 \<and> 8191 \<le> d \<longrightarrow> len = 5) \<and> (if lvl = 1 then d < 8192 else d < 73725)"

lemma match_ok_far: "match_ok 2 buf anchor d ref len \<Longrightarrow> 8191 \<le> d \<Longrightarrow> len = 5"
  by (auto simp: match_ok_def)

lemma flz_find_ok:
  assumes "lvl = 1 \<or> lvl = 2" "1 \<le> anchor" "anchor + 12 < length buf" "\<forall>h. htab h \<le> anchor"
  shows "\<exists>m htab'. flz_find lvl buf anchor htab = Some (m, htab') \<and> (\<forall>h. htab' h \<le> anchor) \<and>
    (\<forall>d ref len. m = Some (d, ref, len) \<longrightarrow> match_ok lvl buf anchor d ref len)"
proof -
  obtain r where r: "flz_run_check lvl buf anchor = Some r"
    "r \<longrightarrow> lvl = 2 \<and> agree buf (anchor - 1) anchor 3"
    using flz_run_check_agree [of anchor buf lvl] assms by auto
  obtain h where h: "flz_hash buf anchor = Some h"
    using flz_hash_Some [of anchor buf] assms(3) by auto
  have le: "htab h \<le> anchor" using assms(4) by simp
  have cmp3: "flz_cmp buf 3 (htab h) anchor = Some (agree buf (htab h) anchor 3)"
    using assms(3) le by (subst flz_cmp_eq) (auto simp: agree_def)
  have cmp2: "flz_cmp buf 2 (htab h + 3) (anchor + 3) = Some (agree buf (htab h + 3) (anchor + 3) 2)"
    using assms(3) le by (subst flz_cmp_eq) (auto simp: agree_def)
  show ?thesis
  proof (cases r)
    case True
    with r assms show ?thesis by (simp add: flz_find_def match_ok_def)
  next
    case False
    have five: "agree buf (htab h) anchor 5 \<longleftrightarrow>
        agree buf (htab h) anchor 3 \<and> agree buf (htab h + 3) (anchor + 3) 2"
      using agree_add [of buf "htab h" anchor 3 2] by simp
    from False r(1) h cmp3 cmp2 le assms show ?thesis
      by (auto simp: flz_find_def match_ok_def Let_def five)
  qed
qed

text \<open>
  The extension stays inside the input: at level 1 it ends before \<open>ip_bound\<close>, at level 2 a
  five-byte far match followed by eight comparisons can end exactly behind the input.
\<close>

lemma flz_extend_ok:
  assumes "match_ok lvl buf anchor d ref len" "anchor + 12 < n" "n \<le> length buf"
  shows "\<exists>ip. flz_extend buf d ref (anchor + len) (n - 2) = Some ip \<and> anchor + len < ip \<and>
    ip \<le> (if lvl = 1 then n - 2 else n) \<and> agree buf (anchor - d) anchor (ip - anchor - 1)"
proof -
  note m = assms(1) [unfolded match_ok_def]
  have bnd: "n - 2 \<le> length buf" "anchor + 3 < n - 2" using assms(2,3) by simp_all
  show ?thesis
  proof (cases "d = 1")
    case True
    then have len: "len = 3" and ref: "ref = anchor + 2" using m by auto
    let ?x = "buf ! (anchor + 2)"
    obtain r where r: "flz_ext_run buf ?x (anchor + 2) (anchor + 3) (n - 2) = Some r"
      "anchor + 3 < r" "r \<le> n - 2" "\<forall>j. anchor + 3 + j < r \<longrightarrow> buf ! (anchor + 2 + j) = ?x"
      using flz_ext_run_agree [of "anchor + 2" "anchor + 3" "n - 2" buf ?x] bnd by auto
    have "buf ! (anchor + 2 + j) = buf ! (anchor + 3 + j)" if "j < r - anchor - 4" for j
      using r(4) [rule_format, of j] r(4) [rule_format, of "Suc j"] that
      by (simp add: eval_nat_numeral)
    then have "agree buf (anchor + 2) (anchor + 3) (r - anchor - 4)" by (simp add: agree_def)
    moreover have "3 + (r - anchor - 4) = r - anchor - 1" "anchor - 1 + 3 = anchor + 2"
      using r(2) m True by simp_all
    ultimately have "agree buf (anchor - 1) anchor (r - anchor - 1)"
      using agree_add [of buf "anchor - 1" anchor 3 "r - anchor - 4"] m True len by simp
    moreover have "rd buf (anchor + 2) = Some ?x" using assms by simp
    ultimately show ?thesis using r True len ref by (auto simp: flz_extend_def)
  next
    case False
    obtain r where r: "flz_ext buf 8 ref (anchor + len) (n - 2) = Some r" "anchor + len < r"
      "r \<le> max (anchor + len + 8) (n - 2)" "agree buf ref (anchor + len) (r - (anchor + len) - 1)"
      using flz_ext_agree [of ref "anchor + len" 8 buf "n - 2"] m assms bnd by auto
    have "len + (r - (anchor + len) - 1) = r - anchor - 1" using r(2) by simp
    then have "agree buf (anchor - d) anchor (r - anchor - 1)"
      using agree_add [of buf "anchor - d" anchor len "r - (anchor + len) - 1"] r(4) m by simp
    with r m False assms(2) show ?thesis by (auto simp: flz_extend_def)
  qed
qed

section \<open>The compressor emits tokens\<close>

text \<open>The tokens of one match: level 1 splits it into references of at most 264 bytes.\<close>

fun split1 :: "nat \<Rightarrow> nat \<Rightarrow> flz_tok list" where
  "split1 d len = (if len > 262 then Ref d 262 # split1 d (len - 262) else [Ref d (len + 2)])"

declare split1.simps [simp del]

definition match_toks :: "nat \<Rightarrow> nat \<Rightarrow> nat \<Rightarrow> flz_tok list" where
  "match_toks lvl d len = (if lvl = 2 then [Ref d (len + 2)] else split1 d len)"

lemma lz_expand_split1: "lz_expand out (split1 d len) = lz_copy out d (len + 2)"
proof (induction d len arbitrary: out rule: split1.induct)
  case (1 d len)
  show ?case
  proof (cases "262 < len")
    case True
    then have "lz_copy out d (len + 2) = lz_copy (lz_copy out d 262) d (len - 262 + 2)"
      using lz_copy_add [of out d 262 "len - 262 + 2"] by simp
    with True 1 show ?thesis by (simp add: split1.simps [of d len])
  qed (simp add: split1.simps [of d len])
qed

lemma enc_toks_split1: "1 \<le> d \<Longrightarrow> enc_toks 1 (split1 d len) = flz_match1 (d - 1) len"
proof (induction d len rule: split1.induct)
  case (1 d len)
  then show ?case
    by (cases "262 < len")
      (simp_all add: split1.simps [of d len] flz_match1.simps [of _ len] flz_match1.simps [of _ 260]
        flz_match_def)
qed

lemma toks_ok_split1:
  "1 \<le> len \<Longrightarrow> 1 \<le> d \<Longrightarrow> d \<le> 8192 \<Longrightarrow> d \<le> length out \<Longrightarrow> toks_ok 1 out (split1 d len)"
proof (induction d len arbitrary: out rule: split1.induct)
  case (1 d len)
  then show ?case by (cases "262 < len") (simp_all add: split1.simps [of d len])
qed

lemma match_toks_ok:
  assumes "lvl = 1 \<or> lvl = 2" "1 \<le> len" "1 \<le> d" "d \<le> length out"
    "if lvl = 1 then d < 8192 else d < 73725" "len + 2 < 2 ^ 32"
  shows "enc_toks lvl (match_toks lvl d len) = flz_match lvl (d - 1) len"
    and "toks_ok lvl out (match_toks lvl d len)"
    and "lz_expand out (match_toks lvl d len) = lz_copy out d (len + 2)"
  using assms
  by (auto simp: match_toks_def flz_match_def enc_toks_split1 [simplified] lz_expand_split1
      toks_ok_split1 [simplified])

definition lit_toks :: "u8 list \<Rightarrow> flz_tok list" where
  "lit_toks lits = (if lits = [] then [] else [Lit lits])"

text \<open>
  The invariant of the compressor: what has been written is the encoding of complete tokens
  followed by an open literal run with the placeholder control byte, and the tokens and the
  open run expand to the input consumed so far. The first token is a literal run, so the
  level can be stored in the upper bits of the first byte.
\<close>

definition starts_literal :: "flz_tok list \<Rightarrow> bool" where
  "starts_literal ts = (case ts of Lit _ # _ \<Rightarrow> True | _ \<Rightarrow> False)"

lemma starts_literal_append [simp]: "ts \<noteq> [] \<Longrightarrow> starts_literal (ts @ us) = starts_literal ts"
  by (cases ts) (simp_all add: starts_literal_def)

lemma starts_literal_simps [simp]:
  "\<not> starts_literal []" "starts_literal (Lit bs # ts)" "\<not> starts_literal (Ref d l # ts)"
  by (simp_all add: starts_literal_def)

definition comp_inv :: "nat \<Rightarrow> u8 list \<Rightarrow> nat \<Rightarrow> flz_state \<Rightarrow> bool" where
  "comp_inv lvl buf n s \<longleftrightarrow>
     1 \<le> fl_ip s \<and> fl_ip s \<le> n \<and> (\<forall>h. fl_htab s h \<le> fl_ip s) \<and> fl_copy s < 32 \<and>
     (\<exists>ts lits. fl_out s = enc_toks lvl ts @ flzuint8 31 # lits \<and> length lits = fl_copy s \<and>
        toks_ok lvl [] ts \<and> lz_expand [] ts @ lits = take (fl_ip s) buf \<and>
        starts_literal (ts @ lit_toks lits))"

lemma comp_invI:
  assumes "1 \<le> fl_ip s" "fl_ip s \<le> n" "\<forall>h. fl_htab s h \<le> fl_ip s" "fl_copy s < 32"
    "fl_out s = enc_toks lvl ts @ flzuint8 31 # lits" "length lits = fl_copy s"
    "toks_ok lvl [] ts" "lz_expand [] ts @ lits = take (fl_ip s) buf"
    "starts_literal (ts @ lit_toks lits)"
  shows "comp_inv lvl buf n s"
  using assms by (auto simp: comp_inv_def)

lemma flz_close_eq:
  "length lits = copy \<Longrightarrow>
   flz_close copy (enc_toks lvl ts @ flzuint8 31 # lits) = enc_toks lvl (ts @ lit_toks lits)"
  by (auto simp: flz_close_def lit_toks_def list_update_append butlast_append)

lemma comp_inv_put_literal:
  assumes "comp_inv lvl buf n s" "fl_ip s < n" "n \<le> length buf"
  shows "comp_inv lvl buf n (flz_put_literal (buf ! fl_ip s) s)"
proof -
  from assms(1) obtain ts lits where
    inv: "1 \<le> fl_ip s" "\<forall>h. fl_htab s h \<le> fl_ip s" "fl_copy s < 32" and
    out: "fl_out s = enc_toks lvl ts @ flzuint8 31 # lits" and len: "length lits = fl_copy s" and
    ok: "toks_ok lvl [] ts" and exp: "lz_expand [] ts @ lits = take (fl_ip s) buf" and
    st: "starts_literal (ts @ lit_toks lits)"
    by (auto simp: comp_inv_def)
  let ?c = "buf ! fl_ip s"
  have exp': "lz_expand [] ts @ lits @ [?c] = take (Suc (fl_ip s)) buf"
    using exp assms(2,3) by (simp add: take_Suc_conv_app_nth flip: append_assoc)
  have st': "starts_literal (ts @ [Lit (lits @ [?c])])"
    using st by (cases "ts = []") (auto simp: lit_toks_def split: if_splits)
  have htab: "\<forall>h. fl_htab s h \<le> Suc (fl_ip s)" using inv(2) le_SucI by blast
  show ?thesis
  proof (cases "fl_copy s + 1 = 32")
    case True
    then have l32: "length (lits @ [?c]) = 32" using len by simp
    show ?thesis
      by (rule comp_invI [where ts = "ts @ [Lit (lits @ [?c])]" and lits = "[]"])
        (use True inv st' exp' ok htab l32 assms(2) len in
          \<open>simp_all add: flz_put_literal_def lit_toks_def out\<close>)
  next
    case False
    with inv(3) have "fl_copy s + 1 < 32" by simp
    show ?thesis
      by (rule comp_invI [where ts = ts and lits = "lits @ [?c]"])
        (use False inv st' exp' ok htab assms(2) len \<open>fl_copy s + 1 < 32\<close> in
          \<open>simp_all add: flz_put_literal_def lit_toks_def out\<close>)
  qed
qed

text \<open>
  One iteration of the main loop reads inside the input (level 2: up to one byte behind it)
  and either copies a literal or emits one match of \<open>e + 2\<close> bytes.
\<close>

lemma flz_comp_step_shape:
  assumes "lvl = 1 \<or> lvl = 2" "1 \<le> fl_ip s" "\<forall>h. fl_htab s h \<le> fl_ip s" "fl_ip s + 12 < n"
    "(if lvl = 1 then n else n + 1) \<le> length buf"
  obtains (literal) htab where
      "flz_comp_step lvl buf n s = Some (flz_put_literal (buf ! fl_ip s) (s\<lparr>fl_htab := htab\<rparr>))"
      "\<forall>h. htab h \<le> fl_ip s"
  | (match) d e htab where
      "flz_comp_step lvl buf n s = Some \<lparr>fl_ip = fl_ip s + e + 2,
         fl_out = flz_close (fl_copy s) (fl_out s) @ flz_match lvl (d - 1) e @ [flzuint8 31],
         fl_copy = 0, fl_htab = htab\<rparr>"
      "\<forall>h. htab h \<le> fl_ip s + e + 2" "1 \<le> e" "fl_ip s + e + 3 \<le> n" "1 \<le> d" "d \<le> fl_ip s"
      "if lvl = 1 then d < 8192 else d < 73725" "8191 \<le> d \<Longrightarrow> lvl = 2 \<Longrightarrow> 3 \<le> e"
      "agree buf (fl_ip s - d) (fl_ip s) (e + 2)"
proof -
  let ?a = "fl_ip s"
  have n: "n \<le> length buf" "?a + 12 < length buf" using assms(4,5) by (simp_all split: if_splits)
  from flz_find_ok [OF assms(1,2) n(2) assms(3)] obtain m htab where
    find: "flz_find lvl buf ?a (fl_htab s) = Some (m, htab)" and ht: "\<forall>h. htab h \<le> ?a" and
    m: "\<forall>d ref len. m = Some (d, ref, len) \<longrightarrow> match_ok lvl buf ?a d ref len" by auto
  show thesis
  proof (cases m)
    case None
    with find assms(4) n literal [of htab] ht show thesis by (simp add: flz_comp_step_def)
  next
    case (Some t)
    obtain d ref l where t: "t = (d, ref, l)" by (cases t)
    with m Some have mok: "match_ok lvl buf ?a d ref l" by simp
    then have d: "1 \<le> d" "d \<le> ?a" "if lvl = 1 then d < 8192 else d < 73725" "3 \<le> l"
      by (auto simp: match_ok_def)
    obtain ip where ext: "flz_extend buf d ref (?a + l) (n - 2) = Some ip" and
      ip: "?a + l < ip" "ip \<le> (if lvl = 1 then n - 2 else n)" and
      ag: "agree buf (?a - d) ?a (ip - ?a - 1)"
      using flz_extend_ok [OF mok assms(4) n(1)] by blast
    then have ipn: "ip \<le> n" "ip < length buf" using assms(4,5) by (auto split: if_splits)
    define e where "e = ip - ?a - 3"
    then have e: "ip = ?a + e + 3" "1 \<le> e" using ip(1) d(4) by simp_all
    have "ip - 3 + 2 < length buf" "ip - 3 + 1 + 2 < length buf" using ipn ip(1) d(4) by linarith+
    from this [THEN flz_hash_Some] obtain h1 h2 where
      h: "flz_hash buf (ip - 3) = Some h1" "flz_hash buf (ip - 3 + 1) = Some h2" by blast
    show thesis
    proof (rule match)
      show "flz_comp_step lvl buf n s = Some \<lparr>fl_ip = ?a + e + 2,
          fl_out = flz_close (fl_copy s) (fl_out s) @ flz_match lvl (d - 1) e @ [flzuint8 31],
          fl_copy = 0, fl_htab = htab(h1 := ip - 3, h2 := ip - 3 + 1)\<rparr>"
        using Some t find ext h e by (simp add: flz_comp_step_def Let_def)
      show "\<forall>h. (htab(h1 := ip - 3, h2 := ip - 3 + 1)) h \<le> ?a + e + 2"
        using ht e by (auto intro: le_trans)
      show "agree buf (?a - d) ?a (e + 2)" using ag e by simp
      show "3 \<le> e" if "8191 \<le> d" "lvl = 2"
        using that ip(1) e mok by (auto dest: match_ok_far)
    qed (use e ipn d in simp_all)
  qed
qed

text \<open>Such a step keeps the invariant.\<close>

lemma comp_inv_step:
  assumes "lvl = 1 \<or> lvl = 2" "comp_inv lvl buf n s" "fl_ip s + 12 < n"
    "(if lvl = 1 then n else n + 1) \<le> length buf" "n < 2 ^ 31"
  shows "\<exists>s'. flz_comp_step lvl buf n s = Some s' \<and> comp_inv lvl buf n s'"
proof -
  let ?a = "fl_ip s"
  from assms(2) obtain ts lits where
    inv: "1 \<le> ?a" "\<forall>h. fl_htab s h \<le> ?a" and
    out: "fl_out s = enc_toks lvl ts @ flzuint8 31 # lits" and len: "length lits = fl_copy s" and
    l32: "fl_copy s < 32" and
    ok: "toks_ok lvl [] ts" and ex: "lz_expand [] ts @ lits = take ?a buf" and
    st: "starts_literal (ts @ lit_toks lits)"
    by (auto simp: comp_inv_def)
  have n: "n \<le> length buf" using assms(4) by (simp split: if_splits)
  show ?thesis
  proof (cases rule: flz_comp_step_shape [OF assms(1) inv assms(3,4)])
    case (1 htab)
    have "comp_inv lvl buf n (s\<lparr>fl_htab := htab\<rparr>)"
      using assms(2) 1(2) by (simp add: comp_inv_def)
    from comp_inv_put_literal [OF this] 1(1) assms(3) n show ?thesis by simp
  next
    case (2 d e htab)
    let ?ts = "ts @ lit_toks lits" and ?mt = "match_toks lvl d e"
    have ok': "toks_ok lvl [] ?ts"
      using ok l32 by (auto simp: lit_toks_def Suc_le_eq simp flip: len)
    have ex': "lz_expand [] ?ts = take ?a buf" using ex by (auto simp: lit_toks_def)
    have la: "length (take ?a buf) = ?a" using n assms(3) by simp
    have mt: "enc_toks lvl ?mt = flz_match lvl (d - 1) e" "toks_ok lvl (take ?a buf) ?mt"
      "lz_expand (take ?a buf) ?mt = lz_copy (take ?a buf) d (e + 2)"
      using match_toks_ok [OF assms(1) 2(3,5), of "take ?a buf"] 2(4,6,7) la assms(5) by auto
    have "lz_copy (take ?a buf) d (e + 2) = take (?a + (e + 2)) buf"
      using 2 n by (intro lz_copy_take) (auto simp: agree_def)
    with mt(3) ex' have ex2: "lz_expand [] (?ts @ ?mt) = take (?a + e + 2) buf"
      by (simp add: ac_simps)
    have "?ts \<noteq> []" using st starts_literal_simps(1) by metis
    then have st2: "starts_literal (?ts @ ?mt)" using st by (rule starts_literal_append [THEN iffD2])
    have tok2: "toks_ok lvl [] (?ts @ ?mt)" using ok' ex' mt(2) by simp
    show ?thesis
      unfolding 2(1)
      by (intro exI conjI, rule refl, rule comp_invI [where ts = "?ts @ ?mt" and lits = "[]"])
        (use 2 ex2 st2 tok2 mt(1) in \<open>simp_all add: out flz_close_eq [OF len] lit_toks_def\<close>)
  qed
qed

lemma comp_inv_loop:
  assumes "lvl = 1 \<or> lvl = 2" "comp_inv lvl buf n s"
    "(if lvl = 1 then n else n + 1) \<le> length buf" "n < 2 ^ 31"
  shows "\<exists>s'. flz_comp_loop lvl buf n s = Some s' \<and> comp_inv lvl buf n s'"
  using assms
proof (induction lvl buf n s rule: flz_comp_loop.induct)
  case (1 lvl buf n s)
  show ?case
  proof (cases "fl_ip s + 12 < n")
    case True
    from comp_inv_step [OF "1.prems"(1,2) True "1.prems"(3,4)] obtain s' where
      s': "flz_comp_step lvl buf n s = Some s'" "comp_inv lvl buf n s'" by blast
    from "1.IH" [OF True s'(1) "1.prems"(1) s'(2) "1.prems"(3,4)] True s'(1)
    show ?thesis by (simp add: flz_comp_loop.simps [of lvl buf n s])
  next
    case False
    with "1.prems"(2) show ?thesis by (simp add: flz_comp_loop.simps [of lvl buf n s])
  qed
qed

lemma comp_inv_tail:
  assumes "comp_inv lvl buf n s" "2 \<le> n" "n \<le> length buf"
  shows "\<exists>s'. flz_comp_tail buf n s = Some s' \<and> comp_inv lvl buf n s' \<and> fl_ip s' = n"
  using assms
proof (induction buf n s rule: flz_comp_tail.induct)
  case (1 buf n s)
  show ?case
  proof (cases "fl_ip s < n")
    case True
    then have le: "fl_ip s \<le> n - 2 + 1" using "1.prems"(2) by simp
    from True "1.prems" have rd: "rd buf (fl_ip s) = Some (buf ! fl_ip s)" by simp
    have "comp_inv lvl buf n (flz_put_literal (buf ! fl_ip s) s)"
      using "1.prems" True by (intro comp_inv_put_literal)
    from "1.IH" [OF le rd this "1.prems"(2,3)] le rd
    show ?thesis by (simp add: flz_comp_tail.simps [of buf n s])
  next
    case False
    then have "fl_ip s = n" using "1.prems"(1) by (simp add: comp_inv_def)
    moreover from this have "\<not> fl_ip s \<le> n - 2 + 1" using "1.prems"(2) by linarith
    ultimately show ?thesis using "1.prems"(1) by (simp add: flz_comp_tail.simps [of buf n s])
  qed
qed

text \<open>
  The compressor always succeeds, and its output is the encoding of tokens that expand to
  the input; at level 2 bit 5 of the first byte is set on top.
\<close>

definition flz_mark :: "nat \<Rightarrow> u8 list \<Rightarrow> u8 list" where
  "flz_mark lvl out = (if lvl = 2 then out[0 := out ! 0 OR 32] else out)"

lemma fastlz_compressor_tokens:
  assumes "lvl = 1 \<or> lvl = 2" "4 \<le> n" "(if lvl = 1 then n else n + 1) \<le> length buf" "n < 2 ^ 31"
  shows "\<exists>ts. fastlz_compressor lvl buf n = Some (flz_mark lvl (enc_toks lvl ts)) \<and>
    toks_ok lvl [] ts \<and> lz_expand [] ts = take n buf \<and> starts_literal ts"
proof -
  have n: "n \<le> length buf" using assms(3) by (simp split: if_splits)
  obtain a b rest where buf: "buf = a # b # rest"
    using n assms(2) by (cases buf; cases "tl buf") auto
  have "comp_inv lvl buf n (flz_init a b)"
    by (rule comp_invI [where ts = "[]" and lits = "[a, b]"])
      (use assms(2) in \<open>simp_all add: flz_init_def buf lit_toks_def eval_nat_numeral\<close>)
  from comp_inv_loop [OF assms(1) this assms(3,4)] obtain s where
    s: "flz_comp_loop lvl buf n (flz_init a b) = Some s" "comp_inv lvl buf n s" by blast
  from comp_inv_tail [OF s(2) _ n] assms(2) obtain s' where
    s': "flz_comp_tail buf n s = Some s'" "comp_inv lvl buf n s'" "fl_ip s' = n" by auto
  from s'(2,3) obtain ts lits where
    out: "fl_out s' = enc_toks lvl ts @ flzuint8 31 # lits" and len: "length lits = fl_copy s'" and
    l32: "fl_copy s' < 32" and ok: "toks_ok lvl [] ts" and
    ex: "lz_expand [] ts @ lits = take n buf" and st: "starts_literal (ts @ lit_toks lits)"
    by (auto simp: comp_inv_def)
  have "toks_ok lvl [] (ts @ lit_toks lits)"
    using ok l32 by (auto simp: lit_toks_def Suc_le_eq simp flip: len)
  moreover have "lz_expand [] (ts @ lit_toks lits) = take n buf"
    using ex by (auto simp: lit_toks_def)
  moreover have "fastlz_compressor lvl buf n = Some (flz_mark lvl (enc_toks lvl (ts @ lit_toks lits)))"
    using assms(2) s(1) s'(1)
    by (simp add: fastlz_compressor_def buf flz_mark_def Let_def out flz_close_eq [OF len])
  ultimately show ?thesis using st by blast
qed

section \<open>Round trip\<close>

text \<open>The control byte of a literal run survives the level marker.\<close>

lemma literal_byte_mask:
  assumes "k < 32"
  shows "flzuint8 k AND 31 = flzuint8 k" "(flzuint8 k OR 32) AND 31 = flzuint8 k"
    "drop_bit 5 (flzuint8 k) = 0" "drop_bit 5 (flzuint8 k OR 32) = 1"
proof -
  have "\<forall>k \<in> set [0..<32]. flzuint8 k AND 31 = flzuint8 k \<and> (flzuint8 k OR 32) AND 31 = flzuint8 k \<and>
      drop_bit 5 (flzuint8 k) = 0 \<and> drop_bit 5 (flzuint8 k OR 32) = 1"
    by (simp add: upt_rec flzuint8_def)
  with assms show "flzuint8 k AND 31 = flzuint8 k" "(flzuint8 k OR 32) AND 31 = flzuint8 k"
    "drop_bit 5 (flzuint8 k) = 0" "drop_bit 5 (flzuint8 k OR 32) = 1" by auto
qed

lemma fastlz_decompress_toks:
  assumes "lvl = 1 \<or> lvl = 2" "toks_ok lvl [] ts" "starts_literal ts"
    "length (lz_expand [] ts) \<le> maxout" "out = flz_mark lvl (enc_toks lvl ts)"
  shows "fastlz_decompress (out @ slack) (length out) maxout = Some (lz_expand [] ts)"
proof -
  obtain bs ts' where ts: "ts = Lit bs # ts'"
    using assms(3) by (auto simp: starts_literal_def split: list.splits flz_tok.splits)
  let ?k = "length bs - 1"
  have k: "?k < 32" using assms(2) ts by auto
  obtain c where out: "out = c # bs @ enc_toks lvl ts'" and
    c: "c AND 31 = flzuint8 ?k" "unat (drop_bit 5 c) + 1 = lvl"
    using assms(1) literal_byte_mask [OF k] by (auto simp: assms(5) flz_mark_def ts)
  have "flz_dec_loop lvl (out @ slack) (length out) maxout (unat (flzuint8 ?k)) (length [c]) [] =
      Some (lz_expand [] (Lit bs # ts'))"
    by (rule flz_dec_loop_toks [where slack = slack]) (use assms ts out in auto)
  then show ?thesis
    using assms(1) c ts by (auto simp: fastlz_decompress_def fastlz_decompressor_def out Let_def)
qed

text \<open>
  The payload of a \<open>zend_string\<close> is followed by its terminating NUL, so one byte behind the
  \<open>n\<close> input bytes may be read; \<open>n\<close> is an \<open>int\<close>. The decompressor does not depend on what
  lies behind its input (\<open>slack\<close>).
\<close>

theorem fastlz_compress_tokens:
  assumes "n < length buf" "n < 2 ^ 31" "0 < n"
  shows "\<exists>lvl ts. (lvl = 1 \<or> lvl = 2) \<and> fastlz_compress buf n = Some (flz_mark lvl (enc_toks lvl ts)) \<and>
    toks_ok lvl [] ts \<and> lz_expand [] ts = take n buf \<and> starts_literal ts"
proof (cases "n < 4")
  case True
  let ?ts = "[Lit (take n buf)]"
  have "fastlz_compress buf n = Some (flz_mark 1 (enc_toks 1 ?ts))"
    using True assms
    by (simp add: fastlz_compress_def fastlz_compressor_def rd_block_def flz_mark_def min_def)
  moreover have "toks_ok 1 [] ?ts" using True assms by simp
  ultimately show ?thesis by (intro exI [of _ 1] exI [of _ ?ts]) simp
next
  case False
  let ?lvl = "if n < 65536 then 1 else 2 :: nat"
  have "\<exists>ts. fastlz_compressor ?lvl buf n = Some (flz_mark ?lvl (enc_toks ?lvl ts)) \<and>
      toks_ok ?lvl [] ts \<and> lz_expand [] ts = take n buf \<and> starts_literal ts"
    by (rule fastlz_compressor_tokens) (use False assms in \<open>simp_all split: if_splits\<close>)
  moreover have "fastlz_compress buf n = fastlz_compressor ?lvl buf n"
    by (simp add: fastlz_compress_def)
  ultimately show ?thesis by (intro exI [of _ ?lvl]) (simp only:, simp)
qed

corollary fastlz_round_trip:
  assumes "n < length buf" "n < 2 ^ 31" "0 < n" "n \<le> maxout"
  shows "\<exists>out. fastlz_compress buf n = Some out \<and>
    fastlz_decompress (out @ slack) (length out) maxout = Some (take n buf)"
proof -
  from fastlz_compress_tokens [OF assms(1-3)] obtain lvl ts where
    *: "lvl = 1 \<or> lvl = 2" "fastlz_compress buf n = Some (flz_mark lvl (enc_toks lvl ts))"
    "toks_ok lvl [] ts" "lz_expand [] ts = take n buf" "starts_literal ts" by blast
  with fastlz_decompress_toks [OF *(1,3,5) _ refl, of maxout slack] assms(1,4) show ?thesis by simp
qed

end
