(* ===== verification/Fastlz_Bounds.thy ===== *)
theory Fastlz_Bounds
  imports Fastlz_Roundtrip
begin

text \<open>
  Memory bounds of the FastLZ codec. The states the compressor passes through form an
  inductive relation; in every one of them the bytes written so far fit into
  \<open>n + n div 32 + 1\<close> bytes. The decompressor never writes past \<open>maxout\<close>, but it does read
  behind its input: two bytes at level 1.
\<close>

section \<open>Output of the compressor\<close>

inductive comp_reach :: "nat \<Rightarrow> u8 list \<Rightarrow> nat \<Rightarrow> flz_state \<Rightarrow> bool"
  for lvl buf n where
  start: "rd buf 0 = Some a \<Longrightarrow> rd buf 1 = Some b \<Longrightarrow> comp_reach lvl buf n (flz_init a b)"
| loop: "comp_reach lvl buf n s \<Longrightarrow> fl_ip s + 12 < n \<Longrightarrow> flz_comp_step lvl buf n s = Some s' \<Longrightarrow>
    comp_reach lvl buf n s'"
| tail: "comp_reach lvl buf n s \<Longrightarrow> \<not> fl_ip s + 12 < n \<Longrightarrow> fl_ip s \<le> n - 2 + 1 \<Longrightarrow>
    rd buf (fl_ip s) = Some c \<Longrightarrow> comp_reach lvl buf n (flz_put_literal c s)"

text \<open>
  The invariant is a potential: 33 units per input byte, 32 per output byte, one kept back
  for each literal of the open run (whose control byte is already written).
\<close>

definition comp_fits :: "nat \<Rightarrow> flz_state \<Rightarrow> bool" where
  "comp_fits n s \<longleftrightarrow>
     1 \<le> fl_ip s \<and> fl_ip s \<le> n \<and> (\<forall>h. fl_htab s h \<le> fl_ip s) \<and> fl_copy s < 32 \<and>
     1 \<le> length (fl_out s) \<and> 32 * length (fl_out s) + fl_copy s \<le> 33 * fl_ip s + 32"

lemma length_flz_match1: "1 \<le> len \<Longrightarrow> 32 * length (flz_match1 d len) \<le> 33 * len + 31"
proof (induction d len rule: flz_match1.induct)
  case (1 d len)
  show ?case
  proof (cases "262 < len")
    case True
    then obtain k where k: "len = 262 + k" "1 \<le> k" by (metis less_imp_add_positive Suc_le_eq One_nat_def)
    with 1 show ?thesis by (simp add: flz_match1.simps [of d "262 + k"])
  next
    case False
    with 1 show ?thesis by (simp add: flz_match1.simps [of d len])
  qed
qed

lemma length_flz_len2: "255 * length (flz_len2 len) \<le> len + 255"
proof (induction len rule: flz_len2.induct)
  case (1 len)
  then show ?case by (cases "255 \<le> len") (simp_all add: flz_len2.simps [of len])
qed

lemma length_flz_match:
  assumes "1 \<le> e" "8191 \<le> d \<Longrightarrow> lvl = 2 \<Longrightarrow> 3 \<le> e"
  shows "32 * length (flz_match lvl d e) \<le> 33 * e + 35"
proof (cases "lvl = 2")
  case True
  have "255 * length (flz_len2 (e - 7)) \<le> (e - 7) + 255" by (rule length_flz_len2)
  with True assms show ?thesis by (auto simp: flz_match_def flz_match2_def Let_def)
next
  case False
  with length_flz_match1 [OF assms(1), of d] show ?thesis by (simp add: flz_match_def)
qed

lemma length_flz_close:
  "1 \<le> length out \<Longrightarrow> length (flz_close copy out) = (if copy = 0 then length out - 1 else length out)"
  by (simp add: flz_close_def)

lemma comp_fits_put_literal:
  "comp_fits n s \<Longrightarrow> fl_ip s < n \<Longrightarrow> comp_fits n (flz_put_literal c s)"
  by (auto simp: comp_fits_def flz_put_literal_def intro: le_SucI)

lemma comp_fits_step:
  assumes "lvl = 1 \<or> lvl = 2" "(if lvl = 1 then n else n + 1) \<le> length buf"
    "comp_fits n s" "fl_ip s + 12 < n" "flz_comp_step lvl buf n s = Some s'"
  shows "comp_fits n s'"
proof -
  note fits = assms(3) [unfolded comp_fits_def]
  show ?thesis
  proof (cases rule: flz_comp_step_shape [OF assms(1) _ _ assms(4,2)])
    case (3 htab)
    then have "comp_fits n (s\<lparr>fl_htab := htab\<rparr>)" using assms(3) by (simp add: comp_fits_def)
    with comp_fits_put_literal [of n "s\<lparr>fl_htab := htab\<rparr>"] 3 assms(4,5) show ?thesis by simp
  next
    case (4 d e htab)
    have "32 * length (flz_match lvl (d - 1) e) \<le> 33 * e + 35"
      by (rule length_flz_match) (use 4 in auto)
    moreover have "s' = \<lparr>fl_ip = fl_ip s + e + 2,
         fl_out = flz_close (fl_copy s) (fl_out s) @ flz_match lvl (d - 1) e @ [flzuint8 31],
         fl_copy = 0, fl_htab = htab\<rparr>" using 4(1) assms(5) by simp
    ultimately show ?thesis
      using 4 fits length_flz_close [of "fl_out s" "fl_copy s"]
      by (cases "fl_copy s = 0") (auto simp: comp_fits_def)
  qed (use fits in simp_all)
qed

lemma comp_reach_fits:
  assumes "lvl = 1 \<or> lvl = 2" "4 \<le> n" "(if lvl = 1 then n else n + 1) \<le> length buf"
    "comp_reach lvl buf n s"
  shows "comp_fits n s"
  using assms(4)
proof (induction rule: comp_reach.induct)
  case (start a b)
  with assms(2) show ?case by (simp add: comp_fits_def flz_init_def)
next
  case (loop s s')
  from assms(1,3) loop.IH loop.hyps(2,3) show ?case by (rule comp_fits_step)
next
  case (tail s c)
  then have "fl_ip s < n" using assms(2) by linarith
  with tail.IH show ?case by (rule comp_fits_put_literal)
qed

text \<open>Every byte the compressor writes fits into \<open>n + n div 32 + 1\<close> bytes of output.\<close>

theorem comp_reach_bound:
  assumes "lvl = 1 \<or> lvl = 2" "4 \<le> n" "(if lvl = 1 then n else n + 1) \<le> length buf"
    "comp_reach lvl buf n s"
  shows "length (fl_out s) \<le> n + n div 32 + 1"
proof -
  have "comp_fits n s" using assms by (rule comp_reach_fits)
  then have "32 * length (fl_out s) \<le> 33 * n + 32" by (auto simp: comp_fits_def)
  then show ?thesis by linarith
qed

text \<open>In particular the finished output does, and it is not empty.\<close>

lemma comp_reach_loop:
  "comp_reach lvl buf n s \<Longrightarrow> flz_comp_loop lvl buf n s = Some s' \<Longrightarrow>
     comp_reach lvl buf n s' \<and> \<not> fl_ip s' + 12 < n"
proof (induction lvl buf n s rule: flz_comp_loop.induct)
  case (1 lvl buf n s)
  show ?case
  proof (cases "fl_ip s + 12 < n")
    case True
    with "1.prems"(2) obtain t where
      t: "flz_comp_step lvl buf n s = Some t" "flz_comp_loop lvl buf n t = Some s'"
      by (auto simp: flz_comp_loop.simps [of lvl buf n s] split: option.splits)
    from "1.IH" [OF True t(1) _ t(2)] comp_reach.loop [OF "1.prems"(1) True t(1)] show ?thesis by simp
  next
    case False
    with "1.prems" show ?thesis by (simp add: flz_comp_loop.simps [of lvl buf n s])
  qed
qed

lemma comp_reach_tail:
  "comp_reach lvl buf n s \<Longrightarrow> \<not> fl_ip s + 12 < n \<Longrightarrow> flz_comp_tail buf n s = Some s' \<Longrightarrow>
     comp_reach lvl buf n s'"
proof (induction buf n s rule: flz_comp_tail.induct)
  case (1 buf n s)
  show ?case
  proof (cases "fl_ip s \<le> n - 2 + 1")
    case True
    with "1.prems"(3) obtain c where
      c: "rd buf (fl_ip s) = Some c" "flz_comp_tail buf n (flz_put_literal c s) = Some s'"
      by (auto simp: flz_comp_tail.simps [of buf n s] split: bind_splits)
    have "\<not> fl_ip (flz_put_literal c s) + 12 < n" using "1.prems"(2) by simp
    from "1.IH" [OF True c(1) comp_reach.tail [OF "1.prems"(1,2) True c(1)] this c(2)] show ?thesis .
  next
    case False
    with "1.prems" show ?thesis by (simp add: flz_comp_tail.simps [of buf n s])
  qed
qed

lemma fastlz_compressor_length:
  assumes "lvl = 1 \<or> lvl = 2" "4 \<le> n" "(if lvl = 1 then n else n + 1) \<le> length buf"
    "fastlz_compressor lvl buf n = Some out"
  shows "length out \<le> n + n div 32 + 1"
proof -
  from assms(2,4) obtain a b s t where s: "rd buf 0 = Some a" "rd buf 1 = Some b"
    "flz_comp_loop lvl buf n (flz_init a b) = Some s" "flz_comp_tail buf n s = Some t"
    "length out = length (flz_close (fl_copy t) (fl_out t))"
    by (auto simp: fastlz_compressor_def Let_def split: bind_splits if_splits)
  from comp_reach_loop [OF comp_reach.start [OF s(1,2)] s(3)] comp_reach_tail s(4)
  have "comp_reach lvl buf n t" by blast
  from comp_reach_bound [OF assms(1-3) this] s(5) show ?thesis
    by (auto simp: flz_close_def)
qed

lemma fastlz_compress_length:
  assumes "n < length buf" "fastlz_compress buf n = Some out"
  shows "length out \<le> n + n div 32 + 1"
proof (cases "n < 4")
  case True
  with assms show ?thesis
    by (auto simp: fastlz_compress_def fastlz_compressor_def rd_block_def split: if_splits bind_splits)
next
  case False
  with assms fastlz_compressor_length [of 1 n buf out] fastlz_compressor_length [of 2 n buf out]
  show ?thesis by (auto simp: fastlz_compress_def split: if_splits)
qed

section \<open>Reads of the decompressor\<close>

lemma flz_copy_total: "ref < length out \<Longrightarrow> \<exists>out'. flz_copy out ref k = Some out'"
  by (induction k arbitrary: out ref) auto

lemma flz_run_total: "ref < length out \<Longrightarrow> \<exists>out'. flz_run out ref k = Some out'"
  by (simp add: flz_run_def)

lemma flz_read_len2_total:
  assumes "ip \<le> n" "n < length buf" "buf ! n \<noteq> 255"
  shows "\<exists>ip' len'. flz_read_len2 buf ip len = Some (ip', len') \<and> ip' \<le> n + 1"
  using assms
proof (induction buf ip len rule: flz_read_len2.induct)
  case (1 buf ip len)
  show ?case
  proof (cases "buf ! ip = 255")
    case True
    then have "ip < n" using "1.prems" by (cases "ip = n") auto
    with "1.IH" [of 255 "(len + unat (255 :: u8)) mod 2 ^ 32"] "1.prems" True show ?thesis
      by (simp add: flz_read_len2.simps [of buf ip len] Let_def)
  next
    case False
    with "1.prems" show ?thesis by (simp add: flz_read_len2.simps [of buf ip len] Let_def)
  qed
qed

lemma flz_operands_total:
  assumes "lvl = 1 \<or> lvl = 2" "ip \<le> n" "n + 4 \<le> length buf" "buf ! n \<noteq> 255"
  shows "\<exists>t. flz_operands lvl buf ctrl ip op = Some t"
  using flz_read_len2_total [of ip n buf "ctrl div 32 - 1"] assms
  by (auto simp: flz_operands_def Let_def)

lemma flz_operands_ref_le: "flz_operands lvl buf ctrl ip op = Some (ip', len, ref) \<Longrightarrow> ref \<le> int op"
  by (auto simp: flz_operands_def Let_def simp del: of_nat_unat split: if_splits bind_splits)

lemma flz_dec_step_total:
  assumes "lvl = 1 \<or> lvl = 2" "ip \<le> n" "n + 4 \<le> length buf" "buf ! n \<noteq> 255"
  shows "flz_dec_step lvl buf n maxout ctrl ip out \<noteq> D_fault"
proof -
  have next_ok: "flz_next buf n i o' \<noteq> D_fault" for i o'
    using assms(3) by (simp add: flz_next_def)
  show ?thesis
  proof (cases "32 \<le> ctrl")
    case True
    obtain ip' len ref where opd:
      "flz_operands lvl buf ctrl ip (length out) = Some (ip', len, ref)" "ref \<le> int (length out)"
      using flz_operands_total [OF assms] flz_operands_ref_le by (metis surj_pair)
    have "nat (ref - 1) < length out" if "\<not> ref - 1 < 0" using that opd(2) by simp
    from this [THEN flz_copy_total] this [THEN flz_run_total] True opd(1) next_ok show ?thesis
      by (auto simp: flz_dec_step_def Let_def split: option.splits) (metis option.distinct(1))+
  next
    case False
    with next_ok assms(3) show ?thesis
      by (simp add: flz_dec_step_def Let_def rd_block_def)
  qed
qed

lemma flz_dec_loop_total:
  assumes "lvl = 1 \<or> lvl = 2" "ip \<le> n" "n + 4 \<le> length buf" "buf ! n \<noteq> 255"
  shows "\<exists>res. flz_dec_loop lvl buf n maxout ctrl ip out = Some res"
  using assms
proof (induction lvl buf n maxout ctrl ip out rule: flz_dec_loop.induct)
  case (1 lvl buf n maxout ctrl ip out)
  show ?case
  proof (cases "flz_dec_step lvl buf n maxout ctrl ip out")
    case D_fault
    with flz_dec_step_total [OF "1.prems"] show ?thesis by simp
  next
    case (D_next c i out')
    then have "i \<le> n" using flz_dec_step_advances by blast
    with "1.IH" [OF D_next] "1.prems" D_next show ?thesis
      by (simp add: flz_dec_loop.simps [of lvl buf n maxout ctrl])
  qed (simp_all add: flz_dec_loop.simps [of lvl buf n maxout ctrl])
qed

text \<open>
  On any input the decompressor stays inside four bytes behind the input, the first of them
  not 255, and inside \<open>maxout\<close> bytes of output.
\<close>

theorem fastlz_decompress_safe:
  assumes "0 < n" "n + 4 \<le> length buf" "buf ! n \<noteq> 255"
  shows "\<exists>out. fastlz_decompress buf n maxout = Some out \<and> length out \<le> maxout"
proof -
  have one: "1 \<le> n" using assms(1) by simp
  note total = flz_dec_loop_total [OF _ one assms(2,3)]
  have rd0: "rd buf 0 = Some (buf ! 0)" by (rule rd_Some) (use assms(2) in linarith)
  have "\<exists>out. fastlz_decompress buf n maxout = Some out"
    using total [of 1 maxout "unat (buf ! 0 AND 31)" "[]"] total [of 2 maxout "unat (buf ! 0 AND 31)" "[]"]
    by (auto simp: fastlz_decompress_def fastlz_decompressor_def rd0 Let_def)
  moreover have "length out \<le> maxout" if "fastlz_decompress buf n maxout = Some out" for out
    using that
    by (auto simp: fastlz_decompress_def Let_def dest: fastlz_decompressor_bound
        split: if_splits bind_splits)
  ultimately show ?thesis by blast
qed

text \<open>Without slack the checks of \<open>FASTLZ_SAFE\<close> do not stop reads behind the input.\<close>

section \<open>Properties\<close>

text \<open>C2: FastLZ is lossless. Whatever non-empty input of less than 2 GiB is compressed, the
  compressor returns, and the decompressor, given the bytes it returned and room for at least
  the original length, gives the input back, whatever memory lies behind those bytes.\<close>

theorem fastlz_lossless:
  assumes "0 < n" "n < length buf" "n < 2 ^ 31" "n \<le> maxout"
  shows "\<exists>out. fastlz_compress buf n = Some out \<and>
    fastlz_decompress (out @ slack) (length out) maxout = Some (take n buf)"
  using assms(2,3,1,4) by (rule fastlz_round_trip)

theorem fastlz_lossless_witness:
  "\<exists>out. fastlz_compress (replicate 40 97 @ [0]) 40 = Some out \<and>
     fastlz_decompress (out @ [255]) (length out) 64 = Some (replicate 40 97)"
  using fastlz_lossless [of 40 "replicate 40 97 @ [0]" 64 "[255]"] by simp

text \<open>A match that the decompressor finds cut off by the end of its input makes it read
  behind the input (here one byte of match length is missing), although every write is checked:
  \<open>FASTLZ_SAFE\<close> does not guard these reads.\<close>

theorem fastlz_truncated_overread:
  "fastlz_decompress [0, 97, 224] 3 100 = None \<and>
   fastlz_decompress [0, 97, 224, 0, 0] 3 100 = Some (replicate 10 97)"
  by code_simp



end
