(* ===== verification/Compression.thy ===== *)
theory Compression
  imports Sample Fastlz_Bounds
begin

text \<open>
  Compression of payloads (\<open>s_compress_value\<close>, \<open>s_decompress_value\<close>): a compressed payload is
  the 32-bit length of the original, then the codec's bytes. The result \<open>None\<close> is an access
  outside the memory the code owns (or a length that C's \<open>int\<close> does not hold). FastLZ is the
  model of \<open>fastlz.c\<close>, zlib and zstd are parameters that satisfy the \<open>payload_codec\<close> interface.
\<close>

section \<open>The length prefix\<close>

text \<open>\<open>memcpy\<close> of a \<open>uint32_t\<close>, little-endian.\<close>

definition u32_bytes :: "u32 \<Rightarrow> string" where
  "u32_bytes w = map (\<lambda>i. char_of_u8 (ucast (drop_bit (8 * i) w))) [0, 1, 2, 3]"

definition u32_of_bytes :: "string \<Rightarrow> u32" where
  "u32_of_bytes bs = fold (OR) (map (\<lambda>i. push_bit (8 * i) (ucast (flzuint8_of (bs ! i)))) [0, 1, 2, 3]) 0"

section \<open>s_compress_value\<close>

text \<open>\<open>(size_t) (((double) n * 1.05) + 1.0)\<close>\<close>

definition compress_buffer_size :: "nat \<Rightarrow> nat" where
  "compress_buffer_size n = n * 21 div 20 + 1"

text \<open>The bytes of a zend_string as the codec sees them, terminating NUL included.\<close>

definition str_bytes :: "string \<Rightarrow> u8 list" where "str_bytes s = map flzuint8_of s"

text \<open>
  The \<open>switch\<close>: the codec's bytes and the flag of its type. \<open>Some None\<close>: \<open>compress_status\<close> 0.
  A write behind the buffer is an access outside it.
\<close>

definition compress_fastlz :: "string \<Rightarrow> nat \<Rightarrow> string option option" where
  "compress_fastlz payload buffer_size =
     (if length payload \<ge> 2 ^ 31 then None
      else do {
        out \<leftarrow> fastlz_compress (str_bytes payload @ [0]) (length payload);
        if length out > buffer_size then None
        else Some (if length out > 0 then Some (map char_of_u8 out) else None)
      })"

definition compress_zstd :: "codecs \<Rightarrow> zend_long \<Rightarrow> string \<Rightarrow> nat \<Rightarrow> string option" where
  "compress_zstd C compression_level payload buffer_size =
     (case c_zstd_compress C payload buffer_size (sint (ucast compression_level :: u32)) of
        Inl _ \<Rightarrow> None | Inr bytes \<Rightarrow> Some bytes)"

definition compress_zlib :: "codecs \<Rightarrow> zend_long \<Rightarrow> string \<Rightarrow> nat \<Rightarrow> string option" where
  "compress_zlib C compression_level payload buffer_size =
     c_compress2 C (max 0 (min 9 (sint compression_level))) payload buffer_size"

definition compress_switch ::
  "('m, 'd) env \<Rightarrow> u32 \<Rightarrow> zend_long \<Rightarrow> string \<Rightarrow> nat \<Rightarrow> (string \<times> u32) option option" where
  "compress_switch E compression_type compression_level payload buffer_size =
     (if compression_type = COMPRESSION_TYPE_FASTLZ then
        map_option (map_option (\<lambda>b. (b, MEMC_VAL_COMPRESSION_FASTLZ)))
          (compress_fastlz payload buffer_size)
      else if compression_type = COMPRESSION_TYPE_ZSTD \<and> HAVE_ZSTD_H (cfg E) then
        Some (map_option (\<lambda>b. (b, MEMC_VAL_COMPRESSION_ZSTD))
          (compress_zstd (codec_lib E) compression_level payload buffer_size))
      else if compression_type = COMPRESSION_TYPE_ZLIB then
        Some (map_option (\<lambda>b. (b, MEMC_VAL_COMPRESSION_ZLIB))
          (compress_zlib (codec_lib E) compression_level payload buffer_size))
      else Some None)"

text \<open>Whether the payload was replaced, the payload, the flags.\<close>

definition s_compress_value ::
  "('m, 'd) env \<Rightarrow> u32 \<Rightarrow> zend_long \<Rightarrow> string \<Rightarrow> u32 \<Rightarrow> (bool \<times> string \<times> u32) option" where
  "s_compress_value E compression_type compression_level payload flags = do {
     r \<leftarrow> compress_switch E compression_type compression_level payload
            (compress_buffer_size (length payload));
     Some (case r of
       None \<Rightarrow> (False, payload, flags)
     | Some (bytes, type_flag) \<Rightarrow>
         if of_nat (length payload) \<le> of_nat (length bytes) * G_compression_factor (globals E)
         then (False, payload, flags)
         else (True, u32_bytes (of_nat (length payload)) @ bytes,
               MEMC_VAL_SET_FLAG flags (MEMC_VAL_COMPRESSED OR type_flag)))
   }"

section \<open>s_decompress_value\<close>

definition zend_string_alloc :: "'d zend \<Rightarrow> nat \<Rightarrow> string" where
  "zend_string_alloc Z n = map (z_heap Z) [0..<n]"

text \<open>\<open>out\<close> written over the start of a fresh buffer of \<open>n\<close> bytes.\<close>

definition written_over :: "'d zend \<Rightarrow> string \<Rightarrow> nat \<Rightarrow> string" where
  "written_over Z out n = out @ drop (length out) (zend_string_alloc Z n)"

text \<open>
  \<open>bytes\<close> is the payload behind its length prefix, \<open>slack\<close> the memory behind that.
  A stored length of \<open>2 ^ 31\<close> or more is a negative \<open>maxout\<close>, which like 0 lets no byte pass.
\<close>

definition decompress_fastlz :: "string \<Rightarrow> string \<Rightarrow> nat \<Rightarrow> string option option" where
  "decompress_fastlz bytes slack stored_length =
     (if length bytes \<ge> 2 ^ 31 then None
      else do {
        out \<leftarrow> fastlz_decompress (str_bytes (bytes @ slack)) (length bytes)
                 (if stored_length < 2 ^ 31 then stored_length else 0);
        Some (if length out > 0 then Some (map char_of_u8 out) else None)
      })"

definition decompress_zstd :: "codecs \<Rightarrow> string \<Rightarrow> nat \<Rightarrow> string option" where
  "decompress_zstd C bytes stored_length =
     (case c_zstd_frame_size C bytes of
        ZSTD_CONTENTSIZE_ERROR \<Rightarrow> None
      | ZSTD_CONTENTSIZE_UNKNOWN \<Rightarrow> None
      | ZSTD_size _ \<Rightarrow>
          (case c_zstd_decompress C bytes stored_length of Inl _ \<Rightarrow> None | Inr out \<Rightarrow> Some out))"

text \<open>\<open>Some None\<close> is the NULL returned for a payload that cannot be decompressed.\<close>

definition s_decompress_value ::
  "('m, 'd) env \<Rightarrow> string \<Rightarrow> string \<Rightarrow> u32 \<Rightarrow> string option option" where
  "s_decompress_value E payload slack flags =
     (if length payload < 4 then Some None
      else
        let is_fastlz = MEMC_VAL_HAS_FLAG flags MEMC_VAL_COMPRESSION_FASTLZ;
            is_zstd = MEMC_VAL_HAS_FLAG flags MEMC_VAL_COMPRESSION_ZSTD;
            is_zlib = MEMC_VAL_HAS_FLAG flags MEMC_VAL_COMPRESSION_ZLIB;
            stored_length = unat (u32_of_bytes payload);
            bytes = drop 4 payload
        in if is_zstd \<and> \<not> HAVE_ZSTD_H (cfg E) then Some None
           else if is_zstd then
             Some (map_option (\<lambda>out. written_over (zend E) out stored_length)
               (decompress_zstd (codec_lib E) bytes stored_length))
           else if is_fastlz then
             map_option (map_option (\<lambda>out. written_over (zend E) out stored_length))
               (decompress_fastlz bytes slack stored_length)
           else if is_zlib then
             Some (c_uncompress (codec_lib E) bytes stored_length)
           else Some None)"

section \<open>Facts\<close>

lemma length_u32_bytes [simp]: "length (u32_bytes w) = 4"
  by (simp add: u32_bytes_def)

lemma u32_of_bytes_u32_bytes [simp]: "u32_of_bytes (u32_bytes w @ rest) = w"
proof (rule bit_word_eqI)
  fix n
  assume "n < LENGTH(32)"
  then show "bit (u32_of_bytes (u32_bytes w @ rest)) n = bit w n"
    by (cases "n < 8"; cases "n < 16"; cases "n < 24")
      (auto simp: u32_of_bytes_def u32_bytes_def bit_simps)
qed

lemma drop_u32_bytes [simp]: "drop 4 (u32_bytes w @ rest) = rest"
  by simp

lemma length_str_bytes [simp]: "length (str_bytes s) = length s"
  by (simp add: str_bytes_def)

lemma map_char_of_str_bytes [simp]: "map char_of_u8 (str_bytes s) = s"
  by (simp add: str_bytes_def)

lemma str_bytes_map_char [simp]: "str_bytes (map char_of_u8 bs) = bs"
  by (simp add: str_bytes_def comp_def)

lemma str_bytes_append [simp]: "str_bytes (s @ t) = str_bytes s @ str_bytes t"
  by (simp add: str_bytes_def)

lemma length_zend_string_alloc [simp]: "length (zend_string_alloc Z n) = n"
  by (simp add: zend_string_alloc_def)

lemma length_written_over [simp]: "length out \<le> n \<Longrightarrow> length (written_over Z out n) = n"
  by (simp add: written_over_def)

lemma written_over_full: "length out = n \<Longrightarrow> written_over Z out n = out"
  by (simp add: written_over_def)

section \<open>The interface of a codec\<close>

text \<open>
  What the two functions rely on: what \<open>comp\<close> produced for a non-empty payload \<open>p\<close> of up to
  1 GiB (the largest item a server takes), \<open>decomp\<close> turns back into \<open>p\<close> when it is given the
  length of \<open>p\<close>.
\<close>

locale payload_codec =
  fixes comp :: "string \<Rightarrow> nat \<Rightarrow> string option" and decomp :: "string \<Rightarrow> nat \<Rightarrow> string option"
  assumes decomp_comp: "comp p len = Some b \<Longrightarrow> p \<noteq> [] \<Longrightarrow> length p \<le> 2 ^ 30 \<Longrightarrow>
    decomp b (length p) = Some p"
begin

lemma framed:
  assumes "comp p len = Some b" "p \<noteq> []" "length p \<le> 2 ^ 30"
  shows "decomp (drop 4 (u32_bytes (of_nat (length p)) @ b))
    (unat (u32_of_bytes (u32_bytes (of_nat (length p)) @ b))) = Some p"
proof -
  have "unat (of_nat (length p) :: u32) = length p"
    by (rule unat_of_nat_small) (use assms(3) in simp)
  with decomp_comp [OF assms] show ?thesis by simp
qed

lemma comp_inj:
  assumes "comp p len = Some b" "comp q len' = Some b" "p \<noteq> []" "q \<noteq> []" "length p = length q"
    "length q \<le> 2 ^ 30"
  shows "p = q"
  using decomp_comp assms by (metis option.inject)

end

text \<open>FastLZ of \<open>fastlz.c\<close> is one, whatever memory lies behind the payload.\<close>

definition fastlz_comp :: "string \<Rightarrow> nat \<Rightarrow> string option" where
  "fastlz_comp p len = (case compress_fastlz p len of Some (Some b) \<Rightarrow> Some b | _ \<Rightarrow> None)"

definition fastlz_decomp :: "string \<Rightarrow> string \<Rightarrow> nat \<Rightarrow> string option" where
  "fastlz_decomp slack b len =
     (case decompress_fastlz b slack len of Some (Some p) \<Rightarrow> Some p | _ \<Rightarrow> None)"

lemma compress_buffer_size_ge: "n + n div 32 + 1 \<le> compress_buffer_size n"
  unfolding compress_buffer_size_def by linarith

lemma compress_fastlz_ok:
  assumes "p \<noteq> []" "length p < 2 ^ 31"
  obtains out where "fastlz_compress (str_bytes p @ [0]) (length p) = Some out"
    "compress_fastlz p (compress_buffer_size (length p)) = Some (Some (map char_of_u8 out))"
proof -
  have n: "length p < length (str_bytes p @ [0])" "0 < length p" using assms by simp_all
  from fastlz_round_trip [OF n(1) assms(2) n(2) order.refl, of "[]"] obtain out where
    out: "fastlz_compress (str_bytes p @ [0]) (length p) = Some out"
    "fastlz_decompress out (length out) (length p) = Some (take (length p) (str_bytes p @ [0]))" by auto
  have "out \<noteq> []" using out(2) by (auto simp: fastlz_decompress_def rd_def)
  moreover have "length out \<le> compress_buffer_size (length p)"
    using fastlz_compress_length [OF n(1) out(1)] compress_buffer_size_ge [of "length p"] by linarith
  ultimately show thesis using that assms out(1) by (simp add: compress_fastlz_def)
qed

lemma compress_fastlz_Some:
  assumes "compress_fastlz p len = Some (Some b)"
  shows "fastlz_compress (str_bytes p @ [0]) (length p) = Some (str_bytes b)" "length p < 2 ^ 31"
  using assms by (auto simp: compress_fastlz_def split: if_splits bind_splits)

lemma decompress_fastlz_compress:
  assumes "compress_fastlz p len = Some (Some b)" "p \<noteq> []" "length b < 2 ^ 31"
  shows "decompress_fastlz b slack (length p) = Some (Some p)"
proof -
  note c = compress_fastlz_Some [OF assms(1)]
  have n: "length p < length (str_bytes p @ [0])" "0 < length p" using assms(2) by simp_all
  from fastlz_round_trip [OF n(1) c(2) n(2) order.refl, of "str_bytes slack"] c(1) have
    "fastlz_decompress (str_bytes b @ str_bytes slack) (length b) (length p) = Some (str_bytes p)" by simp
  moreover have "str_bytes p \<noteq> []" using assms(2) by (simp add: str_bytes_def)
  ultimately show ?thesis using assms(3) c(2) by (simp add: decompress_fastlz_def)
qed

interpretation fastlz_codec: payload_codec fastlz_comp "fastlz_decomp slack"
proof
  fix p len b
  assume *: "fastlz_comp p len = Some b" "p \<noteq> []" "length p \<le> 2 ^ 30"
  then have c: "compress_fastlz p len = Some (Some b)"
    by (auto simp: fastlz_comp_def split: option.splits)
  have "length (str_bytes b) \<le> length p + length p div 32 + 1"
    by (rule fastlz_compress_length [OF _ compress_fastlz_Some(1) [OF c]]) simp
  then have "length b < 2 ^ 31" using *(3) by simp
  from decompress_fastlz_compress [OF c *(2) this]
  show "fastlz_decomp slack b (length p) = Some p" by (simp add: fastlz_decomp_def)
qed

section \<open>Compression and decompression together\<close>

lemma compressed_flags:
  assumes "MEMC_VAL_GET_FLAGS flags = 0" "t = 2 \<or> t = 4 \<or> t = 8" "x = 1 \<or> x = 2 \<or> x = 4 \<or> x = 8"
  shows "MEMC_VAL_HAS_FLAG (MEMC_VAL_SET_FLAG flags (MEMC_VAL_COMPRESSED OR t)) x \<longleftrightarrow> x = 1 \<or> x = t"
proof -
  have "MEMC_VAL_GET_FLAGS (MEMC_VAL_SET_FLAG flags (1 OR t)) = 1 OR t"
    using assms(1) by (rule internal_field.get_set_fresh) (use assms(2) in \<open>auto simp: mask_eq_exp_minus_1\<close>)
  then show ?thesis using assms(2,3) by (auto simp: MEMC_VAL_HAS_FLAG_def)
qed

lemma compress_switch_cases:
  assumes "compress_switch E ty lvl p n = Some (Some (b, t))"
  obtains (fastlz) "t = MEMC_VAL_COMPRESSION_FASTLZ" "compress_fastlz p n = Some (Some b)"
    | (zstd) "t = MEMC_VAL_COMPRESSION_ZSTD" "HAVE_ZSTD_H (cfg E)"
        "compress_zstd (codec_lib E) lvl p n = Some b"
    | (zlib) "t = MEMC_VAL_COMPRESSION_ZLIB" "compress_zlib (codec_lib E) lvl p n = Some b"
  using assms by (auto simp: compress_switch_def split: if_splits)

lemma s_compress_value_replaced:
  assumes "s_compress_value E ty lvl p flags = Some (True, p', flags')"
  obtains b t where "compress_switch E ty lvl p (compress_buffer_size (length p)) = Some (Some (b, t))"
    "p' = u32_bytes (of_nat (length p)) @ b"
    "flags' = MEMC_VAL_SET_FLAG flags (MEMC_VAL_COMPRESSED OR t)"
    "of_nat (length b) * G_compression_factor (globals E) < of_nat (length p)"
  using assms by (auto simp: s_compress_value_def split: bind_splits option.splits if_splits)

lemma s_compress_value_kept:
  "s_compress_value E ty lvl p flags = Some (False, p', flags') \<Longrightarrow> p' = p \<and> flags' = flags"
  by (auto simp: s_compress_value_def split: bind_splits option.splits if_splits)

lemma s_decompress_value_framed:
  assumes "length p \<le> 2 ^ 30"
  shows "s_decompress_value E (u32_bytes (of_nat (length p)) @ b) slack flags =
     (if MEMC_VAL_HAS_FLAG flags MEMC_VAL_COMPRESSION_ZSTD then
        if HAVE_ZSTD_H (cfg E)
        then Some (map_option (\<lambda>out. written_over (zend E) out (length p))
               (decompress_zstd (codec_lib E) b (length p)))
        else Some None
      else if MEMC_VAL_HAS_FLAG flags MEMC_VAL_COMPRESSION_FASTLZ then
        map_option (map_option (\<lambda>out. written_over (zend E) out (length p)))
          (decompress_fastlz b slack (length p))
      else if MEMC_VAL_HAS_FLAG flags MEMC_VAL_COMPRESSION_ZLIB then
        Some (c_uncompress (codec_lib E) b (length p))
      else Some None)"
proof -
  have "unat (of_nat (length p) :: u32) = length p"
    by (rule unat_of_nat_small) (use assms in simp)
  then show ?thesis by (simp add: s_decompress_value_def Let_def del: drop_append)
qed

text \<open>The laws of zlib and zstd that the round trip needs, for one level.\<close>

definition codecs_ok :: "codecs \<Rightarrow> zend_long \<Rightarrow> bool" where
  "codecs_ok C lvl \<longleftrightarrow>
     payload_codec (compress_zlib C lvl) (c_uncompress C) \<and>
     payload_codec (compress_zstd C lvl) (decompress_zstd C)"

lemma decompress_compressed:
  assumes comp: "s_compress_value E ty lvl p flags = Some (True, p', flags')"
    and p: "p \<noteq> []" "length p \<le> 2 ^ 30" and fresh: "MEMC_VAL_GET_FLAGS flags = 0"
    and ok: "codecs_ok (codec_lib E) lvl"
  shows "s_decompress_value E p' slack flags' = Some (Some p)"
proof -
  from comp obtain b t where b: "compress_switch E ty lvl p (compress_buffer_size (length p)) = Some (Some (b, t))"
    "p' = u32_bytes (of_nat (length p)) @ b"
    "flags' = MEMC_VAL_SET_FLAG flags (MEMC_VAL_COMPRESSED OR t)" by (rule s_compress_value_replaced)
  have flag: "MEMC_VAL_HAS_FLAG flags' x \<longleftrightarrow> x = 1 \<or> x = t" if "x = 2 \<or> x = 4 \<or> x = 8" for x
    unfolding b(3) using fresh
    by (rule compressed_flags) (use b(1) that in \<open>auto elim: compress_switch_cases\<close>)
  from b(1) show ?thesis
  proof (cases rule: compress_switch_cases)
    case fastlz
    have "fastlz_comp p (compress_buffer_size (length p)) = Some b" by (simp add: fastlz_comp_def fastlz)
    from fastlz_codec.decomp_comp [OF this p, of slack]
    have "decompress_fastlz b slack (length p) = Some (Some p)"
      by (auto simp: fastlz_decomp_def split: option.splits)
    then show ?thesis unfolding b(2) s_decompress_value_framed [OF p(2)]
      by (simp add: fastlz flag written_over_full)
  next
    case zstd
    from ok have "payload_codec (compress_zstd (codec_lib E) lvl) (decompress_zstd (codec_lib E))"
      by (simp add: codecs_ok_def)
    from payload_codec.decomp_comp [OF this zstd(3) p] show ?thesis
      unfolding b(2) s_decompress_value_framed [OF p(2)]
      by (simp add: zstd flag written_over_full)
  next
    case zlib
    from ok have "payload_codec (compress_zlib (codec_lib E) lvl) (c_uncompress (codec_lib E))"
      by (simp add: codecs_ok_def)
    from payload_codec.decomp_comp [OF this zlib(2) p] show ?thesis
      unfolding b(2) s_decompress_value_framed [OF p(2)]
      by (simp add: zlib flag)
  qed
qed

section \<open>No access outside the buffers\<close>

lemma s_compress_value_total:
  assumes "p \<noteq> []" "length p < 2 ^ 31"
  shows "\<exists>r. s_compress_value E ty lvl p flags = Some r"
proof -
  obtain b where "compress_fastlz p (compress_buffer_size (length p)) = Some (Some b)"
    using compress_fastlz_ok [OF assms] by metis
  then obtain r where "compress_switch E ty lvl p (compress_buffer_size (length p)) = Some r"
    by (cases "compress_switch E ty lvl p (compress_buffer_size (length p))")
      (auto simp: compress_switch_def split: if_splits)
  then show ?thesis by (simp add: s_compress_value_def del: split_paired_Ex)
qed

lemma flzuint8_of_NUL [simp]: "flzuint8_of CHR 0x00 = 0"
  by (simp add: flzuint8_of_def)

lemma fastlz_decompress_empty:
  assumes "buf ! 0 = 0" "0 < length buf"
  shows "fastlz_decompress buf 0 maxout = Some []"
proof -
  obtain r where buf: "buf = 0 # r" using assms by (cases buf) auto
  show ?thesis
    by (simp add: fastlz_decompress_def fastlz_decompressor_def buf rd_def flz_dec_step_def
        flz_dec_loop.simps [of "Suc 0"])
qed

lemma s_decompress_value_total:
  assumes "length payload < 2 ^ 31" "slack = CHR 0x00 # beyond" "3 \<le> length beyond"
  shows "\<exists>r. s_decompress_value E payload slack flags = Some r"
proof -
  have total: "\<exists>r. decompress_fastlz bytes slack len = Some r" if "length bytes < 2 ^ 31" for bytes len
  proof (cases "bytes = []")
    case True
    then show ?thesis
      using fastlz_decompress_empty [of "str_bytes (bytes @ slack)"] assms(2)
      by (simp add: decompress_fastlz_def str_bytes_def)
  next
    case False
    have "\<exists>out. fastlz_decompress (str_bytes (bytes @ slack)) (length bytes) m = Some out \<and> length out \<le> m" for m
      by (rule fastlz_decompress_safe)
        (use False assms in \<open>auto simp: str_bytes_def nth_append\<close>)
    then obtain out where "fastlz_decompress (str_bytes (bytes @ slack)) (length bytes)
        (if len < 2 ^ 31 then len else 0) = Some out" by metis
    with that show ?thesis by (simp add: decompress_fastlz_def del: str_bytes_append)
  qed
  have "length (drop 4 payload) < 2 ^ 31" using assms(1) by simp
  from total [OF this, of "unat (u32_of_bytes payload)"] show ?thesis
    by (auto simp: s_decompress_value_def Let_def)
qed

section \<open>Properties\<close>

lemma sample_codecs_ok: "codecs_ok sample_codecs lvl"
  by (auto simp: codecs_ok_def payload_codec_def compress_zlib_def compress_zstd_def decompress_zstd_def
      sample_codecs_def)

text \<open>C10: \<open>s_compress_value\<close> writes inside its buffer: in every state the FastLZ compressor goes
  through, the bytes it has written fit into the \<open>1.05 * n + 1\<close> bytes allocated for them
  (\<open>fastlz.h\<close> asks for at least 66 bytes).\<close>

theorem compressor_stays_in_buffer:
  assumes "lvl = 1 \<or> lvl = 2" "4 \<le> n" "n < length buf" "comp_reach lvl buf n s"
  shows "length (fl_out s) \<le> compress_buffer_size n"
proof -
  have "length (fl_out s) \<le> n + n div 32 + 1"
    by (rule comp_reach_bound [OF assms(1,2) _ assms(4)]) (use assms(3) in simp)
  then show ?thesis using compress_buffer_size_ge [of n] by linarith
qed

theorem compressor_stays_in_buffer_witness:
  "length (fl_out (flz_init 1 2)) \<le> compress_buffer_size 4"
  by (rule compressor_stays_in_buffer [of 1 4 "[1, 2, 3, 4, 0]"])
    (auto intro: comp_reach.start simp: rd_def)

text \<open>On every payload the extension passes to it, \<open>s_compress_value\<close> returns without an
  access outside its buffers, and either replaces the payload, marks it as compressed, and
  makes it smaller by more than the compression factor, or leaves payload and flags alone.\<close>

theorem compress_value_sound:
  assumes "p \<noteq> []" "length p < 2 ^ 31" "MEMC_VAL_GET_FLAGS flags = 0"
  shows "\<exists>replaced p' flags'. s_compress_value E ty lvl p flags = Some (replaced, p', flags') \<and>
    (if replaced then MEMC_VAL_HAS_FLAG flags' MEMC_VAL_COMPRESSED \<and> 4 \<le> length p' \<and>
        of_nat (length p' - 4) * G_compression_factor (globals E) < of_nat (length p)
     else p' = p \<and> flags' = flags)"
proof -
  obtain replaced p' flags' where c: "s_compress_value E ty lvl p flags = Some (replaced, p', flags')"
    using s_compress_value_total [OF assms(1,2), of E ty lvl flags] by auto
  show ?thesis
  proof (cases replaced)
    case True
    with c obtain b t where b: "p' = u32_bytes (of_nat (length p)) @ b"
      "compress_switch E ty lvl p (compress_buffer_size (length p)) = Some (Some (b, t))"
      "flags' = MEMC_VAL_SET_FLAG flags (MEMC_VAL_COMPRESSED OR t)"
      "of_nat (length b) * G_compression_factor (globals E) < of_nat (length p)"
      by (auto elim: s_compress_value_replaced)
    have "t = 2 \<or> t = 4 \<or> t = 8" using b(2) by (auto elim: compress_switch_cases)
    from compressed_flags [OF assms(3) this, of 1] b True c show ?thesis by auto
  next
    case False
    with c s_compress_value_kept [of E ty lvl p flags p' flags'] show ?thesis by auto
  qed
qed

theorem compress_value_sound_witness:
  "\<exists>replaced p' flags'. s_compress_value sample_env 2 3 ''aaaaaaaaaaaaaaaaaaaaaaaa'' 0 = Some (replaced, p', flags') \<and>
    (if replaced then MEMC_VAL_HAS_FLAG flags' MEMC_VAL_COMPRESSED \<and> 4 \<le> length p' \<and>
        of_nat (length p' - 4) * G_compression_factor (globals sample_env) < of_nat (length ''aaaaaaaaaaaaaaaaaaaaaaaa'')
     else p' = ''aaaaaaaaaaaaaaaaaaaaaaaa'' \<and> flags' = 0)"
  by (rule compress_value_sound) (simp_all add: MEMC_VAL_GET_FLAGS_def)

text \<open>C18: What \<open>s_compress_value\<close> made of a payload, \<open>s_decompress_value\<close> turns back into the payload,
  for each of the three codecs, whatever lies behind it in memory. FastLZ is the code of this
  repository; zlib and zstd are assumed to restore what they compressed.\<close>

theorem compressed_value_restored:
  assumes "s_compress_value E ty lvl p flags = Some (True, p', flags')" "p \<noteq> []" "length p \<le> 2 ^ 30"
    "MEMC_VAL_GET_FLAGS flags = 0" "codecs_ok (codec_lib E) lvl"
  shows "s_decompress_value E p' slack flags' = Some (Some p)"
  using assms by (rule decompress_compressed)

lemma sample_zlib_compress:
  "s_compress_value (sample_env\<lparr>globals := (globals sample_env)\<lparr>G_compression_factor := 1 / 2\<rparr>\<rparr>)
     1 3 ''abc'' 0 = Some (True, u32_bytes 3 @ ''abc'', MEMC_VAL_SET_FLAG 0 3)"
  by (simp add: s_compress_value_def compress_switch_def compress_zlib_def sample_defs)

theorem compressed_value_restored_witness:
  "s_decompress_value (sample_env\<lparr>globals := (globals sample_env)\<lparr>G_compression_factor := 1 / 2\<rparr>\<rparr>)
     (u32_bytes 3 @ ''abc'') [] (MEMC_VAL_SET_FLAG 0 3) = Some (Some ''abc'')"
proof (rule compressed_value_restored [OF sample_zlib_compress])
  show "MEMC_VAL_GET_FLAGS 0 = 0" by (simp add: MEMC_VAL_GET_FLAGS_def)
  show "codecs_ok (codec_lib (sample_env\<lparr>globals := (globals sample_env)\<lparr>G_compression_factor := 1 / 2\<rparr>\<rparr>)) 3"
    using sample_codecs_ok by (simp add: sample_env_def)
qed simp_all



end
