(* ===== verification/Status.thy ===== *)
theory Status
  imports Memc_Types
begin

text \<open>
  How the result of a library call becomes the object's result code and errno
  (\<open>php_memcached.c\<close>, "Handling error codes").
\<close>

definition s_memcached_return_is_error :: "memcached_return \<Rightarrow> bool \<Rightarrow> bool" where
  "s_memcached_return_is_error status strict =
     (case status of
        MEMCACHED_SUCCESS \<Rightarrow> False | MEMCACHED_STORED \<Rightarrow> False | MEMCACHED_DELETED \<Rightarrow> False
      | MEMCACHED_STAT \<Rightarrow> False | MEMCACHED_END \<Rightarrow> False | MEMCACHED_BUFFERED \<Rightarrow> False
      | MEMCACHED_SOME_ERRORS \<Rightarrow> strict
      | _ \<Rightarrow> True)"

text \<open>The first component is \<open>SUCCESS\<close> (True) or \<open>FAILURE\<close> (False).\<close>

definition s_memc_status_handle_result_code ::
  "'m libmemcached \<Rightarrow> 'm php_memc_object \<Rightarrow> memcached_return \<Rightarrow> bool \<times> 'm php_memc_object" where
  "s_memc_status_handle_result_code L intern status =
     (let intern = intern\<lparr>rescode := status, memc_errno := 0\<rparr> in
      if s_memcached_return_is_error status True
      then (False, intern\<lparr>memc_errno := lm_last_error_errno L (memc intern)\<rparr>)
      else (True, intern))"

definition s_memc_set_status ::
  "'m php_memc_object \<Rightarrow> memcached_return \<Rightarrow> int \<Rightarrow> 'm php_memc_object" where
  "s_memc_set_status intern status errno = intern\<lparr>rescode := status, memc_errno := errno\<rparr>"

definition s_memc_status_has_error :: "'m php_memc_object \<Rightarrow> bool" where
  "s_memc_status_has_error intern = s_memcached_return_is_error (rescode intern) True"

definition s_memc_status_has_result_code :: "'m php_memc_object \<Rightarrow> memcached_return \<Rightarrow> bool" where
  "s_memc_status_has_result_code intern status = (rescode intern = status)"

section \<open>Facts\<close>

lemma is_error_simps [simp]:
  "\<not> s_memcached_return_is_error MEMCACHED_SUCCESS strict"
  "\<not> s_memcached_return_is_error MEMCACHED_STORED strict"
  "\<not> s_memcached_return_is_error MEMCACHED_DELETED strict"
  "\<not> s_memcached_return_is_error MEMCACHED_STAT strict"
  "\<not> s_memcached_return_is_error MEMCACHED_END strict"
  "\<not> s_memcached_return_is_error MEMCACHED_BUFFERED strict"
  "s_memcached_return_is_error MEMCACHED_SOME_ERRORS strict = strict"
  "s_memcached_return_is_error MEMCACHED_NOTFOUND strict"
  "s_memcached_return_is_error MEMCACHED_E2BIG strict"
  "s_memcached_return_is_error MEMCACHED_BAD_KEY_PROVIDED strict"
  "s_memcached_return_is_error MEMC_RES_PAYLOAD_FAILURE strict"
  by (simp_all add: s_memcached_return_is_error_def)

lemma is_error_mono:
  "s_memcached_return_is_error status False \<Longrightarrow> s_memcached_return_is_error status True"
  by (cases status) (simp_all add: s_memcached_return_is_error_def)

lemma handle_result_code_fst [simp]:
  "fst (s_memc_status_handle_result_code L intern status)
     = (\<not> s_memcached_return_is_error status True)"
  by (simp add: s_memc_status_handle_result_code_def Let_def)

lemma handle_result_code_snd:
  "snd (s_memc_status_handle_result_code L intern status)
     = intern\<lparr>rescode := status, memc_errno :=
         (if s_memcached_return_is_error status True then lm_last_error_errno L (memc intern) else 0)\<rparr>"
  by (simp add: s_memc_status_handle_result_code_def Let_def)

lemma handle_result_code_fields [simp]:
  "memc (snd (s_memc_status_handle_result_code L intern status)) = memc intern"
  "user_data (snd (s_memc_status_handle_result_code L intern status)) = user_data intern"
  "is_pristine (snd (s_memc_status_handle_result_code L intern status)) = is_pristine intern"
  "rescode (snd (s_memc_status_handle_result_code L intern status)) = status"
  "EG_exception (snd (s_memc_status_handle_result_code L intern status)) = EG_exception intern"
  by (simp_all add: handle_result_code_snd)

lemma set_status_fields [simp]:
  "memc (s_memc_set_status intern status e) = memc intern"
  "user_data (s_memc_set_status intern status e) = user_data intern"
  "is_pristine (s_memc_set_status intern status e) = is_pristine intern"
  "rescode (s_memc_set_status intern status e) = status"
  "memc_errno (s_memc_set_status intern status e) = e"
  "EG_exception (s_memc_set_status intern status e) = EG_exception intern"
  by (simp_all add: s_memc_set_status_def)

end
