(* ===== verification/Payload.thy ===== *)
theory Payload
  imports Compression Status G_Fmt
begin

text \<open>
  From PHP values to stored payloads and back: \<open>s_serialize_value\<close>, \<open>s_zval_to_payload\<close>,
  \<open>s_is_payload_too_big\<close>, \<open>s_unserialize_value\<close> and \<open>s_memcached_result_to_zval\<close>. An outer \<open>None\<close> is
  an access outside the memory the code owns, a NULL dereference included.
\<close>

section \<open>Storing\<close>

text \<open>The \<open>case\<close> of \<open>switch (serializer)\<close> that the build has; PHP's own is the default.\<close>

definition serializer_case :: "config \<Rightarrow> u32 \<Rightarrow> serializer" where
  "serializer_case C ser =
     (if ser = SERIALIZER_IGBINARY \<and> HAVE_MEMCACHED_IGBINARY C then S_igbinary
      else if (ser = SERIALIZER_JSON \<or> ser = SERIALIZER_JSON_ARRAY) \<and> HAVE_JSON_API C then S_json
      else if ser = SERIALIZER_MSGPACK \<and> HAVE_MEMCACHED_MSGPACK C then S_msgpack
      else S_php)"

fun serialized_type :: "serializer \<Rightarrow> u32" where
  "serialized_type S_php = MEMC_VAL_IS_SERIALIZED"
| "serialized_type S_igbinary = MEMC_VAL_IS_IGBINARY"
| "serialized_type S_json = MEMC_VAL_IS_JSON"
| "serialized_type S_json_array = MEMC_VAL_IS_JSON"
| "serialized_type S_msgpack = MEMC_VAL_IS_MSGPACK"

text \<open>
  Success, the buffer (\<open>None\<close>: \<open>buf->s\<close> is NULL), the flags and whether an exception is pending.
  The JSON case does not look at the buffer, so the last test may dereference NULL.
\<close>

definition s_serialize_value ::
  "('m, 'd) env \<Rightarrow> u32 \<Rightarrow> 'd zval \<Rightarrow> u32 \<Rightarrow> bool \<Rightarrow> (bool \<times> string option \<times> u32 \<times> bool) option" where
  "s_serialize_value E ser value flags exn =
     (let k = serializer_case (cfg E) ser;
          (buf, raised) = z_serialize (zend E) k value;
          exn = (exn \<or> raised)
      in if k \<noteq> S_json \<and> buf = None then Some (False, None, flags, exn)
         else
           let flags = MEMC_VAL_SET_TYPE flags (serialized_type k)
           in if exn then
                (case buf of
                   None \<Rightarrow> None
                 | Some s \<Rightarrow> Some (length s = 0, buf, flags, exn))
              else Some (True, buf, flags, exn))"

text \<open>The payload before compression, the flags, \<open>should_compress\<close> and the object.\<close>

definition serialized_payload ::
  "('m, 'd) env \<Rightarrow> 'm php_memc_object \<Rightarrow> 'd zval \<Rightarrow> u32 \<Rightarrow>
     (string option \<times> u32 \<times> bool \<times> 'm php_memc_object) option" where
  "serialized_payload E intern value flags = do {
     (ok, buf, flags, exn) \<leftarrow>
       s_serialize_value E (ucast (ud_serializer (user_data intern))) value flags (EG_exception intern);
     let intern = intern\<lparr>EG_exception := exn\<rparr>;
     if \<not> ok then Some (None, flags, False, intern)
     else case buf of
       None \<Rightarrow> None
     | Some payload \<Rightarrow> Some (Some payload, flags, compression_enabled (user_data intern), intern)
   }"

definition zval_payload ::
  "('m, 'd) env \<Rightarrow> 'm php_memc_object \<Rightarrow> 'd zval \<Rightarrow> u32 \<Rightarrow>
     (string option \<times> u32 \<times> bool \<times> 'm php_memc_object) option" where
  "zval_payload E intern value flags =
     (case value of
        IS_STRING s \<Rightarrow> Some (Some s, MEMC_VAL_SET_TYPE flags MEMC_VAL_IS_STRING,
          compression_enabled (user_data intern), intern)
      | IS_LONG l \<Rightarrow> Some (Some (dec_of_long l), MEMC_VAL_SET_TYPE flags MEMC_VAL_IS_LONG, False, intern)
      | IS_DOUBLE x \<Rightarrow> Some (Some (php_memcached_g_fmt (zend E) x),
          MEMC_VAL_SET_TYPE flags MEMC_VAL_IS_DOUBLE, False, intern)
      | IS_TRUE \<Rightarrow> Some (Some ''1'', MEMC_VAL_SET_TYPE flags MEMC_VAL_IS_BOOL, False, intern)
      | IS_FALSE \<Rightarrow> Some (Some [], MEMC_VAL_SET_TYPE flags MEMC_VAL_IS_BOOL, False, intern)
      | _ \<Rightarrow> serialized_payload E intern value flags)"

definition set_udf :: "zend_long \<Rightarrow> u32 \<Rightarrow> u32" where
  "set_udf udf flags = (if 0 \<le> sint udf then MEMC_VAL_SET_USER_FLAGS flags (ucast udf) else flags)"

text \<open>The comparison with the threshold is one of \<open>size_t\<close>s.\<close>

definition s_zval_to_payload ::
  "('m, 'd) env \<Rightarrow> 'm php_memc_object \<Rightarrow> 'd zval \<Rightarrow> u32 \<Rightarrow>
     (string option \<times> u32 \<times> 'm php_memc_object) option" where
  "s_zval_to_payload E intern value flags = do {
     (buf, flags, should_compress, intern) \<leftarrow> zval_payload E intern value flags;
     case buf of
       None \<Rightarrow> Some (None, flags, intern)
     | Some payload \<Rightarrow> do {
         let ud = user_data intern;
         let should_compress = (should_compress \<and>
           \<not> (length payload = 0 \<or> length payload < unat (G_compression_threshold (globals E))));
         (payload, flags) \<leftarrow>
           (if should_compress
            then map_option snd
              (s_compress_value E (ucast (ud_compression_type ud)) (ud_compression_level ud) payload flags)
            else Some (payload, flags));
         Some (Some payload, set_udf (set_udf_flags ud) flags, intern)
       }
   }"

definition s_is_payload_too_big :: "'m php_memc_object \<Rightarrow> string \<Rightarrow> bool" where
  "s_is_payload_too_big intern payload =
     (if item_size_limit (user_data intern) = 0 then False
      else length payload > unat (item_size_limit (user_data intern)))"

section \<open>Fetching\<close>

text \<open>\<open>None\<close>: the function returns 0, and its caller does not look at the value.\<close>

definition s_unserialize_value ::
  "('m, 'd) env \<Rightarrow> 'm php_memc_object \<Rightarrow> u32 \<Rightarrow> string \<Rightarrow> 'd zval option \<times> 'm php_memc_object" where
  "s_unserialize_value E intern val_type payload =
     (let run = (\<lambda>k. case z_unserialize (zend E) k payload of (ok, v, raised) \<Rightarrow>
            (ok, v, intern\<lparr>EG_exception := EG_exception intern \<or> raised\<rparr>))
      in if val_type = MEMC_VAL_IS_SERIALIZED then
           (case run S_php of (ok, v, intern) \<Rightarrow> (if ok then Some v else None, intern))
         else if val_type = MEMC_VAL_IS_IGBINARY then
           if HAVE_MEMCACHED_IGBINARY (cfg E)
           then (case run S_igbinary of (ok, v, intern) \<Rightarrow> (if ok then Some v else None, intern))
           else (None, intern)
         else if val_type = MEMC_VAL_IS_JSON then
           if HAVE_JSON_API (cfg E)
           then (case run (if ud_serializer (user_data intern) = 4 then S_json_array else S_json) of
                   (ok, v, intern) \<Rightarrow> (Some v, intern))
           else (None, intern)
         else
           if HAVE_MEMCACHED_MSGPACK (cfg E)
           then (case run S_msgpack of (ok, v, intern) \<Rightarrow> (Some v, intern))
           else (None, intern))"

definition payload_to_double :: "'d zend \<Rightarrow> string \<Rightarrow> 'd" where
  "payload_to_double Z data =
     (if data = ''Infinity'' then z_inf Z
      else if data = ''-Infinity'' then z_minus_inf Z
      else if data = ''NaN'' then z_nan Z
      else z_strtod Z data)"

definition data_to_zval ::
  "('m, 'd) env \<Rightarrow> 'm php_memc_object \<Rightarrow> u32 \<Rightarrow> nat \<Rightarrow> string \<Rightarrow> 'd zval option \<times> 'm php_memc_object" where
  "data_to_zval E intern flags payload_len data =
     (let t = MEMC_VAL_GET_TYPE flags in
      if t = MEMC_VAL_IS_STRING then (Some (IS_STRING data), intern)
      else if t = MEMC_VAL_IS_LONG then (Some (IS_LONG (strtol10 data)), intern)
      else if t = MEMC_VAL_IS_DOUBLE then (Some (IS_DOUBLE (payload_to_double (zend E) data)), intern)
      else if t = MEMC_VAL_IS_BOOL then
        (Some (ZVAL_BOOL (payload_len > 0 \<and> (case data of [] \<Rightarrow> False | c # _ \<Rightarrow> c = CHR ''1''))), intern)
      else if t = MEMC_VAL_IS_SERIALIZED \<or> t = MEMC_VAL_IS_IGBINARY \<or> t = MEMC_VAL_IS_JSON \<or>
              t = MEMC_VAL_IS_MSGPACK
      then s_unserialize_value E intern t data
      else (None, intern))"

definition s_memcached_result_to_zval ::
  "('m, 'd) env \<Rightarrow> 'm php_memc_object \<Rightarrow> memcached_result_st \<Rightarrow>
     ('d zval option \<times> 'm php_memc_object) option" where
  "s_memcached_result_to_zval E intern result =
     (let payload_len = memcached_result_length result;
          flags = res_flags result;
          payload = (case res_value result of None \<Rightarrow> [] | Some v \<Rightarrow> v)
      in if res_value result = None \<and> payload_len > 0 then Some (None, intern)
         else do {
           data \<leftarrow> (if MEMC_VAL_HAS_FLAG flags MEMC_VAL_COMPRESSED
                   then s_decompress_value E payload (res_slack result) flags
                   else Some (Some payload));
           case data of
             None \<Rightarrow> Some (None, intern)
           | Some data \<Rightarrow> Some (data_to_zval E intern flags payload_len data)
         })"

section \<open>Laws of the code outside the repository\<close>

text \<open>
  \<open>zend_dtoa\<close> in mode 0 returns the digits of a numeral that \<open>zend_strtod\<close> reads as the same
  double, and \<open>Infinity\<close> or \<open>NaN\<close> with \<open>decpt\<close> 9999. A NaN with the sign bit is not covered: it is
  stored as \<open>-NaN\<close>, which the reader does not know.
\<close>

definition double_ok :: "'d zend \<Rightarrow> 'd \<Rightarrow> bool" where
  "double_ok Z x =
     (case z_dtoa Z x of (s, decpt, sign) \<Rightarrow>
        if decpt = 9999
        then (s = ''Infinity'' \<and> x = (if sign then z_minus_inf Z else z_inf Z)) \<or>
             (s = ''NaN'' \<and> \<not> sign \<and> x = z_nan Z)
        else s \<noteq> [] \<and> (\<forall>c \<in> set s. isdigit c) \<and>
             (\<forall>t. dec_value t = (sign, of_nat (dec_num s) * 10 powi (decpt - int (length s))) \<longrightarrow>
                z_strtod Z t = x))"

text \<open>The unserializer that reads what the configured serializer wrote.\<close>

definition reader_case :: "config \<Rightarrow> zend_long \<Rightarrow> serializer" where
  "reader_case C ser =
     (case serializer_case C (ucast ser) of
        S_json \<Rightarrow> if ser = 4 then S_json_array else S_json
      | k \<Rightarrow> k)"

definition value_ok :: "('m, 'd) env \<Rightarrow> 'm php_memc_object \<Rightarrow> 'd zval \<Rightarrow> bool" where
  "value_ok E intern v =
     (let ser = ud_serializer (user_data intern) in
      case v of
        IS_STRING _ \<Rightarrow> True | IS_LONG _ \<Rightarrow> True | IS_TRUE \<Rightarrow> True | IS_FALSE \<Rightarrow> True
      | IS_DOUBLE x \<Rightarrow> double_ok (zend E) x
      | _ \<Rightarrow>
          (case z_serialize (zend E) (serializer_case (cfg E) (ucast ser)) v of
             (None, _) \<Rightarrow> True
           | (Some s, _) \<Rightarrow> z_unserialize (zend E) (reader_case (cfg E) ser) s = (True, v, False)))"

section \<open>Facts\<close>

lemma payload_to_double_g_fmt:
  assumes "double_ok Z x"
  shows "payload_to_double Z (php_memcached_g_fmt Z x) = x"
proof -
  obtain s decpt sign where d: "z_dtoa Z x = (s, decpt, sign)" by (cases "z_dtoa Z x")
  show ?thesis
  proof (cases "decpt = 9999")
    case True
    with assms d show ?thesis
      by (auto simp: double_ok_def php_memcached_g_fmt_def g_fmt_layout_def payload_to_double_def)
  next
    case False
    with assms d have s: "s \<noteq> []" "\<forall>c \<in> set s. isdigit c"
      and rd: "\<And>t. dec_value t = (sign, of_nat (dec_num s) * 10 powi (decpt - int (length s))) \<Longrightarrow>
        z_strtod Z t = x"
      by (auto simp: double_ok_def)
    from rd [OF g_fmt_layout_value [OF s False]] g_fmt_layout_not_literal [OF s False, of sign]
    show ?thesis by (simp add: php_memcached_g_fmt_def d payload_to_double_def)
  qed
qed

lemma set_type_fresh:
  assumes "t \<in> {0, 1, 2, 3, 4, 5, 6, 7}"
  shows "MEMC_VAL_GET_TYPE (MEMC_VAL_SET_TYPE 0 t) = t"
  by (rule type_field.get_set_fresh)
    (use assms in \<open>auto simp: MEMC_VAL_GET_TYPE_def mask_eq_exp_minus_1\<close>)

lemma get_flags_0 [simp]: "MEMC_VAL_GET_FLAGS 0 = 0" "MEMC_VAL_GET_USER_FLAGS 0 = 0"
  by (simp_all add: MEMC_VAL_GET_FLAGS_def MEMC_VAL_GET_USER_FLAGS_def)

lemmas set_type_fresh_simps [simp] =
  set_type_fresh [of MEMC_VAL_IS_STRING, simplified] set_type_fresh [of MEMC_VAL_IS_LONG, simplified]
  set_type_fresh [of MEMC_VAL_IS_DOUBLE, simplified] set_type_fresh [of MEMC_VAL_IS_BOOL, simplified]

lemma serialized_type_fresh:
  "MEMC_VAL_GET_TYPE (MEMC_VAL_SET_TYPE 0 (serialized_type k)) = serialized_type k"
  by (rule set_type_fresh) (cases k; simp)

lemma set_udf_other_fields [simp]:
  "MEMC_VAL_GET_TYPE (set_udf u f) = MEMC_VAL_GET_TYPE f"
  "MEMC_VAL_GET_FLAGS (set_udf u f) = MEMC_VAL_GET_FLAGS f"
  by (simp_all add: set_udf_def)

lemma s_decompress_value_cong:
  "MEMC_VAL_GET_FLAGS f = MEMC_VAL_GET_FLAGS g \<Longrightarrow>
     s_decompress_value E p slack f = s_decompress_value E p slack g"
  by (simp add: s_decompress_value_def MEMC_VAL_HAS_FLAG_def)

lemma unserialize_reader:
  assumes k: "k = serializer_case (cfg E) (ucast (ud_serializer (user_data intern)))"
    and rd: "z_unserialize (zend E) (reader_case (cfg E) (ud_serializer (user_data intern))) s = (True, v, False)"
  shows "s_unserialize_value E intern (serialized_type k) s = (Some v, intern)"
proof -
  have [simp]: "intern\<lparr>EG_exception := EG_exception intern\<rparr> = intern" by simp
  show ?thesis
    using rd unfolding k reader_case_def
    by (auto simp: serializer_case_def s_unserialize_value_def Let_def)
qed

text \<open>The payload of a value, read back under any flags of the same type.\<close>

definition reads_back ::
  "('m, 'd) env \<Rightarrow> 'm php_memc_object \<Rightarrow> u32 \<Rightarrow> bool \<Rightarrow> string \<Rightarrow> 'd zval \<Rightarrow> bool" where
  "reads_back E intern flags may_compress p v =
     (\<forall>g n. MEMC_VAL_GET_TYPE g = MEMC_VAL_GET_TYPE flags \<longrightarrow> (\<not> may_compress \<longrightarrow> n = length p) \<longrightarrow>
        data_to_zval E intern g n p = (Some v, intern))"

lemma serialized_payload_Some:
  assumes "serialized_payload E intern v 0 = Some (Some p, flags, may, intern')"
  obtains e where "z_serialize (zend E) (serializer_case (cfg E) (ucast (ud_serializer (user_data intern)))) v = (Some p, e)"
    "flags = MEMC_VAL_SET_TYPE 0
       (serialized_type (serializer_case (cfg E) (ucast (ud_serializer (user_data intern)))))"
    "user_data intern' = user_data intern" "memc intern' = memc intern"
  using assms
  by (auto simp: serialized_payload_def s_serialize_value_def Let_def
      split: bind_splits prod.splits if_splits option.splits)

lemma zval_payload_back:
  assumes "zval_payload E intern v 0 = Some (Some p, flags, may, intern')" "value_ok E intern v"
  shows "MEMC_VAL_GET_FLAGS flags = 0 \<and> MEMC_VAL_GET_USER_FLAGS flags = 0 \<and>
    reads_back E intern' flags may p v \<and> user_data intern' = user_data intern \<and> memc intern' = memc intern"
proof (cases "(\<exists>s. v = IS_STRING s) \<or> (\<exists>l. v = IS_LONG l) \<or> (\<exists>x. v = IS_DOUBLE x) \<or> v = IS_TRUE \<or> v = IS_FALSE")
  case True
  then show ?thesis
    using assms
    by (elim disjE exE; clarsimp simp: zval_payload_def)
      (simp_all add: value_ok_def reads_back_def data_to_zval_def
        strtol10_dec_of_long payload_to_double_g_fmt)
next
  case False
  let ?ser = "ud_serializer (user_data intern)"
  let ?k = "serializer_case (cfg E) (ucast ?ser)"
  from False assms(1) have "serialized_payload E intern v 0 = Some (Some p, flags, may, intern')"
    by (cases v) (auto simp: zval_payload_def)
  then obtain e where ser: "z_serialize (zend E) ?k v = (Some p, e)"
    "flags = MEMC_VAL_SET_TYPE 0 (serialized_type ?k)"
    "user_data intern' = user_data intern" "memc intern' = memc intern"
    by (rule serialized_payload_Some)
  have "z_unserialize (zend E) (reader_case (cfg E) ?ser) p = (True, v, False)"
    using assms(2) ser(1) False by (cases v) (auto simp: value_ok_def)
  then have un: "s_unserialize_value E intern' (serialized_type ?k) p = (Some v, intern')"
    by (intro unserialize_reader) (simp_all add: ser)
  have "MEMC_VAL_GET_TYPE flags = serialized_type ?k" by (simp only: ser(2) serialized_type_fresh)
  with un have "reads_back E intern' flags may p v"
    by (cases ?k) (simp_all add: reads_back_def data_to_zval_def Let_def)
  then show ?thesis by (simp add: ser)
qed

section \<open>Stored and fetched\<close>

lemma s_zval_to_payload_Some:
  assumes "s_zval_to_payload E intern v flags = Some (Some p, flags', intern')"
  obtains q fl may fl' where "zval_payload E intern v flags = Some (Some q, fl, may, intern')"
    "flags' = set_udf (set_udf_flags (user_data intern')) fl'"
    "(p, fl') = (q, fl) \<or> may \<and> q \<noteq> [] \<and> unat (G_compression_threshold (globals E)) \<le> length q \<and>
       s_compress_value E (ucast (ud_compression_type (user_data intern')))
         (ud_compression_level (user_data intern')) q fl = Some (True, p, fl')"
proof -
  from assms obtain q fl may where
    z: "zval_payload E intern v flags = Some (Some q, fl, may, intern')"
    by (auto simp: s_zval_to_payload_def Let_def split: bind_splits option.splits prod.splits if_splits)
  let ?ud = "user_data intern'"
  let ?c = "s_compress_value E (ucast (ud_compression_type ?ud)) (ud_compression_level ?ud) q fl"
  let ?may = "may \<and> \<not> (length q = 0 \<or> length q < unat (G_compression_threshold (globals E)))"
  from assms z obtain fl' where
    c: "(if ?may then map_option snd ?c else Some (q, fl)) = Some (p, fl')"
    and udf: "flags' = set_udf (set_udf_flags ?ud) fl'"
    by (auto simp: s_zval_to_payload_def Let_def split: bind_splits)
  have "(p, fl') = (q, fl) \<or> may \<and> q \<noteq> [] \<and>
      unat (G_compression_threshold (globals E)) \<le> length q \<and> ?c = Some (True, p, fl')"
  proof (cases ?may)
    case True
    with c obtain b where b: "?c = Some (b, p, fl')" by auto
    then show ?thesis using True s_compress_value_kept [of E _ _ q fl p fl'] by (cases b) auto
  next
    case False
    with c show ?thesis by (simp split: if_splits)
  qed
  with that [OF z udf] show thesis .
qed

lemma not_compressed_flag: "MEMC_VAL_GET_FLAGS f = 0 \<Longrightarrow> \<not> MEMC_VAL_HAS_FLAG f MEMC_VAL_COMPRESSED"
  by (simp add: MEMC_VAL_HAS_FLAG_def)

lemma HAS_FLAG_set_udf [simp]: "MEMC_VAL_HAS_FLAG (set_udf u f) x = MEMC_VAL_HAS_FLAG f x"
  by (simp add: MEMC_VAL_HAS_FLAG_def)

lemma payload_round_trip:
  assumes store: "s_zval_to_payload E intern v 0 = Some (Some p, flags, intern')"
    and ok: "value_ok E intern v" "codecs_ok (codec_lib E) (ud_compression_level (user_data intern))"
    and len: "\<And>q fl may i. zval_payload E intern v 0 = Some (Some q, fl, may, i) \<Longrightarrow> length q \<le> 2 ^ 30"
    and item: "res_value r = Some p" "res_flags r = flags"
  shows "s_memcached_result_to_zval E intern' r = Some (Some v, intern')"
proof -
  from store obtain q fl may fl' where q: "zval_payload E intern v 0 = Some (Some q, fl, may, intern')"
    "flags = set_udf (set_udf_flags (user_data intern')) fl'"
    and c: "(p, fl') = (q, fl) \<or> may \<and> q \<noteq> [] \<and> unat (G_compression_threshold (globals E)) \<le> length q \<and>
       s_compress_value E (ucast (ud_compression_type (user_data intern')))
         (ud_compression_level (user_data intern')) q fl = Some (True, p, fl')"
    by (rule s_zval_to_payload_Some)
  from zval_payload_back [OF q(1) ok(1)]
  have bk: "MEMC_VAL_GET_FLAGS fl = 0" "reads_back E intern' fl may q v" "user_data intern' = user_data intern"
    by simp_all
  from c show ?thesis
  proof (elim disjE conjE)
    assume "(p, fl') = (q, fl)"
    moreover from this bk(2) q(2) have "data_to_zval E intern' flags (length p) p = (Some v, intern')"
      by (simp add: reads_back_def)
    ultimately show ?thesis
      using item bk(1) q(2)
      by (simp add: s_memcached_result_to_zval_def memcached_result_length_def not_compressed_flag)
  next
    assume may: "may" "q \<noteq> []" and comp: "s_compress_value E (ucast (ud_compression_type (user_data intern')))
         (ud_compression_level (user_data intern')) q fl = Some (True, p, fl')"
    from comp obtain b t where sw: "compress_switch E (ucast (ud_compression_type (user_data intern')))
        (ud_compression_level (user_data intern')) q (compress_buffer_size (length q)) = Some (Some (b, t))"
      and fl': "fl' = MEMC_VAL_SET_FLAG fl (MEMC_VAL_COMPRESSED OR t)"
      by (rule s_compress_value_replaced)
    have t: "t = 2 \<or> t = 4 \<or> t = 8" using sw by (auto elim: compress_switch_cases)
    have has: "MEMC_VAL_HAS_FLAG fl' MEMC_VAL_COMPRESSED"
      unfolding fl' using compressed_flags [OF bk(1) t, of 1] by simp
    have "s_decompress_value E p (res_slack r) fl' = Some (Some q)"
      by (rule decompress_compressed [OF comp may(2) len [OF q(1)] bk(1)]) (use ok(2) bk(3) in simp)
    then have "s_decompress_value E p (res_slack r) flags = Some (Some q)"
      using s_decompress_value_cong [of flags fl' E p "res_slack r"] q(2) by simp
    moreover have "data_to_zval E intern' flags (length p) q = (Some v, intern')"
      using bk(2) may(1) q(2) fl' by (simp add: reads_back_def)
    ultimately show ?thesis
      using item has q(2) by (simp add: s_memcached_result_to_zval_def memcached_result_length_def)
  qed
qed

text \<open>The user's sixteen bits arrive as they were configured.\<close>

lemma set_udf_user_flags:
  assumes "MEMC_VAL_GET_USER_FLAGS f = 0" "0 \<le> sint u" "sint u < 2 ^ 16"
  shows "MEMC_VAL_GET_USER_FLAGS (set_udf u f) = ucast u"
proof -
  have "uint u = sint u"
    unfolding uint_sint by (rule take_bit_int_eq_self) (use assms(2,3) in simp_all)
  then have "uint (ucast u :: u32) < 2 ^ 16"
    using assms(2,3) by (simp add: unsigned_ucast_eq unsigned_take_bit_eq take_bit_int_eq_self)
  then have "(ucast u :: u32) AND mask 16 = ucast u"
    by (intro less_mask_eq) (simp add: word_less_def)
  with assms show ?thesis by (simp add: set_udf_def user_field.get_set_fresh)
qed

lemma payload_user_flags:
  assumes "s_zval_to_payload E intern v 0 = Some (Some p, flags, intern')" "value_ok E intern v"
    "0 \<le> sint (set_udf_flags (user_data intern))" "sint (set_udf_flags (user_data intern)) < 2 ^ 16"
  shows "MEMC_VAL_GET_USER_FLAGS flags = ucast (set_udf_flags (user_data intern))"
proof -
  from assms(1) obtain q fl may fl' where q: "zval_payload E intern v 0 = Some (Some q, fl, may, intern')"
    "flags = set_udf (set_udf_flags (user_data intern')) fl'"
    and c: "(p, fl') = (q, fl) \<or> may \<and> q \<noteq> [] \<and> unat (G_compression_threshold (globals E)) \<le> length q \<and>
       s_compress_value E (ucast (ud_compression_type (user_data intern')))
         (ud_compression_level (user_data intern')) q fl = Some (True, p, fl')"
    by (rule s_zval_to_payload_Some)
  from zval_payload_back [OF q(1) assms(2)]
  have bk: "MEMC_VAL_GET_USER_FLAGS fl = 0" "user_data intern' = user_data intern" by simp_all
  have "MEMC_VAL_GET_USER_FLAGS fl' = 0"
    using c bk(1) by (auto elim!: s_compress_value_replaced)
  then show ?thesis unfolding q(2) bk(2) by (rule set_udf_user_flags) (rule assms)+
qed

text \<open>Making a payload touches nothing of the object but the pending exception.\<close>

definition same_but_exception :: "'m php_memc_object \<Rightarrow> 'm php_memc_object \<Rightarrow> bool" where
  "same_but_exception a b \<longleftrightarrow> b = a\<lparr>EG_exception := EG_exception b\<rparr>"

lemma same_but_exceptionD:
  "same_but_exception a b \<Longrightarrow> memc b = memc a \<and> user_data b = user_data a \<and>
     is_pristine b = is_pristine a \<and> rescode b = rescode a \<and> memc_errno b = memc_errno a"
  by (cases a; cases b) (simp add: same_but_exception_def)

lemma zval_payload_frame:
  "zval_payload E intern v flags = Some (q, fl, may, intern') \<Longrightarrow> same_but_exception intern intern'"
  by (cases v) (auto simp: zval_payload_def serialized_payload_def same_but_exception_def Let_def
      split: bind_splits if_splits option.splits)

lemma s_zval_to_payload_frame:
  assumes "s_zval_to_payload E intern v flags = Some (q, fl, intern')"
  shows "same_but_exception intern intern'"
proof -
  from assms obtain b f may where "zval_payload E intern v flags = Some (b, f, may, intern')"
    by (auto simp: s_zval_to_payload_def Let_def split: bind_splits option.splits prod.splits if_splits)
  then show ?thesis by (rule zval_payload_frame)
qed

text \<open>Reading a result depends on the object only through its user data and the pending exception.\<close>

lemma update_EG_exception_same [simp]: "a\<lparr>EG_exception := e\<rparr> = a \<longleftrightarrow> e = EG_exception a"
  by (cases a) auto

lemma s_unserialize_value_cong:
  assumes "user_data b = user_data a" "EG_exception b = EG_exception a"
    "s_unserialize_value E a t d = (x, a)"
  shows "s_unserialize_value E b t d = (x, b)"
  using assms by (auto simp: s_unserialize_value_def Let_def split: if_splits prod.splits)

lemma data_to_zval_cong:
  assumes "user_data b = user_data a" "EG_exception b = EG_exception a"
    "data_to_zval E a fl n d = (x, a)"
  shows "data_to_zval E b fl n d = (x, b)"
  using assms(3) s_unserialize_value_cong [OF assms(1,2), of E _ d x]
  by (auto simp: data_to_zval_def Let_def split: if_splits)

lemma s_memcached_result_to_zval_cong:
  assumes "user_data b = user_data a" "EG_exception b = EG_exception a"
    "s_memcached_result_to_zval E a r = Some (x, a)"
  shows "s_memcached_result_to_zval E b r = Some (x, b)"
  using assms(3) data_to_zval_cong [OF assms(1,2), of E]
  by (auto simp: s_memcached_result_to_zval_def Let_def split: if_splits bind_splits option.splits)

section \<open>Properties\<close>


lemma dec_of_long_42: "dec_of_long 42 = ''42''"
  by code_simp

lemma sample_payload_42:
  "s_zval_to_payload sample_env sample_object (IS_LONG 42) 0 =
     Some (Some ''42'', set_udf 5 (MEMC_VAL_SET_TYPE 0 1), sample_object)"
  by (simp add: s_zval_to_payload_def zval_payload_def dec_of_long_42 sample_defs)


text \<open>User flags from 0 to 65535 reach the user's field of the stored flags unchanged.\<close>

theorem user_flags_stored:
  assumes "s_zval_to_payload E intern v 0 = Some (Some p, flags, intern')" "value_ok E intern v"
    "0 \<le> sint (set_udf_flags (user_data intern))" "sint (set_udf_flags (user_data intern)) < 2 ^ 16"
  shows "MEMC_VAL_GET_USER_FLAGS flags = ucast (set_udf_flags (user_data intern))"
  using assms by (rule payload_user_flags)

theorem user_flags_stored_witness:
  "MEMC_VAL_GET_USER_FLAGS (set_udf 5 (MEMC_VAL_SET_TYPE 0 1)) = 5"
  using user_flags_stored [OF sample_payload_42] by (simp add: value_ok_def sample_defs)

end
