(* ===== verification/Keys.thy ===== *)
theory Keys
  imports Status Sample
begin

text \<open>
  Keys: the validity checks of both protocols, the length left by the prefix, the check
  every method with a key makes, and the key lists of the multi-key methods
  (\<open>s_memc_valid_key_*\<close>, \<open>MEMC_CHECK_KEY\<close>, \<open>s_hash_to_keys\<close>, \<open>s_key_to_keys\<close>).
\<close>

section \<open>Valid keys\<close>

abbreviation (input) MEMC_OBJECT_KEY_MAX_LENGTH :: nat where "MEMC_OBJECT_KEY_MAX_LENGTH \<equiv> 250"
abbreviation (input) MEMCACHED_MAX_KEY :: nat where "MEMCACHED_MAX_KEY \<equiv> 251"

definition s_memc_valid_key_binary :: "string \<Rightarrow> bool" where
  "s_memc_valid_key_binary key = (CHR 0x0A \<notin> set key)"

fun valid_key_verify_loop :: "string \<Rightarrow> bool" where
  "valid_key_verify_loop [] = True"
| "valid_key_verify_loop (c # cs) =
     (if \<not> isgraph c \<or> isspace c then False else valid_key_verify_loop cs)"

fun valid_key_space_loop :: "string \<Rightarrow> bool" where
  "valid_key_space_loop [] = True"
| "valid_key_space_loop (c # cs) = (if isspace c then False else valid_key_space_loop cs)"

definition s_memc_valid_key_ascii :: "string \<Rightarrow> u64 \<Rightarrow> bool" where
  "s_memc_valid_key_ascii key verify_key =
     (if verify_key \<noteq> 0 then valid_key_verify_loop key else valid_key_space_loop key)"

definition s_memc_object_key_max_length :: "'m libmemcached \<Rightarrow> 'm php_memc_object \<Rightarrow> u32" where
  "s_memc_object_key_max_length L intern =
     (case lm_prefix_get L (memc intern) of
        (retval, result) \<Rightarrow>
          (case result of
             Some prefix \<Rightarrow>
               if retval = MEMCACHED_SUCCESS
               then ucast ((of_nat MEMC_OBJECT_KEY_MAX_LENGTH :: u64) - of_nat (strlen prefix))
               else of_nat MEMC_OBJECT_KEY_MAX_LENGTH
           | None \<Rightarrow> of_nat MEMC_OBJECT_KEY_MAX_LENGTH))"

definition key_rejected :: "'m libmemcached \<Rightarrow> 'm php_memc_object \<Rightarrow> string \<Rightarrow> bool" where
  "key_rejected L intern key =
     (length key = 0 \<or>
      length key > unat (s_memc_object_key_max_length L intern) \<or>
      (if lm_behavior_get L (memc intern) MEMCACHED_BEHAVIOR_BINARY_PROTOCOL \<noteq> 0
       then \<not> s_memc_valid_key_binary key
       else \<not> s_memc_valid_key_ascii key
              (lm_behavior_get L (memc intern) MEMCACHED_BEHAVIOR_VERIFY_KEY)))"

text \<open>\<open>Inl\<close>: the method returns false with this object; \<open>Inr\<close>: it goes on.\<close>

definition MEMC_CHECK_KEY ::
  "'m libmemcached \<Rightarrow> 'm php_memc_object \<Rightarrow> string \<Rightarrow> 'm php_memc_object + unit" where
  "MEMC_CHECK_KEY L intern key =
     (if key_rejected L intern key then Inl (intern\<lparr>rescode := MEMCACHED_BAD_KEY_PROVIDED\<rparr>)
      else Inr ())"

definition checkKey ::
  "'m libmemcached \<Rightarrow> 'm php_memc_object \<Rightarrow> string \<Rightarrow> bool \<times> 'm php_memc_object" where
  "checkKey L intern key =
     (let intern = s_memc_set_status intern MEMCACHED_SUCCESS 0 in
      case MEMC_CHECK_KEY L intern key of
        Inl intern \<Rightarrow> (False, intern)
      | Inr _ \<Rightarrow> (True, intern))"

section \<open>Key lists\<close>

text \<open>
  \<open>keys_out\<close> is the list of its valid keys. With \<open>preserve_order\<close> the result array gets a null
  entry per key, under the string key as it is (\<open>add_assoc_null_ex\<close>: in PHP 7.3 and later this
  is \<open>zend_symtable_update\<close>, so a decimal string becomes an integer key; \<open>z_symtable_key\<close>).
\<close>

type_synonym 'd harray = "(hkey \<times> 'd zval) list"

fun s_hash_to_keys_loop ::
  "'d zend \<Rightarrow> bool \<Rightarrow> 'd zval list \<Rightarrow> string list \<Rightarrow> 'd harray \<Rightarrow> string list \<times> 'd harray" where
  "s_hash_to_keys_loop Z preserve [] keys ret = (keys, ret)"
| "s_hash_to_keys_loop Z preserve (zv # zvs) keys ret =
     (let key = zval_get_string Z zv;
          ret = (if preserve then AList.update (z_symtable_key Z key) IS_NULL ret else ret);
          keys = (if length key > 0 \<and> length key < MEMCACHED_MAX_KEY then keys @ [key] else keys)
      in s_hash_to_keys_loop Z preserve zvs keys ret)"

definition s_hash_to_keys ::
  "'d zend \<Rightarrow> 'd harray \<Rightarrow> bool \<Rightarrow> 'd harray option \<Rightarrow> string list \<times> 'd harray option" where
  "s_hash_to_keys Z hash_in preserve_order return_value =
     (if length hash_in = 0 then ([], return_value)
      else case return_value of
        None \<Rightarrow> (fst (s_hash_to_keys_loop Z False (map snd hash_in) [] []), None)
      | Some ret \<Rightarrow>
          (case s_hash_to_keys_loop Z preserve_order (map snd hash_in) [] ret of
             (keys, ret) \<Rightarrow> (keys, Some ret)))"

definition s_key_to_keys :: "'d zend \<Rightarrow> string \<Rightarrow> string list" where
  "s_key_to_keys Z key = fst (s_hash_to_keys Z [(HInt 0, IS_STRING key)] False None)"

section \<open>Facts\<close>

lemma valid_key_verify_loop_iff: "valid_key_verify_loop key \<longleftrightarrow> (\<forall>c \<in> set key. isgraph c)"
  by (induction key) (auto simp: isgraph_def isspace_def Let_def)

lemma valid_key_space_loop_iff: "valid_key_space_loop key \<longleftrightarrow> (\<forall>c \<in> set key. \<not> isspace c)"
  by (induction key) auto

lemma s_memc_valid_key_ascii_iff:
  "s_memc_valid_key_ascii key v \<longleftrightarrow>
     (if v \<noteq> 0 then \<forall>c \<in> set key. isgraph c else \<forall>c \<in> set key. \<not> isspace c)"
  by (simp add: s_memc_valid_key_ascii_def valid_key_verify_loop_iff valid_key_space_loop_iff)

lemma valid_key_ascii_no_space:
  "s_memc_valid_key_ascii key v \<Longrightarrow> c \<in> set key \<Longrightarrow> \<not> isspace c"
  by (auto simp: s_memc_valid_key_ascii_iff isgraph_not_isspace split: if_splits)

text \<open>The prefix in force, and the room it leaves when it is no longer than 250 bytes.\<close>

definition key_prefix_length :: "'m libmemcached \<Rightarrow> 'm php_memc_object \<Rightarrow> nat" where
  "key_prefix_length L intern =
     (case lm_prefix_get L (memc intern) of
        (MEMCACHED_SUCCESS, Some prefix) \<Rightarrow> strlen prefix | _ \<Rightarrow> 0)"

lemma key_max_length_unat:
  assumes "key_prefix_length L intern \<le> 250"
  shows "unat (s_memc_object_key_max_length L intern) = 250 - key_prefix_length L intern"
proof -
  have sub: "unat (ucast ((250 :: u64) - of_nat n) :: u32) = 250 - n" if "n \<le> 250" for n
  proof -
    have e: "(250 :: u64) - of_nat n = of_nat (250 - n)" using that by (simp add: of_nat_diff)
    have "unat ((250 :: u64) - of_nat n) = 250 - n"
      unfolding e by (rule unat_of_nat_small) simp
    then show ?thesis
      using that by (simp only: unsigned_ucast_eq unsigned_take_bit_eq) (simp add: take_bit_nat_eq_self)
  qed
  show ?thesis
    using assms sub
    by (auto simp: s_memc_object_key_max_length_def key_prefix_length_def
        split: prod.splits option.splits memcached_return.splits)
qed

lemma key_rejected_iff:
  assumes "key_prefix_length L intern \<le> 250"
  shows "\<not> key_rejected L intern key \<longleftrightarrow>
    key \<noteq> [] \<and> key_prefix_length L intern + length key \<le> 250 \<and>
    (if lm_behavior_get L (memc intern) MEMCACHED_BEHAVIOR_BINARY_PROTOCOL \<noteq> 0
     then CHR 0x0A \<notin> set key
     else s_memc_valid_key_ascii key
            (lm_behavior_get L (memc intern) MEMCACHED_BEHAVIOR_VERIFY_KEY))"
  using assms by (auto simp: key_rejected_def key_max_length_unat s_memc_valid_key_binary_def)

lemma key_rejected_cong:
  "memc a = memc b \<Longrightarrow> key_rejected L a key = key_rejected L b key"
  by (simp add: key_rejected_def s_memc_object_key_max_length_def)

lemma s_hash_to_keys_loop_keys:
  "fst (s_hash_to_keys_loop Z preserve zvs keys ret)
     = keys @ filter (\<lambda>k. 0 < length k \<and> length k < 251) (map (zval_get_string Z) zvs)"
  by (induction Z preserve zvs keys ret rule: s_hash_to_keys_loop.induct) (simp_all add: Let_def)

lemma s_hash_to_keys_loop_ret:
  "snd (s_hash_to_keys_loop Z preserve zvs keys ret)
     = (if preserve
        then fold (\<lambda>zv. AList.update (z_symtable_key Z (zval_get_string Z zv)) IS_NULL) zvs ret
        else ret)"
  by (induction Z preserve zvs keys ret rule: s_hash_to_keys_loop.induct) (simp_all add: Let_def)

lemma s_hash_to_keys_keys:
  "fst (s_hash_to_keys Z h preserve ret)
     = filter (\<lambda>k. 0 < length k \<and> length k < 251) (map (zval_get_string Z \<circ> snd) h)"
  by (auto simp: s_hash_to_keys_def s_hash_to_keys_loop_keys case_prod_beta split: option.splits)

lemma s_key_to_keys_eq:
  "s_key_to_keys Z key = (if 0 < length key \<and> length key < 251 then [key] else [])"
  by (simp add: s_key_to_keys_def s_hash_to_keys_keys zval_get_string_def)

lemma MEMC_CHECK_KEY_cases:
  obtains (reject) "key_rejected L intern key"
      "MEMC_CHECK_KEY L intern key = Inl (intern\<lparr>rescode := MEMCACHED_BAD_KEY_PROVIDED\<rparr>)"
    | (accept) "\<not> key_rejected L intern key" "MEMC_CHECK_KEY L intern key = Inr ()"
  by (cases "key_rejected L intern key") (simp_all add: MEMC_CHECK_KEY_def)

section \<open>Properties\<close>

text \<open>C26: Which keys a method accepts, when the prefix leaves room: the ones that are not empty,
  at most 250 bytes together with the prefix, and, in the binary protocol, free of newlines; in
  the text protocol printable when keys are verified and free of white space otherwise. A
  rejected key leaves \<open>MEMCACHED_BAD_KEY_PROVIDED\<close>.\<close>

theorem check_key_accepts:
  assumes "key_prefix_length L intern \<le> 250"
  shows "MEMC_CHECK_KEY L intern key =
    (if key \<noteq> [] \<and> key_prefix_length L intern + length key \<le> 250 \<and>
        (if lm_behavior_get L (memc intern) MEMCACHED_BEHAVIOR_BINARY_PROTOCOL \<noteq> 0
         then CHR 0x0A \<notin> set key
         else if lm_behavior_get L (memc intern) MEMCACHED_BEHAVIOR_VERIFY_KEY \<noteq> 0
         then \<forall>c \<in> set key. isgraph c else \<forall>c \<in> set key. \<not> isspace c)
     then Inr () else Inl (intern\<lparr>rescode := MEMCACHED_BAD_KEY_PROVIDED\<rparr>))"
  unfolding MEMC_CHECK_KEY_def key_rejected_iff [OF assms, of key, symmetric, unfolded s_memc_valid_key_ascii_iff]
  by simp

theorem check_key_accepts_witness:
  "MEMC_CHECK_KEY sample_lib sample_object ''user:1'' = Inr () \<and>
   MEMC_CHECK_KEY sample_lib sample_object ''get a'' = Inl (sample_object\<lparr>rescode := MEMCACHED_BAD_KEY_PROVIDED\<rparr>)"
  using check_key_accepts [of sample_lib sample_object "''user:1''"]
    check_key_accepts [of sample_lib sample_object "''get a''"]
  by (simp add: sample_defs key_prefix_length_def strlen_def isspace_def)

text \<open>C11: No command injection through a key: a key that passes the check of the text protocol
  contains no white space, so no carriage return, newline or blank, whether or not keys are
  verified and whatever the prefix is.\<close>

theorem check_key_no_injection:
  assumes "MEMC_CHECK_KEY L intern key = Inr ()"
    "lm_behavior_get L (memc intern) MEMCACHED_BEHAVIOR_BINARY_PROTOCOL = 0"
  shows "filter isspace key = [] \<and> CHR 0x0A \<notin> set key \<and> CHR 0x0D \<notin> set key \<and> CHR '' '' \<notin> set key"
proof -
  have valid: "s_memc_valid_key_ascii key (lm_behavior_get L (memc intern) MEMCACHED_BEHAVIOR_VERIFY_KEY)"
    using assms by (auto simp: MEMC_CHECK_KEY_def key_rejected_def split: if_splits)
  have "isspace CHR 0x0A" "isspace CHR 0x0D" "isspace CHR '' ''" by (simp_all add: isspace_def)
  with valid_key_ascii_no_space [OF valid] show ?thesis by (metis filter_False)
qed

theorem check_key_no_injection_witness:
  "filter isspace ''user:1'' = [] \<and> CHR 0x0A \<notin> set ''user:1'' \<and> CHR 0x0D \<notin> set ''user:1'' \<and>
   CHR '' '' \<notin> set ''user:1''"
proof (rule check_key_no_injection [of sample_lib sample_object])
  show "MEMC_CHECK_KEY sample_lib sample_object ''user:1'' = Inr ()"
    by (simp add: MEMC_CHECK_KEY_def key_rejected_iff key_prefix_length_def strlen_def
        s_memc_valid_key_ascii_iff isspace_def sample_defs)
  show "lm_behavior_get sample_lib (memc sample_object) MEMCACHED_BEHAVIOR_BINARY_PROTOCOL = 0"
    by (simp add: sample_defs)
qed

text \<open>The keys of a multi-key method are sent in the order of the array, each converted to a
  string, and exactly those of 1 to 250 bytes; they are not checked for their characters.\<close>

theorem hash_to_keys_exact:
  "fst (s_hash_to_keys Z hash_in preserve_order return_value) =
     filter (\<lambda>k. 1 \<le> length k \<and> length k \<le> 250) (map (\<lambda>(_, zv). zval_get_string Z zv) hash_in)"
  by (simp add: s_hash_to_keys_keys comp_def case_prod_beta' Suc_le_eq less_Suc_eq_le numeral_eq_Suc cong: filter_cong)

end
