(* ===== verification/Cas_Token.thy ===== *)
theory Cas_Token
  imports Memc_Types Decimal
begin

text \<open>
  CAS tokens cross into PHP as integers where they fit and as decimal strings otherwise, and
  come back as any value (\<open>php_memcached.c\<close>, "Marshall cas tokens").
\<close>

abbreviation (input) LONG_MAX :: zend_long where "LONG_MAX \<equiv> 9223372036854775807"

definition s_uint64_to_zval :: "u64 \<Rightarrow> 'd zval" where
  "s_uint64_to_zval v = (if v \<ge> LONG_MAX then IS_STRING (dec_of_u64 v) else IS_LONG v)"

text \<open>
  \<open>None\<close>: the \<open>E_ERROR\<close> of a malformed string, which ends the request (the \<open>return 0\<close> after
  it is not reached). \<open>*end\<close> is NUL at the end of the string.
\<close>

definition s_zval_to_uint64 :: "'d zend \<Rightarrow> 'd zval \<Rightarrow> u64 option" where
  "s_zval_to_uint64 Z cas =
     (case cas of
        IS_LONG l \<Rightarrow> Some l
      | IS_DOUBLE x \<Rightarrow> if z_double_negative Z x then Some 0 else Some (z_double_to_u64 Z x)
      | IS_STRING s \<Rightarrow>
          (let (val, rest, erange) = strtoull s;
               at_end = (case rest of [] \<Rightarrow> True | c # _ \<Rightarrow> c = CHR 0x00)
           in if \<not> at_end \<or> (erange \<and> val = - 1) \<or> (erange \<and> val = 0) then None else Some val)
      | _ \<Rightarrow> Some 0)"

lemma cas_round_trip: "s_zval_to_uint64 Z (s_uint64_to_zval v) = Some v"
proof (cases "v \<ge> LONG_MAX")
  case True
  then have "0 < v" by (cases "v = 0") (auto simp: word_gt_0)
  with True show ?thesis by (simp add: s_uint64_to_zval_def s_zval_to_uint64_def strtoull_dec_of_u64)
next
  case False
  then show ?thesis by (simp add: s_uint64_to_zval_def s_zval_to_uint64_def)
qed

lemma s_uint64_to_zval_cases:
  obtains (long) "s_uint64_to_zval v = IS_LONG v" "unat v < 2 ^ 63 - 1"
    | (str) "s_uint64_to_zval v = IS_STRING (dec_of_u64 v)" "2 ^ 63 - 1 \<le> unat v"
  by (cases "v \<ge> LONG_MAX") (auto simp: s_uint64_to_zval_def word_le_nat_alt)

section \<open>Properties\<close>

text \<open>C21: Every CAS token survives the way to PHP and back, the ones above \<open>LONG_MAX\<close>, which
  travel as decimal strings, included.\<close>

theorem cas_token_round_trip: "s_zval_to_uint64 Z (s_uint64_to_zval v) = Some v"
  by (rule cas_round_trip)

end
