(* ===== verification/Write.thy ===== *)
theory Write
  imports Payload Keys Cas_Token Sample
begin

text \<open>
  The methods that change items: \<open>s_memc_write_zval\<close> and its retries, the store methods,
  \<open>setMulti\<close>, \<open>cas\<close>, \<open>delete\<close>, \<open>deleteMulti\<close>, and the counters. Arguments are those the parameter
  parser leaves in the variables; \<open>server_key = None\<close> is a call without \<open>by_key\<close>. An outer
  \<open>None\<close> is an abort of the process or of the request. Warnings are not modelled.
\<close>

section \<open>s_memc_write_zval\<close>

definition php_memcached_touch ::
  "'m libmemcached \<Rightarrow> string option \<Rightarrow> string \<Rightarrow> zend_long \<Rightarrow> 'm \<Rightarrow> memcached_return \<times> 'm" where
  "php_memcached_touch L server_key key expiration m = lm_touch L server_key key expiration m"

text \<open>One pass through the \<open>switch (op)\<close>, with \<open>MEMCACHED_END\<close> read as success.\<close>

definition memc_write_once ::
  "'m libmemcached \<Rightarrow> php_memc_write_op \<Rightarrow> string option \<Rightarrow> string \<Rightarrow> string option \<Rightarrow> zend_long \<Rightarrow> u32 \<Rightarrow>
     'm \<Rightarrow> memcached_return \<times> 'm" where
  "memc_write_once L op server_key key payload expiration flags m =
     (let (status, m) =
        (if op = MEMC_OP_TOUCH then php_memcached_touch L server_key key expiration m
         else case payload of
           None \<Rightarrow> (MEMC_RES_PAYLOAD_FAILURE, m)
         | Some p \<Rightarrow> lm_store L op server_key key p expiration flags m)
      in (if status = MEMCACHED_END then MEMCACHED_SUCCESS else status, m))"

definition s_should_retry_write :: "'m libmemcached \<Rightarrow> 'm \<Rightarrow> memcached_return \<Rightarrow> bool" where
  "s_should_retry_write L m status =
     (if lm_server_count L m = 0 then False else s_memcached_return_is_error status True)"

text \<open>\<open>if (s_should_retry_write(...) && retries-- > 0) goto retry\<close>\<close>

fun retry_write ::
  "'m libmemcached \<Rightarrow> ('m \<Rightarrow> memcached_return \<times> 'm) \<Rightarrow> nat \<Rightarrow> memcached_return \<times> 'm \<Rightarrow>
     memcached_return \<times> 'm" where
  "retry_write L again 0 (status, m) = (status, m)"
| "retry_write L again (Suc retries) (status, m) =
     (if s_should_retry_write L m status then retry_write L again retries (again m) else (status, m))"

text \<open>The label \<open>retry\<close> stands in the branch without a server key, whatever branch ran first.\<close>

definition memc_write_all ::
  "'m libmemcached \<Rightarrow> php_memc_user_data \<Rightarrow> php_memc_write_op \<Rightarrow> string option \<Rightarrow> string \<Rightarrow> string option \<Rightarrow>
     zend_long \<Rightarrow> u32 \<Rightarrow> 'm \<Rightarrow> memcached_return \<times> 'm" where
  "memc_write_all L ud op server_key key payload expiration flags m =
     retry_write L (memc_write_once L op None key payload expiration flags)
       (nat (sint (store_retry_count ud)))
       (memc_write_once L op server_key key payload expiration flags m)"

definition s_memc_write_zval ::
  "('m, 'd) env \<Rightarrow> 'm php_memc_object \<Rightarrow> php_memc_write_op \<Rightarrow> string option \<Rightarrow> string \<Rightarrow> 'd zval option \<Rightarrow>
     zend_long \<Rightarrow> (bool \<times> 'm php_memc_object) option" where
  "s_memc_write_zval E intern op server_key key value expiration =
     (let finish = (\<lambda>payload flags intern.
        case memc_write_all (lib E) (user_data intern) op server_key key payload expiration flags (memc intern) of
          (status, m) \<Rightarrow> s_memc_status_handle_result_code (lib E) (intern\<lparr>memc := m\<rparr>) status)
      in case value of
        None \<Rightarrow> Some (finish None 0 intern)
      | Some v \<Rightarrow> do {
          (payload, flags, intern) \<leftarrow> s_zval_to_payload E intern v 0;
          case payload of
            None \<Rightarrow> Some (False, s_memc_set_status intern MEMC_RES_PAYLOAD_FAILURE 0)
          | Some p \<Rightarrow>
              if s_is_payload_too_big intern p
              then Some (False, s_memc_set_status intern MEMCACHED_E2BIG 0)
              else Some (finish (Some p) flags intern)
        })"

section \<open>The store methods\<close>

text \<open>
  \<open>value\<close> is \<open>None\<close> for \<open>touch\<close>, a string for \<open>append\<close> and \<open>prepend\<close> (with expiration 0).
\<close>

definition php_memc_store_impl ::
  "('m, 'd) env \<Rightarrow> 'm php_memc_object \<Rightarrow> php_memc_write_op \<Rightarrow> string option \<Rightarrow> string \<Rightarrow> 'd zval option \<Rightarrow>
     zend_long \<Rightarrow> ('d zval \<times> 'm php_memc_object) option" where
  "php_memc_store_impl E intern op server_key key value expiration =
     (let intern = s_memc_set_status intern MEMCACHED_SUCCESS 0 in
      case MEMC_CHECK_KEY (lib E) intern key of
        Inl intern \<Rightarrow> Some (IS_FALSE, intern)
      | Inr _ \<Rightarrow>
          if compression_enabled (user_data intern) \<and> (op = MEMC_OP_APPEND \<or> op = MEMC_OP_PREPEND)
          then Some (IS_NULL, intern)
          else do {
            (ok, intern) \<leftarrow> s_memc_write_zval E intern op server_key key value expiration;
            Some (ZVAL_BOOL ok, intern)
          })"

text \<open>\<open>setMulti\<close>: integer keys are printed with \<open>"%ld"\<close>; no key is checked.\<close>

definition entry_key :: "hkey \<Rightarrow> string" where
  "entry_key k = (case k of HStr s \<Rightarrow> s | HInt n \<Rightarrow> dec_of_long n)"

fun setMulti_loop ::
  "('m, 'd) env \<Rightarrow> string option \<Rightarrow> zend_long \<Rightarrow> 'd harray \<Rightarrow> 'm php_memc_object \<Rightarrow>
     'm php_memc_object option" where
  "setMulti_loop E server_key expiration [] intern = Some intern"
| "setMulti_loop E server_key expiration ((k, value) # entries) intern = do {
     (_, intern) \<leftarrow> s_memc_write_zval E intern MEMC_OP_SET server_key (entry_key k) (Some value) expiration;
     setMulti_loop E server_key expiration entries intern
   }"

definition php_memc_setMulti_impl ::
  "('m, 'd) env \<Rightarrow> 'm php_memc_object \<Rightarrow> string option \<Rightarrow> 'd harray \<Rightarrow> zend_long \<Rightarrow>
     ('d zval \<times> 'm php_memc_object) option" where
  "php_memc_setMulti_impl E intern server_key entries expiration = do {
     intern \<leftarrow> setMulti_loop E server_key expiration entries (s_memc_set_status intern MEMCACHED_SUCCESS 0);
     Some (ZVAL_BOOL (\<not> s_memc_status_has_error intern), intern)
   }"

section \<open>cas\<close>

definition php_memc_cas_impl ::
  "('m, 'd) env \<Rightarrow> 'm php_memc_object \<Rightarrow> 'd zval \<Rightarrow> string option \<Rightarrow> string \<Rightarrow> 'd zval \<Rightarrow> zend_long \<Rightarrow>
     ('d zval \<times> 'm php_memc_object) option" where
  "php_memc_cas_impl E intern zv_cas server_key key value expiration =
     (let intern = s_memc_set_status intern MEMCACHED_SUCCESS 0 in
      case MEMC_CHECK_KEY (lib E) intern key of
        Inl intern \<Rightarrow> Some (IS_FALSE, intern)
      | Inr _ \<Rightarrow> do {
          cas \<leftarrow> s_zval_to_uint64 (zend E) zv_cas;
          (payload, flags, intern) \<leftarrow> s_zval_to_payload E intern value 0;
          case payload of
            None \<Rightarrow> Some (IS_FALSE, intern\<lparr>rescode := MEMC_RES_PAYLOAD_FAILURE\<rparr>)
          | Some p \<Rightarrow>
              if s_is_payload_too_big intern p
              then Some (IS_FALSE, intern\<lparr>rescode := MEMCACHED_E2BIG\<rparr>)
              else
                (let (status, m) = lm_cas (lib E) server_key key p expiration flags cas (memc intern);
                     (ok, intern) = s_memc_status_handle_result_code (lib E) (intern\<lparr>memc := m\<rparr>) status
                 in Some (ZVAL_BOOL ok, intern))
        })"

section \<open>delete\<close>

definition php_memc_delete_impl ::
  "('m, 'd) env \<Rightarrow> 'm php_memc_object \<Rightarrow> string option \<Rightarrow> string \<Rightarrow> zend_long \<Rightarrow>
     'd zval \<times> 'm php_memc_object" where
  "php_memc_delete_impl E intern server_key key expiration =
     (let intern = s_memc_set_status intern MEMCACHED_SUCCESS 0 in
      case MEMC_CHECK_KEY (lib E) intern key of
        Inl intern \<Rightarrow> (IS_FALSE, intern)
      | Inr _ \<Rightarrow>
          (let (status, m) = lm_delete (lib E) server_key key expiration (memc intern);
               (ok, intern) = s_memc_status_handle_result_code (lib E) (intern\<lparr>memc := m\<rparr>) status
           in (ZVAL_BOOL ok, intern)))"

text \<open>Without a server key each entry is its own server key.\<close>

fun deleteMulti_loop ::
  "('m, 'd) env \<Rightarrow> string option \<Rightarrow> zend_long \<Rightarrow> 'd zval list \<Rightarrow> 'm php_memc_object \<Rightarrow> 'd harray \<Rightarrow>
     'd harray \<times> 'm php_memc_object" where
  "deleteMulti_loop E server_key expiration [] intern ret = (ret, intern)"
| "deleteMulti_loop E server_key expiration (zv # zvs) intern ret =
     (let entry = zval_get_string (zend E) zv in
      if length entry = 0 then deleteMulti_loop E server_key expiration zvs intern ret
      else
        let sk = (case server_key of Some sk \<Rightarrow> sk | None \<Rightarrow> entry);
            (status, m) = lm_delete (lib E) (Some sk) entry expiration (memc intern);
            (ok, intern) = s_memc_status_handle_result_code (lib E) (intern\<lparr>memc := m\<rparr>) status;
            v = (if ok then IS_TRUE else IS_LONG (lm_return_code (lib E) status))
        in deleteMulti_loop E server_key expiration zvs intern
             (AList.update (z_symtable_key (zend E) entry) v ret))"

definition php_memc_deleteMulti_impl ::
  "('m, 'd) env \<Rightarrow> 'm php_memc_object \<Rightarrow> string option \<Rightarrow> 'd harray \<Rightarrow> zend_long \<Rightarrow>
     'd zval \<times> 'm php_memc_object" where
  "php_memc_deleteMulti_impl E intern server_key entries expiration =
     (case deleteMulti_loop E server_key expiration (map snd entries)
        (s_memc_set_status intern MEMCACHED_SUCCESS 0) [] of
        (ret, intern) \<Rightarrow> (IS_ARRAY ret, intern))"

section \<open>Counters\<close>

text \<open>
  \<open>initial_given\<close>: the call had an initial value (\<open>n_args\<close> at least 3, or 4 by key). The
  loop returns \<open>None\<close> where the method returns false because the protocol is not binary.
\<close>

fun incdec_initial_loop ::
  "'m libmemcached \<Rightarrow> (u64 \<Rightarrow> 'm \<Rightarrow> memcached_return \<times> u64 \<times> 'm) \<Rightarrow> nat \<Rightarrow> u64 \<Rightarrow> 'm \<Rightarrow>
     (memcached_return \<times> u64) option \<times> 'm" where
  "incdec_initial_loop L call retries value m =
     (if lm_behavior_get L m MEMCACHED_BEHAVIOR_BINARY_PROTOCOL = 0 then (None, m)
      else case call value m of (status, value, m) \<Rightarrow>
        (case retries of
           0 \<Rightarrow> (Some (status, value), m)
         | Suc r \<Rightarrow>
             if s_should_retry_write L m status then incdec_initial_loop L call r value m
             else (Some (status, value), m)))"

definition php_memc_incdec_impl ::
  "('m, 'd) env \<Rightarrow> 'm php_memc_object \<Rightarrow> bool \<Rightarrow> string option \<Rightarrow> string \<Rightarrow> zend_long \<Rightarrow> bool \<Rightarrow> zend_long \<Rightarrow>
     zend_long \<Rightarrow> 'd zval \<times> 'm php_memc_object" where
  "php_memc_incdec_impl E intern incr server_key key offset initial_given initial expiry =
     (let intern = s_memc_set_status intern MEMCACHED_SUCCESS 0 in
      case MEMC_CHECK_KEY (lib E) intern key of
        Inl intern \<Rightarrow> (IS_FALSE, intern)
      | Inr _ \<Rightarrow>
          if sint offset < 0 then (IS_FALSE, intern)
          else
            let (r, m) =
              (if \<not> initial_given
               then let sk = (case server_key of Some sk \<Rightarrow> sk | None \<Rightarrow> key);
                        (status, value, m) = lm_incdec (lib E) incr (Some sk) key offset (- 1) (memc intern)
                    in (Some (status, value), m)
               else incdec_initial_loop (lib E)
                      (lm_incdec_initial (lib E) incr server_key key offset initial expiry)
                      (nat (sint (store_retry_count (user_data intern)))) (- 1) (memc intern));
                intern = intern\<lparr>memc := m\<rparr>
            in case r of
                 None \<Rightarrow> (IS_FALSE, intern)
               | Some (status, value) \<Rightarrow>
                   (let (ok, intern) = s_memc_status_handle_result_code (lib E) intern status
                    in if \<not> ok then (IS_FALSE, intern)
                       else if value = - 1 then (IS_FALSE, intern)
                       else (IS_LONG value, intern)))"

section \<open>Facts on the retries\<close>

lemma s_should_retry_write_iff:
  "s_should_retry_write L m status \<longleftrightarrow>
     s_memcached_return_is_error status True \<and> lm_server_count L m \<noteq> 0"
  by (simp add: s_should_retry_write_def)

text \<open>The state after \<open>k\<close> further attempts.\<close>

abbreviation attempts :: "('m \<Rightarrow> memcached_return \<times> 'm) \<Rightarrow> nat \<Rightarrow> memcached_return \<times> 'm \<Rightarrow> memcached_return \<times> 'm" where
  "attempts again k r \<equiv> ((\<lambda>r. again (snd r)) ^^ k) r"

lemma attempts_Suc: "attempts again (Suc k) r = attempts again k (again (snd r))"
  using funpow_swap1 [of "\<lambda>r. again (snd r)" k r] by simp

lemma retry_write_attempts:
  "\<exists>k \<le> retries. retry_write L again retries r = attempts again k r \<and>
     (\<forall>j < k. s_should_retry_write L (snd (attempts again j r)) (fst (attempts again j r))) \<and>
     (k < retries \<longrightarrow> \<not> s_should_retry_write L (snd (attempts again k r)) (fst (attempts again k r)))"
proof (induction retries arbitrary: r)
  case 0
  then show ?case by (cases r) simp
next
  case (Suc retries)
  obtain status m where r: "r = (status, m)" by (cases r)
  show ?case
  proof (cases "s_should_retry_write L m status")
    case True
    from Suc.IH [of "again m"] obtain k where k: "k \<le> retries"
      "retry_write L again retries (again m) = attempts again k (again m)"
      "\<forall>j < k. s_should_retry_write L (snd (attempts again j (again m))) (fst (attempts again j (again m)))"
      "k < retries \<longrightarrow> \<not> s_should_retry_write L (snd (attempts again k (again m))) (fst (attempts again k (again m)))"
      by blast
    have shift: "attempts again (Suc j) r = attempts again j (again m)" for j
      using attempts_Suc [of j again r] r by simp
    have "\<forall>j < Suc k. s_should_retry_write L (snd (attempts again j r)) (fst (attempts again j r))"
    proof (intro allI impI)
      fix j
      assume "j < Suc k"
      then show "s_should_retry_write L (snd (attempts again j r)) (fst (attempts again j r))"
        using True k(3) r shift by (cases j) (simp_all del: funpow.simps add: funpow_0)
    qed
    with k True show ?thesis
      by (intro exI [of _ "Suc k"]) (simp add: shift del: funpow.simps, simp add: r)
  next
    case False
    then show ?thesis by (intro exI [of _ 0]) (simp add: r)
  qed
qed

lemma retry_write_success [simp]:
  "\<not> s_memcached_return_is_error status True \<Longrightarrow> retry_write L again n (status, m) = (status, m)"
  by (cases n) (simp_all add: s_should_retry_write_def)

section \<open>Facts on the writes\<close>

lemma s_memc_write_zval_cases:
  assumes "s_memc_write_zval E intern op server_key key value expiration = Some (ok, intern')"
  obtains (payload_failure) v fl i where "value = Some v" "s_zval_to_payload E intern v 0 = Some (None, fl, i)"
      "\<not> ok" "intern' = s_memc_set_status i MEMC_RES_PAYLOAD_FAILURE 0"
    | (too_big) v p fl i where "value = Some v" "s_zval_to_payload E intern v 0 = Some (Some p, fl, i)"
      "s_is_payload_too_big i p" "\<not> ok" "intern' = s_memc_set_status i MEMCACHED_E2BIG 0"
    | (written) payload flags i status m where
      "(value = None \<and> payload = None \<and> flags = 0 \<and> i = intern) \<or>
       (\<exists>v p. value = Some v \<and> payload = Some p \<and> s_zval_to_payload E intern v 0 = Some (Some p, flags, i) \<and>
          \<not> s_is_payload_too_big i p)"
      "memc_write_all (lib E) (user_data i) op server_key key payload expiration flags (memc i) = (status, m)"
      "(ok, intern') = s_memc_status_handle_result_code (lib E) (i\<lparr>memc := m\<rparr>) status"
  using assms
  by (auto simp: s_memc_write_zval_def Let_def split: option.splits bind_splits prod.splits if_splits)

lemma s_memc_write_zval_status:
  assumes "s_memc_write_zval E intern op server_key key value expiration = Some (ok, intern')"
  shows "ok \<longleftrightarrow> \<not> s_memc_status_has_error intern'"
  using assms
proof (cases rule: s_memc_write_zval_cases)
  case (written payload flags i status m)
  then have "ok = fst (s_memc_status_handle_result_code (lib E) (i\<lparr>memc := m\<rparr>) status)"
    "intern' = snd (s_memc_status_handle_result_code (lib E) (i\<lparr>memc := m\<rparr>) status)"
    by (metis fst_conv, metis snd_conv)
  then show ?thesis by (simp add: s_memc_status_has_error_def)
qed (simp_all add: s_memc_status_has_error_def)

lemma s_memc_write_zval_frame:
  assumes "s_memc_write_zval E intern op server_key key value expiration = Some (ok, intern')"
  shows "user_data intern' = user_data intern \<and> is_pristine intern' = is_pristine intern"
  using assms
proof (cases rule: s_memc_write_zval_cases)
  case (written payload flags i status m)
  then have "intern' = snd (s_memc_status_handle_result_code (lib E) (i\<lparr>memc := m\<rparr>) status)"
    by (metis snd_conv)
  with written(1) show ?thesis by (auto dest!: s_zval_to_payload_frame same_but_exceptionD)
qed (auto dest!: s_zval_to_payload_frame same_but_exceptionD)

text \<open>A refused value never reaches the library.\<close>

lemma s_memc_write_zval_refused:
  assumes "s_zval_to_payload E intern v 0 = Some (q, fl, i)"
    "q = None \<or> (\<exists>p. q = Some p \<and> s_is_payload_too_big i p)"
  obtains intern' where "s_memc_write_zval E intern op server_key key (Some v) expiration = Some (False, intern')"
    "memc intern' = memc intern" "memc_errno intern' = 0"
    "rescode intern' = (if q = None then MEMC_RES_PAYLOAD_FAILURE else MEMCACHED_E2BIG)"
  using assms same_but_exceptionD [OF s_zval_to_payload_frame [OF assms(1)]]
  by (auto simp: s_memc_write_zval_def)

section \<open>Facts on the methods\<close>

lemma setMulti_loop_append:
  "setMulti_loop E sk e (es @ fs) intern =
     do { i \<leftarrow> setMulti_loop E sk e es intern; setMulti_loop E sk e fs i }"
proof (induction es arbitrary: intern)
  case Nil
  then show ?case by simp
next
  case (Cons kv es)
  obtain k v where "kv = (k, v)" by (cases kv)
  with Cons show ?case by (simp add: case_prod_beta')
qed

lemma deleteMulti_loop_keys:
  "fst ` set (fst (deleteMulti_loop E sk e zvs intern ret)) =
     fst ` set ret \<union> z_symtable_key (zend E) ` {k \<in> set (map (zval_get_string (zend E)) zvs). k \<noteq> []}"
proof (induction zvs arbitrary: intern ret)
  case Nil
  then show ?case by simp
next
  case (Cons zv zvs)
  then show ?case by (auto simp: Let_def case_prod_beta dom_update)
qed

lemma write_once_last:
  assumes "retry_write L (memc_write_once L op None key p e f) n (memc_write_once L op None key p e f m) = (st, m')"
  obtains m0 where "memc_write_once L op None key p e f m0 = (st, m')"
proof -
  let ?again = "memc_write_once L op None key p e f"
  obtain k where "retry_write L ?again n (?again m) = attempts ?again k (?again m)"
    using retry_write_attempts [of n L ?again "?again m"] by blast
  then have "attempts ?again k (?again m) = (st, m')" using assms by simp
  moreover have "\<exists>m0. attempts ?again k (?again m) = ?again m0" by (cases k) auto
  ultimately show thesis using that by auto
qed

section \<open>Properties\<close>

lemma sample_key_ok: "\<not> key_rejected sample_lib (sample_object\<lparr>rescode := rc, memc_errno := e\<rparr>) ''user:1''"
  by (subst key_rejected_iff)
    (simp_all add: key_prefix_length_def strlen_def s_memc_valid_key_ascii_iff isspace_def sample_defs)

text \<open>C17: What a store method returns and what \<open>getResultCode\<close> says agree: whenever a write
  returns, it returns true exactly if the result code it leaves is not an error, and it leaves
  the object's configuration as it was.\<close>

theorem write_result_agrees:
  assumes "s_memc_write_zval E intern op server_key key val expiration = Some (ok, intern')"
  shows "(ok \<longleftrightarrow> \<not> s_memcached_return_is_error (rescode intern') True) \<and>
    user_data intern' = user_data intern \<and> is_pristine intern' = is_pristine intern"
  using s_memc_write_zval_status [OF assms] s_memc_write_zval_frame [OF assms]
  by (simp add: s_memc_status_has_error_def)

lemma sample_write_42:
  "s_memc_write_zval sample_env sample_object MEMC_OP_SET None ''k'' (Some (IS_LONG 42)) 0 =
     Some (True, sample_object\<lparr>memc := sample_client0\<lparr>sc_items :=
       [(''k'', ''42'', set_udf 5 (MEMC_VAL_SET_TYPE 0 1)), (''old'', ''41'', 1)]\<rparr>\<rparr>)"
  by (simp add: s_memc_write_zval_def sample_payload_42 s_is_payload_too_big_def memc_write_all_def
      memc_write_once_def s_memc_status_handle_result_code_def
      sample_lib_def sample_user_data_def sample_client0_def)

theorem write_result_agrees_witness:
  "\<exists>i. s_memc_write_zval sample_env sample_object MEMC_OP_SET None ''k'' (Some (IS_LONG 42)) 0 = Some (True, i) \<and>
     \<not> s_memcached_return_is_error (rescode i) True"
  using write_result_agrees [OF sample_write_42] sample_write_42 by auto

text \<open>C29: A write is repeated at most \<open>store_retry_count\<close> times, only while there are servers and
  the last attempt failed, and it is given up early only when an attempt did not fail or no
  server is left.\<close>

theorem write_retries_bounded:
  "\<exists>k \<le> nat (sint (store_retry_count ud)).
     let again = memc_write_once L op None key payload expiration flags;
         first = memc_write_once L op server_key key payload expiration flags m;
         nth = (\<lambda>j. ((\<lambda>r. again (snd r)) ^^ j) first)
     in memc_write_all L ud op server_key key payload expiration flags m = nth k \<and>
        list_all (\<lambda>j. s_memcached_return_is_error (fst (nth j)) True \<and> lm_server_count L (snd (nth j)) \<noteq> 0) [0..<k] \<and>
        (k = nat (sint (store_retry_count ud)) \<or>
           s_memcached_return_is_error (fst (nth k)) True = False \<or> lm_server_count L (snd (nth k)) = 0)"
proof -
  let ?again = "memc_write_once L op None key payload expiration flags"
  let ?nth = "\<lambda>j. attempts ?again j (memc_write_once L op server_key key payload expiration flags m)"
  obtain k where "k \<le> nat (sint (store_retry_count ud))"
    "memc_write_all L ud op server_key key payload expiration flags m = ?nth k"
    "\<forall>j < k. s_should_retry_write L (snd (?nth j)) (fst (?nth j))"
    "k < nat (sint (store_retry_count ud)) \<longrightarrow> \<not> s_should_retry_write L (snd (?nth k)) (fst (?nth k))"
    unfolding memc_write_all_def using retry_write_attempts by blast
  then show ?thesis
    unfolding Let_def s_should_retry_write_iff list_all_iff atLeastLessThan_upt [symmetric]
    by (intro exI [of _ k]) (auto simp: le_less)
qed

text \<open>A retry of a \<open>..ByKey\<close> write ignores the server key: after the first attempt failed, the
  label \<open>retry\<close> continues with the calls without it, so the item may be stored on another server
  than the one the server key selects, and the method reports success.\<close>

theorem retry_drops_server_key:
  assumes "memc_write_once L op (Some sk) key payload expiration flags m = (status, m1)"
    "s_memcached_return_is_error status True" "lm_server_count L m1 \<noteq> 0" "0 < sint (store_retry_count ud)"
    "memc_write_once L op None key payload expiration flags m1 = (MEMCACHED_SUCCESS, m2)"
  shows "memc_write_all L ud op (Some sk) key payload expiration flags m = (MEMCACHED_SUCCESS, m2)"
proof -
  obtain n where "nat (sint (store_retry_count ud)) = Suc n" using assms(4) by (cases "nat (sint (store_retry_count ud))") auto
  then show ?thesis
    using assms by (simp add: memc_write_all_def s_should_retry_write_def)
qed

theorem retry_drops_server_key_witness:
  "memc_write_all sample_lib sample_user_data MEMC_OP_SET (Some ''down'') ''k'' (Some ''v'') 0 0 sample_client0 =
     (MEMCACHED_SUCCESS, sample_client0\<lparr>sc_items := [(''k'', ''v'', 0), (''old'', ''41'', 1)]\<rparr>)"
  by (rule retry_drops_server_key [of _ _ _ _ _ _ _ _ MEMCACHED_CONNECTION_FAILURE sample_client0])
    (simp_all add: memc_write_once_def sample_defs s_memcached_return_is_error_def)

text \<open>A value that cannot be serialized, or whose payload exceeds the item size limit, is
  refused before the library is called: the method fails with \<open>RES_PAYLOAD_FAILURE\<close> or \<open>RES_E2BIG\<close>
  and the client is as it was.\<close>

theorem refused_value_not_sent:
  assumes "s_zval_to_payload E intern v 0 = Some (q, fl, i)"
    "case q of None \<Rightarrow> True | Some p \<Rightarrow> s_is_payload_too_big i p"
  shows "\<exists>intern'. s_memc_write_zval E intern op server_key key (Some v) expiration = Some (False, intern') \<and>
    memc intern' = memc intern \<and> memc_errno intern' = 0 \<and>
    rescode intern' = (if q = None then MEMC_RES_PAYLOAD_FAILURE else MEMCACHED_E2BIG)"
proof -
  have "q = None \<or> (\<exists>p. q = Some p \<and> s_is_payload_too_big i p)" using assms(2) by (cases q) auto
  from s_memc_write_zval_refused [OF assms(1) this, of op server_key key expiration] show ?thesis by metis
qed

theorem refused_value_not_sent_witness:
  "\<exists>intern'. s_memc_write_zval sample_env sample_object MEMC_OP_SET None ''k'' (Some (IS_OBJECT 3)) 0 =
       Some (False, intern') \<and> memc intern' = sample_client0 \<and> memc_errno intern' = 0 \<and>
     rescode intern' = MEMC_RES_PAYLOAD_FAILURE"
proof -
  have "s_zval_to_payload sample_env sample_object (IS_OBJECT 3) 0 = Some (None, 0, sample_object)"
    by (simp add: s_zval_to_payload_def zval_payload_def serialized_payload_def s_serialize_value_def
        serializer_case_def sample_defs)
  from refused_value_not_sent [OF this, of MEMC_OP_SET None "''k''" 0] show ?thesis
    by (simp add: sample_object_def)
qed

text \<open>A store method with a bad key, or an append or prepend while compression is on, returns
  false or null, and the client is not touched.\<close>

theorem store_guards:
  "php_memc_store_impl E intern op server_key key val expiration =
     (if key_rejected (lib E) intern key
      then Some (IS_FALSE, intern\<lparr>rescode := MEMCACHED_BAD_KEY_PROVIDED, memc_errno := 0\<rparr>)
      else if compression_enabled (user_data intern) \<and> op \<in> {MEMC_OP_APPEND, MEMC_OP_PREPEND}
      then Some (IS_NULL, intern\<lparr>rescode := MEMCACHED_SUCCESS, memc_errno := 0\<rparr>)
      else map_option (\<lambda>(ok, i). (ZVAL_BOOL ok, i))
        (s_memc_write_zval E (intern\<lparr>rescode := MEMCACHED_SUCCESS, memc_errno := 0\<rparr>) op server_key key val expiration))"
proof -
  have "key_rejected (lib E) (s_memc_set_status intern MEMCACHED_SUCCESS 0) key = key_rejected (lib E) intern key"
    by (rule key_rejected_cong) simp
  then show ?thesis
    by (auto simp: php_memc_store_impl_def Let_def MEMC_CHECK_KEY_def s_memc_set_status_def
        map_conv_bind_option case_prod_beta' comp_def)
qed

text \<open>\<open>setMulti\<close> returns what its last write returned: every write overwrites the result code,
  so an error of an earlier entry is lost when the last entry is stored.\<close>

theorem setMulti_reports_last:
  "php_memc_setMulti_impl E intern server_key (entries @ [(k, v)]) expiration = do {
     i \<leftarrow> setMulti_loop E server_key expiration entries (s_memc_set_status intern MEMCACHED_SUCCESS 0);
     (ok, i) \<leftarrow> s_memc_write_zval E i MEMC_OP_SET server_key (entry_key k) (Some v) expiration;
     Some (ZVAL_BOOL ok, i)
   }"
proof -
  have last: "do { (_, j) \<leftarrow> s_memc_write_zval E i MEMC_OP_SET server_key (entry_key k) (Some v) expiration;
        Some (ZVAL_BOOL (\<not> s_memc_status_has_error j), j) } =
      do { (ok, j) \<leftarrow> s_memc_write_zval E i MEMC_OP_SET server_key (entry_key k) (Some v) expiration;
        Some (ZVAL_BOOL ok, j) }" for i
    using s_memc_write_zval_status [of E i MEMC_OP_SET server_key "entry_key k" "Some v" expiration]
    by (cases "s_memc_write_zval E i MEMC_OP_SET server_key (entry_key k) (Some v) expiration") auto
  show ?thesis
    using last
    by (cases "setMulti_loop E server_key expiration entries (s_memc_set_status intern MEMCACHED_SUCCESS 0)")
      (simp_all add: php_memc_setMulti_impl_def setMulti_loop_append case_prod_beta')
qed

text \<open>\<open>cas\<close> sends the very token that a fetch handed out: for an accepted key and a storable
  value, the library is called with the original 64-bit token, and the outcome is its outcome.\<close>

theorem cas_sends_token:
  assumes "\<not> key_rejected (lib E) intern key"
    "s_zval_to_payload E (intern\<lparr>rescode := MEMCACHED_SUCCESS, memc_errno := 0\<rparr>) v 0 = Some (Some p, flags, i)"
    "\<not> s_is_payload_too_big i p"
    "lm_cas (lib E) server_key key p expiration flags token (memc i) = (status, m)"
  shows "php_memc_cas_impl E intern (s_uint64_to_zval token) server_key key v expiration =
    Some (ZVAL_BOOL (\<not> s_memcached_return_is_error status True),
      snd (s_memc_status_handle_result_code (lib E) (i\<lparr>memc := m\<rparr>) status))"
proof -
  have "\<not> key_rejected (lib E) (s_memc_set_status intern MEMCACHED_SUCCESS 0) key"
    using assms(1) key_rejected_cong [of "s_memc_set_status intern MEMCACHED_SUCCESS 0" intern] by simp
  then show ?thesis
    using assms(2-) handle_result_code_fst [of "lib E" "i\<lparr>memc := m\<rparr>" status]
    by (simp add: php_memc_cas_impl_def MEMC_CHECK_KEY_def s_memc_set_status_def cas_round_trip Let_def
        case_prod_beta del: handle_result_code_fst)
qed

theorem cas_sends_token_witness:
  "\<exists>i. php_memc_cas_impl sample_env sample_object (s_uint64_to_zval 7) None ''user:1'' (IS_LONG 42) 0 =
     Some (IS_TRUE, i)"
proof -
  have key: "\<not> key_rejected (lib sample_env) sample_object ''user:1''"
    using sample_key_ok [where rc = MEMCACHED_SUCCESS and e = 0] by simp
  have big: "\<not> s_is_payload_too_big sample_object ''42''"
    by (simp add: s_is_payload_too_big_def sample_user_data_def)
  show ?thesis
    using cas_sends_token [OF key _ big, where v = "IS_LONG 42" and server_key = None and expiration = 0
        and token = 7 and status = MEMCACHED_SUCCESS, OF _ _] sample_payload_42
    by (simp add: sample_lib_def del: split_paired_Ex)
qed

text \<open>\<open>deleteMulti\<close> answers for every non-empty key it was given, and for no other.\<close>

theorem deleteMulti_answers_all:
  "\<exists>ret i. php_memc_deleteMulti_impl E intern server_key entries expiration = (IS_ARRAY ret, i) \<and>
     fst ` set ret =
       z_symtable_key (zend E) ` {k. \<exists>(_, zv) \<in> set entries. k = zval_get_string (zend E) zv \<and> k \<noteq> []}"
proof -
  obtain ret i where r: "deleteMulti_loop E server_key expiration (map snd entries)
      (s_memc_set_status intern MEMCACHED_SUCCESS 0) [] = (ret, i)" by fastforce
  have "{k \<in> set (map (zval_get_string (zend E)) (map snd entries)). k \<noteq> []} =
      {k. \<exists>(_, zv) \<in> set entries. k = zval_get_string (zend E) zv \<and> k \<noteq> []}"
    by (auto simp: case_prod_beta' image_iff Bex_def)
  with deleteMulti_loop_keys [of E server_key expiration "map snd entries"
      "s_memc_set_status intern MEMCACHED_SUCCESS 0" "[]"] r
  show ?thesis by (simp add: php_memc_deleteMulti_impl_def)
qed

text \<open>The counter methods, without an initial value: a bad key or a negative offset fails
  without a call; otherwise the library is asked once, with the key as its own server key when
  none is given, and the new value is returned unless the call failed or reports
  \<open>UINT64_MAX\<close>.\<close>

theorem incdec_plain:
  assumes "lm_incdec (lib E) incr (Some (case server_key of Some sk \<Rightarrow> sk | None \<Rightarrow> key)) key offset (- 1)
    (memc intern) = (status, result, m)"
  shows "php_memc_incdec_impl E intern incr server_key key offset False initial expiry =
    (if key_rejected (lib E) intern key
     then (IS_FALSE, intern\<lparr>rescode := MEMCACHED_BAD_KEY_PROVIDED, memc_errno := 0\<rparr>)
     else if sint offset < 0 then (IS_FALSE, intern\<lparr>rescode := MEMCACHED_SUCCESS, memc_errno := 0\<rparr>)
     else (if s_memcached_return_is_error status True \<or> result = - 1 then IS_FALSE else IS_LONG result,
           intern\<lparr>memc := m, rescode := status, memc_errno :=
             (if s_memcached_return_is_error status True then lm_last_error_errno (lib E) m else 0)\<rparr>))"
proof -
  have "key_rejected (lib E) (s_memc_set_status intern MEMCACHED_SUCCESS 0) key = key_rejected (lib E) intern key"
    by (rule key_rejected_cong) simp
  with assms show ?thesis
    by (simp add: php_memc_incdec_impl_def Let_def MEMC_CHECK_KEY_def s_memc_set_status_def
        s_memc_status_handle_result_code_def)
qed

theorem incdec_plain_witness:
  "fst (php_memc_incdec_impl sample_env sample_object True None ''user:1'' 1 False 0 0) = IS_LONG 42"
proof -
  have key: "\<not> key_rejected sample_lib sample_object ''user:1''"
    using sample_key_ok [where rc = MEMCACHED_SUCCESS and e = 0] by simp
  have "lm_incdec (lib sample_env) True (Some (case None of Some sk \<Rightarrow> sk | None \<Rightarrow> ''user:1'')) ''user:1'' 1 (- 1)
      (memc sample_object) = (MEMCACHED_SUCCESS, 42, sample_client0)"
    by (simp add: sample_lib_def)
  from incdec_plain [OF this, of 0 0] key show ?thesis by simp
qed

end
