(* ===== verification/Read.thy ===== *)
theory Read
  imports Write
begin

text \<open>
  The methods that fetch items: the iteration over results (\<open>php_memc_result_apply\<close>,
  \<open>php_memc_mget_apply\<close>), the functions applied to each result, the read-through cache callback,
  \<open>get\<close>, \<open>getMulti\<close>, \<open>getDelayed\<close>, \<open>fetch\<close> and \<open>fetchAll\<close>. The loops end when the library stops
  returning results; \<open>None\<close> is a loop that does not end, or an abort as in the other theories.
  PHP callbacks are functions on the object: they may call any method of it.
\<close>

section \<open>Iterating over results\<close>

type_synonym ('m, 'd, 'c) apply_fn =
  "'m php_memc_object \<Rightarrow> string \<Rightarrow> 'd zval \<Rightarrow> 'd zval \<Rightarrow> u32 \<Rightarrow> 'c \<Rightarrow> bool \<times> 'm php_memc_object \<times> 'c"

text \<open>\<open>while (memcached_fetch_result(...)) {}\<close>\<close>

partial_function (option) fetch_drain :: "'m libmemcached \<Rightarrow> 'm \<Rightarrow> 'm option" where
  "fetch_drain L m =
     (let (result, rc, m) = lm_fetch_result L m in
      if result = None then Some m else fetch_drain L m)"

text \<open>One round of the \<open>do\<close> loop; the first component: another round follows.\<close>

definition result_apply_step ::
  "('m, 'd) env \<Rightarrow> ('m, 'd, 'c) apply_fn \<Rightarrow> bool \<Rightarrow> memcached_return \<Rightarrow> 'm php_memc_object \<Rightarrow> 'c \<Rightarrow>
     (bool \<times> memcached_return \<times> 'm php_memc_object \<times> 'c) option" where
  "result_apply_step E apply_fn fetch_delay status intern context =
     (let (result, rc, m) = lm_fetch_result (lib E) (memc intern);
          intern = intern\<lparr>memc := m\<rparr>;
          status = (if s_memcached_return_is_error rc False then rc else status)
      in case result of
        None \<Rightarrow> Some (False, status, intern, context)
      | Some r \<Rightarrow> do {
          (val, intern) \<leftarrow> s_memcached_result_to_zval E intern r;
          case val of
            None \<Rightarrow>
              if EG_exception intern
              then Some (False, MEMC_RES_PAYLOAD_FAILURE,
                         intern\<lparr>memc := lm_quit (lib E) (memc intern)\<rparr>, context)
              else Some (True, MEMCACHED_SOME_ERRORS, intern, context)
          | Some val \<Rightarrow>
              (let (retval, intern, context) =
                 apply_fn intern (res_key r) val (s_uint64_to_zval (res_cas r)) (res_flags r) context
               in if retval then Some (True, status, intern, context)
                  else if fetch_delay then Some (False, status, intern, context)
                  else do {
                    m \<leftarrow> fetch_drain (lib E) (memc intern);
                    Some (False, status, intern\<lparr>memc := m\<rparr>, context)
                  })
        })"

partial_function (option) result_apply_loop ::
  "('m, 'd) env \<Rightarrow> ('m, 'd, 'c) apply_fn \<Rightarrow> bool \<Rightarrow> memcached_return \<Rightarrow> 'm php_memc_object \<Rightarrow> 'c \<Rightarrow>
     (memcached_return \<times> 'm php_memc_object \<times> 'c) option" where
  "result_apply_loop E apply_fn fetch_delay status intern context = do {
     (again, status, intern, context) \<leftarrow> result_apply_step E apply_fn fetch_delay status intern context;
     if again then result_apply_loop E apply_fn fetch_delay status intern context
     else Some (status, intern, context)
   }"

definition php_memc_result_apply ::
  "('m, 'd) env \<Rightarrow> 'm php_memc_object \<Rightarrow> ('m, 'd, 'c) apply_fn \<Rightarrow> bool \<Rightarrow> 'c \<Rightarrow>
     (memcached_return \<times> 'm php_memc_object \<times> 'c) option" where
  "php_memc_result_apply E intern apply_fn fetch_delay context =
     result_apply_loop E apply_fn fetch_delay MEMCACHED_SUCCESS intern context"

definition php_memc_mget_apply ::
  "('m, 'd) env \<Rightarrow> 'm php_memc_object \<Rightarrow> string option \<Rightarrow> string list \<Rightarrow> ('m, 'd, 'c) apply_fn option \<Rightarrow>
     bool \<Rightarrow> 'c \<Rightarrow> (bool \<times> 'm php_memc_object \<times> 'c) option" where
  "php_memc_mget_apply E intern server_key keys result_apply_fn with_cas context =
     (let L = lib E;
          intern = s_memc_set_status intern MEMCACHED_SUCCESS 0
      in if keys = [] then Some (False, intern\<lparr>rescode := MEMCACHED_BAD_KEY_PROVIDED\<rparr>, context)
         else
           let orig_cas_flag =
                 (if with_cas then lm_behavior_get L (memc intern) MEMCACHED_BEHAVIOR_SUPPORT_CAS else 0);
               intern =
                 (if with_cas \<and> orig_cas_flag = 0
                  then intern\<lparr>memc := snd (lm_behavior_set L (memc intern) MEMCACHED_BEHAVIOR_SUPPORT_CAS 1)\<rparr>
                  else intern);
               (status, m) = lm_mget L server_key keys (memc intern);
               (mget_ok, intern) = s_memc_status_handle_result_code L (intern\<lparr>memc := m\<rparr>) status;
               intern =
                 (if with_cas \<and> orig_cas_flag = 0
                  then intern\<lparr>memc :=
                    snd (lm_behavior_set L (memc intern) MEMCACHED_BEHAVIOR_SUPPORT_CAS orig_cas_flag)\<rparr>
                  else intern)
           in if \<not> mget_ok then Some (False, intern, context)
              else case result_apply_fn of
                None \<Rightarrow> Some (True, intern, context)
              | Some f \<Rightarrow> do {
                  (status, intern, context) \<leftarrow> php_memc_result_apply E intern f False context;
                  let (ok, intern) = s_memc_status_handle_result_code L intern status;
                  Some (ok, intern, context)
                })"

section \<open>The functions applied to a result\<close>

text \<open>The context is the method's return value, as far as it is assigned.\<close>

definition extended_result :: "'d zval \<Rightarrow> 'd zval \<Rightarrow> u32 \<Rightarrow> 'd zval" where
  "extended_result val cas flags =
     IS_ARRAY [(HStr ''value'', val), (HStr ''cas'', cas),
               (HStr ''flags'', IS_LONG (ucast (MEMC_VAL_GET_USER_FLAGS flags)))]"

definition s_get_apply_fn :: "bool \<Rightarrow> ('m, 'd, 'd zval) apply_fn" where
  "s_get_apply_fn extended intern key val cas flags return_value =
     (False, intern, if extended then extended_result val cas flags else val)"

definition s_get_multi_apply_fn :: "'d zend \<Rightarrow> bool \<Rightarrow> ('m, 'd, 'd harray) apply_fn" where
  "s_get_multi_apply_fn Z extended intern key val cas flags return_value =
     (True, intern,
      AList.update (z_symtable_key Z key) (if extended then extended_result val cas flags else val)
        return_value)"

text \<open>
  \<open>Z_LVAL_P(cas)\<close> of a token kept as a string is the string's address, which is not 0.
\<close>

definition s_create_result_array ::
  "string \<Rightarrow> 'd zval \<Rightarrow> 'd zval \<Rightarrow> u32 \<Rightarrow> 'd harray \<Rightarrow> 'd harray" where
  "s_create_result_array key val cas flags return_value =
     (let ret = AList.update (HStr ''value'') val (AList.update (HStr ''key'') (IS_STRING key) return_value)
      in if (case cas of IS_LONG l \<Rightarrow> l \<noteq> 0 | _ \<Rightarrow> True)
         then AList.update (HStr ''flags'') (IS_LONG (ucast (MEMC_VAL_GET_USER_FLAGS flags)))
                (AList.update (HStr ''cas'') cas ret)
         else ret)"

text \<open>\<open>callback obj arr\<close>: whether \<open>zend_call_function\<close> succeeded, and the object afterwards.\<close>

definition s_result_callback_apply ::
  "('m php_memc_object \<Rightarrow> 'd harray \<Rightarrow> bool \<times> 'm php_memc_object) \<Rightarrow> ('m, 'd, unit) apply_fn" where
  "s_result_callback_apply callback intern key val cas flags context =
     (case callback intern (s_create_result_array key val cas flags []) of
        (status, intern) \<Rightarrow> (status, intern, ()))"

definition s_fetch_apply :: "('m, 'd, 'd harray) apply_fn" where
  "s_fetch_apply intern key val cas flags return_value =
     (False, intern, s_create_result_array key val cas flags return_value)"

definition s_fetch_all_apply :: "('m, 'd, 'd harray) apply_fn" where
  "s_fetch_all_apply intern key val cas flags return_value =
     (True, intern,
      return_value @ [(HInt (of_nat (length return_value)), IS_ARRAY (s_create_result_array key val cas flags []))])"

section \<open>The cache callback\<close>

text \<open>
  The callback is called with the object, the key, the value so far and, without
  \<open>with_cas\<close>, an expiration by reference. It returns \<open>None\<close> when the call fails, or whether its
  return value is true, the value, and the expiration.
\<close>

type_synonym ('m, 'd) cache_cb =
  "'m php_memc_object \<Rightarrow> string \<Rightarrow> 'd zval \<Rightarrow> (bool \<times> 'd zval \<times> 'd zval) option \<times> 'm php_memc_object"

definition s_invoke_cache_callback ::
  "('m, 'd) env \<Rightarrow> 'm php_memc_object \<Rightarrow> ('m, 'd) cache_cb \<Rightarrow> bool \<Rightarrow> string \<Rightarrow> 'd zval \<Rightarrow>
     (bool \<times> 'd zval \<times> 'm php_memc_object) option" where
  "s_invoke_cache_callback E intern callback with_cas key val =
     (case callback intern key val of
        (None, intern) \<Rightarrow> Some (False, val, s_memc_set_status intern MEMCACHED_NOTFOUND 0)
      | (Some (is_true, new_val, expiration), intern) \<Rightarrow>
          if \<not> is_true then Some (False, val, intern)
          else if with_cas then
            (case new_val of
               IS_ARRAY arr \<Rightarrow>
                 (case map_of arr (HStr ''value'') of
                    None \<Rightarrow> Some (False, new_val, intern)
                  | Some rv \<Rightarrow> do {
                      let exp = (case map_of arr (HStr ''cas'') of Some c \<Rightarrow> Z_LVAL (zend E) c | None \<Rightarrow> 0);
                      (status, intern) \<leftarrow> s_memc_write_zval E intern MEMC_OP_SET None key (Some rv) exp;
                      Some (status, new_val, intern)
                    })
             | _ \<Rightarrow> Some (False, val, intern))
          else do {
            (status, intern) \<leftarrow> s_memc_write_zval E intern MEMC_OP_SET None key (Some new_val)
              (zval_get_long (zend E) expiration);
            Some (status, new_val, intern)
          })"

section \<open>The methods\<close>

abbreviation (input) MEMC_GET_PRESERVE_ORDER :: zend_long where "MEMC_GET_PRESERVE_ORDER \<equiv> 1"
abbreviation (input) MEMC_GET_EXTENDED :: zend_long where "MEMC_GET_EXTENDED \<equiv> 2"

definition php_memc_get_impl ::
  "('m, 'd) env \<Rightarrow> 'm php_memc_object \<Rightarrow> string option \<Rightarrow> string \<Rightarrow> ('m, 'd) cache_cb option \<Rightarrow> zend_long \<Rightarrow>
     ('d zval \<times> 'm php_memc_object) option" where
  "php_memc_get_impl E intern server_key key callback get_flags =
     (let intern = s_memc_set_status intern MEMCACHED_SUCCESS 0 in
      case MEMC_CHECK_KEY (lib E) intern key of
        Inl intern \<Rightarrow> Some (IS_FALSE, intern)
      | Inr _ \<Rightarrow> do {
          let extended = (get_flags AND MEMC_GET_EXTENDED \<noteq> 0);
          (mget_status, intern, ret) \<leftarrow>
            php_memc_mget_apply E intern server_key (s_key_to_keys (zend E) key)
              (Some (s_get_apply_fn extended)) extended IS_NULL;
          (cb_ok, intern, ret) \<leftarrow>
            (case callback of
               Some cb \<Rightarrow>
                 if \<not> mget_status \<and> s_memc_status_has_result_code intern MEMCACHED_NOTFOUND
                 then do {
                   (status, ret, intern) \<leftarrow> s_invoke_cache_callback E intern cb extended key ret;
                   Some (status, intern, ret)
                 }
                 else Some (True, intern, ret)
             | None \<Rightarrow> Some (True, intern, ret));
          if \<not> cb_ok then Some (IS_FALSE, intern)
          else if s_memc_status_has_error intern then Some (IS_FALSE, intern)
          else Some (ret, intern)
        })"

definition php_memc_getMulti_impl ::
  "('m, 'd) env \<Rightarrow> 'm php_memc_object \<Rightarrow> string option \<Rightarrow> 'd harray \<Rightarrow> zend_long \<Rightarrow>
     ('d zval \<times> 'm php_memc_object) option" where
  "php_memc_getMulti_impl E intern server_key keys flags =
     (if length keys = 0 then Some (IS_ARRAY [], s_memc_set_status intern MEMCACHED_NOTFOUND 0)
      else do {
        let intern = s_memc_set_status intern MEMCACHED_SUCCESS 0;
        let preserve_order = (flags AND MEMC_GET_PRESERVE_ORDER \<noteq> 0);
        let (keys_out, ret) = s_hash_to_keys (zend E) keys preserve_order (Some []);
        let extended = (flags AND MEMC_GET_EXTENDED \<noteq> 0);
        (retval, intern, ret) \<leftarrow>
          php_memc_mget_apply E intern server_key keys_out (Some (s_get_multi_apply_fn (zend E) extended))
            extended (case ret of None \<Rightarrow> [] | Some r \<Rightarrow> r);
        if \<not> retval \<and> (s_memc_status_has_result_code intern MEMCACHED_NOTFOUND \<or>
                        s_memc_status_has_result_code intern MEMCACHED_SOME_ERRORS)
        then Some (IS_ARRAY ret, intern)
        else if \<not> retval \<or> EG_exception intern then Some (IS_FALSE, intern)
        else Some (IS_ARRAY ret, intern)
      })"

definition php_memc_getDelayed_impl ::
  "('m, 'd) env \<Rightarrow> 'm php_memc_object \<Rightarrow> string option \<Rightarrow> 'd harray \<Rightarrow> bool \<Rightarrow>
     ('m php_memc_object \<Rightarrow> 'd harray \<Rightarrow> bool \<times> 'm php_memc_object) option \<Rightarrow>
     ('d zval \<times> 'm php_memc_object) option" where
  "php_memc_getDelayed_impl E intern server_key keys with_cas callback = do {
     let intern = s_memc_set_status intern MEMCACHED_SUCCESS 0;
     let keys_out = fst (s_hash_to_keys (zend E) keys False None);
     (status, intern, _) \<leftarrow>
       php_memc_mget_apply E intern server_key keys_out (map_option s_result_callback_apply callback) with_cas ();
     Some (ZVAL_BOOL status, intern)
   }"

definition memc_fetch ::
  "('m, 'd) env \<Rightarrow> 'm php_memc_object \<Rightarrow> ('d zval \<times> 'm php_memc_object) option" where
  "memc_fetch E intern = do {
     let intern = s_memc_set_status intern MEMCACHED_SUCCESS 0;
     (status, intern, ret) \<leftarrow> php_memc_result_apply E intern s_fetch_apply True [];
     let (ok, intern) = s_memc_status_handle_result_code (lib E) intern status;
     Some (if ok then IS_ARRAY ret else IS_FALSE, intern)
   }"

definition memc_fetchAll ::
  "('m, 'd) env \<Rightarrow> 'm php_memc_object \<Rightarrow> ('d zval \<times> 'm php_memc_object) option" where
  "memc_fetchAll E intern = do {
     let intern = s_memc_set_status intern MEMCACHED_SUCCESS 0;
     (status, intern, ret) \<leftarrow> php_memc_result_apply E intern s_fetch_all_apply False [];
     let (ok, intern) = s_memc_status_handle_result_code (lib E) intern status;
     Some (if ok then IS_ARRAY ret else IS_FALSE, intern)
   }"

section \<open>Finite result sequences\<close>

text \<open>
  \<open>fetch_seq L m rs rc m'\<close>: from \<open>m\<close> the library returns the results \<open>rs\<close>, then none, with
  the code \<open>rc\<close> in the state \<open>m'\<close>.
\<close>

inductive fetch_seq ::
  "'m libmemcached \<Rightarrow> 'm \<Rightarrow> memcached_result_st list \<Rightarrow> memcached_return \<Rightarrow> 'm \<Rightarrow> bool" for L where
  fetch_end: "lm_fetch_result L m = (None, rc, m') \<Longrightarrow> fetch_seq L m [] rc m'"
| fetch_item: "lm_fetch_result L m = (Some r, rc0, m1) \<Longrightarrow> \<not> s_memcached_return_is_error rc0 False \<Longrightarrow>
    fetch_seq L m1 rs rc m' \<Longrightarrow> fetch_seq L m (r # rs) rc m'"

inductive_cases fetch_seq_NilE: "fetch_seq L m [] rc m'"
inductive_cases fetch_seq_ConsE: "fetch_seq L m (r # rs) rc m'"

lemma fetch_drain_seq: "fetch_seq L m rs rc m' \<Longrightarrow> fetch_drain L m = Some m'"
  by (induction rule: fetch_seq.induct) (simp_all add: fetch_drain.simps [of L])

text \<open>\<open>decodes\<close>: reading the result gives \<open>val\<close> (or fails) and leaves the object alone.\<close>

definition decodes ::
  "('m, 'd) env \<Rightarrow> 'm php_memc_object \<Rightarrow> (memcached_result_st \<Rightarrow> 'd zval option) \<Rightarrow> memcached_result_st \<Rightarrow> bool" where
  "decodes E intern val r \<longleftrightarrow>
     (\<forall>m. s_memcached_result_to_zval E (intern\<lparr>memc := m\<rparr>) r = Some (val r, intern\<lparr>memc := m\<rparr>))"

section \<open>The interface of a result function\<close>

text \<open>
  The functions of the extension leave the object alone, add the result to the context
  (\<open>put\<close>), and either ask for all results or for one.
\<close>

locale result_fn =
  fixes f :: "('m, 'd, 'c) apply_fn"
    and put :: "string \<Rightarrow> 'd zval \<Rightarrow> 'd zval \<Rightarrow> u32 \<Rightarrow> 'c \<Rightarrow> 'c" and all_results :: bool
  assumes apply_eq: "f intern key val cas flags c = (all_results, intern, put key val cas flags c)"
begin

definition put_result :: "(memcached_result_st \<Rightarrow> 'd zval option) \<Rightarrow> memcached_result_st \<Rightarrow> 'c \<Rightarrow> 'c" where
  "put_result val r c =
     (case val r of None \<Rightarrow> c | Some v \<Rightarrow> put (res_key r) v (s_uint64_to_zval (res_cas r)) (res_flags r) c)"

lemma step_end:
  "lm_fetch_result (lib E) m = (None, rc, m') \<Longrightarrow>
     result_apply_step E f delay status (intern\<lparr>memc := m\<rparr>) c =
       Some (False, if s_memcached_return_is_error rc False then rc else status, intern\<lparr>memc := m'\<rparr>, c)"
  by (simp add: result_apply_step_def)

lemma step_skip:
  assumes "lm_fetch_result (lib E) m = (Some r, rc, m')" "decodes E intern val r" "val r = None"
    "\<not> EG_exception intern"
  shows "result_apply_step E f delay status (intern\<lparr>memc := m\<rparr>) c =
    Some (True, MEMCACHED_SOME_ERRORS, intern\<lparr>memc := m'\<rparr>, c)"
  using assms by (simp add: result_apply_step_def decodes_def)

end

locale all_result_fn = result_fn f put True for f :: "('m, 'd, 'c) apply_fn" and put
begin

lemma step_put:
  assumes "lm_fetch_result (lib E) m = (Some r, rc, m')" "decodes E intern val r" "val r = Some v"
    "\<not> s_memcached_return_is_error rc False"
  shows "result_apply_step E f delay status (intern\<lparr>memc := m\<rparr>) c =
    Some (True, status, intern\<lparr>memc := m'\<rparr>, put_result val r c)"
  using assms by (simp add: result_apply_step_def decodes_def apply_eq put_result_def)

lemma loop:
  assumes "fetch_seq (lib E) m rs rc m'" "\<forall>r \<in> set rs. decodes E intern val r" "\<not> EG_exception intern"
  shows "result_apply_loop E f delay status (intern\<lparr>memc := m\<rparr>) c =
    Some (if s_memcached_return_is_error rc False then rc
          else if \<exists>r \<in> set rs. val r = None then MEMCACHED_SOME_ERRORS else status,
          intern\<lparr>memc := m'\<rparr>, fold (put_result val) rs c)"
  using assms(1,2)
proof (induction arbitrary: status c rule: fetch_seq.induct)
  case (fetch_end m rc m')
  then show ?case by (simp add: result_apply_loop.simps [of E f] step_end)
next
  case (fetch_item m r rc0 m1 rs rc m')
  from fetch_item.prems have dec: "decodes E intern val r" and rest: "\<forall>r \<in> set rs. decodes E intern val r"
    by simp_all
  show ?case
  proof (cases "val r")
    case None
    have "result_apply_step E f delay status (intern\<lparr>memc := m\<rparr>) c =
        Some (True, MEMCACHED_SOME_ERRORS, intern\<lparr>memc := m1\<rparr>, c)"
      using fetch_item.hyps(1) dec None assms(3) by (rule step_skip)
    then show ?thesis
      using fetch_item.IH [OF rest] None
      by (simp add: result_apply_loop.simps [of E f delay status] put_result_def)
  next
    case (Some v)
    have "result_apply_step E f delay status (intern\<lparr>memc := m\<rparr>) c =
        Some (True, status, intern\<lparr>memc := m1\<rparr>, put_result val r c)"
      using fetch_item.hyps(1) dec Some fetch_item.hyps(2) by (rule step_put)
    then show ?thesis
      using fetch_item.IH [OF rest] Some
      by (simp add: result_apply_loop.simps [of E f delay status])
  qed
qed

end

locale one_result_fn = result_fn f put False for f :: "('m, 'd, 'c) apply_fn" and put
begin

lemma loop_first:
  assumes "fetch_seq (lib E) m (r # rs) rc m'" "decodes E intern val r" "val r = Some v"
  shows "result_apply_loop E f False status (intern\<lparr>memc := m\<rparr>) c =
    Some (status, intern\<lparr>memc := m'\<rparr>, put (res_key r) v (s_uint64_to_zval (res_cas r)) (res_flags r) c)"
proof -
  from assms(1) obtain rc0 m1 where f: "lm_fetch_result (lib E) m = (Some r, rc0, m1)"
    "\<not> s_memcached_return_is_error rc0 False" "fetch_seq (lib E) m1 rs rc m'" by (rule fetch_seq_ConsE)
  with assms(2,3) fetch_drain_seq [OF f(3)] show ?thesis
    by (simp add: result_apply_loop.simps [of E f] result_apply_step_def decodes_def apply_eq)
qed

lemma loop_delayed:
  assumes "lm_fetch_result (lib E) m = (Some r, rc0, m1)" "\<not> s_memcached_return_is_error rc0 False"
    "decodes E intern val r" "val r = Some v"
  shows "result_apply_loop E f True status (intern\<lparr>memc := m\<rparr>) c =
    Some (status, intern\<lparr>memc := m1\<rparr>, put (res_key r) v (s_uint64_to_zval (res_cas r)) (res_flags r) c)"
  using assms by (simp add: result_apply_loop.simps [of E f] result_apply_step_def decodes_def apply_eq)

end

text \<open>The four functions of the extension.\<close>

interpretation get_fn: one_result_fn "s_get_apply_fn extended"
  "\<lambda>key val cas flags _. if extended then extended_result val cas flags else val"
  by unfold_locales (simp add: s_get_apply_fn_def)

interpretation fetch_fn: one_result_fn s_fetch_apply s_create_result_array
  by unfold_locales (simp add: s_fetch_apply_def)

interpretation get_multi_fn: all_result_fn "s_get_multi_apply_fn Z extended"
  "\<lambda>key val cas flags. AList.update (z_symtable_key Z key)
     (if extended then extended_result val cas flags else val)"
  by unfold_locales (simp add: s_get_multi_apply_fn_def)

interpretation fetch_all_fn: all_result_fn s_fetch_all_apply
  "\<lambda>key val cas flags ret. ret @ [(HInt (of_nat (length ret)), IS_ARRAY (s_create_result_array key val cas flags []))]"
  by unfold_locales (simp add: s_fetch_all_apply_def)

section \<open>The methods on finite result sequences\<close>

lemma decodesI:
  assumes "s_memcached_result_to_zval E a r = Some (val r, a)" "user_data b = user_data a"
    "EG_exception b = EG_exception a"
  shows "decodes E b val r"
proof (unfold decodes_def, intro allI)
  fix m
  show "s_memcached_result_to_zval E (b\<lparr>memc := m\<rparr>) r = Some (val r, b\<lparr>memc := m\<rparr>)"
    by (rule s_memcached_result_to_zval_cong [OF _ _ assms(1)]) (use assms(2,3) in simp_all)
qed

lemma memc_update_first:
  "i\<lparr>rescode := st, memc_errno := e, memc := m\<rparr> = i\<lparr>memc := m, rescode := st, memc_errno := e\<rparr>"
  by simp

lemma mget_apply_sent:
  assumes "keys \<noteq> []" "lm_mget (lib E) server_key keys (memc intern) = (st, m1)"
    "\<not> s_memcached_return_is_error st True"
  shows "php_memc_mget_apply E intern server_key keys (Some f) False c = do {
    (status, intern, c) \<leftarrow>
      php_memc_result_apply E (intern\<lparr>memc := m1, rescode := st, memc_errno := 0\<rparr>) f False c;
    let (ok, intern) = s_memc_status_handle_result_code (lib E) intern status;
    Some (ok, intern, c)
  }"
  using assms by (simp add: php_memc_mget_apply_def s_memc_set_status_def s_memc_status_handle_result_code_def)

lemma mget_apply_failed:
  assumes "keys \<noteq> []" "lm_mget (lib E) server_key keys (memc intern) = (st, m1)"
    "s_memcached_return_is_error st True"
  shows "php_memc_mget_apply E intern server_key keys f False c =
    Some (False, intern\<lparr>memc := m1, rescode := st, memc_errno := lm_last_error_errno (lib E) m1\<rparr>, c)"
  using assms by (simp add: php_memc_mget_apply_def s_memc_set_status_def s_memc_status_handle_result_code_def)

lemma get_found:
  assumes key: "\<not> key_rejected (lib E) intern key" "length key \<le> 250"
    and mget: "lm_mget (lib E) server_key [key] (memc intern) = (st, m1)" "\<not> s_memcached_return_is_error st True"
    and seq: "fetch_seq (lib E) m1 (r # rs) rc m2"
    and dec: "decodes E (intern\<lparr>rescode := st, memc_errno := 0\<rparr>) (\<lambda>_. Some v) r"
    and plain: "get_flags AND MEMC_GET_EXTENDED = 0"
  shows "php_memc_get_impl E intern server_key key callback get_flags =
    Some (v, intern\<lparr>memc := m2, rescode := MEMCACHED_SUCCESS, memc_errno := 0\<rparr>)"
proof -
  let ?i = "s_memc_set_status intern MEMCACHED_SUCCESS 0"
  have ok: "\<not> key_rejected (lib E) ?i key" using key(1) key_rejected_cong [of ?i intern] by simp
  have "key \<noteq> []" using key(1) by (auto simp: key_rejected_def)
  then have keys: "s_key_to_keys (zend E) key = [key]" using key(2) by (simp add: s_key_to_keys_eq)
  have "php_memc_result_apply E (?i\<lparr>memc := m1, rescode := st, memc_errno := 0\<rparr>) (s_get_apply_fn False) False IS_NULL
      = Some (MEMCACHED_SUCCESS, intern\<lparr>memc := m2, rescode := st, memc_errno := 0\<rparr>, v)"
    using get_fn.loop_first [OF seq dec refl, of False MEMCACHED_SUCCESS IS_NULL]
    by (simp add: php_memc_result_apply_def s_memc_set_status_def memc_update_first)
  then have "php_memc_mget_apply E ?i server_key [key] (Some (s_get_apply_fn False)) False IS_NULL =
      Some (True, intern\<lparr>memc := m2, rescode := MEMCACHED_SUCCESS, memc_errno := 0\<rparr>, v)"
    using mget_apply_sent [of "[key]" E server_key ?i st m1 "s_get_apply_fn False" IS_NULL] mget
    by (simp add: s_memc_status_handle_result_code_def)
  then show ?thesis
    using ok keys plain
    by (simp add: php_memc_get_impl_def MEMC_CHECK_KEY_def s_memc_status_has_error_def split: option.split)
qed

lemma getMulti_collects:
  assumes keys: "keys \<noteq> []" "s_hash_to_keys (zend E) keys preserve (Some []) = (ks, Some ret)" "ks \<noteq> []"
    and fl: "preserve = (flags AND MEMC_GET_PRESERVE_ORDER \<noteq> 0)" "flags AND MEMC_GET_EXTENDED = 0"
    and mget: "lm_mget (lib E) server_key ks (memc intern) = (st, m1)" "\<not> s_memcached_return_is_error st True"
    and seq: "fetch_seq (lib E) m1 rs rc m2" "\<not> s_memcached_return_is_error rc False"
    and dec: "\<forall>r \<in> set rs. decodes E (intern\<lparr>rescode := st, memc_errno := 0\<rparr>) val r" "\<not> EG_exception intern"
  shows "\<exists>i. php_memc_getMulti_impl E intern server_key keys flags =
    Some (IS_ARRAY (fold (get_multi_fn.put_result (zend E) False val) rs ret), i) \<and> memc i = m2 \<and>
    rescode i = (if \<exists>r \<in> set rs. val r = None then MEMCACHED_SOME_ERRORS else MEMCACHED_SUCCESS)"
proof -
  let ?i = "s_memc_set_status intern MEMCACHED_SUCCESS 0"
  let ?f = "s_get_multi_apply_fn (zend E) False"
  let ?st = "if \<exists>r \<in> set rs. val r = None then MEMCACHED_SOME_ERRORS else MEMCACHED_SUCCESS"
  let ?ret = "fold (get_multi_fn.put_result (zend E) False val) rs ret"
  have "php_memc_result_apply E (?i\<lparr>memc := m1, rescode := st, memc_errno := 0\<rparr>) ?f False ret =
      Some (?st, intern\<lparr>memc := m2, rescode := st, memc_errno := 0\<rparr>, ?ret)"
    using get_multi_fn.loop [OF seq(1) dec(1), of "zend E" False False MEMCACHED_SUCCESS ret] dec(2) seq(2)
    by (simp add: php_memc_result_apply_def s_memc_set_status_def memc_update_first)
  then have "php_memc_mget_apply E ?i server_key ks (Some ?f) False ret =
      Some (\<not> s_memcached_return_is_error ?st True,
        snd (s_memc_status_handle_result_code (lib E) (intern\<lparr>memc := m2, rescode := st, memc_errno := 0\<rparr>) ?st), ?ret)"
    using mget_apply_sent [of ks E server_key ?i st m1 ?f ret] mget keys(3)
    by (simp add: case_prod_beta')
  then show ?thesis
    using keys fl dec(2)
    by (simp add: php_memc_getMulti_impl_def Let_def s_memc_status_has_result_code_def)
qed

lemma fetchAll_collects:
  assumes "fetch_seq (lib E) (memc intern) rs rc m2" "\<not> s_memcached_return_is_error rc False"
    "\<forall>r \<in> set rs. decodes E (s_memc_set_status intern MEMCACHED_SUCCESS 0) (\<lambda>r. Some (val r)) r"
    "\<not> EG_exception intern"
  shows "memc_fetchAll E intern =
    Some (IS_ARRAY (fold (fetch_all_fn.put_result (\<lambda>r. Some (val r))) rs []),
      intern\<lparr>memc := m2, rescode := MEMCACHED_SUCCESS, memc_errno := 0\<rparr>)"
proof -
  let ?i = "s_memc_set_status intern MEMCACHED_SUCCESS 0"
  have eq: "?i\<lparr>memc := memc intern\<rparr> = ?i" by (simp add: s_memc_set_status_def)
  have "\<not> EG_exception ?i" using assms(4) by simp
  from fetch_all_fn.loop [OF assms(1,3) this, of False MEMCACHED_SUCCESS "[]", unfolded eq] assms(2)
  have "php_memc_result_apply E ?i s_fetch_all_apply False [] =
      Some (MEMCACHED_SUCCESS, ?i\<lparr>memc := m2\<rparr>, fold (fetch_all_fn.put_result (\<lambda>r. Some (val r))) rs [])"
    by (simp add: php_memc_result_apply_def)
  then show ?thesis
    by (simp add: memc_fetchAll_def s_memc_status_handle_result_code_def s_memc_set_status_def)
qed

lemma fetch_all_fold:
  "fold (fetch_all_fn.put_result (\<lambda>r. Some (val r))) rs ret =
     ret @ map (\<lambda>(i, r). (HInt (of_nat i), IS_ARRAY (s_create_result_array (res_key r) (val r)
        (s_uint64_to_zval (res_cas r)) (res_flags r) []))) (zip [length ret..<length ret + length rs] rs)"
proof (induction rs arbitrary: ret)
  case Nil
  then show ?case by simp
next
  case (Cons r rs)
  have "[length ret..<length ret + length (r # rs)] = length ret # [Suc (length ret)..<Suc (length ret) + length rs]"
    by (simp add: upt_rec)
  with Cons show ?case by (simp add: fetch_all_fn.put_result_def)
qed

text \<open>The array of \<open>getMulti\<close> after the results \<open>rs\<close>, and what is found in it: the last result of a key.\<close>

definition collected ::
  "'d zend \<Rightarrow> (memcached_result_st \<Rightarrow> 'd zval option) \<Rightarrow> memcached_result_st list \<Rightarrow> 'd harray \<Rightarrow> 'd harray" where
  "collected Z val rs ret =
     fold (\<lambda>r c. case val r of None \<Rightarrow> c | Some v \<Rightarrow> AList.update (z_symtable_key Z (res_key r)) v c) rs ret"

lemma get_multi_put_result:
  "get_multi_fn.put_result Z False val = (\<lambda>r c. case val r of None \<Rightarrow> c
     | Some v \<Rightarrow> AList.update (z_symtable_key Z (res_key r)) v c)"
  unfolding get_multi_fn.put_result_def fun_eq_iff by (simp split: option.split)

lemma collected_lookup:
  assumes "r \<in> set rs" "val r = Some v"
    "\<And>r'. r' \<in> set rs \<Longrightarrow> z_symtable_key Z (res_key r') = z_symtable_key Z (res_key r) \<Longrightarrow> r' = r"
  shows "map_of (collected Z val rs ret) (z_symtable_key Z (res_key r)) = Some v"
  using assms
proof (induction rs rule: rev_induct)
  case Nil
  then show ?case by simp
next
  case (snoc x rs)
  show ?case
  proof (cases "x = r")
    case True
    with snoc.prems(2) show ?thesis by (simp add: collected_def update_conv')
  next
    case False
    with snoc.prems have "r \<in> set rs" "z_symtable_key Z (res_key x) \<noteq> z_symtable_key Z (res_key r)" by auto
    moreover from snoc.IH [OF this(1) snoc.prems(2)] snoc.prems(3)
    have "map_of (collected Z val rs ret) (z_symtable_key Z (res_key r)) = Some v" by simp
    ultimately show ?thesis by (simp add: collected_def update_conv' split: option.split)
  qed
qed

section \<open>Properties\<close>

text \<open>\<open>get\<close> finds what the server has: when the key passes the check, the request is sent, and
  the first result decodes to \<open>v\<close>, then \<open>get\<close> returns \<open>v\<close> with \<open>RES_SUCCESS\<close>, and the remaining
  results of the request are drained, so that none is left for a later call.\<close>

theorem get_returns_result:
  assumes "\<not> key_rejected (lib E) intern key" "length key \<le> 250"
    "lm_mget (lib E) server_key [key] (memc intern) = (st, m1)" "\<not> s_memcached_return_is_error st True"
    "fetch_seq (lib E) m1 (r # rs) rc m2"
    "s_memcached_result_to_zval E intern r = Some (Some v, intern)"
    "get_flags AND MEMC_GET_EXTENDED = 0"
  shows "php_memc_get_impl E intern server_key key callback get_flags =
    Some (v, intern\<lparr>memc := m2, rescode := MEMCACHED_SUCCESS, memc_errno := 0\<rparr>)"
proof -
  have "decodes E (intern\<lparr>rescode := st, memc_errno := 0\<rparr>) (\<lambda>_. Some v) r"
    by (rule decodesI [OF assms(6)]) simp_all
  from get_found [OF assms(1-5) this assms(7)] show ?thesis .
qed

lemma sample_fetch_seq: "fetch_seq sample_lib m (sc_pending m) MEMCACHED_END (m\<lparr>sc_pending := []\<rparr>)"
proof (induction "sc_pending m" arbitrary: m)
  case Nil
  then have eq: "m\<lparr>sc_pending := []\<rparr> = m" by (cases m) simp
  show ?case
    unfolding eq Nil [symmetric]
    by (rule fetch_seq.fetch_end) (simp add: sample_fetch_def Nil [symmetric])
next
  case (Cons r rs)
  have "fetch_seq sample_lib (m\<lparr>sc_pending := rs\<rparr>) rs MEMCACHED_END (m\<lparr>sc_pending := []\<rparr>)"
    using Cons(1) [of "m\<lparr>sc_pending := rs\<rparr>"] by simp
  moreover have "lm_fetch_result sample_lib m = (Some r, MEMCACHED_SUCCESS, m\<lparr>sc_pending := rs\<rparr>)"
    using Cons(2) [symmetric] by (simp add: sample_fetch_def)
  ultimately show ?case
    using Cons(2) [symmetric] fetch_seq.fetch_item [of sample_lib m r MEMCACHED_SUCCESS] by simp
qed

lemma sample_mget_old:
  "lm_mget sample_lib None [''old''] sample_client0 =
     (MEMCACHED_SUCCESS, sample_client0\<lparr>sc_pending := [sample_item ''old'' (''41'', 1)]\<rparr>)"
  by (simp add: sample_mget_def sample_client0_def map_filter_simps)

lemma sample_old_ok: "\<not> key_rejected sample_lib sample_object ''old''"
  by (subst key_rejected_iff)
    (simp_all add: key_prefix_length_def strlen_def s_memc_valid_key_ascii_iff isspace_def sample_defs)

lemma sample_old_value:
  "s_memcached_result_to_zval sample_env sample_object (sample_item ''old'' (''41'', 1)) =
     Some (Some (IS_LONG 41), sample_object)"
proof -
  have "strtol10 ''41'' = 41" by (simp add: strtol10_def strto_sign_def digit_val_def isspace_def)
  moreover have "\<not> MEMC_VAL_HAS_FLAG 1 1" "MEMC_VAL_GET_TYPE 1 = 1"
    by (simp_all add: MEMC_VAL_HAS_FLAG_def flag_defs mask_eq_exp_minus_1)
  ultimately show ?thesis
    by (simp add: s_memcached_result_to_zval_def sample_item_def memcached_result_length_def data_to_zval_def)
qed

theorem get_returns_result_witness:
  "\<exists>i. php_memc_get_impl sample_env sample_object None ''old'' None 0 = Some (IS_LONG 41, i)"
proof -
  let ?m = "sample_client0\<lparr>sc_pending := [sample_item ''old'' (''41'', 1)]\<rparr>"
  have "fetch_seq sample_lib ?m [sample_item ''old'' (''41'', 1)] MEMCACHED_END (?m\<lparr>sc_pending := []\<rparr>)"
    using sample_fetch_seq [of ?m] by simp
  from get_returns_result [of sample_env sample_object "''old''" None MEMCACHED_SUCCESS ?m, OF _ _ _ _ _ sample_old_value]
    this sample_mget_old sample_old_ok
  show ?thesis by simp
qed



text \<open>\<open>fetchAll\<close> returns all pending results of a delayed request, in the order in which they
  arrive, as a list of arrays with key, value and, if the token is not 0, CAS token and flags.\<close>

theorem fetchAll_in_order:
  assumes "fetch_seq (lib E) (memc intern) rs rc m2" "\<not> s_memcached_return_is_error rc False"
    "\<And>r. r \<in> set rs \<Longrightarrow> s_memcached_result_to_zval E intern r = Some (Some (val r), intern)" "\<not> EG_exception intern"
  shows "memc_fetchAll E intern =
    Some (IS_ARRAY (map (\<lambda>(i, r). (HInt (of_nat i), IS_ARRAY (s_create_result_array (res_key r) (val r)
        (s_uint64_to_zval (res_cas r)) (res_flags r) []))) (zip [0..<length rs] rs)),
      intern\<lparr>memc := m2, rescode := MEMCACHED_SUCCESS, memc_errno := 0\<rparr>)"
proof -
  have "\<forall>r \<in> set rs. decodes E (s_memc_set_status intern MEMCACHED_SUCCESS 0) (\<lambda>r. Some (val r)) r"
    using assms(3) by (intro ballI decodesI [of E intern]) simp_all
  from fetchAll_collects [OF assms(1,2) this assms(4)] show ?thesis
    using fetch_all_fold [of val rs "[]"] by simp
qed

theorem fetchAll_in_order_witness:
  "\<exists>i. memc_fetchAll sample_env (sample_object\<lparr>memc := sample_client0\<lparr>sc_pending := [sample_item ''old'' (''41'', 1)]\<rparr>\<rparr>) =
     Some (IS_ARRAY [(HInt 0, IS_ARRAY (s_create_result_array ''old'' (IS_LONG 41) (IS_LONG 7) 1 []))], i)"
proof -
  let ?r = "sample_item ''old'' (''41'', 1)"
  let ?m = "sample_client0\<lparr>sc_pending := [?r]\<rparr>"
  let ?o = "sample_object\<lparr>memc := ?m\<rparr>"
  have seq: "fetch_seq (lib sample_env) (memc ?o) [?r] MEMCACHED_END (?m\<lparr>sc_pending := []\<rparr>)"
    using sample_fetch_seq [of ?m] by simp
  have val: "s_memcached_result_to_zval sample_env ?o ?r = Some (Some (IS_LONG 41), ?o)"
    by (rule s_memcached_result_to_zval_cong [OF _ _ sample_old_value]) simp_all
  show ?thesis
    using fetchAll_in_order [OF seq, of "\<lambda>_. IS_LONG 41"] val
    by (simp add: s_uint64_to_zval_def sample_item_def)
qed

text \<open>Asking for CAS tokens leaves the client's CAS setting as it was: \<open>php_memc_mget_apply\<close> turns
  the support on for the request only, and turns it off again also when the request fails. The
  library is assumed to report the value last set, and a request not to change the setting.\<close>

theorem mget_restores_cas_support:
  assumes "\<And>m v. lm_behavior_get (lib E) (snd (lm_behavior_set (lib E) m MEMCACHED_BEHAVIOR_SUPPORT_CAS v))
      MEMCACHED_BEHAVIOR_SUPPORT_CAS = v"
    "\<And>m. lm_behavior_get (lib E) (snd (lm_mget (lib E) server_key keys m)) MEMCACHED_BEHAVIOR_SUPPORT_CAS =
      lm_behavior_get (lib E) m MEMCACHED_BEHAVIOR_SUPPORT_CAS"
    "php_memc_mget_apply E intern server_key keys None with_cas c = Some (ok, i, c')"
  shows "lm_behavior_get (lib E) (memc i) MEMCACHED_BEHAVIOR_SUPPORT_CAS =
    lm_behavior_get (lib E) (memc intern) MEMCACHED_BEHAVIOR_SUPPORT_CAS"
proof -
  have cas: "lm_behavior_get (lib E) (snd (lm_mget (lib E) server_key keys m)) MEMCACHED_BEHAVIOR_SUPPORT_CAS =
      lm_behavior_get (lib E) m MEMCACHED_BEHAVIOR_SUPPORT_CAS" for m by (rule assms(2))
  show ?thesis
    using assms(3) cas [of "memc intern"] assms(1)
    by (auto simp: php_memc_mget_apply_def Let_def case_prod_beta' s_memc_status_handle_result_code_def
        s_memc_set_status_def cas split: if_splits)
qed

theorem mget_restores_cas_support_witness:
  "\<exists>i. php_memc_mget_apply sample_env sample_object None [''old''] (None :: (sample_client, bool \<times> rat, unit) apply_fn option)
       True () = Some (True, i, ()) \<and> sc_cas (memc i) = 0"
proof -
  obtain i where i: "php_memc_mget_apply sample_env sample_object None [''old'']
      (None :: (sample_client, bool \<times> rat, unit) apply_fn option) True () = Some (True, i, ())"
    by (simp add: php_memc_mget_apply_def Let_def sample_mget_def s_memc_status_handle_result_code_def)
  have "lm_behavior_get (lib sample_env) (memc i) MEMCACHED_BEHAVIOR_SUPPORT_CAS =
      lm_behavior_get (lib sample_env) (memc sample_object) MEMCACHED_BEHAVIOR_SUPPORT_CAS"
    by (rule mget_restores_cas_support [OF _ _ i]) (simp_all add: sample_lib_def sample_mget_def)
  with i show ?thesis by (simp add: sample_lib_def sample_client0_def)
qed

text \<open>C28: Read-through caching. When the servers do not have the key and the callback returns true
  with a value, \<open>get\<close> stores that value under the key with the callback's expiration, on the server
  the key itself selects (also for \<open>getByKey\<close>), and returns it if the store succeeded.\<close>

theorem get_miss_callback:
  assumes key: "\<not> key_rejected (lib E) intern key" "length key \<le> 250"
    and mget: "lm_mget (lib E) server_key [key] (memc intern) = (st, m1)" "\<not> s_memcached_return_is_error st True"
    and miss: "lm_fetch_result (lib E) m1 = (None, MEMCACHED_NOTFOUND, m2)"
    and cb: "\<And>i. memc i = m2 \<Longrightarrow> rescode i = MEMCACHED_NOTFOUND \<Longrightarrow> callback i key IS_NULL = (Some (True, v, e), i2)"
    and store: "s_memc_write_zval E i2 MEMC_OP_SET None key (Some v) (zval_get_long (zend E) e) = Some (ok, i3)"
    and plain: "get_flags AND MEMC_GET_EXTENDED = 0"
  shows "php_memc_get_impl E intern server_key key (Some callback) get_flags = Some (if ok then v else IS_FALSE, i3)"
proof -
  let ?i = "s_memc_set_status intern MEMCACHED_SUCCESS 0"
  have ok: "\<not> key_rejected (lib E) ?i key" using key(1) key_rejected_cong [of ?i intern] by simp
  have "key \<noteq> []" using key(1) by (auto simp: key_rejected_def)
  then have keys: "s_key_to_keys (zend E) key = [key]" using key(2) by (simp add: s_key_to_keys_eq)
  let ?j = "intern\<lparr>memc := m2, rescode := MEMCACHED_NOTFOUND, memc_errno := lm_last_error_errno (lib E) m2\<rparr>"
  have "php_memc_result_apply E (?i\<lparr>memc := m1, rescode := st, memc_errno := 0\<rparr>) (s_get_apply_fn False) False IS_NULL
      = Some (MEMCACHED_NOTFOUND, intern\<lparr>memc := m2, rescode := st, memc_errno := 0\<rparr>, IS_NULL)"
    by (simp add: php_memc_result_apply_def result_apply_loop.simps [of E "s_get_apply_fn False"]
        result_apply_step_def miss s_memc_set_status_def)
  then have "php_memc_mget_apply E ?i server_key [key] (Some (s_get_apply_fn False)) False IS_NULL =
      Some (False, ?j, IS_NULL)"
    using mget_apply_sent [of "[key]" E server_key ?i st m1 "s_get_apply_fn False" IS_NULL] mget
    by (simp add: s_memc_status_handle_result_code_def)
  moreover have "callback ?j key IS_NULL = (Some (True, v, e), i2)" by (rule cb) simp_all
  ultimately show ?thesis
    using ok keys plain store s_memc_write_zval_status [OF store]
    by (simp add: php_memc_get_impl_def MEMC_CHECK_KEY_def s_memc_status_has_result_code_def
        s_invoke_cache_callback_def)
qed

theorem get_miss_callback_witness:
  "\<exists>i. php_memc_get_impl (sample_env\<lparr>lib := sample_lib\<lparr>lm_fetch_result := \<lambda>m. (None, MEMCACHED_NOTFOUND, m)\<rparr>\<rparr>)
     sample_object (Some ''s1'') ''user:1'' (Some (\<lambda>_ _ _. (Some (True, IS_LONG 42, IS_NULL), sample_object))) 0 =
     Some (IS_LONG 42, i)"
proof -
  let ?L = "sample_lib\<lparr>lm_fetch_result := \<lambda>m. (None, MEMCACHED_NOTFOUND, m)\<rparr>"
  let ?E = "sample_env\<lparr>lib := ?L\<rparr>"
  let ?m = "sample_client0\<lparr>sc_pending := []\<rparr>"
  have key: "\<not> key_rejected (lib ?E) sample_object ''user:1''"
    by (subst key_rejected_iff)
      (simp_all add: key_prefix_length_def strlen_def s_memc_valid_key_ascii_iff isspace_def sample_defs)
  have "s_zval_to_payload ?E sample_object (IS_LONG 42) 0 =
      Some (Some ''42'', set_udf 5 (MEMC_VAL_SET_TYPE 0 1), sample_object)"
    by (simp add: s_zval_to_payload_def zval_payload_def dec_of_long_42 sample_defs)
  then obtain i where "s_memc_write_zval ?E sample_object MEMC_OP_SET None ''user:1'' (Some (IS_LONG 42))
      (zval_get_long (zend ?E) IS_NULL) = Some (True, i)"
    by (simp add: s_memc_write_zval_def s_is_payload_too_big_def memc_write_all_def memc_write_once_def
        s_memc_status_handle_result_code_def sample_lib_def sample_user_data_def)
  then show ?thesis
    using get_miss_callback [OF key, of "Some ''s1''" MEMCACHED_SUCCESS ?m ?m
        "\<lambda>_ _ _. (Some (True, IS_LONG 42, IS_NULL), sample_object)" "IS_LONG 42" IS_NULL sample_object True]
    by (simp add: sample_mget_def map_filter_simps sample_client0_def)
qed

end
