(* ===== verification/Batch.thy ===== *)
theory Batch
  imports Read
begin

text \<open>
  \<open>setMulti\<close> followed by \<open>getMulti\<close>: what a batch stores is what a batch fetches. The abstract
  view of the servers is a map from keys to payload and flags; \<open>serves_items\<close> says what
  servers that are up do to it. The lemmas refine the two loops to updates of that map and
  lookups in it.
\<close>

section \<open>The contract of the servers\<close>

text \<open>
  A set succeeds and puts the item into the map; a request succeeds and is answered, in any order,
  by the items the map has for its keys.
\<close>

definition serves_items ::
  "'m libmemcached \<Rightarrow> string option \<Rightarrow> ('m \<Rightarrow> string \<Rightarrow> (string \<times> u32) option) \<Rightarrow> bool" where
  "serves_items L sk items \<longleftrightarrow>
     (\<forall>key p e f m. \<exists>m'. lm_store L MEMC_OP_SET sk key p e f m = (MEMCACHED_SUCCESS, m') \<and>
        items m' = (items m)(key \<mapsto> (p, f))) \<and>
     (\<forall>ks m. \<exists>m1 rs m2. lm_mget L sk ks m = (MEMCACHED_SUCCESS, m1) \<and> fetch_seq L m1 rs MEMCACHED_END m2 \<and>
        (\<lambda>r. (res_key r, res_value r, res_flags r)) ` set rs =
          {(k, Some p, f) | k p f. k \<in> set ks \<and> items m k = Some (p, f)})"

text \<open>A value the object can store: it has a payload within the limit, which reads back.\<close>

definition storable :: "('m, 'd) env \<Rightarrow> 'm php_memc_object \<Rightarrow> 'd zval \<Rightarrow> bool" where
  "storable E intern v \<longleftrightarrow>
     (\<exists>p fl. s_zval_to_payload E intern v 0 = Some (Some p, fl, intern) \<and> \<not> s_is_payload_too_big intern p) \<and>
     value_ok E intern v \<and>
     (\<forall>q fl may i. zval_payload E intern v 0 = Some (Some q, fl, may, i) \<longrightarrow> length q \<le> 2 ^ 30)"

definition stored_form :: "('m, 'd) env \<Rightarrow> 'm php_memc_object \<Rightarrow> 'd zval \<Rightarrow> string \<times> u32" where
  "stored_form E intern v =
     (case s_zval_to_payload E intern v 0 of Some (Some p, fl, _) \<Rightarrow> (p, fl) | _ \<Rightarrow> ([], 0))"

lemma storable_payload:
  assumes "storable E intern v"
  shows "s_zval_to_payload E intern v 0 =
      Some (Some (fst (stored_form E intern v)), snd (stored_form E intern v), intern)"
    "\<not> s_is_payload_too_big intern (fst (stored_form E intern v))"
  using assms by (auto simp: storable_def stored_form_def)

lemma stored_form_reads_back:
  assumes "storable E intern v" "codecs_ok (codec_lib E) (ud_compression_level (user_data intern))"
    "res_value r = Some p" "stored_form E intern v = (p, res_flags r)"
  shows "s_memcached_result_to_zval E intern r = Some (Some v, intern)"
proof (rule payload_round_trip)
  show "s_zval_to_payload E intern v 0 = Some (Some p, res_flags r, intern)"
    using storable_payload(1) [OF assms(1)] assms(4) by simp
  show "length q \<le> 2 ^ 30" if "zval_payload E intern v 0 = Some (Some q, fl, may, i)" for q fl may i
    using assms(1) that by (auto simp: storable_def)
qed (use assms in \<open>simp_all add: storable_def\<close>)

section \<open>The payload does not depend on the client\<close>

text \<open>Two objects with the same configuration: payloads are made alike on both.\<close>

definition same_config :: "'m php_memc_object \<Rightarrow> 'm php_memc_object \<Rightarrow> bool" where
  "same_config a b \<longleftrightarrow> user_data b = user_data a \<and> EG_exception b = EG_exception a"

lemma same_config_simps [simp]:
  "same_config a a"
  "same_config a (b\<lparr>memc := m, rescode := st, memc_errno := e\<rparr>) \<longleftrightarrow> same_config a b"
  "same_config a (s_memc_set_status b st e) \<longleftrightarrow> same_config a b"
  by (simp_all add: same_config_def)

lemma s_zval_to_payload_cong:
  assumes "same_config a b" "s_zval_to_payload E a v fl = Some (q, fl', a)"
  shows "s_zval_to_payload E b v fl = Some (q, fl', b)"
proof -
  from assms(2) obtain q0 fl0 may where z: "zval_payload E a v fl = Some (q0, fl0, may, a)"
    by (auto simp: s_zval_to_payload_def Let_def split: bind_splits option.splits prod.splits if_splits)
  then have "zval_payload E b v fl = Some (q0, fl0, may, b)"
    using assms(1) by (cases v) (auto simp: same_config_def zval_payload_def serialized_payload_def Let_def
        split: bind_splits if_splits option.splits)
  with z assms show ?thesis
    by (auto simp: same_config_def s_zval_to_payload_def Let_def split: bind_splits option.splits)
qed

section \<open>setMulti updates the map\<close>

lemma write_updates_items:
  assumes "serves_items (lib E) sk items" "storable E intern v" "same_config intern i"
  obtains i' where "s_memc_write_zval E i MEMC_OP_SET sk key (Some v) e = Some (True, i')"
    "same_config intern i'" "rescode i' = MEMCACHED_SUCCESS"
    "items (memc i') = (items (memc i))(key \<mapsto> stored_form E intern v)"
proof -
  obtain p f where pf: "stored_form E intern v = (p, f)" by (cases "stored_form E intern v")
  with storable_payload [OF assms(2)] s_zval_to_payload_cong [OF assms(3)]
  have pay: "s_zval_to_payload E i v 0 = Some (Some p, f, i)" by simp
  have small: "\<not> s_is_payload_too_big i p"
    using storable_payload(2) [OF assms(2)] pf assms(3)
    by (simp add: s_is_payload_too_big_def same_config_def split: if_splits)
  from assms(1) obtain m' where st: "lm_store (lib E) MEMC_OP_SET sk key p e f (memc i) = (MEMCACHED_SUCCESS, m')"
    and m': "items m' = (items (memc i))(key \<mapsto> (p, f))"
    unfolding serves_items_def by blast
  have once: "memc_write_once (lib E) MEMC_OP_SET sk key (Some p) e f (memc i) = (MEMCACHED_SUCCESS, m')"
    using st by (simp add: memc_write_once_def)
  then have "memc_write_all (lib E) (user_data i) MEMC_OP_SET sk key (Some p) e f (memc i) = (MEMCACHED_SUCCESS, m')"
    by (simp add: memc_write_all_def)
  then have "s_memc_write_zval E i MEMC_OP_SET sk key (Some v) e =
      Some (True, i\<lparr>memc := m', rescode := MEMCACHED_SUCCESS, memc_errno := 0\<rparr>)"
    using pay small by (simp add: s_memc_write_zval_def s_memc_status_handle_result_code_def)
  with that [OF this] m' pf assms(3) show thesis by simp
qed

lemma setMulti_loop_updates_items:
  assumes "serves_items (lib E) sk items" "\<forall>kv \<in> set entries. storable E intern (snd kv)"
    "same_config intern i" "rescode i = MEMCACHED_SUCCESS"
  shows "\<exists>i'. setMulti_loop E sk e entries i = Some i' \<and> same_config intern i' \<and> rescode i' = MEMCACHED_SUCCESS \<and>
    items (memc i') = items (memc i) ++ map_of (rev (map (\<lambda>(k, v). (entry_key k, stored_form E intern v)) entries))"
  using assms(2-4)
proof (induction entries arbitrary: i)
  case Nil
  then show ?case by simp
next
  case (Cons kv entries)
  obtain k v where kv: "kv = (k, v)" by (cases kv)
  have v: "storable E intern v" and rest: "\<forall>kv \<in> set entries. storable E intern (snd kv)"
    using Cons.prems(1) kv by simp_all
  obtain i1 where i1: "s_memc_write_zval E i MEMC_OP_SET sk (entry_key k) (Some v) e = Some (True, i1)"
    "same_config intern i1" "rescode i1 = MEMCACHED_SUCCESS"
    "items (memc i1) = (items (memc i))(entry_key k \<mapsto> stored_form E intern v)"
    by (rule write_updates_items [OF assms(1) v Cons.prems(2)])
  from Cons.IH [OF rest i1(2,3), unfolded i1(4)] i1(1) show ?case by (simp add: kv del: fun_upd_apply)
qed

section \<open>getMulti reads the map\<close>

lemma collected_map_of:
  assumes "\<And>r. r \<in> set rs \<Longrightarrow> val r = map_of entries (z_symtable_key Z (res_key r)) \<and> val r \<noteq> None"
  shows "map_of (collected Z val rs ret) k =
    (if k \<in> z_symtable_key Z ` res_key ` set rs then map_of entries k else map_of ret k)"
  using assms
proof (induction rs rule: rev_induct)
  case Nil
  then show ?case by (simp add: collected_def)
next
  case (snoc r rs)
  then obtain v where "val r = Some v" "map_of entries (z_symtable_key Z (res_key r)) = Some v" by force
  moreover have "map_of (collected Z val rs ret) k =
      (if k \<in> z_symtable_key Z ` res_key ` set rs then map_of entries k else map_of ret k)"
    by (rule snoc.IH, rule snoc.prems) simp
  ultimately show ?case by (auto simp: collected_def update_conv')
qed

lemma collected_keys:
  assumes "\<And>r. r \<in> set rs \<Longrightarrow> z_symtable_key Z (res_key r) \<in> fst ` set ret"
  shows "map fst (collected Z val rs ret) = map fst ret"
  using assms
proof (induction rs rule: rev_induct)
  case Nil
  then show ?case by (simp add: collected_def)
next
  case (snoc r rs)
  then have "map fst (collected Z val rs ret) = map fst ret" "z_symtable_key Z (res_key r) \<in> fst ` set ret" by auto
  moreover from this have "z_symtable_key Z (res_key r) \<in> fst ` set (collected Z val rs ret)"
    by (metis list.set_map)
  ultimately show ?case by (simp add: collected_def update_keys split: option.split)
qed

lemma null_entries:
  assumes "distinct ks" "set ks \<inter> fst ` set ret = {}"
  shows "fold (\<lambda>k. AList.update k IS_NULL) ks ret = ret @ map (\<lambda>k. (k, IS_NULL)) ks"
  using assms
proof (induction ks arbitrary: ret)
  case Nil
  then show ?case by simp
next
  case (Cons k ks)
  have "AList.update k x ret = ret @ [(k, x)]" for x
    using Cons.prems(2) by (induction ret) auto
  with Cons show ?case by auto
qed

lemma map_of_same_order:
  assumes "map_of xs = map_of ys" "map fst xs = map fst ys" "distinct (map fst ys)"
  shows "xs = ys"
proof (rule nth_equalityI)
  show len: "length xs = length ys" using assms(2) by (metis length_map)
  fix n assume n: "n < length xs"
  then have k: "fst (xs ! n) = fst (ys ! n)" using assms(2) len by (metis nth_map)
  have "map_of xs (fst (xs ! n)) = Some (snd (xs ! n))" "map_of ys (fst (ys ! n)) = Some (snd (ys ! n))"
    using n len assms(2,3) by (auto intro!: map_of_is_SomeI)
  with k assms(1) show "xs ! n = ys ! n" by (metis option.inject prod_eqI)
qed

text \<open>The keys of a batch: of legal length, and each the key its string form stands for in an array.\<close>

definition batch_keys_ok :: "'d zend \<Rightarrow> 'd harray \<Rightarrow> bool" where
  "batch_keys_ok Z entries \<longleftrightarrow> distinct (map fst entries) \<and>
     (\<forall>(k, _) \<in> set entries. 1 \<le> length (entry_key k) \<and> length (entry_key k) \<le> 250 \<and> z_symtable_key Z (entry_key k) = k)"

lemma batch_keys_okD:
  assumes "batch_keys_ok Z entries" "(k, v) \<in> set entries"
  shows "z_symtable_key Z (entry_key k) = k" "map_of entries k = Some v"
    "1 \<le> length (entry_key k)" "length (entry_key k) \<le> 250"
  using assms by (auto simp: batch_keys_ok_def)

lemma batch_request:
  assumes "batch_keys_ok Z entries" "entries \<noteq> []"
    "map (\<lambda>(_, zv). zval_get_string Z zv) keys = map (\<lambda>(k, _). entry_key k) entries"
  shows "s_hash_to_keys Z keys preserve (Some []) = (map (\<lambda>(k, _). entry_key k) entries,
    Some (if preserve then map (\<lambda>(k, _). (k, IS_NULL)) entries else []))"
proof -
  have str: "map (zval_get_string Z) (map snd keys) = map (entry_key \<circ> fst) entries"
    using assms(3) by (simp add: case_prod_beta' comp_def)
  have ok: "filter (\<lambda>k. 0 < length k \<and> length k < 251) (map (entry_key \<circ> fst) entries) = map (entry_key \<circ> fst) entries"
  proof (rule filter_True, clarsimp)
    fix k v assume "(k, v) \<in> set entries"
    from batch_keys_okD(3,4) [OF assms(1) this] show "entry_key k \<noteq> [] \<and> length (entry_key k) < 251" by auto
  qed
  have "fold (\<lambda>zv. AList.update (z_symtable_key Z (zval_get_string Z zv)) IS_NULL) (map snd keys) [] =
      fold (\<lambda>s. AList.update (z_symtable_key Z s) IS_NULL) (map (zval_get_string Z) (map snd keys)) []"
    by (simp add: fold_map comp_def)
  also have "\<dots> = fold (\<lambda>k. AList.update k IS_NULL) (map fst entries) []"
    unfolding str fold_map by (rule fold_cong) (use batch_keys_okD(1) [OF assms(1)] in auto)
  also have "\<dots> = map (\<lambda>(k, _). (k, IS_NULL)) entries"
    using null_entries [of "map fst entries" "[]"] assms(1) by (simp add: batch_keys_ok_def case_prod_beta' comp_def)
  finally have nulls: "fold (\<lambda>zv. AList.update (z_symtable_key Z (zval_get_string Z zv)) IS_NULL) (map snd keys) [] =
      map (\<lambda>(k, _). (k, IS_NULL)) entries" .
  have "keys \<noteq> []" using assms(2,3) by auto
  moreover have "s_hash_to_keys_loop Z preserve (map snd keys) [] [] = (map (entry_key \<circ> fst) entries,
      if preserve then map (\<lambda>(k, _). (k, IS_NULL)) entries else [])"
    by (rule prod_eqI) (simp_all only: s_hash_to_keys_loop_keys s_hash_to_keys_loop_ret str ok nulls append_Nil fst_conv snd_conv)
  ultimately show ?thesis by (simp add: s_hash_to_keys_def case_prod_beta' comp_def)
qed

lemma batch_results:
  assumes serves: "serves_items L sk items" and keys: "batch_keys_ok Z entries"
    and held: "\<And>k v. (k, v) \<in> set entries \<Longrightarrow> items m (entry_key k) = Some (form v)"
  obtains m1 rs m2 where "lm_mget L sk (map (\<lambda>(k, _). entry_key k) entries) m = (MEMCACHED_SUCCESS, m1)"
    "fetch_seq L m1 rs MEMCACHED_END m2"
    "\<forall>r \<in> set rs. \<exists>k v p. (k, v) \<in> set entries \<and> res_key r = entry_key k \<and> res_value r = Some p \<and>
      form v = (p, res_flags r)"
    "z_symtable_key Z ` res_key ` set rs = fst ` set entries"
proof -
  let ?ks = "map (\<lambda>(k, _). entry_key k) entries"
  obtain m1 rs m2 where mget: "lm_mget L sk ?ks m = (MEMCACHED_SUCCESS, m1)"
    and seq: "fetch_seq L m1 rs MEMCACHED_END m2"
    and img: "(\<lambda>r. (res_key r, res_value r, res_flags r)) ` set rs =
      {(k, Some p, f) | k p f. k \<in> set ?ks \<and> items m k = Some (p, f)}"
    using serves unfolding serves_items_def by blast
  note sym = batch_keys_okD [OF keys]
  have res: "\<exists>k v p. (k, v) \<in> set entries \<and> res_key r = entry_key k \<and> res_value r = Some p \<and>
      form v = (p, res_flags r)" if "r \<in> set rs" for r
  proof -
    from that img have "(res_key r, res_value r, res_flags r) \<in>
        {(k, Some p, f) | k p f. k \<in> set ?ks \<and> items m k = Some (p, f)}" by blast
    then obtain p k v where "(k, v) \<in> set entries" "res_key r = entry_key k" "res_value r = Some p"
      "items m (entry_key k) = Some (p, res_flags r)" by auto
    with held show ?thesis by auto
  qed
  have all: "z_symtable_key Z ` res_key ` set rs = fst ` set entries"
  proof (intro equalityI subsetI)
    fix k assume "k \<in> z_symtable_key Z ` res_key ` set rs"
    then show "k \<in> fst ` set entries" using res sym(1) by force
  next
    fix k assume "k \<in> fst ` set entries"
    then obtain v where kv: "(k, v) \<in> set entries" by auto
    obtain p f where "form v = (p, f)" by (cases "form v")
    with held [OF kv] kv have "(entry_key k, Some p, f) \<in>
        {(k, Some p, f) | k p f. k \<in> set ?ks \<and> items m k = Some (p, f)}" by force
    with img obtain r where "r \<in> set rs" "res_key r = entry_key k" by (metis (mono_tags, lifting) imageE prod.inject)
    with sym(1) [OF kv] show "k \<in> z_symtable_key Z ` res_key ` set rs" by force
  qed
  show thesis by (rule that [OF mget seq ballI [OF res] all])
qed

lemma batch_lookup:
  assumes "batch_keys_ok Z entries" "(k, v) \<in> set entries"
  shows "map_of (rev (map (\<lambda>(k, v). (entry_key k, form v)) entries)) (entry_key k) = Some (form v)"
proof (rule map_of_is_SomeI)
  have "inj_on entry_key (fst ` set entries)"
    using assms(1) by (intro inj_on_inverseI [of _ "z_symtable_key Z"]) (auto simp: batch_keys_ok_def)
  moreover have "map fst (map (\<lambda>(k, v). (entry_key k, form v)) entries) = map entry_key (map fst entries)"
    by (simp add: case_prod_beta' comp_def)
  moreover have "distinct (map fst entries)" using assms(1) by (simp add: batch_keys_ok_def)
  ultimately have "distinct (map fst (map (\<lambda>(k, v). (entry_key k, form v)) entries))"
    by (simp add: distinct_map del: map_map)
  then show "distinct (map fst (rev (map (\<lambda>(k, v). (entry_key k, form v)) entries)))"
    by (simp only: rev_map [symmetric] distinct_rev)
  show "(entry_key k, form v) \<in> set (rev (map (\<lambda>(k, v). (entry_key k, form v)) entries))"
    using assms(2) by force
qed

lemma batch_array:
  fixes entries :: "'d harray"
  assumes "batch_keys_ok Z entries" "\<And>r. r \<in> set rs \<Longrightarrow> map_of entries (z_symtable_key Z (res_key r)) \<noteq> None"
    "z_symtable_key Z ` res_key ` set rs = fst ` set entries"
  defines "arr \<equiv> \<lambda>preserve. collected Z (\<lambda>r. map_of entries (z_symtable_key Z (res_key r))) rs
    (if preserve then map (\<lambda>(k, _). (k, IS_NULL)) entries else [])"
  shows "map_of (arr preserve) = map_of entries" "arr True = entries"
proof -
  have lookup: "map_of (arr preserve) = map_of entries" for preserve
  proof
    fix k
    let ?ret = "if preserve then map (\<lambda>(k, _). (k, IS_NULL)) entries else []"
    have "map_of (arr preserve) k = (if k \<in> fst ` set entries then map_of entries k else map_of ?ret k)"
      unfolding assms(3) [symmetric] arr_def by (rule collected_map_of) (use assms(2) in blast)
    moreover have "map_of ?ret k = None" "map_of entries k = None" if "k \<notin> fst ` set entries"
      using that by (force simp: map_of_eq_None_iff)+
    ultimately show "map_of (arr preserve) k = map_of entries k" by (cases "k \<in> fst ` set entries") simp_all
  qed
  then show "map_of (arr preserve) = map_of entries" .
  have keys: "map fst (map (\<lambda>(k, _). (k, IS_NULL :: 'd zval)) entries) = map fst entries"
    by (simp add: case_prod_beta')
  have "fst ` set (map (\<lambda>(k, _). (k, IS_NULL :: 'd zval)) entries) = fst ` set entries" by force
  with assms(3) have "map fst (arr True) = map fst (map (\<lambda>(k, _). (k, IS_NULL :: 'd zval)) entries)"
    unfolding arr_def if_True by (intro collected_keys) blast
  with keys have "map fst (arr True) = map fst entries" by (rule trans [rotated])
  from map_of_same_order [OF lookup this] assms(1) show "arr True = entries" by (simp add: batch_keys_ok_def)
qed

lemma batch_fetch:
  assumes serves: "serves_items (lib E) sk items"
    and entries: "batch_keys_ok (zend E) entries" "entries \<noteq> []" "\<forall>kv \<in> set entries. storable E intern (snd kv)"
    and codecs: "codecs_ok (codec_lib E) (ud_compression_level (user_data intern))" "\<not> EG_exception intern"
    and i: "same_config intern i"
      "\<And>k v. (k, v) \<in> set entries \<Longrightarrow> items (memc i) (entry_key k) = Some (stored_form E intern v)"
    and keys: "map (\<lambda>(_, zv). zval_get_string (zend E) zv) keys = map (\<lambda>(k, _). entry_key k) entries"
    and fl: "flags AND MEMC_GET_EXTENDED = 0"
  shows "\<exists>arr i'. php_memc_getMulti_impl E i sk keys flags = Some (IS_ARRAY arr, i') \<and>
    rescode i' = MEMCACHED_SUCCESS \<and> map_of arr = map_of entries \<and>
    (flags AND MEMC_GET_PRESERVE_ORDER \<noteq> 0 \<longrightarrow> arr = entries)"
proof -
  let ?ks = "map (\<lambda>(k, _). entry_key k) entries"
  let ?pre = "flags AND MEMC_GET_PRESERVE_ORDER \<noteq> 0"
  let ?ret = "if ?pre then map (\<lambda>(k, _). (k, IS_NULL)) entries else []"
  let ?val = "\<lambda>r. map_of entries (z_symtable_key (zend E) (res_key r))"
  obtain m1 rs m2 where mget: "lm_mget (lib E) sk ?ks (memc i) = (MEMCACHED_SUCCESS, m1)"
    and seq: "fetch_seq (lib E) m1 rs MEMCACHED_END m2"
    and res: "\<forall>r \<in> set rs. \<exists>k v p. (k, v) \<in> set entries \<and> res_key r = entry_key k \<and> res_value r = Some p \<and>
      stored_form E intern v = (p, res_flags r)"
    and all: "z_symtable_key (zend E) ` res_key ` set rs = fst ` set entries"
    by (rule batch_results [where form = "stored_form E intern", OF serves entries(1) i(2)])
  have dec: "?val r \<noteq> None \<and> decodes E (i\<lparr>rescode := MEMCACHED_SUCCESS, memc_errno := 0\<rparr>) ?val r"
    if mem: "r \<in> set rs" for r
  proof -
    obtain k v p where r: "(k, v) \<in> set entries" "res_key r = entry_key k" "res_value r = Some p"
      "stored_form E intern v = (p, res_flags r)" using res mem by blast
    have "storable E intern v" using entries(3) r(1) by force
    from stored_form_reads_back [OF this codecs(1) r(3,4)] batch_keys_okD [OF entries(1) r(1)] r(2)
    have "?val r = Some v" "s_memcached_result_to_zval E intern r = Some (?val r, intern)" by simp_all
    moreover from this(2) have "decodes E (i\<lparr>rescode := MEMCACHED_SUCCESS, memc_errno := 0\<rparr>) ?val r"
      by (rule decodesI) (use i(1) in \<open>simp_all add: same_config_def\<close>)
    ultimately show ?thesis by simp
  qed
  let ?arr = "collected (zend E) ?val rs ?ret"
  have exn: "\<not> EG_exception i" using codecs(2) i(1) by (simp add: same_config_def)
  have all_dec: "\<forall>r \<in> set rs. decodes E (i\<lparr>rescode := MEMCACHED_SUCCESS, memc_errno := 0\<rparr>) ?val r" using dec by blast
  have ne: "keys \<noteq> []" "?ks \<noteq> []" using keys entries(2) by auto
  obtain i' where got: "php_memc_getMulti_impl E i sk keys flags = Some (IS_ARRAY ?arr, i')"
    "rescode i' = (if \<exists>r \<in> set rs. ?val r = None then MEMCACHED_SOME_ERRORS else MEMCACHED_SUCCESS)"
    using getMulti_collects [OF ne(1) batch_request [OF entries(1,2) keys, of ?pre] ne(2) refl fl mget _ seq _ all_dec exn]
    by (auto simp: get_multi_put_result collected_def simp del: if_True if_False)
  from got dec batch_array [OF entries(1), of rs] all show ?thesis by (auto simp: batch_keys_ok_def)
qed

section \<open>Properties\<close>


lemma sample_serves_items: "serves_items sample_lib None (map_of \<circ> sc_items)"
  unfolding serves_items_def
proof (intro conjI allI)
  fix key p e f m
  show "\<exists>m'. lm_store sample_lib MEMC_OP_SET None key p e f m = (MEMCACHED_SUCCESS, m') \<and>
      (map_of \<circ> sc_items) m' = ((map_of \<circ> sc_items) m)(key \<mapsto> (p, f))"
    by (simp add: sample_lib_def)
next
  fix ks and m :: sample_client
  let ?rs = "List.map_filter (\<lambda>k. map_option (sample_item k) (map_of (sc_items m) k)) ks"
  let ?m = "m\<lparr>sc_pending := ?rs\<rparr>"
  have "fetch_seq sample_lib ?m ?rs MEMCACHED_END (?m\<lparr>sc_pending := []\<rparr>)"
    using sample_fetch_seq [of ?m] by simp
  moreover have "lm_mget sample_lib None ks m = (MEMCACHED_SUCCESS, ?m)" by (simp add: sample_mget_def)
  moreover have "(\<lambda>r. (res_key r, res_value r, res_flags r)) ` set ?rs =
      {(k, Some p, f) | k p f. k \<in> set ks \<and> (map_of \<circ> sc_items) m k = Some (p, f)}"
    by (force simp: map_filter_def sample_item_def)
  ultimately show "\<exists>m1 rs m2. lm_mget sample_lib None ks m = (MEMCACHED_SUCCESS, m1) \<and>
      fetch_seq sample_lib m1 rs MEMCACHED_END m2 \<and> (\<lambda>r. (res_key r, res_value r, res_flags r)) ` set rs =
        {(k, Some p, f) | k p f. k \<in> set ks \<and> (map_of \<circ> sc_items) m k = Some (p, f)}" by blast
qed

lemma sample_storable: "storable sample_env sample_object (IS_LONG 42)" "storable sample_env sample_object IS_TRUE"
  by (auto simp: storable_def sample_payload_42 s_zval_to_payload_def zval_payload_def dec_of_long_42 value_ok_def
      s_is_payload_too_big_def sample_user_data_def)


end
