(* ===== verification/Optimistic.thy ===== *)
theory Optimistic
  imports Batch
begin

text \<open>
  Optimistic updates: \<open>get\<close> with \<open>GET_EXTENDED\<close> hands out a CAS token, other clients work on the
  servers meanwhile, and \<open>cas\<close> with that token stores only if nobody else did. The contract of
  the server is \<open>cas_server\<close>: it gives every version of an item a token it never gave before.
\<close>

section \<open>The contract of the server\<close>

text \<open>
  \<open>item m\<close> is what the server has for the key: payload, flags and token. \<open>clock m\<close> bounds the tokens
  given so far; the token of a new version is not below it, while tokens last.
\<close>

type_synonym 'm item_view = "'m \<Rightarrow> (string \<times> u32 \<times> u64) option"

definition unchanged :: "'m item_view \<Rightarrow> ('m \<Rightarrow> nat) \<Rightarrow> 'm \<Rightarrow> 'm \<Rightarrow> bool" where
  "unchanged item clock m m' \<longleftrightarrow> item m' = item m \<and> clock m' = clock m"

definition new_version :: "'m item_view \<Rightarrow> ('m \<Rightarrow> nat) \<Rightarrow> 'm \<Rightarrow> string \<Rightarrow> u32 \<Rightarrow> 'm \<Rightarrow> bool" where
  "new_version item clock m p f m' \<longleftrightarrow>
     (\<exists>t. item m' = Some (p, f, t) \<and> clock m \<le> unat t \<and> clock m < clock m')"

definition answers_gets :: "'m libmemcached \<Rightarrow> string option \<Rightarrow> string \<Rightarrow> 'm item_view \<Rightarrow> ('m \<Rightarrow> nat) \<Rightarrow> bool" where
  "answers_gets L sk key item clock \<longleftrightarrow>
     (\<forall>m p f t. item m = Some (p, f, t) \<longrightarrow> lm_behavior_get L m MEMCACHED_BEHAVIOR_SUPPORT_CAS \<noteq> 0 \<longrightarrow>
        (\<exists>m1 r rs rc. lm_mget L sk [key] m = (MEMCACHED_SUCCESS, m1) \<and>
           res_value r = Some p \<and> res_flags r = f \<and> res_cas r = t \<and>
           (\<forall>m1'. m1' = m1 \<or> m1' = snd (lm_behavior_set L m1 MEMCACHED_BEHAVIOR_SUPPORT_CAS 0) \<longrightarrow>
              (\<exists>m2. fetch_seq L m1' (r # rs) rc m2 \<and> unchanged item clock m m2)))) \<and>
     (\<forall>m. lm_behavior_get L (snd (lm_behavior_set L m MEMCACHED_BEHAVIOR_SUPPORT_CAS 1))
            MEMCACHED_BEHAVIOR_SUPPORT_CAS \<noteq> 0 \<and>
          unchanged item clock m (snd (lm_behavior_set L m MEMCACHED_BEHAVIOR_SUPPORT_CAS 1)))"

definition cas_server :: "'m libmemcached \<Rightarrow> string option \<Rightarrow> string \<Rightarrow> 'm item_view \<Rightarrow> ('m \<Rightarrow> nat) \<Rightarrow> bool" where
  "cas_server L sk key item clock \<longleftrightarrow>
     answers_gets L sk key item clock \<and>
     (\<forall>m p f t. item m = Some (p, f, t) \<longrightarrow> unat t < clock m) \<and>
     (\<forall>m p e f t. clock m < 2 ^ 64 \<longrightarrow>
        (case lm_cas L sk key p e f t m of (rc, m') \<Rightarrow>
           if map_option (snd \<circ> snd) (item m) = Some t
           then rc = MEMCACHED_SUCCESS \<and> new_version item clock m p f m'
           else s_memcached_return_is_error rc True \<and> unchanged item clock m m'))"

lemma cas_serverD:
  assumes "cas_server L sk key item clock" "clock m < 2 ^ 64"
  shows "case lm_cas L sk key p e f t m of (rc, m') \<Rightarrow>
    if map_option (snd \<circ> snd) (item m) = Some t
    then rc = MEMCACHED_SUCCESS \<and> new_version item clock m p f m'
    else s_memcached_return_is_error rc True \<and> unchanged item clock m m'"
  using assms(1) [unfolded cas_server_def, THEN conjunct2, THEN conjunct2, rule_format, OF assms(2)] .

text \<open>What any client, this one included, does to the item: nothing, a deletion, or a new version.\<close>

inductive others :: "'m item_view \<Rightarrow> ('m \<Rightarrow> nat) \<Rightarrow> 'm \<Rightarrow> 'm \<Rightarrow> bool" for item clock where
  others_refl: "others item clock m m"
| others_keep: "others item clock m m1 \<Longrightarrow> unchanged item clock m1 m2 \<Longrightarrow> others item clock m m2"
| others_remove: "others item clock m m1 \<Longrightarrow> item m2 = None \<Longrightarrow> clock m1 \<le> clock m2 \<Longrightarrow> others item clock m m2"
| others_write: "others item clock m m1 \<Longrightarrow> new_version item clock m1 p f m2 \<Longrightarrow> others item clock m m2"

text \<open>Along such a run the item is the old one, gone, or has a token not given before.\<close>

lemma others_fresh:
  assumes "others item clock m m'"
  shows "clock m \<le> clock m' \<and> (item m' = item m \<or> (\<forall>p f t. item m' = Some (p, f, t) \<longrightarrow> clock m \<le> unat t))"
  using assms
proof (induction rule: others.induct)
  case (others_write m m1 p f m2)
  then show ?case unfolding new_version_def by auto
qed (auto simp: unchanged_def)

lemma same_token_same_item:
  assumes "others item clock m m'" "item m = Some (p, f, t)" "unat t < clock m"
  shows "map_option (snd \<circ> snd) (item m') = Some t \<longleftrightarrow> item m' = item m"
  using others_fresh [OF assms(1)] assms(2,3) by (cases "item m'") fastforce+

section \<open>Reading with a token\<close>

lemma get_extended_found:
  assumes key: "\<not> key_rejected (lib E) intern key" "length key \<le> 250"
    and server: "answers_gets (lib E) sk key item clock" "item (memc intern) = Some (p, f, t)"
    and val: "\<And>r. res_value r = Some p \<Longrightarrow> res_flags r = f \<Longrightarrow> s_memcached_result_to_zval E intern r = Some (Some v, intern)"
  obtains i where "php_memc_get_impl E intern sk key None MEMC_GET_EXTENDED =
      Some (extended_result v (s_uint64_to_zval t) f, i)"
    "unchanged item clock (memc intern) (memc i)" "same_config intern i"
proof -
  let ?L = "lib E"
  let ?i = "s_memc_set_status intern MEMCACHED_SUCCESS 0"
  let ?off = "lm_behavior_get ?L (memc intern) MEMCACHED_BEHAVIOR_SUPPORT_CAS = 0"
  let ?m0 = "if ?off then snd (lm_behavior_set ?L (memc intern) MEMCACHED_BEHAVIOR_SUPPORT_CAS 1) else memc intern"
  have m0: "lm_behavior_get ?L ?m0 MEMCACHED_BEHAVIOR_SUPPORT_CAS \<noteq> 0" "unchanged item clock (memc intern) ?m0"
    using server(1) by (auto simp: answers_gets_def unchanged_def)
  then have "item ?m0 = Some (p, f, t)" using server(2) by (simp add: unchanged_def)
  with m0(1) server(1) obtain m1 r rs rc where mget: "lm_mget ?L sk [key] ?m0 = (MEMCACHED_SUCCESS, m1)"
    and r: "res_value r = Some p" "res_flags r = f" "res_cas r = t"
    and seq: "\<forall>m1'. m1' = m1 \<or> m1' = snd (lm_behavior_set ?L m1 MEMCACHED_BEHAVIOR_SUPPORT_CAS 0) \<longrightarrow>
              (\<exists>m2. fetch_seq ?L m1' (r # rs) rc m2 \<and> unchanged item clock ?m0 m2)"
    unfolding answers_gets_def by blast
  let ?m1 = "if ?off then snd (lm_behavior_set ?L m1 MEMCACHED_BEHAVIOR_SUPPORT_CAS 0) else m1"
  obtain m2 where m2: "fetch_seq ?L ?m1 (r # rs) rc m2" "unchanged item clock ?m0 m2"
    using seq [rule_format, of ?m1] by (cases ?off) auto
  have dec: "decodes E (intern\<lparr>rescode := MEMCACHED_SUCCESS, memc_errno := 0\<rparr>) (\<lambda>_. Some v) r"
    by (rule decodesI [OF val [OF r(1,2)]]) simp_all
  let ?v = "extended_result v (s_uint64_to_zval t) f"
  let ?j = "intern\<lparr>memc := m2, rescode := MEMCACHED_SUCCESS, memc_errno := 0\<rparr>"
  have "php_memc_result_apply E (intern\<lparr>memc := ?m1, rescode := MEMCACHED_SUCCESS, memc_errno := 0\<rparr>)
      (s_get_apply_fn True) False IS_NULL = Some (MEMCACHED_SUCCESS, ?j, ?v)"
    using get_fn.loop_first [OF m2(1) dec refl, of True MEMCACHED_SUCCESS IS_NULL] r
    by (simp add: php_memc_result_apply_def memc_update_first)
  with mget have mapply: "php_memc_mget_apply E ?i sk [key] (Some (s_get_apply_fn True)) True IS_NULL = Some (True, ?j, ?v)"
    by (cases ?off) (simp_all add: php_memc_mget_apply_def s_memc_set_status_def s_memc_status_handle_result_code_def
        Let_def memc_update_first)
  have ok: "\<not> key_rejected ?L ?i key" using key(1) key_rejected_cong [of ?i intern] by simp
  have "s_key_to_keys (zend E) key = [key]"
    using key by (auto simp: s_key_to_keys_eq key_rejected_def)
  with ok mapply have "php_memc_get_impl E intern sk key None MEMC_GET_EXTENDED = Some (?v, ?j)"
    by (simp add: php_memc_get_impl_def MEMC_CHECK_KEY_def s_memc_status_has_error_def)
  moreover have "unchanged item clock (memc intern) (memc ?j)" using m0(2) m2(2) by (simp add: unchanged_def)
  ultimately show thesis by (rule that) simp
qed

section \<open>Storing with a token\<close>

lemma cas_calls_library:
  assumes key: "\<not> key_rejected (lib E) intern key" and val: "storable E intern w"
    and call: "lm_cas (lib E) sk key (fst (stored_form E intern w)) e (snd (stored_form E intern w)) t (memc intern) = (rc, m)"
  shows "php_memc_cas_impl E intern (s_uint64_to_zval t) sk key w e =
    Some (ZVAL_BOOL (\<not> s_memcached_return_is_error rc True),
      snd (s_memc_status_handle_result_code (lib E) (intern\<lparr>memc := m, rescode := MEMCACHED_SUCCESS, memc_errno := 0\<rparr>) rc))"
proof -
  let ?i = "s_memc_set_status intern MEMCACHED_SUCCESS 0"
  have "\<not> key_rejected (lib E) ?i key" using key key_rejected_cong [of ?i intern] by simp
  moreover have "s_zval_to_payload E ?i w 0 = Some (Some (fst (stored_form E intern w)), snd (stored_form E intern w), ?i)"
    by (rule s_zval_to_payload_cong [OF _ storable_payload(1) [OF val]]) simp
  moreover have "\<not> s_is_payload_too_big ?i (fst (stored_form E intern w))"
    using storable_payload(2) [OF val] by (simp add: s_is_payload_too_big_def split: if_splits)
  moreover have "lm_cas (lib E) sk key (fst (stored_form E intern w)) e (snd (stored_form E intern w)) t (memc ?i) = (rc, m)"
    using call by simp
  ultimately show ?thesis
    by (simp add: php_memc_cas_impl_def MEMC_CHECK_KEY_def cas_round_trip s_memc_set_status_def
        s_memc_status_handle_result_code_def split: if_splits)
qed

section \<open>Properties\<close>


text \<open>A server that keeps every version; the token of a version is the number of older ones.\<close>

definition versioned_item :: "string \<Rightarrow> sample_client item_view" where
  "versioned_item key m =
     (case dropWhile (\<lambda>x. fst x \<noteq> key) (sc_items m) of
        [] \<Rightarrow> None | (_, p, f) # older \<Rightarrow> Some (p, f, of_nat (length older)))"

definition versioned_lib :: "sample_client libmemcached" where
  "versioned_lib = sample_lib
     \<lparr>lm_mget := (\<lambda>sk keys m. (MEMCACHED_SUCCESS, m\<lparr>sc_pending := List.map_filter
        (\<lambda>k. map_option (\<lambda>(p, f, t). (sample_item k (p, f))\<lparr>res_cas := if sc_cas m = 0 then 0 else t\<rparr>)
           (versioned_item k m)) keys\<rparr>)),
      lm_cas := (\<lambda>sk key p e f c m.
        if map_option (snd \<circ> snd) (versioned_item key m) = Some c
        then (MEMCACHED_SUCCESS, m\<lparr>sc_items := (key, p, f) # sc_items m\<rparr>) else (MEMCACHED_DATA_EXISTS, m))\<rparr>"

definition versions :: "sample_client \<Rightarrow> nat" where
  "versions m = length (sc_items m)"

lemma versioned_cong: "sc_items m' = sc_items m \<Longrightarrow> unchanged (versioned_item key) versions m m'"
  by (simp add: unchanged_def versioned_item_def versions_def)

lemma versioned_new:
  "versions m < 2 ^ 64 \<Longrightarrow> new_version (versioned_item key) versions m p f (m\<lparr>sc_items := (key, p, f) # sc_items m\<rparr>)"
  by (simp add: new_version_def versioned_item_def versions_def unsigned_of_nat take_bit_nat_eq_self)

lemma versioned_server: "cas_server versioned_lib sk key (versioned_item key) versions"
  unfolding cas_server_def answers_gets_def
proof (intro conjI allI impI)
  fix m p f t assume item: "versioned_item key m = Some (p, f, t)"
    and "lm_behavior_get versioned_lib m MEMCACHED_BEHAVIOR_SUPPORT_CAS \<noteq> 0"
  then have "sc_cas m \<noteq> 0" by (simp add: versioned_lib_def sample_lib_def)
  let ?r = "(sample_item key (p, f))\<lparr>res_cas := t\<rparr>"
  let ?m1 = "m\<lparr>sc_pending := [?r]\<rparr>"
  have "lm_mget versioned_lib sk [key] m = (MEMCACHED_SUCCESS, ?m1)"
    using item \<open>sc_cas m \<noteq> 0\<close> by (simp add: versioned_lib_def map_filter_simps)
  moreover have "\<exists>m2. fetch_seq versioned_lib m1' [?r] MEMCACHED_END m2 \<and> unchanged (versioned_item key) versions m m2"
    if "m1' = ?m1 \<or> m1' = snd (lm_behavior_set versioned_lib ?m1 MEMCACHED_BEHAVIOR_SUPPORT_CAS 0)" for m1'
  proof -
    have m1': "sc_pending m1' = [?r]" "sc_items m1' = sc_items m"
      using that by (auto simp: versioned_lib_def sample_lib_def)
    have "lm_fetch_result versioned_lib m1' = (Some ?r, MEMCACHED_SUCCESS, m1'\<lparr>sc_pending := []\<rparr>)"
      by (simp add: versioned_lib_def sample_fetch_def m1')
    then have "fetch_seq versioned_lib m1' [?r] MEMCACHED_END (m1'\<lparr>sc_pending := []\<rparr>)"
      by (rule fetch_seq.fetch_item) (simp_all add: versioned_lib_def sample_fetch_def fetch_seq.fetch_end)
    moreover have "unchanged (versioned_item key) versions m (m1'\<lparr>sc_pending := []\<rparr>)"
      by (rule versioned_cong) (simp add: m1')
    ultimately show ?thesis by blast
  qed
  moreover have "res_value ?r = Some p" "res_flags ?r = f" "res_cas ?r = t" by (simp_all add: sample_item_def)
  ultimately show "\<exists>m1 r rs rc. lm_mget versioned_lib sk [key] m = (MEMCACHED_SUCCESS, m1) \<and>
      res_value r = Some p \<and> res_flags r = f \<and> res_cas r = t \<and>
      (\<forall>m1'. m1' = m1 \<or> m1' = snd (lm_behavior_set versioned_lib m1 MEMCACHED_BEHAVIOR_SUPPORT_CAS 0) \<longrightarrow>
         (\<exists>m2. fetch_seq versioned_lib m1' (r # rs) rc m2 \<and> unchanged (versioned_item key) versions m m2))"
    by blast
next
  fix m p f t assume "versioned_item key m = Some (p, f, t)"
  then obtain x older where d: "dropWhile (\<lambda>x. fst x \<noteq> key) (sc_items m) = x # older" "t = of_nat (length older)"
    by (auto simp: versioned_item_def split: list.splits)
  have "length (x # older) \<le> versions m" unfolding d(1) [symmetric] versions_def by (rule length_dropWhile_le)
  moreover have "unat t \<le> length older" unfolding d(2) by (simp add: unsigned_of_nat take_bit_nat_less_eq_self)
  ultimately show "unat t < versions m" by simp
next
  fix m p e f t assume "versions m < 2 ^ 64"
  then show "case lm_cas versioned_lib sk key p e f t m of (rc, m') \<Rightarrow>
      if map_option (snd \<circ> snd) (versioned_item key m) = Some t
      then rc = MEMCACHED_SUCCESS \<and> new_version (versioned_item key) versions m p f m'
      else s_memcached_return_is_error rc True \<and> unchanged (versioned_item key) versions m m'"
    using versioned_new [of m key p f] versioned_cong [OF refl, of key m]
    by (simp add: versioned_lib_def s_memcached_return_is_error_def)
qed (simp_all add: versioned_lib_def sample_lib_def unchanged_def versioned_item_def versions_def)

abbreviation versioned_env :: "(sample_client, bool \<times> rat) env" where
  "versioned_env \<equiv> sample_env\<lparr>lib := versioned_lib\<rparr>"


end
