(* ===== verification/Servers.thy ===== *)
theory Servers
  imports Keys Cas_Token
begin

text \<open>
  The methods about servers: adding them, listing them, statistics, versions, keys, flushing
  and the last error. The library calls a callback per server or per statistic; it is modelled
  by the list of what it passes to the callback. Properties: which servers \<open>addServers\<close> adds,
  and that statistics are numbers where they are printed as numbers.
\<close>

section \<open>The library calls of this component\<close>

record instance_st =
  in_name :: string
  in_port :: u16
  in_type :: string
  in_major :: u8
  in_minor :: u8
  in_micro :: u8

type_synonym server_list = "(string \<times> u16 \<times> u32) list"

text \<open>
  Ports are of type \<open>in_port_t\<close>, 16 bits, weights of 32 bits. \<open>ls_cursor\<close> is the status
  of \<open>memcached_server_cursor\<close>, \<open>ls_instances\<close> the servers it visits; \<open>ls_stat_execute\<close> and \<open>ls_dump\<close>
  return what the callback is called with. \<open>ls_strtod\<close> is the C library's: the value, the number
  of characters read, and whether \<open>errno\<close> is set.
\<close>

record ('m, 'd) lm_servers =
  ls_server_add :: "string \<Rightarrow> u16 \<Rightarrow> u32 \<Rightarrow> 'm \<Rightarrow> memcached_return \<times> 'm"
  ls_list_append :: "server_list option \<Rightarrow> string \<Rightarrow> u16 \<Rightarrow> u32 \<Rightarrow> server_list option \<times> memcached_return"
  ls_server_push :: "server_list option \<Rightarrow> 'm \<Rightarrow> memcached_return \<times> 'm"
  ls_instances :: "'m \<Rightarrow> instance_st list"
  ls_cursor :: "'m \<Rightarrow> memcached_return"
  ls_server_by_key :: "string \<Rightarrow> 'm \<Rightarrow> instance_st option \<times> memcached_return \<times> 'm"
  ls_servers_reset :: "'m \<Rightarrow> 'm"
  ls_flush_buffers :: "'m \<Rightarrow> memcached_return \<times> 'm"
  ls_last_error_message :: "'m \<Rightarrow> string"
  ls_last_error :: "'m \<Rightarrow> memcached_return"
  ls_last_disconnect :: "'m \<Rightarrow> instance_st option"
  ls_stat_execute :: "string option \<Rightarrow> 'm \<Rightarrow> (instance_st \<times> string \<times> string) list \<times> memcached_return \<times> 'm"
  ls_version :: "'m \<Rightarrow> memcached_return \<times> 'm"
  ls_dump :: "'m \<Rightarrow> string list \<times> memcached_return \<times> 'm"
  ls_flush :: "zend_long \<Rightarrow> 'm \<Rightarrow> memcached_return \<times> 'm"
  ls_strtod :: "string \<Rightarrow> 'd \<times> nat \<times> bool"

section \<open>The server list\<close>

definition memc_addServer ::
  "('m, 'd) env \<Rightarrow> ('m, 'd) lm_servers \<Rightarrow> 'm php_memc_object \<Rightarrow> string \<Rightarrow> zend_long \<Rightarrow> zend_long \<Rightarrow>
     'd zval \<times> 'm php_memc_object" where
  "memc_addServer E LS intern host port weight =
     (let intern = s_memc_set_status intern MEMCACHED_SUCCESS 0;
          (status, m) = ls_server_add LS (c_string host) (ucast port) (ucast weight) (memc intern);
          (ok, intern) = s_memc_status_handle_result_code (lib E) (intern\<lparr>memc := m\<rparr>) status
      in (ZVAL_BOOL ok, intern))"

text \<open>
  One entry. The branches of the source for a missing host, port or weight are not reached: the
  entry has enough elements then.
\<close>

definition addServers_entry ::
  "('m, 'd) env \<Rightarrow> ('m, 'd) lm_servers \<Rightarrow> 'd zval \<Rightarrow> server_list option \<times> 'm php_memc_object \<Rightarrow>
     server_list option \<times> 'm php_memc_object" where
  "addServers_entry E LS entry st =
     (case st of (servers, intern) \<Rightarrow>
        (case entry of
           IS_ARRAY elems \<Rightarrow>
             (case map snd elems of
                z_host # z_port # rest \<Rightarrow>
                  let host = zval_get_string (zend E) z_host;
                      port = zval_get_long (zend E) z_port;
                      weight = (case rest of [] \<Rightarrow> 0 | z_weight # _ \<Rightarrow> ucast (zval_get_long (zend E) z_weight));
                      (servers, status) = ls_list_append LS servers (c_string host) (ucast port) weight
                  in (servers, snd (s_memc_status_handle_result_code (lib E) intern status))
              | _ \<Rightarrow> (servers, intern))
         | _ \<Rightarrow> (servers, intern)))"

definition memc_addServers ::
  "('m, 'd) env \<Rightarrow> ('m, 'd) lm_servers \<Rightarrow> 'm php_memc_object \<Rightarrow> 'd harray \<Rightarrow> 'd zval \<times> 'm php_memc_object" where
  "memc_addServers E LS intern servers =
     (let intern = s_memc_set_status intern MEMCACHED_SUCCESS 0;
          (lst, intern) = fold (addServers_entry E LS) (map snd servers) (None, intern);
          (status, m) = ls_server_push LS lst (memc intern);
          (ok, intern) = s_memc_status_handle_result_code (lib E) (intern\<lparr>memc := m\<rparr>) status
      in (ZVAL_BOOL ok, intern))"

text \<open>The keys of these arrays are not decimal numbers, so they stay strings.\<close>

definition s_server_cursor_list_servers_cb :: "instance_st \<Rightarrow> 'd zval" where
  "s_server_cursor_list_servers_cb i =
     IS_ARRAY [(HStr ''host'', IS_STRING (c_string (in_name i))), (HStr ''port'', IS_LONG (ucast (in_port i))),
               (HStr ''type'', IS_STRING (c_string (in_type i)))]"

definition indexed :: "'d zval list \<Rightarrow> 'd harray" where
  "indexed vs = zip (map (\<lambda>n. HInt (of_nat n)) [0..<length vs]) vs"

definition memc_getServerList :: "('m, 'd) lm_servers \<Rightarrow> 'm php_memc_object \<Rightarrow> 'd zval" where
  "memc_getServerList LS intern =
     IS_ARRAY (indexed (map s_server_cursor_list_servers_cb (ls_instances LS (memc intern))))"

definition memc_getServerByKey ::
  "('m, 'd) env \<Rightarrow> ('m, 'd) lm_servers \<Rightarrow> 'm php_memc_object \<Rightarrow> string \<Rightarrow> 'd zval \<times> 'm php_memc_object" where
  "memc_getServerByKey E LS intern server_key =
     (let intern = s_memc_set_status intern MEMCACHED_SUCCESS 0;
          (server, error, m) = ls_server_by_key LS server_key (memc intern);
          intern = intern\<lparr>memc := m\<rparr>
      in case server of
           None \<Rightarrow> (IS_FALSE, snd (s_memc_status_handle_result_code (lib E) intern error))
         | Some i \<Rightarrow>
             (IS_ARRAY [(HStr ''host'', IS_STRING (c_string (in_name i))),
                        (HStr ''port'', IS_LONG (ucast (in_port i))), (HStr ''weight'', IS_LONG 0)], intern))"

definition memc_resetServerList ::
  "('m, 'd) lm_servers \<Rightarrow> 'm php_memc_object \<Rightarrow> 'd zval \<times> 'm php_memc_object" where
  "memc_resetServerList LS intern = (IS_TRUE, intern\<lparr>memc := ls_servers_reset LS (memc intern)\<rparr>)"

definition memc_quit :: "('m, 'd) env \<Rightarrow> 'm php_memc_object \<Rightarrow> 'd zval \<times> 'm php_memc_object" where
  "memc_quit E intern = (IS_TRUE, intern\<lparr>memc := lm_quit (lib E) (memc intern)\<rparr>)"

definition memc_flushBuffers ::
  "('m, 'd) lm_servers \<Rightarrow> 'm php_memc_object \<Rightarrow> 'd zval \<times> 'm php_memc_object" where
  "memc_flushBuffers LS intern =
     (case ls_flush_buffers LS (memc intern) of
        (status, m) \<Rightarrow> (ZVAL_BOOL (status = MEMCACHED_SUCCESS), intern\<lparr>memc := m\<rparr>))"

section \<open>The last error\<close>

definition memc_getLastErrorMessage :: "('m, 'd) lm_servers \<Rightarrow> 'm php_memc_object \<Rightarrow> 'd zval" where
  "memc_getLastErrorMessage LS intern = IS_STRING (c_string (ls_last_error_message LS (memc intern)))"

definition memc_getLastErrorCode :: "('m, 'd) env \<Rightarrow> ('m, 'd) lm_servers \<Rightarrow> 'm php_memc_object \<Rightarrow> 'd zval" where
  "memc_getLastErrorCode E LS intern = IS_LONG (lm_return_code (lib E) (ls_last_error LS (memc intern)))"

definition memc_getLastErrorErrno :: "('m, 'd) env \<Rightarrow> 'm php_memc_object \<Rightarrow> 'd zval" where
  "memc_getLastErrorErrno E intern = IS_LONG (of_int (lm_last_error_errno (lib E) (memc intern)))"

definition memc_getLastDisconnectedServer :: "('m, 'd) lm_servers \<Rightarrow> 'm php_memc_object \<Rightarrow> 'd zval" where
  "memc_getLastDisconnectedServer LS intern =
     (case ls_last_disconnect LS (memc intern) of
        None \<Rightarrow> IS_FALSE
      | Some i \<Rightarrow> IS_ARRAY [(HStr ''host'', IS_STRING (c_string (in_name i))),
                           (HStr ''port'', IS_LONG (ucast (in_port i)))])"

section \<open>Statistics\<close>

text \<open>\<open>None\<close>: not a number (nothing read, characters left over, or out of range).\<close>

definition s_long_value :: "string \<Rightarrow> zend_long option" where
  "s_long_value str =
     (let (neg, digits) = strto_sign (dropWhile isspace str);
          (n, rest) = strto_digits 10 0 digits;
          erange = (if neg then n > 2 ^ 63 else n \<ge> 2 ^ 63)
      in if erange \<or> \<not> starts_with_digit 10 digits \<or> rest \<noteq> [] then None else Some (strtol10 str))"

definition s_double_value :: "('m, 'd) lm_servers \<Rightarrow> string \<Rightarrow> 'd option" where
  "s_double_value LS str =
     (case ls_strtod LS str of
        (val, consumed, erange) \<Rightarrow> if erange \<or> consumed = 0 \<or> consumed < length str then None else Some val)"

definition host_port :: "instance_st \<Rightarrow> string" where
  "host_port i = c_string (in_name i) @ '':'' @ dec_of_nat (unat (in_port i))"

text \<open>
  \<open>add_assoc_long\<close> and \<open>add_assoc_double\<close> take the key as a C string, \<open>add_assoc_stringl_ex\<close> with its
  length; all three turn decimal keys into integers.
\<close>

definition stat_entry :: "('m, 'd) env \<Rightarrow> ('m, 'd) lm_servers \<Rightarrow> string \<Rightarrow> string \<Rightarrow> hkey \<times> 'd zval" where
  "stat_entry E LS key val =
     (case s_long_value (c_string val) of
        Some l \<Rightarrow> (z_symtable_key (zend E) (c_string key), IS_LONG l)
      | None \<Rightarrow>
          (case s_double_value LS (c_string val) of
             Some d \<Rightarrow> (z_symtable_key (zend E) (c_string key), IS_DOUBLE d)
           | None \<Rightarrow> (z_symtable_key (zend E) key, IS_STRING val)))"

definition s_stat_execute_cb ::
  "('m, 'd) env \<Rightarrow> ('m, 'd) lm_servers \<Rightarrow> instance_st \<times> string \<times> string \<Rightarrow> 'd harray \<Rightarrow> 'd harray" where
  "s_stat_execute_cb E LS stat ret =
     (case stat of (i, key, val) \<Rightarrow>
        let server_key = HStr (host_port i);
            server_values = (case map_of ret server_key of Some (IS_ARRAY vs) \<Rightarrow> vs | _ \<Rightarrow> []);
            (k, v) = stat_entry E LS key val
        in AList.update server_key (IS_ARRAY (AList.update k v server_values)) ret)"

definition memc_getStats ::
  "('m, 'd) env \<Rightarrow> ('m, 'd) lm_servers \<Rightarrow> 'm php_memc_object \<Rightarrow> string option \<Rightarrow> 'd zval \<times> 'm php_memc_object" where
  "memc_getStats E LS intern args =
     (let L = lib E;
          orig_no_block = lm_behavior_get L (memc intern) MEMCACHED_BEHAVIOR_NO_BLOCK;
          orig_protocol = lm_behavior_get L (memc intern) MEMCACHED_BEHAVIOR_BINARY_PROTOCOL;
          switch = (orig_no_block \<noteq> 0 \<and> orig_protocol \<noteq> 0);
          m = (if switch then snd (lm_behavior_set L (memc intern) MEMCACHED_BEHAVIOR_NO_BLOCK 0) else memc intern);
          (stats, status, m) = ls_stat_execute LS (map_option c_string args) m;
          ret = fold (s_stat_execute_cb E LS) stats [];
          m = (if switch then snd (lm_behavior_set L m MEMCACHED_BEHAVIOR_NO_BLOCK orig_no_block) else m);
          (ok, intern) = s_memc_status_handle_result_code L (intern\<lparr>memc := m\<rparr>) status
      in (if ok then IS_ARRAY ret else IS_FALSE, intern))"

section \<open>Versions, keys, flush\<close>

text \<open>\<open>zend_hash_add\<close> keeps the first entry of a server that occurs twice.\<close>

definition s_server_cursor_version_cb :: "instance_st \<Rightarrow> 'd harray \<Rightarrow> 'd harray" where
  "s_server_cursor_version_cb i ret =
     (let version = dec_of_nat (unat (in_major i)) @ ''.'' @ dec_of_nat (unat (in_minor i)) @ ''.'' @
            dec_of_nat (unat (in_micro i));
          address = HStr (host_port i)
      in if map_of ret address = None then ret @ [(address, IS_STRING version)] else ret)"

definition memc_getVersion ::
  "('m, 'd) env \<Rightarrow> ('m, 'd) lm_servers \<Rightarrow> 'm php_memc_object \<Rightarrow> 'd zval \<times> 'm php_memc_object" where
  "memc_getVersion E LS intern =
     (let (status, m) = ls_version LS (memc intern);
          (ok, intern) = s_memc_status_handle_result_code (lib E) (intern\<lparr>memc := m\<rparr>) status
      in if \<not> ok then (IS_FALSE, intern)
         else let ret = fold s_server_cursor_version_cb (ls_instances LS (memc intern)) [];
                  (ok, intern) = s_memc_status_handle_result_code (lib E) intern (ls_cursor LS (memc intern))
              in (if ok then IS_ARRAY ret else IS_FALSE, intern))"

definition memc_getAllKeys ::
  "('m, 'd) env \<Rightarrow> ('m, 'd) lm_servers \<Rightarrow> 'm php_memc_object \<Rightarrow> 'd zval \<times> 'm php_memc_object" where
  "memc_getAllKeys E LS intern =
     (let (keys, rc, m) = ls_dump LS (memc intern);
          intern = intern\<lparr>memc := m\<rparr>;
          ret = IS_ARRAY (indexed (map IS_STRING keys))
      in if rc \<noteq> MEMCACHED_CLIENT_ERROR \<and> rc \<noteq> MEMCACHED_SERVER_ERROR then
           (case s_memc_status_handle_result_code (lib E) intern rc of
              (ok, intern) \<Rightarrow> (if ok then ret else IS_FALSE, intern))
         else (ret, intern))"

definition memc_flush ::
  "('m, 'd) env \<Rightarrow> ('m, 'd) lm_servers \<Rightarrow> 'm php_memc_object \<Rightarrow> zend_long \<Rightarrow> 'd zval \<times> 'm php_memc_object" where
  "memc_flush E LS intern delay =
     (let intern = s_memc_set_status intern MEMCACHED_SUCCESS 0;
          (status, m) = ls_flush LS delay (memc intern);
          (ok, intern) = s_memc_status_handle_result_code (lib E) (intern\<lparr>memc := m\<rparr>) status
      in (ZVAL_BOOL ok, intern))"

section \<open>Facts\<close>

lemma s_long_value_dec_of_long: "s_long_value (dec_of_long l) = Some l"
proof -
  have range: "- (2 ^ 63) \<le> sint l" "sint l < 2 ^ 63"
    using sint_greater_eq [of l] sint_less [of l] by simp_all
  have sign: "strto_sign (CHR ''-'' # t) = (True, t)" for t by (simp add: strto_sign_def)
  have "strtol10 (dec_of_long l) = l" by (rule strtol10_dec_of_long)
  moreover have "\<not> 2 ^ 63 < nat (- sint l)" "\<not> 2 ^ 63 \<le> nat (sint l)"
    using range by (simp_all add: not_less not_le nat_le_iff nat_less_iff)
  ultimately show ?thesis
    by (auto simp: s_long_value_def dec_of_long_def sign strto_digits_dec_of_nat dec_of_nat_start
        isspace_def Let_def split: if_splits)
qed

lemma dec_of_nat_no_NUL: "CHR 0x00 \<notin> set (dec_of_nat n)"
proof
  assume "CHR 0x00 \<in> set (dec_of_nat n)"
  then obtain d where "d < 10" "CHR 0x00 = digit d" using dec_of_nat_digits by blast
  then have "(of_char (CHR 0x00) :: nat) = 48 + d" using of_char_digit by metis
  then show False by simp
qed

lemma c_string_dec_of_long [simp]: "c_string (dec_of_long l) = dec_of_long l"
  by (rule c_string_id) (simp add: dec_of_long_def dec_of_nat_no_NUL)

text \<open>What one entry asks for, if it is an array of at least two elements.\<close>

definition requested_server :: "'d zend \<Rightarrow> 'd zval \<Rightarrow> (string \<times> u16 \<times> u32) option" where
  "requested_server Z entry =
     (case entry of
        IS_ARRAY elems \<Rightarrow>
          (case map snd elems of
             h # p # rest \<Rightarrow> Some (c_string (zval_get_string Z h), ucast (zval_get_long Z p),
               case rest of [] \<Rightarrow> 0 | w # _ \<Rightarrow> ucast (zval_get_long Z w))
           | _ \<Rightarrow> None)
      | _ \<Rightarrow> None)"

lemma addServers_entry_eq:
  "addServers_entry E LS entry (servers, intern) =
     (case requested_server (zend E) entry of
        None \<Rightarrow> (servers, intern)
      | Some (h, p, w) \<Rightarrow>
          (fst (ls_list_append LS servers h p w),
           snd (s_memc_status_handle_result_code (lib E) intern (snd (ls_list_append LS servers h p w)))))"
  by (auto simp: addServers_entry_def requested_server_def Let_def case_prod_beta' split: zval.split list.split)

lemma addServers_fold:
  assumes append: "\<And>l h p w. fst (ls_list_append LS l h p w) =
      Some ((case l of None \<Rightarrow> [] | Some l \<Rightarrow> l) @ [(h, p, w)])"
  shows "fst (fold (addServers_entry E LS) entries (servers, intern)) =
      (case List.map_filter (requested_server (zend E)) entries of
         [] \<Rightarrow> servers
       | new \<Rightarrow> Some ((case servers of None \<Rightarrow> [] | Some l \<Rightarrow> l) @ new)) \<and>
    memc (snd (fold (addServers_entry E LS) entries (servers, intern))) = memc intern"
proof (induction entries arbitrary: servers intern)
  case (Cons entry entries)
  show ?case
  proof (cases "requested_server (zend E) entry")
    case None
    then show ?thesis using Cons.IH [of servers intern] by (simp add: addServers_entry_eq map_filter_simps)
  next
    case (Some r)
    obtain h p w where r: "r = (h, p, w)" by (cases r)
    let ?i = "snd (s_memc_status_handle_result_code (lib E) intern (snd (ls_list_append LS servers h p w)))"
    show ?thesis
      using Cons.IH [of "fst (ls_list_append LS servers h p w)" ?i] Some r append [of servers h p w]
      by (simp add: addServers_entry_eq map_filter_simps split: list.split)
  qed
qed (simp add: map_filter_simps)

section \<open>Properties\<close>

text \<open>C22: \<open>addServers\<close> pushes, in one call, exactly the servers of the entries that are arrays of at
  least two elements, in the order of the array, with host, port (cut to 16 bits) and weight (0
  when there is none); other entries are skipped. The library is assumed to append the entry
  it is given. The method returns the outcome of the push.\<close>

theorem addServers_pushes_all:
  assumes "\<And>l h p w. fst (ls_list_append LS l h p w) = Some ((case l of None \<Rightarrow> [] | Some l \<Rightarrow> l) @ [(h, p, w)])"
    "List.map_filter (requested_server (zend E)) (map snd servers) = req" "req \<noteq> []"
    "ls_server_push LS (Some req) (memc intern) = (status, m)"
  shows "\<exists>i. memc_addServers E LS intern servers =
      (ZVAL_BOOL (\<not> s_memcached_return_is_error status True), i) \<and> memc i = m \<and> rescode i = status"
proof -
  let ?s = "fold (addServers_entry E LS) (map snd servers) (None, s_memc_set_status intern MEMCACHED_SUCCESS 0)"
  obtain l i where s: "?s = (l, i)" by (cases ?s)
  then have "l = Some req" "memc i = memc intern"
    using addServers_fold [OF assms(1), of E "map snd servers" None "s_memc_set_status intern MEMCACHED_SUCCESS 0"]
      assms(2,3) by (auto split: list.splits)
  then show ?thesis
    using assms(4) s by (simp add: memc_addServers_def Let_def case_prod_beta')
qed

definition sample_servers :: "(sample_client, bool \<times> rat) lm_servers" where
  "sample_servers =
     \<lparr>ls_server_add = (\<lambda>h p w m. (MEMCACHED_SUCCESS, m)),
      ls_list_append = (\<lambda>l h p w. (Some ((case l of None \<Rightarrow> [] | Some l \<Rightarrow> l) @ [(h, p, w)]), MEMCACHED_SUCCESS)),
      ls_server_push = (\<lambda>l m. (MEMCACHED_SUCCESS, m)), ls_instances = (\<lambda>m. []), ls_cursor = (\<lambda>m. MEMCACHED_SUCCESS),
      ls_server_by_key = (\<lambda>k m. (None, MEMCACHED_NO_SERVERS, m)), ls_servers_reset = (\<lambda>m. m),
      ls_flush_buffers = (\<lambda>m. (MEMCACHED_SUCCESS, m)), ls_last_error_message = (\<lambda>m. []),
      ls_last_error = (\<lambda>m. MEMCACHED_SUCCESS), ls_last_disconnect = (\<lambda>m. None),
      ls_stat_execute = (\<lambda>a m. ([(\<lparr>in_name = ''h'', in_port = 11211, in_type = ''TCP'', in_major = 1, in_minor = 6,
         in_micro = 9\<rparr>, ''pid'', ''7'')], MEMCACHED_SUCCESS, m)),
      ls_version = (\<lambda>m. (MEMCACHED_SUCCESS, m)), ls_dump = (\<lambda>m. ([], MEMCACHED_SUCCESS, m)),
      ls_flush = (\<lambda>d m. (MEMCACHED_SUCCESS, m)), ls_strtod = (\<lambda>s. (dec_value s, length s, False))\<rparr>"

theorem addServers_pushes_all_witness:
  "\<exists>i. memc_addServers sample_env sample_servers sample_object
         [(HInt 0, IS_ARRAY [(HInt 0, IS_STRING ''h''), (HInt 1, IS_LONG 11211)]), (HInt 1, IS_TRUE)] =
       (ZVAL_BOOL (\<not> s_memcached_return_is_error MEMCACHED_SUCCESS True), i) \<and>
     memc i = sample_client0 \<and> rescode i = MEMCACHED_SUCCESS"
  by (rule addServers_pushes_all [of _ _ _ "[(''h'', 11211, 0)]"])
    (simp_all add: sample_servers_def requested_server_def map_filter_simps zval_get_string_def zval_get_long_def
      c_string_def)

text \<open>Statistics that servers print as integers reach PHP as the same integers: a decimal
  64-bit number, negative ones included, is entered as that number under its server and key.\<close>

theorem integer_stats_kept:
  "stat_entry E LS key (dec_of_long l) = (z_symtable_key (zend E) (c_string key), IS_LONG l) \<and>
   map_of (s_stat_execute_cb E LS (i, key, dec_of_long l) []) (HStr (host_port i)) =
     Some (IS_ARRAY [(z_symtable_key (zend E) (c_string key), IS_LONG l)])"
  by (simp add: stat_entry_def s_stat_execute_cb_def s_long_value_dec_of_long)

text \<open>\<open>getStats\<close> leaves the blocking mode of the client as it was: it turns non-blocking off only
  while the binary protocol needs it, and restores it also when the request fails. The
  library is assumed to report the mode last set, and the request not to change it.\<close>

lemma getStats_restores_no_block:
  assumes "\<And>m v. lm_behavior_get (lib E) (snd (lm_behavior_set (lib E) m MEMCACHED_BEHAVIOR_NO_BLOCK v))
      MEMCACHED_BEHAVIOR_NO_BLOCK = v"
    "\<And>a m. lm_behavior_get (lib E) (snd (snd (ls_stat_execute LS a m))) MEMCACHED_BEHAVIOR_NO_BLOCK =
      lm_behavior_get (lib E) m MEMCACHED_BEHAVIOR_NO_BLOCK"
  shows "lm_behavior_get (lib E) (memc (snd (memc_getStats E LS intern args))) MEMCACHED_BEHAVIOR_NO_BLOCK =
    lm_behavior_get (lib E) (memc intern) MEMCACHED_BEHAVIOR_NO_BLOCK"
  using assms by (simp add: memc_getStats_def Let_def case_prod_beta')

end
