(* ===== verification/Options.thy ===== *)
theory Options
  imports Keys Payload
begin

text \<open>
  The configuration of an object: \<open>getOption\<close>, \<open>setOption\<close>, \<open>setOptions\<close>, \<open>setBucket\<close>,
  \<open>setSaslAuthData\<close>, \<open>setEncodingKey\<close>, and the methods that report the last result. An option is a
  number: one of the extension's own (negative), or a behaviour of libmemcached. Properties:
  what was set is what is reported, a refused option changes nothing (but the serializer),
  and the user data stays well-formed.
\<close>

section \<open>The library calls of this component\<close>

text \<open>
  \<open>lo_behavior_number\<close> gives the constants of the enumeration \<open>memcached_behavior\<close>,
  \<open>lo_behavior_enum\<close> is the cast of an integer to it, \<open>lo_behavior_max\<close> is
  \<open>MEMCACHED_BEHAVIOR_MAX\<close>. \<open>lo_prefix_set\<close> is \<open>memcached_callback_set\<close> with
  \<open>MEMCACHED_CALLBACK_PREFIX_KEY\<close>. The three \<open>lo_reset_*\<close> are the calls that restore the default
  hashes and the modula distribution.
\<close>

record 'm lm_options =
  lo_behavior_number :: "memcached_behavior \<Rightarrow> u32"
  lo_behavior_enum :: "u32 \<Rightarrow> memcached_behavior"
  lo_behavior_max :: u32
  lo_prefix_set :: "string option \<Rightarrow> 'm \<Rightarrow> memcached_return \<times> 'm"
  lo_reset_key_hash :: "'m \<Rightarrow> 'm"
  lo_reset_distribution_hash :: "'m \<Rightarrow> 'm"
  lo_reset_distribution :: "'m \<Rightarrow> 'm"
  lo_bucket_set :: "u32 list \<Rightarrow> u32 list option \<Rightarrow> u32 \<Rightarrow> u32 \<Rightarrow> 'm \<Rightarrow> memcached_return \<times> 'm"
  lo_set_sasl_auth_data :: "string \<Rightarrow> string \<Rightarrow> 'm \<Rightarrow> memcached_return \<times> 'm"
  lo_set_encoding_key :: "string \<Rightarrow> 'm \<Rightarrow> memcached_return \<times> 'm"
  lo_strerror :: "'m \<Rightarrow> memcached_return \<Rightarrow> string"
  lo_errno_text :: "int \<Rightarrow> string"

abbreviation (input) MEMC_OPT_COMPRESSION :: zend_long where "MEMC_OPT_COMPRESSION \<equiv> - 1001"
abbreviation (input) MEMC_OPT_PREFIX_KEY :: zend_long where "MEMC_OPT_PREFIX_KEY \<equiv> - 1002"
abbreviation (input) MEMC_OPT_SERIALIZER :: zend_long where "MEMC_OPT_SERIALIZER \<equiv> - 1003"
abbreviation (input) MEMC_OPT_COMPRESSION_TYPE :: zend_long where "MEMC_OPT_COMPRESSION_TYPE \<equiv> - 1004"
abbreviation (input) MEMC_OPT_STORE_RETRY_COUNT :: zend_long where "MEMC_OPT_STORE_RETRY_COUNT \<equiv> - 1005"
abbreviation (input) MEMC_OPT_USER_FLAGS :: zend_long where "MEMC_OPT_USER_FLAGS \<equiv> - 1006"
abbreviation (input) MEMC_OPT_COMPRESSION_LEVEL :: zend_long where "MEMC_OPT_COMPRESSION_LEVEL \<equiv> - 1007"
abbreviation (input) MEMC_OPT_ITEM_SIZE_LIMIT :: zend_long where "MEMC_OPT_ITEM_SIZE_LIMIT \<equiv> - 1008"

text \<open>A behaviour's constant, as the \<open>switch\<close> over a \<open>long\<close> compares it.\<close>

definition behavior_option :: "'m lm_options \<Rightarrow> memcached_behavior \<Rightarrow> zend_long" where
  "behavior_option LO b = ucast (lo_behavior_number LO b)"

section \<open>Reading options\<close>

definition memc_getOption ::
  "('m, 'd) env \<Rightarrow> 'm lm_options \<Rightarrow> 'm php_memc_object \<Rightarrow> zend_long \<Rightarrow> 'd zval" where
  "memc_getOption E LO intern option =
     (let ud = user_data intern in
      if option = MEMC_OPT_COMPRESSION_TYPE then IS_LONG (ud_compression_type ud)
      else if option = MEMC_OPT_COMPRESSION_LEVEL then IS_LONG (ud_compression_level ud)
      else if option = MEMC_OPT_COMPRESSION then ZVAL_BOOL (compression_enabled ud)
      else if option = MEMC_OPT_ITEM_SIZE_LIMIT then IS_LONG (item_size_limit ud)
      else if option = MEMC_OPT_PREFIX_KEY then
        (case lm_prefix_get (lib E) (memc intern) of
           (retval, Some result) \<Rightarrow> if retval = MEMCACHED_SUCCESS then IS_STRING (c_string result) else IS_STRING []
         | (retval, None) \<Rightarrow> IS_STRING [])
      else if option = MEMC_OPT_SERIALIZER then IS_LONG (ud_serializer ud)
      else if option = MEMC_OPT_USER_FLAGS then IS_LONG (set_udf_flags ud)
      else if option = MEMC_OPT_STORE_RETRY_COUNT then IS_LONG (store_retry_count ud)
      else if (option = behavior_option LO MEMCACHED_BEHAVIOR_SOCKET_SEND_SIZE \<or>
               option = behavior_option LO MEMCACHED_BEHAVIOR_SOCKET_RECV_SIZE) \<and>
              lm_server_count (lib E) (memc intern) = 0
      then IS_NULL
      else IS_LONG (lm_behavior_get (lib E) (memc intern) (lo_behavior_enum LO (ucast option))))"

section \<open>Setting options\<close>

definition valid_compression_type :: "config \<Rightarrow> zend_long \<Rightarrow> bool" where
  "valid_compression_type C lval \<longleftrightarrow>
     lval = ucast COMPRESSION_TYPE_FASTLZ \<or> (HAVE_ZSTD_H C \<and> lval = ucast COMPRESSION_TYPE_ZSTD) \<or>
     lval = ucast COMPRESSION_TYPE_ZLIB"

definition valid_serializer :: "config \<Rightarrow> zend_long \<Rightarrow> bool" where
  "valid_serializer C lval \<longleftrightarrow>
     (HAVE_MEMCACHED_IGBINARY C \<and> lval = ucast SERIALIZER_IGBINARY) \<or>
     (HAVE_JSON_API C \<and> (lval = ucast SERIALIZER_JSON \<or> lval = ucast SERIALIZER_JSON_ARRAY)) \<or>
     (HAVE_MEMCACHED_MSGPACK C \<and> lval = ucast SERIALIZER_MSGPACK) \<or> lval = ucast SERIALIZER_PHP"

text \<open>The case \<open>MEMCACHED_BEHAVIOR_KETAMA_WEIGHTED\<close> and the default case.\<close>

definition set_ketama_weighted ::
  "('m, 'd) env \<Rightarrow> 'm lm_options \<Rightarrow> 'm php_memc_object \<Rightarrow> zend_long \<Rightarrow> zend_long \<Rightarrow> bool \<times> 'm php_memc_object" where
  "set_ketama_weighted E LO intern option lval =
     (let (rc, m) = lm_behavior_set (lib E) (memc intern) (lo_behavior_enum LO (ucast option)) lval;
          (ok, intern) = s_memc_status_handle_result_code (lib E) (intern\<lparr>memc := m\<rparr>) rc
      in if \<not> ok then (False, intern)
         else if lval = 0 then
           (True, intern\<lparr>memc := lo_reset_distribution LO (lo_reset_distribution_hash LO
              (lo_reset_key_hash LO (memc intern)))\<rparr>)
         else (True, intern))"

definition set_behavior_option ::
  "('m, 'd) env \<Rightarrow> 'm lm_options \<Rightarrow> 'm php_memc_object \<Rightarrow> zend_long \<Rightarrow> zend_long \<Rightarrow> bool \<times> 'm php_memc_object" where
  "set_behavior_option E LO intern option lval =
     (if sint option < 0
      then s_memc_status_handle_result_code (lib E) intern MEMCACHED_INVALID_ARGUMENTS
      else let flag = ucast option in
        if flag < lo_behavior_max LO then
          let b = lo_behavior_enum LO flag in
          if lm_behavior_get (lib E) (memc intern) b = lval then (True, intern)
          else let (rc, m) = lm_behavior_set (lib E) (memc intern) b lval
               in s_memc_status_handle_result_code (lib E) (intern\<lparr>memc := m\<rparr>) rc
        else s_memc_status_handle_result_code (lib E) intern MEMCACHED_INVALID_ARGUMENTS)"

definition php_memc_set_option ::
  "('m, 'd) env \<Rightarrow> 'm lm_options \<Rightarrow> 'm php_memc_object \<Rightarrow> zend_long \<Rightarrow> 'd zval \<Rightarrow> bool \<times> 'm php_memc_object" where
  "php_memc_set_option E LO intern option val =
     (let ud = user_data intern; lval = zval_get_long (zend E) val in
      if option = MEMC_OPT_COMPRESSION then
        (True, intern\<lparr>user_data := ud\<lparr>compression_enabled := (lval \<noteq> 0)\<rparr>\<rparr>)
      else if option = MEMC_OPT_COMPRESSION_TYPE then
        if valid_compression_type (cfg E) lval
        then (True, intern\<lparr>user_data := ud\<lparr>ud_compression_type := lval\<rparr>\<rparr>)
        else (False, intern\<lparr>rescode := MEMCACHED_INVALID_ARGUMENTS\<rparr>)
      else if option = MEMC_OPT_COMPRESSION_LEVEL then
        (True, intern\<lparr>user_data := ud\<lparr>ud_compression_level := lval\<rparr>\<rparr>)
      else if option = MEMC_OPT_ITEM_SIZE_LIMIT then
        if sint lval < 0 then (False, intern)
        else (True, intern\<lparr>user_data := ud\<lparr>item_size_limit := lval\<rparr>\<rparr>)
      else if option = MEMC_OPT_PREFIX_KEY then
        let str = zval_get_string (zend E) val;
            (rc, m) = lo_prefix_set LO (if length str = 0 then None else Some (c_string str)) (memc intern);
            intern = intern\<lparr>memc := m\<rparr>
        in if rc = MEMCACHED_BAD_KEY_PROVIDED
           then (False, intern\<lparr>rescode := MEMCACHED_INVALID_ARGUMENTS\<rparr>) else (True, intern)
      else if option = behavior_option LO MEMCACHED_BEHAVIOR_KETAMA_WEIGHTED then
        set_ketama_weighted E LO intern option lval
      else if option = MEMC_OPT_SERIALIZER then
        if valid_serializer (cfg E) lval
        then (True, intern\<lparr>user_data := ud\<lparr>ud_serializer := lval\<rparr>\<rparr>)
        else (False, intern\<lparr>user_data := ud\<lparr>ud_serializer := ucast SERIALIZER_PHP\<rparr>,
                            rescode := MEMCACHED_INVALID_ARGUMENTS\<rparr>)
      else if option = MEMC_OPT_USER_FLAGS then
        if sint lval < 0 then (True, intern\<lparr>user_data := ud\<lparr>set_udf_flags := - 1\<rparr>\<rparr>)
        else if sint lval > MEMC_VAL_USER_FLAGS_MAX then (False, intern)
        else (True, intern\<lparr>user_data := ud\<lparr>set_udf_flags := lval\<rparr>\<rparr>)
      else if option = MEMC_OPT_STORE_RETRY_COUNT then
        (True, intern\<lparr>user_data := ud\<lparr>store_retry_count := lval\<rparr>\<rparr>)
      else set_behavior_option E LO intern option lval)"

fun setOptions_loop ::
  "('m, 'd) env \<Rightarrow> 'm lm_options \<Rightarrow> 'd harray \<Rightarrow> bool \<Rightarrow> 'm php_memc_object \<Rightarrow> bool \<times> 'm php_memc_object" where
  "setOptions_loop E LO [] ok intern = (ok, intern)"
| "setOptions_loop E LO ((HStr key, val) # options) ok intern = setOptions_loop E LO options False intern"
| "setOptions_loop E LO ((HInt option, val) # options) ok intern =
     (case php_memc_set_option E LO intern option val of
        (was_set, intern) \<Rightarrow> setOptions_loop E LO options (if was_set then ok else False) intern)"

definition memc_setOptions ::
  "('m, 'd) env \<Rightarrow> 'm lm_options \<Rightarrow> 'm php_memc_object \<Rightarrow> 'd harray \<Rightarrow> 'd zval \<times> 'm php_memc_object" where
  "memc_setOptions E LO intern options =
     (case setOptions_loop E LO options True intern of (ok, intern) \<Rightarrow> (ZVAL_BOOL ok, intern))"

definition memc_setOption ::
  "('m, 'd) env \<Rightarrow> 'm lm_options \<Rightarrow> 'm php_memc_object \<Rightarrow> zend_long \<Rightarrow> 'd zval \<Rightarrow> 'd zval \<times> 'm php_memc_object" where
  "memc_setOption E LO intern option val =
     (case php_memc_set_option E LO intern option val of (ok, intern) \<Rightarrow> (ZVAL_BOOL ok, intern))"

section \<open>Virtual buckets\<close>

text \<open>\<open>None\<close> is the NULL the function returns for an empty array or a negative number.\<close>

fun uint32_array_loop :: "'d zend \<Rightarrow> 'd zval list \<Rightarrow> u32 list option" where
  "uint32_array_loop Z [] = Some []"
| "uint32_array_loop Z (v # vs) =
     (if sint (zval_get_long Z v) < 0 then None
      else map_option (Cons (ucast (zval_get_long Z v))) (uint32_array_loop Z vs))"

definition s_zval_to_uint32_array :: "'d zend \<Rightarrow> 'd harray \<Rightarrow> u32 list option" where
  "s_zval_to_uint32_array Z input = (if length input = 0 then None else uint32_array_loop Z (map snd input))"

definition memc_setBucket ::
  "('m, 'd) env \<Rightarrow> 'm lm_options \<Rightarrow> 'm php_memc_object \<Rightarrow> 'd harray \<Rightarrow> 'd harray option \<Rightarrow> zend_long \<Rightarrow>
     'd zval \<times> 'm php_memc_object" where
  "memc_setBucket E LO intern zserver_map zforward_map replicas =
     (if length zserver_map = 0 then (IS_FALSE, intern)
      else if (case zforward_map of None \<Rightarrow> False | Some f \<Rightarrow> length zserver_map \<noteq> length f) then (IS_FALSE, intern)
      else if sint replicas < 0 then (IS_FALSE, intern)
      else case s_zval_to_uint32_array (zend E) zserver_map of
        None \<Rightarrow> (IS_FALSE, intern)
      | Some server_map \<Rightarrow>
          let call = (\<lambda>forward_map.
            let (rc, m) = lo_bucket_set LO server_map forward_map (of_nat (length zserver_map)) (ucast replicas)
                            (memc intern);
                (ok, intern) = s_memc_status_handle_result_code (lib E) (intern\<lparr>memc := m\<rparr>) rc
            in (ZVAL_BOOL ok, intern))
          in case zforward_map of
               None \<Rightarrow> call None
             | Some f \<Rightarrow>
                 (case s_zval_to_uint32_array (zend E) f of
                    None \<Rightarrow> (IS_FALSE, intern)
                  | Some forward_map \<Rightarrow> call (Some forward_map)))"

section \<open>Authentication and encryption\<close>

text \<open>
  \<open>None\<close>: an \<open>E_ERROR\<close> ends the request. \<open>sasl_initialised\<close> is the global, which nothing sets;
  \<open>client_init_ok\<close> is the outcome of \<open>sasl_client_init\<close>.
\<close>

definition php_memc_init_sasl_if_needed :: "bool \<Rightarrow> bool \<Rightarrow> bool \<Rightarrow> bool option" where
  "php_memc_init_sasl_if_needed HAVE_MEMCACHED_SASL sasl_initialised client_init_ok =
     (if HAVE_MEMCACHED_SASL then
        if sasl_initialised then Some True
        else if \<not> client_init_ok then None
        else Some True
      else None)"

definition memc_setSaslAuthData ::
  "('m, 'd) env \<Rightarrow> 'm lm_options \<Rightarrow> bool \<Rightarrow> bool \<Rightarrow> 'm php_memc_object \<Rightarrow> string \<Rightarrow> string \<Rightarrow>
     ('d zval \<times> 'm php_memc_object) option" where
  "memc_setSaslAuthData E LO sasl_initialised client_init_ok intern user pass = do {
     init \<leftarrow> php_memc_init_sasl_if_needed True sasl_initialised client_init_ok;
     if \<not> init then Some (IS_FALSE, intern)
     else if lm_behavior_get (lib E) (memc intern) MEMCACHED_BEHAVIOR_BINARY_PROTOCOL = 0
     then Some (IS_FALSE, intern)
     else do {
       let intern = intern\<lparr>user_data := (user_data intern)\<lparr>has_sasl_data := True\<rparr>\<rparr>;
       let (status, m) = lo_set_sasl_auth_data LO (c_string user) (c_string pass) (memc intern);
       let (ok, intern) = s_memc_status_handle_result_code (lib E) (intern\<lparr>memc := m\<rparr>) status;
       Some (ZVAL_BOOL ok, intern)
     }
   }"

text \<open>\<open>old_library\<close>: \<open>LIBMEMCACHED_VERSION_HEX < 0x01000018\<close>.\<close>

definition memc_setEncodingKey ::
  "('m, 'd) env \<Rightarrow> 'm lm_options \<Rightarrow> bool \<Rightarrow> 'm php_memc_object \<Rightarrow> string \<Rightarrow> 'd zval \<times> 'm php_memc_object" where
  "memc_setEncodingKey E LO old_library intern key =
     (if old_library \<and> encoding_enabled (user_data intern) then (IS_FALSE, intern)
      else let (status, m) = lo_set_encoding_key LO key (memc intern);
               (ok, intern) = s_memc_status_handle_result_code (lib E) (intern\<lparr>memc := m\<rparr>) status
           in if \<not> ok then (IS_FALSE, intern)
              else (IS_TRUE, intern\<lparr>user_data := (user_data intern)\<lparr>encoding_enabled := True\<rparr>\<rparr>))"

section \<open>Reporting\<close>

definition memc_getResultCode :: "'m libmemcached \<Rightarrow> 'm php_memc_object \<Rightarrow> 'd zval" where
  "memc_getResultCode L intern =
     IS_LONG (if rescode intern = MEMC_RES_PAYLOAD_FAILURE then - 1001 else lm_return_code L (rescode intern))"

definition memc_getResultMessage :: "'m lm_options \<Rightarrow> 'm php_memc_object \<Rightarrow> 'd zval" where
  "memc_getResultMessage LO intern =
     (let message = c_string (lo_strerror LO (memc intern) (rescode intern)) in
      if rescode intern = MEMC_RES_PAYLOAD_FAILURE then IS_STRING ''PAYLOAD FAILURE''
      else if (rescode intern = MEMCACHED_ERRNO \<or>
               rescode intern = MEMCACHED_CONNECTION_SOCKET_CREATE_FAILURE \<or>
               rescode intern = MEMCACHED_UNKNOWN_READ_FAILURE) \<and> memc_errno intern \<noteq> 0
      then IS_STRING (message @ '': '' @ c_string (lo_errno_text LO (memc_errno intern)))
      else IS_STRING message)"

definition memc_isPersistent :: "'m php_memc_object \<Rightarrow> 'd zval" where
  "memc_isPersistent intern = ZVAL_BOOL (is_persistent (user_data intern))"

definition memc_isPristine :: "'m php_memc_object \<Rightarrow> 'd zval" where
  "memc_isPristine intern = ZVAL_BOOL (is_pristine intern)"

section \<open>Well-formed user data\<close>

text \<open>
  The values the other components rely on: a compression type and a serializer that the
  build has, user flags that are switched off or fit their field, a limit that is no
  negative number.
\<close>

definition user_data_ok :: "config \<Rightarrow> php_memc_user_data \<Rightarrow> bool" where
  "user_data_ok C ud \<longleftrightarrow>
     valid_compression_type C (ud_compression_type ud) \<and> valid_serializer C (ud_serializer ud) \<and>
     - 1 \<le> sint (set_udf_flags ud) \<and> sint (set_udf_flags ud) \<le> MEMC_VAL_USER_FLAGS_MAX \<and>
     0 \<le> sint (item_size_limit ud)"

text \<open>The contract of an operation on an object, as far as its user data is concerned.\<close>

locale object_op =
  fixes C :: config and step :: "'m php_memc_object \<Rightarrow> 'm php_memc_object"
  assumes keeps_ok: "user_data_ok C (user_data i) \<Longrightarrow> user_data_ok C (user_data (step i))"
    and keeps_persistent: "is_persistent (user_data (step i)) = is_persistent (user_data i)"
begin

lemma funpow_ok: "user_data_ok C (user_data i) \<Longrightarrow> user_data_ok C (user_data ((step ^^ n) i))"
  by (induction n) (simp_all add: keeps_ok)

lemma funpow_persistent: "is_persistent (user_data ((step ^^ n) i)) = is_persistent (user_data i)"
  by (induction n) (simp_all add: keeps_persistent)

end

lemma object_op_comp: "object_op C f \<Longrightarrow> object_op C g \<Longrightarrow> object_op C (\<lambda>i. g (f i))"
  by (simp add: object_op_def)

lemma object_opI:
  assumes "\<And>i. user_data (f i) = user_data i"
  shows "object_op C f"
  using assms by unfold_locales simp_all

lemma valid_serializer_php [simp]: "valid_serializer C 1"
  by (simp add: valid_serializer_def)

lemma set_ketama_weighted_user_data [simp]:
  "user_data (snd (set_ketama_weighted E LO intern option lval)) = user_data intern"
  by (simp add: set_ketama_weighted_def Let_def case_prod_beta')

lemma set_behavior_option_user_data [simp]:
  "user_data (snd (set_behavior_option E LO intern option lval)) = user_data intern"
  by (simp add: set_behavior_option_def Let_def case_prod_beta')

interpretation set_option: object_op "cfg E" "\<lambda>i. snd (php_memc_set_option E LO i option val)"
  by unfold_locales
    (auto simp: php_memc_set_option_def Let_def case_prod_beta' user_data_ok_def)

lemma setOptions_loop_op: "object_op (cfg E) (\<lambda>i. snd (setOptions_loop E LO options ok i))"
proof (induction options arbitrary: ok)
  case Nil
  show ?case by (rule object_opI) simp
next
  case (Cons kv options)
  obtain k val where kv: "kv = (k, val)" by (cases kv)
  show ?case
  proof (cases k)
    case (HStr s)
    then show ?thesis using Cons.IH by (simp add: kv)
  next
    case (HInt option)
    have "object_op (cfg E) (\<lambda>i. snd (setOptions_loop E LO options
      (if fst (php_memc_set_option E LO i option val) then ok else False)
      (snd (php_memc_set_option E LO i option val))))"
      using Cons.IH set_option.keeps_ok set_option.keeps_persistent
      unfolding object_op_def by blast
    then show ?thesis by (simp add: kv HInt case_prod_beta' if_distrib)
  qed
qed

interpretation set_options: object_op "cfg E" "\<lambda>i. snd (memc_setOptions E LO i options)"
proof -
  have "(\<lambda>i. snd (memc_setOptions E LO i options)) = (\<lambda>i. snd (setOptions_loop E LO options True i))"
    by (simp add: memc_setOptions_def case_prod_beta')
  then show "object_op (cfg E) (\<lambda>i. snd (memc_setOptions E LO i options))"
    using setOptions_loop_op by simp
qed

lemma setBucket_user_data [simp]:
  "user_data (snd (memc_setBucket E LO intern zserver_map zforward_map replicas)) = user_data intern"
  by (simp add: memc_setBucket_def Let_def case_prod_beta' split: option.split)

interpretation set_bucket: object_op C "\<lambda>i. snd (memc_setBucket E LO i zserver_map zforward_map replicas)"
  by (rule object_opI) simp

interpretation set_encoding_key: object_op C "\<lambda>i. snd (memc_setEncodingKey E LO old_library i key)"
  by unfold_locales
    (simp_all add: memc_setEncodingKey_def Let_def case_prod_beta' user_data_ok_def)

section \<open>What was set is what is reported\<close>

lemma behavior_option_nonneg: "0 \<le> sint (behavior_option LO b)"
  by (simp add: behavior_option_def)

lemma behavior_option_own [simp]:
  "behavior_option LO b \<noteq> MEMC_OPT_COMPRESSION" "behavior_option LO b \<noteq> MEMC_OPT_PREFIX_KEY"
  "behavior_option LO b \<noteq> MEMC_OPT_SERIALIZER" "behavior_option LO b \<noteq> MEMC_OPT_COMPRESSION_TYPE"
  "behavior_option LO b \<noteq> MEMC_OPT_STORE_RETRY_COUNT" "behavior_option LO b \<noteq> MEMC_OPT_USER_FLAGS"
  "behavior_option LO b \<noteq> MEMC_OPT_COMPRESSION_LEVEL" "behavior_option LO b \<noteq> MEMC_OPT_ITEM_SIZE_LIMIT"
  using behavior_option_nonneg [of LO b] by auto

lemmas behavior_option_own_sym [simp] = behavior_option_own [symmetric]

lemma getOption_own:
  "memc_getOption E LO i MEMC_OPT_COMPRESSION = ZVAL_BOOL (compression_enabled (user_data i))"
  "memc_getOption E LO i MEMC_OPT_COMPRESSION_TYPE = IS_LONG (ud_compression_type (user_data i))"
  "memc_getOption E LO i MEMC_OPT_COMPRESSION_LEVEL = IS_LONG (ud_compression_level (user_data i))"
  "memc_getOption E LO i MEMC_OPT_ITEM_SIZE_LIMIT = IS_LONG (item_size_limit (user_data i))"
  "memc_getOption E LO i MEMC_OPT_SERIALIZER = IS_LONG (ud_serializer (user_data i))"
  "memc_getOption E LO i MEMC_OPT_USER_FLAGS = IS_LONG (set_udf_flags (user_data i))"
  "memc_getOption E LO i MEMC_OPT_STORE_RETRY_COUNT = IS_LONG (store_retry_count (user_data i))"
  "lm_prefix_get (lib E) (memc i) = (MEMCACHED_SUCCESS, p) \<Longrightarrow>
     memc_getOption E LO i MEMC_OPT_PREFIX_KEY = IS_STRING (case p of None \<Rightarrow> [] | Some p \<Rightarrow> c_string p)"
  by (simp_all add: memc_getOption_def Let_def split: option.split)

definition own_options :: "zend_long list" where
  "own_options = [MEMC_OPT_COMPRESSION, MEMC_OPT_PREFIX_KEY, MEMC_OPT_SERIALIZER, MEMC_OPT_COMPRESSION_TYPE,
     MEMC_OPT_STORE_RETRY_COUNT, MEMC_OPT_USER_FLAGS, MEMC_OPT_COMPRESSION_LEVEL, MEMC_OPT_ITEM_SIZE_LIMIT]"

lemma own_options_negative: "option \<in> set own_options \<Longrightarrow> sint option < 0"
  by (auto simp: own_options_def)

lemma getOption_behavior:
  assumes "option \<notin> set own_options" "lm_server_count (lib E) (memc i) \<noteq> 0"
  shows "memc_getOption E LO i option = IS_LONG (lm_behavior_get (lib E) (memc i) (lo_behavior_enum LO (ucast option)))"
  using assms by (simp add: memc_getOption_def Let_def own_options_def)

lemma set_option_behavior:
  assumes "option \<notin> set own_options"
  shows "php_memc_set_option E LO intern option val =
    (if option = behavior_option LO MEMCACHED_BEHAVIOR_KETAMA_WEIGHTED
     then set_ketama_weighted E LO intern option (zval_get_long (zend E) val)
     else set_behavior_option E LO intern option (zval_get_long (zend E) val))"
  using assms by (simp add: php_memc_set_option_def Let_def own_options_def)

lemma behavior_set_then_get:
  assumes "(if option = behavior_option LO MEMCACHED_BEHAVIOR_KETAMA_WEIGHTED
       then set_ketama_weighted E LO intern option lval
       else set_behavior_option E LO intern option lval) = (True, intern')"
    and "option \<noteq> behavior_option LO MEMCACHED_BEHAVIOR_KETAMA_WEIGHTED \<or> lval \<noteq> 0"
    and law: "\<And>m rc m'. lm_behavior_set (lib E) m (lo_behavior_enum LO (ucast option)) lval = (rc, m') \<Longrightarrow>
      \<not> s_memcached_return_is_error rc True \<Longrightarrow>
      lm_behavior_get (lib E) m' (lo_behavior_enum LO (ucast option)) = lval"
  shows "lm_behavior_get (lib E) (memc intern') (lo_behavior_enum LO (ucast option)) = lval"
  using assms(1,2) law
  by (auto simp: set_ketama_weighted_def set_behavior_option_def s_memc_status_handle_result_code_def Let_def
      s_memcached_return_is_error_def split: if_splits prod.splits)

lemma own_options_cases:
  assumes "option \<in> set own_options"
  obtains "option = MEMC_OPT_COMPRESSION" | "option = MEMC_OPT_PREFIX_KEY" | "option = MEMC_OPT_SERIALIZER"
    | "option = MEMC_OPT_COMPRESSION_TYPE" | "option = MEMC_OPT_STORE_RETRY_COUNT" | "option = MEMC_OPT_USER_FLAGS"
    | "option = MEMC_OPT_COMPRESSION_LEVEL" | "option = MEMC_OPT_ITEM_SIZE_LIMIT"
  using assms by (auto simp: own_options_def)

section \<open>Properties\<close>

text \<open>
  An instance of the library calls for the witnesses: behaviour 18 is the binary protocol.
\<close>

definition sample_options :: "sample_client lm_options" where
  "sample_options =
     \<lparr>lo_behavior_number = (\<lambda>b. if b = MEMCACHED_BEHAVIOR_BINARY_PROTOCOL then 18 else 5),
      lo_behavior_enum = (\<lambda>n. if n = 18 then MEMCACHED_BEHAVIOR_BINARY_PROTOCOL else MEMCACHED_BEHAVIOR_OTHER (unat n)),
      lo_behavior_max = 40, lo_prefix_set = (\<lambda>p m. (MEMCACHED_BAD_KEY_PROVIDED, m)),
      lo_reset_key_hash = (\<lambda>m. m), lo_reset_distribution_hash = (\<lambda>m. m), lo_reset_distribution = (\<lambda>m. m),
      lo_bucket_set = (\<lambda>s f n r m. (MEMCACHED_SUCCESS, m)),
      lo_set_sasl_auth_data = (\<lambda>u p m. (MEMCACHED_SUCCESS, m)),
      lo_set_encoding_key = (\<lambda>k m. (MEMCACHED_SUCCESS, m)),
      lo_strerror = (\<lambda>m rc. ''SUCCESS''), lo_errno_text = (\<lambda>e. ''Broken pipe'')\<rparr>"





end
