(* ===== verification/Ini.thy ===== *)
theory Ini
  imports Options
begin

text \<open>
  The module globals: their initial values (\<open>PHP_GINIT\<close>), the ini table and the handlers of its
  entries. The handlers that PHP provides (\<open>OnUpdateLong\<close> and others) are written out over
  PHP's conversions of ini strings, which are parameters. Property: whatever ini settings are
  made, the globals stay values that a new object may start with.
\<close>

section \<open>Session globals\<close>

record session_globals =
  S_lock_enabled :: bool
  S_lock_wait_max :: zend_long
  S_lock_wait_min :: zend_long
  S_lock_retries :: zend_long
  S_lock_expiration :: zend_long
  S_binary_protocol_enabled :: bool
  S_consistent_hash_enabled :: bool
  S_consistent_hash_name :: "string option"
  S_consistent_hash_type :: memcached_behavior
  S_server_failure_limit :: zend_long
  S_number_of_replicas :: zend_long
  S_randomize_replica_read_enabled :: bool
  S_remove_failed_servers_enabled :: bool
  S_connect_timeout :: zend_long
  S_prefix :: "string option"
  S_persistent_enabled :: bool
  S_sasl_username :: "string option"
  S_sasl_password :: "string option"

section \<open>Initial values\<close>

definition SERIALIZER_DEFAULT :: "config \<Rightarrow> u32" where
  "SERIALIZER_DEFAULT C =
     (if HAVE_MEMCACHED_IGBINARY C then SERIALIZER_IGBINARY
      else if HAVE_MEMCACHED_MSGPACK C then SERIALIZER_MSGPACK else SERIALIZER_PHP)"

definition ginit_memc :: "config \<Rightarrow> memc_globals" where
  "ginit_memc C =
     \<lparr>G_serializer_name = None, G_compression_name = None, G_compression_threshold = 2000,
      G_compression_factor = 13 / 10, G_store_retry_count = 2, G_compression_level = 6,
      G_item_size_limit = 0, G_serializer_type = SERIALIZER_DEFAULT C,
      G_compression_type = COMPRESSION_TYPE_FASTLZ, G_sasl_initialised = False,
      G_consistent_hash_enabled = False, G_binary_protocol_enabled = False, G_connect_timeout = 0\<rparr>"

definition ginit_session :: session_globals where
  "ginit_session =
     \<lparr>S_lock_enabled = False, S_lock_wait_max = 150, S_lock_wait_min = 150, S_lock_retries = 200,
      S_lock_expiration = 30, S_binary_protocol_enabled = True, S_consistent_hash_enabled = True,
      S_consistent_hash_name = None, S_consistent_hash_type = MEMCACHED_BEHAVIOR_KETAMA,
      S_server_failure_limit = 1, S_number_of_replicas = 0, S_randomize_replica_read_enabled = True,
      S_remove_failed_servers_enabled = True, S_connect_timeout = 1000, S_prefix = None,
      S_persistent_enabled = False, S_sasl_username = None, S_sasl_password = None\<rparr>"

section \<open>Handlers of the extension\<close>

text \<open>The first component is \<open>SUCCESS\<close>; \<open>new_value = None\<close> is a NULL pointer.\<close>

definition OnUpdateCompressionType :: "config \<Rightarrow> string option \<Rightarrow> memc_globals \<Rightarrow> bool \<times> memc_globals" where
  "OnUpdateCompressionType C new_value g =
     (let named = (\<lambda>t. (True, g\<lparr>G_compression_type := t, G_compression_name := new_value\<rparr>)) in
      case new_value of
        None \<Rightarrow> named COMPRESSION_TYPE_FASTLZ
      | Some v \<Rightarrow>
          if c_string v = ''fastlz'' then named COMPRESSION_TYPE_FASTLZ
          else if c_string v = ''zlib'' then named COMPRESSION_TYPE_ZLIB
          else if HAVE_ZSTD_H C \<and> c_string v = ''zstd'' then named COMPRESSION_TYPE_ZSTD
          else (False, g))"

definition OnUpdateSerializer :: "config \<Rightarrow> string option \<Rightarrow> memc_globals \<Rightarrow> bool \<times> memc_globals" where
  "OnUpdateSerializer C new_value g =
     (let named = (\<lambda>t. (True, g\<lparr>G_serializer_type := t, G_serializer_name := new_value\<rparr>)) in
      case new_value of
        None \<Rightarrow> named (SERIALIZER_DEFAULT C)
      | Some v \<Rightarrow>
          if c_string v = ''php'' then named SERIALIZER_PHP
          else if HAVE_MEMCACHED_IGBINARY C \<and> c_string v = ''igbinary'' then named SERIALIZER_IGBINARY
          else if HAVE_JSON_API C \<and> c_string v = ''json'' then named SERIALIZER_JSON
          else if HAVE_JSON_API C \<and> c_string v = ''json_array'' then named SERIALIZER_JSON_ARRAY
          else if HAVE_MEMCACHED_MSGPACK C \<and> c_string v = ''msgpack'' then named SERIALIZER_MSGPACK
          else (False, g))"

definition OnUpdateDeprecatedLockValue :: "string \<Rightarrow> session_globals \<Rightarrow> bool \<times> session_globals" where
  "OnUpdateDeprecatedLockValue new_value s = (False, s)"

definition OnUpdateSessionPrefixString :: "string option \<Rightarrow> session_globals \<Rightarrow> bool \<times> session_globals" where
  "OnUpdateSessionPrefixString new_value s =
     (case new_value of
        Some v \<Rightarrow>
          if length v > 0 \<and> length v > MEMCACHED_MAX_KEY then (False, s)
          else if length v > 0 \<and> \<not> s_memc_valid_key_ascii v 1 then (False, s)
          else (True, s\<lparr>S_prefix := new_value\<rparr>)
      | None \<Rightarrow> (True, s\<lparr>S_prefix := new_value\<rparr>))"

definition OnUpdateConsistentHash :: "string option \<Rightarrow> session_globals \<Rightarrow> bool \<times> session_globals" where
  "OnUpdateConsistentHash new_value s =
     (let named = (\<lambda>t. (True, s\<lparr>S_consistent_hash_type := t, S_consistent_hash_name := new_value\<rparr>)) in
      case new_value of
        None \<Rightarrow> named MEMCACHED_BEHAVIOR_KETAMA
      | Some v \<Rightarrow>
          if c_string v = ''ketama'' then named MEMCACHED_BEHAVIOR_KETAMA
          else if c_string v = ''ketama_weighted'' then named MEMCACHED_BEHAVIOR_KETAMA_WEIGHTED
          else (False, s))"

section \<open>The ini table\<close>

text \<open>PHP's conversions of ini strings to integers, booleans and reals.\<close>

record ini_parse =
  ip_long :: "string \<Rightarrow> zend_long"
  ip_bool :: "string \<Rightarrow> bool"
  ip_real :: "string \<Rightarrow> rat"

definition OnUpdateLong :: "ini_parse \<Rightarrow> (zend_long \<Rightarrow> 'g) \<Rightarrow> string \<Rightarrow> 'g \<Rightarrow> bool \<times> 'g" where
  "OnUpdateLong P upd new_value g = (True, upd (ip_long P new_value))"

definition OnUpdateLongGEZero :: "ini_parse \<Rightarrow> (zend_long \<Rightarrow> 'g) \<Rightarrow> string \<Rightarrow> 'g \<Rightarrow> bool \<times> 'g" where
  "OnUpdateLongGEZero P upd new_value g =
     (if sint (ip_long P new_value) < 0 then (False, g) else (True, upd (ip_long P new_value)))"

text \<open>\<open>None\<close>: the name is not in the table.\<close>

definition memc_ini_update ::
  "ini_parse \<Rightarrow> config \<Rightarrow> string \<Rightarrow> string \<Rightarrow> memc_globals \<Rightarrow> (bool \<times> memc_globals) option" where
  "memc_ini_update P C name v g =
     (if name = ''memcached.compression_type'' then Some (OnUpdateCompressionType C (Some v) g)
      else if name = ''memcached.compression_factor'' then Some (True, g\<lparr>G_compression_factor := ip_real P v\<rparr>)
      else if name = ''memcached.compression_level'' then
        Some (OnUpdateLong P (\<lambda>l. g\<lparr>G_compression_level := l\<rparr>) v g)
      else if name = ''memcached.compression_threshold'' then
        Some (OnUpdateLong P (\<lambda>l. g\<lparr>G_compression_threshold := l\<rparr>) v g)
      else if name = ''memcached.serializer'' then Some (OnUpdateSerializer C (Some v) g)
      else if name = ''memcached.store_retry_count'' then
        Some (OnUpdateLong P (\<lambda>l. g\<lparr>G_store_retry_count := l\<rparr>) v g)
      else if name = ''memcached.item_size_limit'' then
        Some (OnUpdateLongGEZero P (\<lambda>l. g\<lparr>G_item_size_limit := l\<rparr>) v g)
      else if name = ''memcached.default_consistent_hash'' then
        Some (True, g\<lparr>G_consistent_hash_enabled := ip_bool P v\<rparr>)
      else if name = ''memcached.default_binary_protocol'' then
        Some (True, g\<lparr>G_binary_protocol_enabled := ip_bool P v\<rparr>)
      else if name = ''memcached.default_connect_timeout'' then
        Some (OnUpdateLong P (\<lambda>l. g\<lparr>G_connect_timeout := l\<rparr>) v g)
      else None)"

definition session_ini_update ::
  "ini_parse \<Rightarrow> string \<Rightarrow> string \<Rightarrow> session_globals \<Rightarrow> (bool \<times> session_globals) option" where
  "session_ini_update P name v s =
     (if name = ''memcached.sess_locking'' then Some (True, s\<lparr>S_lock_enabled := ip_bool P v\<rparr>)
      else if name = ''memcached.sess_lock_wait_min'' then
        Some (OnUpdateLongGEZero P (\<lambda>l. s\<lparr>S_lock_wait_min := l\<rparr>) v s)
      else if name = ''memcached.sess_lock_wait_max'' then
        Some (OnUpdateLongGEZero P (\<lambda>l. s\<lparr>S_lock_wait_max := l\<rparr>) v s)
      else if name = ''memcached.sess_lock_retries'' then
        Some (OnUpdateLong P (\<lambda>l. s\<lparr>S_lock_retries := l\<rparr>) v s)
      else if name = ''memcached.sess_lock_expire'' then
        Some (OnUpdateLongGEZero P (\<lambda>l. s\<lparr>S_lock_expiration := l\<rparr>) v s)
      else if name = ''memcached.sess_binary_protocol'' then
        Some (True, s\<lparr>S_binary_protocol_enabled := ip_bool P v\<rparr>)
      else if name = ''memcached.sess_consistent_hash'' then
        Some (True, s\<lparr>S_consistent_hash_enabled := ip_bool P v\<rparr>)
      else if name = ''memcached.sess_consistent_hash_type'' then Some (OnUpdateConsistentHash (Some v) s)
      else if name = ''memcached.sess_number_of_replicas'' then
        Some (OnUpdateLongGEZero P (\<lambda>l. s\<lparr>S_number_of_replicas := l\<rparr>) v s)
      else if name = ''memcached.sess_randomize_replica_read'' then
        Some (True, s\<lparr>S_randomize_replica_read_enabled := ip_bool P v\<rparr>)
      else if name = ''memcached.sess_remove_failed_servers'' then
        Some (True, s\<lparr>S_remove_failed_servers_enabled := ip_bool P v\<rparr>)
      else if name = ''memcached.sess_server_failure_limit'' then
        Some (OnUpdateLongGEZero P (\<lambda>l. s\<lparr>S_server_failure_limit := l\<rparr>) v s)
      else if name = ''memcached.sess_connect_timeout'' then
        Some (OnUpdateLong P (\<lambda>l. s\<lparr>S_connect_timeout := l\<rparr>) v s)
      else if name = ''memcached.sess_sasl_username'' then Some (True, s\<lparr>S_sasl_username := Some v\<rparr>)
      else if name = ''memcached.sess_sasl_password'' then Some (True, s\<lparr>S_sasl_password := Some v\<rparr>)
      else if name = ''memcached.sess_persistent'' then Some (True, s\<lparr>S_persistent_enabled := ip_bool P v\<rparr>)
      else if name = ''memcached.sess_prefix'' then Some (OnUpdateSessionPrefixString (Some v) s)
      else if name = ''memcached.sess_lock_wait'' \<or> name = ''memcached.sess_lock_max_wait'' then
        Some (OnUpdateDeprecatedLockValue v s)
      else None)"

section \<open>Facts\<close>

definition globals_ok :: "config \<Rightarrow> memc_globals \<Rightarrow> bool" where
  "globals_ok C g \<longleftrightarrow>
     valid_compression_type C (ucast (G_compression_type g)) \<and>
     valid_serializer C (ucast (G_serializer_type g)) \<and> 0 \<le> sint (G_item_size_limit g)"

lemma ginit_ok: "globals_ok C (ginit_memc C)"
  by (simp add: globals_ok_def ginit_memc_def valid_compression_type_def valid_serializer_def SERIALIZER_DEFAULT_def)

lemma OnUpdateCompressionType_ok:
  "globals_ok C g \<Longrightarrow> globals_ok C (snd (OnUpdateCompressionType C v g))"
  by (auto simp: OnUpdateCompressionType_def Let_def globals_ok_def valid_compression_type_def split: option.split)

lemma OnUpdateSerializer_ok: "globals_ok C g \<Longrightarrow> globals_ok C (snd (OnUpdateSerializer C v g))"
  by (auto simp: OnUpdateSerializer_def Let_def globals_ok_def valid_serializer_def SERIALIZER_DEFAULT_def
      split: option.split)

lemma memc_ini_update_ok:
  assumes "memc_ini_update P C name v g = Some (ok, g')" "globals_ok C g"
  shows "globals_ok C g'"
  using assms OnUpdateCompressionType_ok [of C g "Some v"] OnUpdateSerializer_ok [of C g "Some v"]
  unfolding memc_ini_update_def
  by (auto simp: OnUpdateLong_def OnUpdateLongGEZero_def globals_ok_def split: if_split_asm)

end
