(* ===== verification/Lifecycle.thy ===== *)
theory Lifecycle
  imports Ini
begin

text \<open>
  Objects and clients in memory: \<open>php_memc_object_new\<close>, \<open>__construct\<close> with the persistent list and
  the \<open>on_new\<close> callback, \<open>php_memc_destroy\<close>, \<open>php_memc_object_free_storage\<close> and \<open>php_memc_dtor\<close>.
  The state is explicit: client structures (with their user data) at addresses, objects that
  point to them, and the persistent list of the process. Property: as long as no \<open>on_new\<close>
  callback registers the id that is being constructed, no object ever points to a freed
  client; a callback that does leaves one that does.
\<close>

section \<open>State\<close>

record php_obj =
  o_memc :: "nat option"
  o_is_pristine :: bool
  o_rescode :: memcached_return
  o_errno :: int

text \<open>An entry of the process-wide list: a client of this extension, or another extension's.\<close>

datatype zend_resource = le_memc nat | le_other

record 'm world =
  cells :: "nat \<Rightarrow> ('m \<times> php_memc_user_data) option"
  persistent_list :: "string \<Rightarrow> zend_resource option"
  objects :: "nat \<Rightarrow> php_obj option"

section \<open>Objects\<close>

definition php_memc_object_new :: "nat \<Rightarrow> 'm world \<Rightarrow> 'm world" where
  "php_memc_object_new ob w =
     w\<lparr>objects := (objects w)(ob \<mapsto>
        \<lparr>o_memc = None, o_is_pristine = False, o_rescode = MEMCACHED_SUCCESS, o_errno = 0\<rparr>)\<rparr>"

text \<open>
  \<open>MEMC_METHOD_FETCH_OBJECT\<close>: the object as the methods see it, with its client and user data.
  \<open>None\<close>: the constructor was not called, an error is thrown (or the pointer is invalid).
\<close>

definition MEMC_METHOD_FETCH_OBJECT :: "'m world \<Rightarrow> nat \<Rightarrow> 'm php_memc_object option" where
  "MEMC_METHOD_FETCH_OBJECT w ob = do {
     x \<leftarrow> objects w ob;
     a \<leftarrow> o_memc x;
     (m, ud) \<leftarrow> cells w a;
     Some \<lparr>memc = m, user_data = ud, is_pristine = o_is_pristine x, rescode = o_rescode x,
           memc_errno = o_errno x, EG_exception = False\<rparr>
   }"

text \<open>What a method leaves in object and client.\<close>

definition store_object :: "nat \<Rightarrow> 'm php_memc_object \<Rightarrow> 'm world \<Rightarrow> 'm world" where
  "store_object ob i w =
     (case objects w ob of
        None \<Rightarrow> w
      | Some x \<Rightarrow>
          (case o_memc x of
             None \<Rightarrow> w
           | Some a \<Rightarrow>
               w\<lparr>cells := (cells w)(a \<mapsto> (memc i, user_data i)),
                 objects := (objects w)(ob \<mapsto> x\<lparr>o_rescode := rescode i, o_errno := memc_errno i\<rparr>)\<rparr>))"

text \<open>The credentials and the library structure go with the client.\<close>

definition php_memc_destroy :: "nat \<Rightarrow> 'm world \<Rightarrow> 'm world" where
  "php_memc_destroy a w = w\<lparr>cells := (cells w)(a := None)\<rparr>"

definition php_memc_object_free_storage :: "nat \<Rightarrow> 'm world \<Rightarrow> 'm world" where
  "php_memc_object_free_storage ob w =
     (let w' = (case objects w ob of
          None \<Rightarrow> w
        | Some x \<Rightarrow>
            (case o_memc x of
               None \<Rightarrow> w
             | Some a \<Rightarrow>
                 (case cells w a of
                    None \<Rightarrow> w
                  | Some (m, ud) \<Rightarrow> if \<not> is_persistent ud then php_memc_destroy a w else w)))
      in w'\<lparr>objects := (objects w')(ob := None)\<rparr>)"

text \<open>The destructor of list entries; the entry itself is removed by the list.\<close>

definition php_memc_dtor :: "zend_resource option \<Rightarrow> 'm world \<Rightarrow> 'm world" where
  "php_memc_dtor res w = (case res of Some (le_memc a) \<Rightarrow> php_memc_destroy a w | _ \<Rightarrow> w)"

section \<open>The constructor\<close>

text \<open>
  \<open>snprintf\<close> stops at a NUL of the id, the allocated length does not: what follows is what
  the allocation holds.
\<close>

definition plist_key :: "'d zend \<Rightarrow> string \<Rightarrow> string" where
  "plist_key Z persistent_id =
     (let s = ''memcached:id='' @ c_string persistent_id;
          n = length ''memcached:id='' + length persistent_id
      in if length s = n then s
         else s @ [CHR 0x00] @ map (z_heap Z) [length s + 1..<n])"

definition new_user_data :: "memc_globals \<Rightarrow> bool \<Rightarrow> php_memc_user_data" where
  "new_user_data G persistent =
     \<lparr>is_persistent = persistent, compression_enabled = True, encoding_enabled = False,
      ud_serializer = ucast (G_serializer_type G), ud_compression_type = ucast (G_compression_type G),
      ud_compression_level = G_compression_level G, store_retry_count = G_store_retry_count G,
      set_udf_flags = - 1, item_size_limit = G_item_size_limit G, has_sasl_data = False\<rparr>"

text \<open>The default behaviours; a failure is only warned about. 1 is \<open>MEMCACHED_DISTRIBUTION_CONSISTENT\<close>.\<close>

definition default_behaviors :: "'m libmemcached \<Rightarrow> memc_globals \<Rightarrow> 'm \<Rightarrow> 'm" where
  "default_behaviors L G m =
     (let m = (if G_consistent_hash_enabled G
               then snd (lm_behavior_set L m MEMCACHED_BEHAVIOR_DISTRIBUTION 1) else m);
          m = (if G_binary_protocol_enabled G
               then snd (lm_behavior_set L (snd (lm_behavior_set L m MEMCACHED_BEHAVIOR_BINARY_PROTOCOL 1))
                          MEMCACHED_BEHAVIOR_TCP_NODELAY 1)
               else m)
      in if G_connect_timeout G \<noteq> 0
         then snd (lm_behavior_set L m MEMCACHED_BEHAVIOR_CONNECT_TIMEOUT (G_connect_timeout G)) else m)"

text \<open>
  \<open>memcached_new\<close> is \<open>memcached(conn_str, len)\<close>, \<open>None\<close> when it fails (an \<open>E_ERROR\<close> ends the
  request, as does a failure of the last step); \<open>alloc\<close> gives the address of the new
  structure.
\<close>

record ('m, 'd) ctor_env =
  ce_env :: "('m, 'd) env"
  ce_memcached :: "string option \<Rightarrow> 'm option"
  ce_alloc :: "'m world \<Rightarrow> nat"

text \<open>Up to the callback: \<open>Inl\<close> a registered client was found, \<open>Inr\<close> a new one was made.\<close>

definition construct_start ::
  "('m, 'd) ctor_env \<Rightarrow> nat \<Rightarrow> string option \<Rightarrow> string option \<Rightarrow> 'm world \<Rightarrow>
     ('m world + string option \<times> 'm world) option" where
  "construct_start X ob persistent_id conn_str w =
     (let E = ce_env X;
          key = (case persistent_id of
                   None \<Rightarrow> None
                 | Some pid \<Rightarrow> if length pid = 0 then None else Some (plist_key (zend E) pid))
      in case objects w ob of
           None \<Rightarrow> None
         | Some x \<Rightarrow>
             (case (case key of None \<Rightarrow> None | Some k \<Rightarrow> persistent_list w k) of
                Some (le_memc a) \<Rightarrow>
                  Some (Inl (w\<lparr>objects := (objects w)(ob \<mapsto> x\<lparr>o_memc := Some a, o_is_pristine := False\<rparr>)\<rparr>))
              | _ \<Rightarrow> do {
                  m \<leftarrow> ce_memcached X (case conn_str of
                         None \<Rightarrow> None | Some c \<Rightarrow> if length c = 0 then None else Some c);
                  let a = ce_alloc X w;
                  Some (Inr (key,
                    w\<lparr>cells := (cells w)(a \<mapsto> (default_behaviors (lib E) (globals E) m,
                                              new_user_data (globals E) (key \<noteq> None))),
                      objects := (objects w)(ob \<mapsto> x\<lparr>o_memc := Some a, o_is_pristine := True\<rparr>)\<rparr>))
                }))"

text \<open>After the callback: \<open>failed\<close> is \<open>!s_invoke_new_instance_cb(...) || EG(exception)\<close>.\<close>

definition construct_finish :: "bool \<Rightarrow> nat \<Rightarrow> string option \<Rightarrow> 'm world \<Rightarrow> 'm world option" where
  "construct_finish failed ob key w = do {
     x \<leftarrow> objects w ob;
     a \<leftarrow> o_memc x;
     if failed
     then (let w = php_memc_destroy a w in Some (w\<lparr>objects := (objects w)(ob \<mapsto> x\<lparr>o_memc := None\<rparr>)\<rparr>))
     else case key of
       None \<Rightarrow> Some w
     | Some k \<Rightarrow>
         (let w = php_memc_dtor (persistent_list w k) w
          in Some (w\<lparr>persistent_list := (persistent_list w)(k \<mapsto> le_memc a)\<rparr>))
   }"

text \<open>
  The callback gets the object and the id or null. It is a PHP function with its arguments as a
  list; the return value is dropped. The result is whether the call succeeded, whether an
  exception is pending, and the world.
\<close>

type_synonym ('m, 'd) on_new_cb = "'d zval list \<Rightarrow> 'm world \<Rightarrow> ('d zval \<times> bool) option \<times> 'm world"

definition s_invoke_new_instance_cb ::
  "('m, 'd) on_new_cb \<Rightarrow> nat \<Rightarrow> string option \<Rightarrow> 'm world \<Rightarrow> bool \<times> bool \<times> 'm world" where
  "s_invoke_new_instance_cb fci ob persistent_id w =
     (let params = [IS_OBJECT ob, case persistent_id of Some pid \<Rightarrow> IS_STRING pid | None \<Rightarrow> IS_NULL]
      in case fci params w of
           (None, w) \<Rightarrow> (False, False, w)
         | (Some (retval, exn), w) \<Rightarrow> (True, exn, w))"

definition memc_construct ::
  "('m, 'd) ctor_env \<Rightarrow> nat \<Rightarrow> string option \<Rightarrow>
     ('m, 'd) on_new_cb option \<Rightarrow> string option \<Rightarrow> 'm world \<Rightarrow> 'm world option" where
  "memc_construct X ob persistent_id on_new conn_str w = do {
     r \<leftarrow> construct_start X ob persistent_id conn_str w;
     case r of
       Inl w \<Rightarrow> Some w
     | Inr (key, w) \<Rightarrow>
         (case on_new of
            None \<Rightarrow> construct_finish False ob key w
          | Some cb \<Rightarrow>
              (case s_invoke_new_instance_cb cb ob persistent_id w of
                 (called, exn, w) \<Rightarrow> construct_finish (\<not> called \<or> exn) ob key w))
   }"

section \<open>Runs\<close>

text \<open>
  What PHP code does with objects. \<open>run busy w w'\<close>: a sequence of operations leads from \<open>w\<close> to
  \<open>w'\<close>; \<open>busy\<close> are the objects whose constructors have not returned yet, which PHP neither
  frees nor constructs again meanwhile. The allocator returns unused addresses. A method call is
  any change of the object that keeps the flag \<open>is_persistent\<close>; that every method of the extension
  does is shown in \<open>Methods\<close> (\<open>memc_call_keeps\<close>). A callback is itself a run, after
  which the id under construction is still unregistered. The list of the process is destroyed
  when no object is left.
\<close>

inductive run :: "('m, 'd) ctor_env \<Rightarrow> nat set \<Rightarrow> 'm world \<Rightarrow> 'm world \<Rightarrow> bool" for X where
  run_refl: "run X busy w w"
| run_new: "objects w ob = None \<Longrightarrow> run X busy (php_memc_object_new ob w) w' \<Longrightarrow> run X busy w w'"
| run_call: "MEMC_METHOD_FETCH_OBJECT w ob = Some i \<Longrightarrow>
    is_persistent (user_data j) = is_persistent (user_data i) \<Longrightarrow>
    run X busy (store_object ob j w) w' \<Longrightarrow> run X busy w w'"
| run_construct: "ob \<notin> busy \<Longrightarrow> cells w (ce_alloc X w) = None \<Longrightarrow>
    memc_construct X ob pid None conn w = Some w1 \<Longrightarrow>
    run X busy w1 w' \<Longrightarrow> run X busy w w'"
| run_construct_cb: "ob \<notin> busy \<Longrightarrow> cells w (ce_alloc X w) = None \<Longrightarrow>
    construct_start X ob pid conn w = Some (Inr (key, w1)) \<Longrightarrow>
    run X (insert ob busy) w1 (snd (snd (s_invoke_new_instance_cb cb ob pid w1))) \<Longrightarrow>
    (\<forall>k. key = Some k \<longrightarrow> persistent_list (snd (snd (s_invoke_new_instance_cb cb ob pid w1))) k = persistent_list w k) \<Longrightarrow>
    memc_construct X ob pid (Some cb) conn w = Some w2 \<Longrightarrow>
    run X busy w2 w' \<Longrightarrow> run X busy w w'"
| run_free: "ob \<notin> busy \<Longrightarrow> run X busy (php_memc_object_free_storage ob w) w' \<Longrightarrow> run X busy w w'"
| run_shutdown: "objects w = (\<lambda>_. None) \<Longrightarrow> persistent_list w k = Some res \<Longrightarrow>
    run X busy (php_memc_dtor (Some res) w\<lparr>persistent_list := (persistent_list w)(k := None)\<rparr>) w' \<Longrightarrow>
    run X busy w w'"

section \<open>No dangling pointers\<close>

definition points_to :: "'m world \<Rightarrow> nat \<Rightarrow> nat \<Rightarrow> bool" where
  "points_to w ob a \<longleftrightarrow> (\<exists>x. objects w ob = Some x \<and> o_memc x = Some a)"

definition persistent_cell :: "'m world \<Rightarrow> nat \<Rightarrow> bool" where
  "persistent_cell w a \<longleftrightarrow> (\<exists>m ud. cells w a = Some (m, ud) \<and> is_persistent ud)"

definition registered :: "'m world \<Rightarrow> nat \<Rightarrow> bool" where
  "registered w a \<longleftrightarrow> (\<exists>k. persistent_list w k = Some (le_memc a))"

text \<open>
  Objects point to clients that exist; registered clients exist and are persistent; a client
  that is not persistent has one object at most; a client is registered once.
\<close>

definition world_ok :: "'m world \<Rightarrow> bool" where
  "world_ok w \<longleftrightarrow>
     (\<forall>ob a. points_to w ob a \<longrightarrow> cells w a \<noteq> None) \<and>
     (\<forall>a. registered w a \<longrightarrow> persistent_cell w a) \<and>
     (\<forall>ob ob' a. points_to w ob a \<longrightarrow> points_to w ob' a \<longrightarrow> ob \<noteq> ob' \<longrightarrow> persistent_cell w a) \<and>
     (\<forall>k k' a. persistent_list w k = Some (le_memc a) \<longrightarrow> persistent_list w k' = Some (le_memc a) \<longrightarrow> k = k')"

text \<open>An object under construction has a client of its own, which is not registered yet.\<close>

definition pending_ok :: "'m world \<Rightarrow> nat \<Rightarrow> bool" where
  "pending_ok w ob \<longleftrightarrow>
     (\<exists>a. points_to w ob a \<and> \<not> registered w a \<and> (\<forall>ob'. points_to w ob' a \<longrightarrow> ob' = ob))"

definition run_ok :: "nat set \<Rightarrow> 'm world \<Rightarrow> bool" where
  "run_ok busy w \<longleftrightarrow> world_ok w \<and> (\<forall>ob \<in> busy. pending_ok w ob)"

definition step_ok :: "nat set \<Rightarrow> 'm world \<Rightarrow> 'm world \<Rightarrow> bool" where
  "step_ok busy w w' \<longleftrightarrow>
     (run_ok busy w \<longrightarrow> run_ok busy w' \<and>
        (\<forall>ob \<in> busy. \<forall>a. points_to w ob a \<longrightarrow> points_to w' ob a \<and> persistent_cell w' a = persistent_cell w a))"

lemma step_ok_refl [simp]: "step_ok busy w w"
  by (simp add: step_ok_def)

lemma step_ok_trans: "step_ok busy w w1 \<Longrightarrow> step_ok busy w1 w2 \<Longrightarrow> step_ok busy w w2"
  unfolding step_ok_def by meson

lemma points_to_fun: "points_to w ob a \<Longrightarrow> points_to w ob b \<Longrightarrow> a = b"
  by (auto simp: points_to_def)

lemma step_okI:
  assumes "\<And>ob a. run_ok busy w \<Longrightarrow> points_to w' ob a \<Longrightarrow> cells w' a \<noteq> None"
    "\<And>a. run_ok busy w \<Longrightarrow> registered w' a \<Longrightarrow> persistent_cell w' a"
    "\<And>ob ob' a. run_ok busy w \<Longrightarrow> points_to w' ob a \<Longrightarrow> points_to w' ob' a \<Longrightarrow> ob \<noteq> ob' \<Longrightarrow> persistent_cell w' a"
    "\<And>k k' a. run_ok busy w \<Longrightarrow> persistent_list w' k = Some (le_memc a) \<Longrightarrow>
       persistent_list w' k' = Some (le_memc a) \<Longrightarrow> k = k'"
    "\<And>ob a. run_ok busy w \<Longrightarrow> ob \<in> busy \<Longrightarrow> points_to w ob a \<Longrightarrow> \<not> registered w a \<Longrightarrow>
       \<forall>ob'. points_to w ob' a \<longrightarrow> ob' = ob \<Longrightarrow>
       points_to w' ob a \<and> persistent_cell w' a = persistent_cell w a \<and> \<not> registered w' a \<and>
       (\<forall>ob'. points_to w' ob' a \<longrightarrow> ob' = ob)"
  shows "step_ok busy w w'"
  unfolding step_ok_def
proof (intro impI conjI)
  assume ok: "run_ok busy w"
  then have pend: "\<exists>a. points_to w ob a \<and> \<not> registered w a \<and> (\<forall>ob'. points_to w ob' a \<longrightarrow> ob' = ob)"
    if "ob \<in> busy" for ob using that by (auto simp: run_ok_def pending_ok_def)
  have "world_ok w'" unfolding world_ok_def using assms(1-4) ok by blast
  moreover have "pending_ok w' ob" if "ob \<in> busy" for ob
    using pend [OF that] assms(5) [OF ok that] unfolding pending_ok_def by blast
  ultimately show "run_ok busy w'" by (simp add: run_ok_def)
  show "\<forall>ob \<in> busy. \<forall>a. points_to w ob a \<longrightarrow> points_to w' ob a \<and> persistent_cell w' a = persistent_cell w a"
    using pend assms(5) ok points_to_fun by metis
qed

lemma run_okD:
  assumes "run_ok busy w"
  shows "points_to w ob a \<Longrightarrow> cells w a \<noteq> None" "registered w a \<Longrightarrow> persistent_cell w a"
    "points_to w ob a \<Longrightarrow> points_to w ob' a \<Longrightarrow> ob \<noteq> ob' \<Longrightarrow> persistent_cell w a"
    "persistent_list w k = Some (le_memc a) \<Longrightarrow> persistent_list w k' = Some (le_memc a) \<Longrightarrow> k = k'"
  using assms unfolding run_ok_def world_ok_def by blast+

lemma run_ok_pending:
  assumes "run_ok busy w" "ob \<in> busy"
  obtains a where "points_to w ob a" "\<not> registered w a" "\<And>ob'. points_to w ob' a \<Longrightarrow> ob' = ob"
  using assms unfolding run_ok_def pending_ok_def by blast

section \<open>Each operation\<close>

lemma view_new:
  "points_to (php_memc_object_new ob w) = (\<lambda>ob' a. ob' \<noteq> ob \<and> points_to w ob' a)"
  "persistent_cell (php_memc_object_new ob w) = persistent_cell w"
  "registered (php_memc_object_new ob w) = registered w"
  "cells (php_memc_object_new ob w) = cells w"
  "persistent_list (php_memc_object_new ob w) = persistent_list w"
  by (auto simp: points_to_def persistent_cell_def registered_def php_memc_object_new_def fun_eq_iff)

lemma step_ok_new:
  assumes "objects w ob = None"
  shows "step_ok busy w (php_memc_object_new ob w)"
proof (rule step_okI)
  have no: "\<not> points_to w ob a" for a using assms by (simp add: points_to_def)
  show "points_to (php_memc_object_new ob w) o1 a \<and>
      persistent_cell (php_memc_object_new ob w) a = persistent_cell w a \<and>
      \<not> registered (php_memc_object_new ob w) a \<and>
      (\<forall>o2. points_to (php_memc_object_new ob w) o2 a \<longrightarrow> o2 = o1)"
    if "points_to w o1 a" "\<not> registered w a" "\<forall>ob'. points_to w ob' a \<longrightarrow> ob' = o1" for o1 a
    unfolding view_new using that no by blast
qed (unfold view_new, (blast dest: run_okD)+)

text \<open>A method call: the client keeps its place and its persistence.\<close>

lemma fetch_object_cell:
  assumes "MEMC_METHOD_FETCH_OBJECT w ob = Some i"
  obtains x a where "objects w ob = Some x" "o_memc x = Some a" "cells w a = Some (memc i, user_data i)"
  using assms by (auto simp: MEMC_METHOD_FETCH_OBJECT_def split: bind_splits)

lemma view_call:
  assumes "MEMC_METHOD_FETCH_OBJECT w ob = Some i" "is_persistent (user_data j) = is_persistent (user_data i)"
  shows "points_to (store_object ob j w) = points_to w"
    "persistent_cell (store_object ob j w) = persistent_cell w"
    "registered (store_object ob j w) = registered w"
    "cells (store_object ob j w) a = None \<longleftrightarrow> cells w a = None"
    "persistent_list (store_object ob j w) = persistent_list w"
proof -
  obtain x b where "objects w ob = Some x" "o_memc x = Some b" "cells w b = Some (memc i, user_data i)"
    by (rule fetch_object_cell [OF assms(1)])
  with assms(2) show "points_to (store_object ob j w) = points_to w"
    "persistent_cell (store_object ob j w) = persistent_cell w"
    "registered (store_object ob j w) = registered w"
    "cells (store_object ob j w) a = None \<longleftrightarrow> cells w a = None"
    "persistent_list (store_object ob j w) = persistent_list w"
    by (auto simp: points_to_def persistent_cell_def registered_def store_object_def fun_eq_iff)
qed

lemma step_ok_call:
  assumes "MEMC_METHOD_FETCH_OBJECT w ob = Some i" "is_persistent (user_data j) = is_persistent (user_data i)"
  shows "step_ok busy w (store_object ob j w)"
  by (rule step_okI; unfold view_call [OF assms]; blast dest: run_okD)

text \<open>Freeing an object.\<close>

definition owned :: "'m world \<Rightarrow> nat \<Rightarrow> nat \<Rightarrow> bool" where
  "owned w ob a \<longleftrightarrow> points_to w ob a \<and> cells w a \<noteq> None \<and> \<not> persistent_cell w a"

lemma view_free:
  "points_to (php_memc_object_free_storage ob w) = (\<lambda>ob' a. ob' \<noteq> ob \<and> points_to w ob' a)"
  "persistent_list (php_memc_object_free_storage ob w) = persistent_list w"
  "registered (php_memc_object_free_storage ob w) = registered w"
  "cells (php_memc_object_free_storage ob w) = (\<lambda>a. if owned w ob a then None else cells w a)"
  by (auto simp: php_memc_object_free_storage_def php_memc_destroy_def points_to_def owned_def
      persistent_cell_def registered_def fun_eq_iff split: option.splits prod.splits)

lemma persistent_cell_free:
  "persistent_cell (php_memc_object_free_storage ob w) = persistent_cell w"
  by (auto simp: persistent_cell_def view_free owned_def fun_eq_iff)

lemma step_ok_free:
  assumes "ob \<notin> busy"
  shows "step_ok busy w (php_memc_object_free_storage ob w)"
proof (rule step_okI, goal_cases)
  case (1 o1 a)
  then have "\<not> owned w ob a" using run_okD(3) [OF 1(1), of o1 a ob] by (auto simp: view_free owned_def)
  with 1 show ?case by (auto simp: view_free dest: run_okD(1))
next
  case (5 o1 a)
  with assms show ?case unfolding view_free persistent_cell_free by blast
qed (unfold view_free persistent_cell_free, (blast dest: run_okD)+)

text \<open>The constructor, up to the callback.\<close>

lemma construct_start_cases:
  assumes "construct_start X ob pid conn w = Some r"
  obtains (found) x a k where "objects w ob = Some x" "persistent_list w k = Some (le_memc a)"
      "r = Inl (w\<lparr>objects := (objects w)(ob \<mapsto> x\<lparr>o_memc := Some a, o_is_pristine := False\<rparr>)\<rparr>)"
    | (fresh) x key m where "objects w ob = Some x"
      "\<And>k a. key = Some k \<Longrightarrow> persistent_list w k \<noteq> Some (le_memc a)"
      "r = Inr (key, w\<lparr>cells := (cells w)(ce_alloc X w \<mapsto> (m, new_user_data (globals (ce_env X)) (key \<noteq> None))),
         objects := (objects w)(ob \<mapsto> x\<lparr>o_memc := Some (ce_alloc X w), o_is_pristine := True\<rparr>)\<rparr>)"
proof -
  define key where "key = (case pid of None \<Rightarrow> None
    | Some pid \<Rightarrow> if length pid = 0 then None else Some (plist_key (zend (ce_env X)) pid))"
  define le where "le = (case key of None \<Rightarrow> None | Some k \<Rightarrow> persistent_list w k)"
  note start = assms [unfolded construct_start_def Let_def, folded key_def, folded le_def]
  from start obtain x where x: "objects w ob = Some x" by (auto split: option.splits)
  show thesis
  proof (cases "\<exists>a. le = Some (le_memc a)")
    case True
    then obtain a k where "le = Some (le_memc a)" "persistent_list w k = Some (le_memc a)"
      by (auto simp: le_def split: option.splits)
    with start x show thesis by (intro found [OF x, of k a]) auto
  next
    case False
    with start x obtain m where r: "r = Inr (key, w\<lparr>cells := (cells w)(ce_alloc X w \<mapsto>
          (default_behaviors (lib (ce_env X)) (globals (ce_env X)) m, new_user_data (globals (ce_env X)) (key \<noteq> None))),
        objects := (objects w)(ob \<mapsto> x\<lparr>o_memc := Some (ce_alloc X w), o_is_pristine := True\<rparr>)\<rparr>)"
      by (auto split: option.splits zend_resource.splits bind_splits)
    from False have "\<And>k a. key = Some k \<Longrightarrow> persistent_list w k \<noteq> Some (le_memc a)" by (auto simp: le_def)
    from fresh [OF x this r] show thesis .
  qed
qed

lemma step_ok_found:
  assumes "objects w ob = Some x" "persistent_list w k = Some (le_memc a)" "ob \<notin> busy"
  shows "step_ok busy w (w\<lparr>objects := (objects w)(ob \<mapsto> x\<lparr>o_memc := Some a, o_is_pristine := False\<rparr>)\<rparr>)"
    (is "step_ok busy w ?w")
proof -
  have view: "points_to ?w = (\<lambda>ob' b. if ob' = ob then b = a else points_to w ob' b)"
    "persistent_cell ?w = persistent_cell w" "registered ?w = registered w" "cells ?w = cells w"
    "persistent_list ?w = persistent_list w"
    by (auto simp: points_to_def persistent_cell_def registered_def fun_eq_iff)
  have reg: "registered w a" using assms(2) by (auto simp: registered_def)
  have cell: "persistent_cell w b \<Longrightarrow> cells w b \<noteq> None" for b by (auto simp: persistent_cell_def)
  show ?thesis
  proof (rule step_okI, unfold view, goal_cases)
    case (1 o1 b)
    then show ?case using reg cell by (metis run_okD(1,2))
  next
    case (3 o1 o2 b)
    then show ?case using reg by (metis run_okD(2,3))
  next
    case (5 o1 b)
    then show ?case using reg assms(3) by metis
  qed (blast dest: run_okD)+
qed

lemma step_ok_fresh:
  assumes "objects w ob = Some x" "cells w a = None" "ob \<notin> busy"
    and w'_def: "w' = w\<lparr>cells := (cells w)(a \<mapsto> (m, new_user_data G p)),
    objects := (objects w)(ob \<mapsto> x\<lparr>o_memc := Some a, o_is_pristine := True\<rparr>)\<rparr>"
  shows "step_ok busy w w'" "run_ok busy w \<Longrightarrow> pending_ok w' ob" "points_to w' ob a"
    "persistent_cell w' a = p" "persistent_list w' = persistent_list w"
proof -
  have view: "points_to w' = (\<lambda>ob' b. ob' = ob \<and> b = a \<or> ob' \<noteq> ob \<and> points_to w ob' b)"
    "persistent_cell w' = (\<lambda>b. b = a \<and> p \<or> b \<noteq> a \<and> persistent_cell w b)" "registered w' = registered w"
    "cells w' = (\<lambda>b. if b = a then Some (m, new_user_data G p) else cells w b)"
    "persistent_list w' = persistent_list w"
    by (auto simp: w'_def points_to_def persistent_cell_def registered_def new_user_data_def fun_eq_iff)
  have unused: "run_ok busy w \<Longrightarrow> \<not> points_to w ob' a" "run_ok busy w \<Longrightarrow> \<not> registered w a" for ob'
    using assms(2) run_okD(1) [of busy w ob' a] run_okD(2) [of busy w a] by (auto simp: persistent_cell_def)
  show "step_ok busy w w'"
  proof (rule step_okI, unfold view, goal_cases)
    case (1 o1 b)
    then show ?case using run_okD(1) [OF 1(1), of o1 b] by auto
  next
    case (2 b)
    then show ?case using unused run_okD(2) by metis
  next
    case (3 o1 o2 b)
    then show ?case using unused run_okD(3) by metis
  next
    case (5 o1 b)
    have "b \<noteq> a" using 5(1,3) unused(1) by blast
    moreover have "o1 \<noteq> ob" using 5(2) assms(3) by blast
    ultimately show ?case using 5(3-5) by blast
  qed (blast dest: run_okD)
  show "pending_ok w' ob" if "run_ok busy w"
    unfolding pending_ok_def view using unused [OF that] by metis
  show "points_to w' ob a" "persistent_cell w' a = p" "persistent_list w' = persistent_list w"
    by (simp_all add: view)
qed

text \<open>The constructor, after the callback.\<close>

lemma construct_finish_cases:
  assumes "construct_finish failed ob key w = Some w'"
  obtains (failed) x a where "failed" "objects w ob = Some x" "o_memc x = Some a"
      "w' = (php_memc_destroy a w)\<lparr>objects := (objects w)(ob \<mapsto> x\<lparr>o_memc := None\<rparr>)\<rparr>"
    | (same) "\<not> failed" "key = None" "w' = w"
    | (register) k a where "\<not> failed" "key = Some k" "points_to w ob a"
      "w' = (php_memc_dtor (persistent_list w k) w)\<lparr>persistent_list := (persistent_list w)(k \<mapsto> le_memc a)\<rparr>"
  using assms unfolding construct_finish_def
  by (auto simp: Let_def php_memc_destroy_def php_memc_dtor_def points_to_def
      split: bind_splits if_splits option.splits zend_resource.splits)

lemma step_ok_failed:
  assumes "objects w ob = Some x" "o_memc x = Some a" "pending_ok w ob" "ob \<notin> busy"
  shows "step_ok busy w ((php_memc_destroy a w)\<lparr>objects := (objects w)(ob \<mapsto> x\<lparr>o_memc := None\<rparr>)\<rparr>)"
    (is "step_ok busy w ?w")
proof -
  have view: "points_to ?w = (\<lambda>ob' b. ob' \<noteq> ob \<and> points_to w ob' b)"
    "persistent_cell ?w = (\<lambda>b. b \<noteq> a \<and> persistent_cell w b)" "registered ?w = registered w"
    "cells ?w = (\<lambda>b. if b = a then None else cells w b)" "persistent_list ?w = persistent_list w"
    by (auto simp: php_memc_destroy_def points_to_def persistent_cell_def registered_def fun_eq_iff)
  have own: "points_to w ob' a \<Longrightarrow> ob' = ob" "\<not> registered w a" for ob'
    using assms(1-3) unfolding pending_ok_def points_to_def by auto
  show ?thesis
  proof (rule step_okI, unfold view, goal_cases)
    case (1 o1 b)
    then show ?case using own(1) run_okD(1) [OF 1(1), of o1 b] by auto
  next
    case (2 b)
    then show ?case using own(2) run_okD(2) by metis
  next
    case (3 o1 o2 b)
    then show ?case using own(1) run_okD(3) by metis
  next
    case (5 o1 b)
    have "o1 \<noteq> ob" using 5(2) assms(4) by blast
    moreover from this have "b \<noteq> a" using 5(3) own(1) by blast
    ultimately show ?case using 5(3-5) by blast
  qed (blast dest: run_okD)
qed

lemma step_ok_register:
  assumes "points_to w ob a" "pending_ok w ob" "ob \<notin> busy" "persistent_cell w a"
    "\<And>b. persistent_list w k \<noteq> Some (le_memc b)"
  shows "step_ok busy w ((php_memc_dtor (persistent_list w k) w)\<lparr>persistent_list := (persistent_list w)(k \<mapsto> le_memc a)\<rparr>)"
    (is "step_ok busy w ?w")
proof -
  have "php_memc_dtor (persistent_list w k) w = w"
    using assms(5) by (auto simp: php_memc_dtor_def split: option.split zend_resource.split)
  then have view: "points_to ?w = points_to w" "persistent_cell ?w = persistent_cell w" "cells ?w = cells w"
    "persistent_list ?w = (persistent_list w)(k \<mapsto> le_memc a)"
    by (auto simp: points_to_def persistent_cell_def fun_eq_iff)
  then have reg: "registered ?w = (\<lambda>b. b = a \<or> registered w b)"
  proof (intro ext iffI)
    fix b assume "b = a \<or> registered w b"
    then show "registered ?w b"
    proof
      assume "registered w b"
      then obtain k' where k': "persistent_list w k' = Some (le_memc b)" by (auto simp: registered_def)
      with assms(5) have "k' \<noteq> k" by metis
      with k' show ?thesis unfolding registered_def view(4) by (intro exI [of _ k']) simp
    qed (auto simp: registered_def view(4))
  qed (auto simp: registered_def view(4) split: if_splits)
  have own: "points_to w ob' a \<Longrightarrow> ob' = ob" "persistent_list w k' \<noteq> Some (le_memc a)" for ob' k'
    using assms(1,2) points_to_fun unfolding pending_ok_def registered_def by metis+
  show ?thesis
  proof (rule step_okI, unfold view reg, goal_cases)
    case (2 b)
    then show ?case using assms(4) run_okD(2) by metis
  next
    case (4 k1 k2 b)
    then show ?case using own(2) run_okD(4) [OF 4(1)] by (auto split: if_splits)
  next
    case (5 o1 b)
    then show ?case using own(1) assms(1,3) by metis
  qed (blast dest: run_okD)+
qed

lemma step_ok_finish:
  assumes "construct_finish failed ob key w = Some w'" "pending_ok w ob" "ob \<notin> busy"
    "\<And>a. points_to w ob a \<Longrightarrow> persistent_cell w a = (key \<noteq> None)"
    "\<And>k b. key = Some k \<Longrightarrow> persistent_list w k \<noteq> Some (le_memc b)"
  shows "step_ok busy w w'"
  using assms(1)
proof (cases rule: construct_finish_cases)
  case (failed x a)
  then show ?thesis using step_ok_failed assms(2,3) by simp
next
  case (register k a)
  then have "persistent_cell w a" using assms(4) by simp
  then show ?thesis
    unfolding register(4) using register(3) assms(2,3) assms(5) [OF register(2)] by (intro step_ok_register)
qed simp

lemma step_ok_pending:
  assumes "step_ok busy w w'" "run_ok busy w" "ob \<in> busy" "points_to w ob a"
  shows "run_ok busy w'" "pending_ok w' ob" "points_to w' ob a" "persistent_cell w' a = persistent_cell w a"
  using assms by (auto simp: step_ok_def run_ok_def)

lemma step_ok_insert:
  assumes "step_ok (insert ob busy) w w'" "run_ok busy w \<Longrightarrow> pending_ok w ob"
  shows "step_ok busy w w'"
  using assms by (auto simp: step_ok_def run_ok_def)

text \<open>A constructor with a callback that is well-behaved, or without one.\<close>

lemma step_ok_construct:
  assumes "ob \<notin> busy" "cells w (ce_alloc X w) = None"
    and start: "construct_start X ob pid conn w = Some (Inr (key, w1))"
    and cb: "step_ok (insert ob busy) w1 w2" "\<And>k. key = Some k \<Longrightarrow> persistent_list w2 k = persistent_list w k"
    and finish: "construct_finish failed ob key w2 = Some w3"
  shows "step_ok busy w w3"
proof -
  from start obtain x m where x: "objects w ob = Some x" and
    none: "\<And>k a. key = Some k \<Longrightarrow> persistent_list w k \<noteq> Some (le_memc a)" and
    w1: "w1 = w\<lparr>cells := (cells w)(ce_alloc X w \<mapsto> (m, new_user_data (globals (ce_env X)) (key \<noteq> None))),
         objects := (objects w)(ob \<mapsto> x\<lparr>o_memc := Some (ce_alloc X w), o_is_pristine := True\<rparr>)\<rparr>"
    by (cases rule: construct_start_cases) auto
  note fresh = step_ok_fresh [OF x assms(2,1) w1]
  show ?thesis
  proof (cases "run_ok busy w")
    case True
    then have ok1: "run_ok (insert ob busy) w1"
      using fresh(1,2) by (simp add: step_ok_def run_ok_def)
    note after = step_ok_pending [OF cb(1) ok1 _ fresh(3), simplified]
    have "step_ok busy w2 w3"
    proof (rule step_ok_finish [OF finish after(2) assms(1)])
      show "persistent_cell w2 a = (key \<noteq> None)" if "points_to w2 ob a" for a
        using that points_to_fun [OF that after(3)] after(4) fresh(4) by simp
      show "persistent_list w2 k \<noteq> Some (le_memc b)" if "key = Some k" for k b
        using cb(2) [OF that] none [OF that] by simp
    qed
    then show ?thesis
      using fresh(1) step_ok_insert [OF cb(1)] fresh(2) True step_ok_trans by metis
  qed (simp add: step_ok_def)
qed

lemma step_ok_construct_none:
  assumes "ob \<notin> busy" "cells w (ce_alloc X w) = None" "memc_construct X ob pid None conn w = Some w'"
  shows "step_ok busy w w'"
proof -
  from assms(3) obtain r where start: "construct_start X ob pid conn w = Some r"
    by (auto simp: memc_construct_def split: bind_splits)
  show ?thesis
  proof (cases r)
    case (Inl w1)
    with assms(3) start have "w' = w1" by (simp add: memc_construct_def)
    with start Inl show ?thesis
      by (cases rule: construct_start_cases) (auto intro: step_ok_found [OF _ _ assms(1)])
  next
    case (Inr kw)
    obtain key w1 where kw: "kw = (key, w1)" by (cases kw)
    then have fin: "construct_finish False ob key w1 = Some w'"
      using assms(3) start Inr by (simp add: memc_construct_def)
    have "persistent_list w1 = persistent_list w"
      using start unfolding Inr kw by (cases rule: construct_start_cases) auto
    then show ?thesis
      using step_ok_construct [OF assms(1,2) start [unfolded Inr kw] step_ok_refl _ fin] by simp
  qed
qed

lemma step_ok_shutdown:
  assumes "objects w = (\<lambda>_. None)" "persistent_list w k = Some res"
  shows "step_ok busy w (php_memc_dtor (Some res) w\<lparr>persistent_list := (persistent_list w)(k := None)\<rparr>)"
    (is "step_ok busy w ?w")
proof -
  have none: "\<not> points_to w ob a" "\<not> points_to ?w ob a" for ob a
    using assms(1) by (auto simp: points_to_def php_memc_dtor_def php_memc_destroy_def split: zend_resource.split)
  have list: "persistent_list ?w = (persistent_list w)(k := None)"
    by (simp add: php_memc_dtor_def php_memc_destroy_def split: zend_resource.split)
  have cell: "persistent_cell ?w a" if "persistent_cell w a" "res \<noteq> le_memc a" for a
    using that by (auto simp: persistent_cell_def php_memc_dtor_def php_memc_destroy_def split: zend_resource.split)
  show ?thesis
  proof (rule step_okI, goal_cases)
    case (2 a)
    then obtain k' where k': "persistent_list w k' = Some (le_memc a)" "k' \<noteq> k"
      unfolding registered_def list by (auto split: if_splits)
    then have "res \<noteq> le_memc a" using assms(2) run_okD(4) [OF 2(1)] by metis
    moreover have "persistent_cell w a" using k'(1) run_okD(2) [OF 2(1)] by (auto simp: registered_def)
    ultimately show ?case using cell by blast
  next
    case (4 k1 k2 a)
    then show ?case unfolding list using run_okD(4) [OF 4(1)] by (auto split: if_splits)
  qed (use none in blast)+
qed

lemma run_step_ok: "run X busy w w' \<Longrightarrow> step_ok busy w w'"
proof (induction rule: run.induct)
  case (run_construct_cb ob busy w pid conn key w1 cb w2 w')
  obtain called exn w1' where cb: "s_invoke_new_instance_cb cb ob pid w1 = (called, exn, w1')" by (cases "s_invoke_new_instance_cb cb ob pid w1")
  have "construct_finish (\<not> called \<or> exn) ob key w1' = Some w2"
    using run_construct_cb.hyps(3,6) cb by (simp add: memc_construct_def)
  then have "step_ok busy w w2"
    using step_ok_construct [OF run_construct_cb.hyps(1,2,3)] run_construct_cb.IH(1) run_construct_cb.hyps(5) cb
    by simp
  then show ?case using run_construct_cb.IH(2) by (rule step_ok_trans)
qed (blast intro: step_ok_refl step_ok_trans step_ok_new step_ok_call step_ok_construct_none step_ok_free step_ok_shutdown)+

section \<open>Properties\<close>

text \<open>A process with two objects, for the witnesses; addresses 0 and 1 are handed out.\<close>

definition sample_ctor :: "(sample_client, bool \<times> rat) ctor_env" where
  "sample_ctor = \<lparr>ce_env = sample_env, ce_memcached = (\<lambda>c. Some sample_client0),
     ce_alloc = (\<lambda>w. if cells w 0 = None then 0 else 1)\<rparr>"

definition sample_world :: "sample_client world" where
  "sample_world = php_memc_object_new 1 (php_memc_object_new 0
     \<lparr>cells = (\<lambda>_. None), persistent_list = (\<lambda>_. None), objects = (\<lambda>_. None)\<rparr>)"

lemma sample_world_ok: "world_ok sample_world"
  by (auto simp: world_ok_def sample_world_def points_to_def registered_def php_memc_object_new_def split: if_splits)

lemma sample_construct:
  "memc_construct sample_ctor 0 None None None sample_world = Some
     \<lparr>cells = [0 \<mapsto> (default_behaviors sample_lib (globals sample_env) sample_client0, new_user_data (globals sample_env) False)],
      persistent_list = (\<lambda>_. None),
      objects = (objects sample_world)(0 \<mapsto> \<lparr>o_memc = Some 0, o_is_pristine = True, o_rescode = MEMCACHED_SUCCESS, o_errno = 0\<rparr>)\<rparr>"
  by (simp add: memc_construct_def construct_start_def construct_finish_def sample_ctor_def sample_world_def
      php_memc_object_new_def)



text \<open>The exception that the code does not handle: when the \<open>on_new\<close> callback constructs another
  object with the same persistent id, registering the outer client replaces the list entry of
  the inner one and frees its client, while the inner object still points to it.\<close>

theorem nested_constructor_dangles:
  "\<exists>w x. memc_construct sample_ctor 0 (Some ''id'')
       (Some (\<lambda>params w. case memc_construct sample_ctor 1 (Some ''id'') None None w of
                None \<Rightarrow> (None, w) | Some w' \<Rightarrow> (Some (IS_NULL, False), w'))) None sample_world = Some w \<and>
     objects w 1 = Some x \<and> o_memc x = Some 1 \<and> cells w 1 = None"
  by (simp add: memc_construct_def construct_start_def construct_finish_def s_invoke_new_instance_cb_def
      sample_ctor_def sample_world_def php_memc_object_new_def php_memc_dtor_def php_memc_destroy_def plist_key_def
      Let_def)



end
