(* ===== verification/Methods.thy ===== *)
theory Methods
  imports Read Servers Lifecycle
begin

text \<open>
  The class \<open>Memcached\<close>: the methods that only pass their arguments on, the table of all methods
  and their declared return types (\<open>php_memcached_arginfo.h\<close>), and runs of method calls on an object.
  Two contracts hold for every method: its result has the declared type, and the user data of the
  object stays well formed, so that what the other theories assume of it holds of every object.
\<close>

section \<open>The methods that pass their arguments on\<close>

definition memc_get where "memc_get E intern key = php_memc_get_impl E intern None key"
definition memc_getByKey where "memc_getByKey E intern server_key = php_memc_get_impl E intern (Some server_key)"
definition memc_getMulti where "memc_getMulti E intern = php_memc_getMulti_impl E intern None"
definition memc_getMultiByKey where
  "memc_getMultiByKey E intern server_key = php_memc_getMulti_impl E intern (Some server_key)"
definition memc_getDelayed where "memc_getDelayed E intern = php_memc_getDelayed_impl E intern None"
definition memc_getDelayedByKey where
  "memc_getDelayedByKey E intern server_key = php_memc_getDelayed_impl E intern (Some server_key)"
definition memc_set where
  "memc_set E intern key val expiration = php_memc_store_impl E intern MEMC_OP_SET None key (Some val) expiration"
definition memc_setByKey where
  "memc_setByKey E intern server_key key val expiration =
     php_memc_store_impl E intern MEMC_OP_SET (Some server_key) key (Some val) expiration"
definition memc_touch where
  "memc_touch E intern key expiration = php_memc_store_impl E intern MEMC_OP_TOUCH None key None expiration"
definition memc_touchByKey where
  "memc_touchByKey E intern server_key key expiration =
     php_memc_store_impl E intern MEMC_OP_TOUCH (Some server_key) key None expiration"
definition memc_setMulti where "memc_setMulti E intern = php_memc_setMulti_impl E intern None"
definition memc_setMultiByKey where
  "memc_setMultiByKey E intern server_key = php_memc_setMulti_impl E intern (Some server_key)"
definition memc_add where
  "memc_add E intern key val expiration = php_memc_store_impl E intern MEMC_OP_ADD None key (Some val) expiration"
definition memc_addByKey where
  "memc_addByKey E intern server_key key val expiration =
     php_memc_store_impl E intern MEMC_OP_ADD (Some server_key) key (Some val) expiration"
definition memc_append where
  "memc_append E intern key s = php_memc_store_impl E intern MEMC_OP_APPEND None key (Some (IS_STRING s)) 0"
definition memc_appendByKey where
  "memc_appendByKey E intern server_key key s =
     php_memc_store_impl E intern MEMC_OP_APPEND (Some server_key) key (Some (IS_STRING s)) 0"
definition memc_prepend where
  "memc_prepend E intern key s = php_memc_store_impl E intern MEMC_OP_PREPEND None key (Some (IS_STRING s)) 0"
definition memc_prependByKey where
  "memc_prependByKey E intern server_key key s =
     php_memc_store_impl E intern MEMC_OP_PREPEND (Some server_key) key (Some (IS_STRING s)) 0"
definition memc_replace where
  "memc_replace E intern key val expiration = php_memc_store_impl E intern MEMC_OP_REPLACE None key (Some val) expiration"
definition memc_replaceByKey where
  "memc_replaceByKey E intern server_key key val expiration =
     php_memc_store_impl E intern MEMC_OP_REPLACE (Some server_key) key (Some val) expiration"
definition memc_cas where "memc_cas E intern zv_cas = php_memc_cas_impl E intern zv_cas None"
definition memc_casByKey where
  "memc_casByKey E intern zv_cas server_key = php_memc_cas_impl E intern zv_cas (Some server_key)"
definition memc_delete where "memc_delete E intern = php_memc_delete_impl E intern None"
definition memc_deleteByKey where
  "memc_deleteByKey E intern server_key = php_memc_delete_impl E intern (Some server_key)"
definition memc_deleteMulti where "memc_deleteMulti E intern = php_memc_deleteMulti_impl E intern None"
definition memc_deleteMultiByKey where
  "memc_deleteMultiByKey E intern server_key = php_memc_deleteMulti_impl E intern (Some server_key)"
definition memc_increment where "memc_increment E intern = php_memc_incdec_impl E intern True None"
definition memc_decrement where "memc_decrement E intern = php_memc_incdec_impl E intern False None"
definition memc_incrementByKey where
  "memc_incrementByKey E intern server_key = php_memc_incdec_impl E intern True (Some server_key)"
definition memc_decrementByKey where
  "memc_decrementByKey E intern server_key = php_memc_incdec_impl E intern False (Some server_key)"

section \<open>The method table\<close>

text \<open>
  A call of a method with its arguments, in four groups; the \<open>ByKey\<close> variant of a method is the
  call with a server key. The two flags of \<open>setSaslAuthData\<close> and the one of \<open>setEncodingKey\<close> are
  those of their definitions.
\<close>

datatype ('m, 'd) read_method =
  M_get "string option" string "('m, 'd) cache_cb option" zend_long
| M_getMulti "string option" "'d harray" zend_long
| M_getDelayed "string option" "'d harray" bool "('m php_memc_object \<Rightarrow> 'd harray \<Rightarrow> bool \<times> 'm php_memc_object) option"
| M_fetch | M_fetchAll

datatype 'd write_method =
  M_set "string option" string "'d zval" zend_long
| M_touch "string option" string zend_long
| M_setMulti "string option" "'d harray" zend_long
| M_cas "'d zval" "string option" string "'d zval" zend_long
| M_add "string option" string "'d zval" zend_long
| M_append "string option" string string
| M_prepend "string option" string string
| M_replace "string option" string "'d zval" zend_long
| M_delete "string option" string zend_long
| M_deleteMulti "string option" "'d harray" zend_long
| M_increment "string option" string zend_long bool zend_long zend_long
| M_decrement "string option" string zend_long bool zend_long zend_long

datatype 'd server_method =
  M_addServer string zend_long zend_long | M_addServers "'d harray" | M_getServerList | M_getServerByKey string
| M_resetServerList | M_quit | M_flushBuffers
| M_getLastErrorMessage | M_getLastErrorCode | M_getLastErrorErrno | M_getLastDisconnectedServer
| M_getStats "string option" | M_getVersion | M_getAllKeys | M_flush zend_long

datatype 'd option_method =
  M_getResultCode | M_getResultMessage
| M_getOption zend_long | M_setOption zend_long "'d zval" | M_setOptions "'d harray"
| M_setBucket "'d harray" "'d harray option" zend_long
| M_setSaslAuthData bool bool string string | M_setEncodingKey bool string
| M_isPersistent | M_isPristine | M_checkKey string

datatype ('m, 'd) memc_method =
  Read_method "('m, 'd) read_method" | Write_method "'d write_method"
| Server_method "'d server_method" | Option_method "'d option_method"

fun read_call ::
  "('m, 'd) env \<Rightarrow> ('m, 'd) read_method \<Rightarrow> 'm php_memc_object \<Rightarrow> ('d zval \<times> 'm php_memc_object) option" where
  "read_call E (M_get sk key cb fl) i =
     (case sk of None \<Rightarrow> memc_get E i key cb fl | Some s \<Rightarrow> memc_getByKey E i s key cb fl)"
| "read_call E (M_getMulti sk keys fl) i =
     (case sk of None \<Rightarrow> memc_getMulti E i keys fl | Some s \<Rightarrow> memc_getMultiByKey E i s keys fl)"
| "read_call E (M_getDelayed sk keys c cb) i =
     (case sk of None \<Rightarrow> memc_getDelayed E i keys c cb | Some s \<Rightarrow> memc_getDelayedByKey E i s keys c cb)"
| "read_call E M_fetch i = memc_fetch E i"
| "read_call E M_fetchAll i = memc_fetchAll E i"

fun write_call ::
  "('m, 'd) env \<Rightarrow> 'd write_method \<Rightarrow> 'm php_memc_object \<Rightarrow> ('d zval \<times> 'm php_memc_object) option" where
  "write_call E (M_set sk key v e) i =
     (case sk of None \<Rightarrow> memc_set E i key v e | Some s \<Rightarrow> memc_setByKey E i s key v e)"
| "write_call E (M_touch sk key e) i =
     (case sk of None \<Rightarrow> memc_touch E i key e | Some s \<Rightarrow> memc_touchByKey E i s key e)"
| "write_call E (M_setMulti sk es e) i =
     (case sk of None \<Rightarrow> memc_setMulti E i es e | Some s \<Rightarrow> memc_setMultiByKey E i s es e)"
| "write_call E (M_cas c sk key v e) i =
     (case sk of None \<Rightarrow> memc_cas E i c key v e | Some s \<Rightarrow> memc_casByKey E i c s key v e)"
| "write_call E (M_add sk key v e) i =
     (case sk of None \<Rightarrow> memc_add E i key v e | Some s \<Rightarrow> memc_addByKey E i s key v e)"
| "write_call E (M_append sk key str) i =
     (case sk of None \<Rightarrow> memc_append E i key str | Some s \<Rightarrow> memc_appendByKey E i s key str)"
| "write_call E (M_prepend sk key str) i =
     (case sk of None \<Rightarrow> memc_prepend E i key str | Some s \<Rightarrow> memc_prependByKey E i s key str)"
| "write_call E (M_replace sk key v e) i =
     (case sk of None \<Rightarrow> memc_replace E i key v e | Some s \<Rightarrow> memc_replaceByKey E i s key v e)"
| "write_call E (M_delete sk key e) i =
     Some (case sk of None \<Rightarrow> memc_delete E i key e | Some s \<Rightarrow> memc_deleteByKey E i s key e)"
| "write_call E (M_deleteMulti sk es e) i =
     Some (case sk of None \<Rightarrow> memc_deleteMulti E i es e | Some s \<Rightarrow> memc_deleteMultiByKey E i s es e)"
| "write_call E (M_increment sk key n given v e) i =
     Some (case sk of None \<Rightarrow> memc_increment E i key n given v e | Some s \<Rightarrow> memc_incrementByKey E i s key n given v e)"
| "write_call E (M_decrement sk key n given v e) i =
     Some (case sk of None \<Rightarrow> memc_decrement E i key n given v e | Some s \<Rightarrow> memc_decrementByKey E i s key n given v e)"

text \<open>The methods that only read leave the object.\<close>

fun server_call ::
  "('m, 'd) env \<Rightarrow> ('m, 'd) lm_servers \<Rightarrow> 'd server_method \<Rightarrow> 'm php_memc_object \<Rightarrow> 'd zval \<times> 'm php_memc_object" where
  "server_call E LS (M_addServer host port w) i = memc_addServer E LS i host port w"
| "server_call E LS (M_addServers servers) i = memc_addServers E LS i servers"
| "server_call E LS M_getServerList i = (memc_getServerList LS i, i)"
| "server_call E LS (M_getServerByKey sk) i = memc_getServerByKey E LS i sk"
| "server_call E LS M_resetServerList i = memc_resetServerList LS i"
| "server_call E LS M_quit i = memc_quit E i"
| "server_call E LS M_flushBuffers i = memc_flushBuffers LS i"
| "server_call E LS M_getLastErrorMessage i = (memc_getLastErrorMessage LS i, i)"
| "server_call E LS M_getLastErrorCode i = (memc_getLastErrorCode E LS i, i)"
| "server_call E LS M_getLastErrorErrno i = (memc_getLastErrorErrno E i, i)"
| "server_call E LS M_getLastDisconnectedServer i = (memc_getLastDisconnectedServer LS i, i)"
| "server_call E LS (M_getStats args) i = memc_getStats E LS i args"
| "server_call E LS M_getVersion i = memc_getVersion E LS i"
| "server_call E LS M_getAllKeys i = memc_getAllKeys E LS i"
| "server_call E LS (M_flush delay) i = memc_flush E LS i delay"

fun option_call ::
  "('m, 'd) env \<Rightarrow> 'm lm_options \<Rightarrow> 'd option_method \<Rightarrow> 'm php_memc_object \<Rightarrow> ('d zval \<times> 'm php_memc_object) option" where
  "option_call E LO M_getResultCode i = Some (memc_getResultCode (lib E) i, i)"
| "option_call E LO M_getResultMessage i = Some (memc_getResultMessage LO i, i)"
| "option_call E LO (M_getOption opt) i = Some (memc_getOption E LO i opt, i)"
| "option_call E LO (M_setOption opt v) i = Some (memc_setOption E LO i opt v)"
| "option_call E LO (M_setOptions opts) i = Some (memc_setOptions E LO i opts)"
| "option_call E LO (M_setBucket hosts fwd replicas) i = Some (memc_setBucket E LO i hosts fwd replicas)"
| "option_call E LO (M_setSaslAuthData inited ok u p) i = memc_setSaslAuthData E LO inited ok i u p"
| "option_call E LO (M_setEncodingKey old key) i = Some (memc_setEncodingKey E LO old i key)"
| "option_call E LO M_isPersistent i = Some (memc_isPersistent i, i)"
| "option_call E LO M_isPristine i = Some (memc_isPristine i, i)"
| "option_call E LO (M_checkKey key) i = (case checkKey (lib E) i key of (ok, j) \<Rightarrow> Some (ZVAL_BOOL ok, j))"

fun memc_call ::
  "('m, 'd) env \<Rightarrow> 'm lm_options \<Rightarrow> ('m, 'd) lm_servers \<Rightarrow> ('m, 'd) memc_method \<Rightarrow> 'm php_memc_object \<Rightarrow>
     ('d zval \<times> 'm php_memc_object) option" where
  "memc_call E LO LS (Read_method c) i = read_call E c i"
| "memc_call E LO LS (Write_method c) i = write_call E c i"
| "memc_call E LO LS (Server_method c) i = Some (server_call E LS c i)"
| "memc_call E LO LS (Option_method c) i = option_call E LO c i"

text \<open>A script that calls methods of one object, one after the other, and the values it gets.\<close>

fun memc_calls ::
  "('m, 'd) env \<Rightarrow> 'm lm_options \<Rightarrow> ('m, 'd) lm_servers \<Rightarrow> ('m, 'd) memc_method list \<Rightarrow> 'm php_memc_object \<Rightarrow>
     ('d zval list \<times> 'm php_memc_object) option" where
  "memc_calls E LO LS [] i = Some ([], i)"
| "memc_calls E LO LS (call # calls) i = do {
     (v, i) \<leftarrow> memc_call E LO LS call i;
     (vs, i) \<leftarrow> memc_calls E LO LS calls i;
     Some (v # vs, i)
   }"

section \<open>Declared return types\<close>

text \<open>
  The return types that the argument tables declare. PHP's engine trusts them; a debug build of
  PHP aborts when a method returns a value of another type.
\<close>

datatype return_type =
  RT_MIXED | RT_LONG | RT_STRING | RT_ARRAY | RT_BOOL | RT_BOOL_OR_NULL | RT_ARRAY_OR_FALSE | RT_LONG_OR_FALSE

fun has_return_type :: "'d zval \<Rightarrow> return_type \<Rightarrow> bool" where
  "has_return_type v RT_MIXED \<longleftrightarrow> True"
| "has_return_type v RT_LONG \<longleftrightarrow> (case v of IS_LONG _ \<Rightarrow> True | _ \<Rightarrow> False)"
| "has_return_type v RT_STRING \<longleftrightarrow> (case v of IS_STRING _ \<Rightarrow> True | _ \<Rightarrow> False)"
| "has_return_type v RT_ARRAY \<longleftrightarrow> (case v of IS_ARRAY _ \<Rightarrow> True | _ \<Rightarrow> False)"
| "has_return_type v RT_BOOL \<longleftrightarrow> v = IS_TRUE \<or> v = IS_FALSE"
| "has_return_type v RT_BOOL_OR_NULL \<longleftrightarrow> v = IS_TRUE \<or> v = IS_FALSE \<or> v = IS_NULL"
| "has_return_type v RT_ARRAY_OR_FALSE \<longleftrightarrow> (case v of IS_ARRAY _ \<Rightarrow> True | IS_FALSE \<Rightarrow> True | _ \<Rightarrow> False)"
| "has_return_type v RT_LONG_OR_FALSE \<longleftrightarrow> (case v of IS_LONG _ \<Rightarrow> True | IS_FALSE \<Rightarrow> True | _ \<Rightarrow> False)"

fun declared_read :: "('m, 'd) read_method \<Rightarrow> return_type" where
  "declared_read (M_get _ _ _ _) = RT_MIXED"
| "declared_read (M_getMulti _ _ _) = RT_ARRAY_OR_FALSE"
| "declared_read (M_getDelayed _ _ _ _) = RT_BOOL"
| "declared_read M_fetch = RT_ARRAY_OR_FALSE"
| "declared_read M_fetchAll = RT_ARRAY_OR_FALSE"

fun declared_write :: "'d write_method \<Rightarrow> return_type" where
  "declared_write (M_append _ _ _) = RT_BOOL_OR_NULL"
| "declared_write (M_prepend _ _ _) = RT_BOOL_OR_NULL"
| "declared_write (M_deleteMulti _ _ _) = RT_ARRAY"
| "declared_write (M_increment _ _ _ _ _ _) = RT_LONG_OR_FALSE"
| "declared_write (M_decrement _ _ _ _ _ _) = RT_LONG_OR_FALSE"
| "declared_write _ = RT_BOOL"

fun declared_server :: "'d server_method \<Rightarrow> return_type" where
  "declared_server M_getServerList = RT_ARRAY"
| "declared_server (M_getServerByKey _) = RT_ARRAY_OR_FALSE"
| "declared_server M_getLastErrorMessage = RT_STRING"
| "declared_server M_getLastErrorCode = RT_LONG"
| "declared_server M_getLastErrorErrno = RT_LONG"
| "declared_server M_getLastDisconnectedServer = RT_ARRAY_OR_FALSE"
| "declared_server (M_getStats _) = RT_ARRAY_OR_FALSE"
| "declared_server M_getVersion = RT_ARRAY_OR_FALSE"
| "declared_server M_getAllKeys = RT_ARRAY_OR_FALSE"
| "declared_server _ = RT_BOOL"

fun declared_option :: "'d option_method \<Rightarrow> return_type" where
  "declared_option M_getResultCode = RT_LONG"
| "declared_option M_getResultMessage = RT_STRING"
| "declared_option (M_getOption _) = RT_MIXED"
| "declared_option _ = RT_BOOL"

fun declared :: "('m, 'd) memc_method \<Rightarrow> return_type" where
  "declared (Read_method c) = declared_read c"
| "declared (Write_method c) = declared_write c"
| "declared (Server_method c) = declared_server c"
| "declared (Option_method c) = declared_option c"

section \<open>Results have the declared type\<close>

text \<open>The collections: the type of each implementation's result, and what each keeps of the object.\<close>

named_theorems result_types
named_theorems config_keeps

lemma type_bool [simp]: "has_return_type (ZVAL_BOOL b) RT_BOOL" "has_return_type (ZVAL_BOOL b) RT_BOOL_OR_NULL"
  by simp_all

lemma type_bool_values [simp]: "has_return_type IS_TRUE RT_BOOL" "has_return_type IS_FALSE RT_BOOL"
  by simp_all

lemma store_type [result_types]:
  assumes "php_memc_store_impl E i op sk key v e = Some (r, j)"
  shows "has_return_type r (if op = MEMC_OP_APPEND \<or> op = MEMC_OP_PREPEND then RT_BOOL_OR_NULL else RT_BOOL)"
  using assms by (auto simp: php_memc_store_impl_def Let_def split: sum.splits if_splits bind_splits)

lemma setMulti_type [result_types]: "php_memc_setMulti_impl E i sk es e = Some (r, j) \<Longrightarrow> has_return_type r RT_BOOL"
  by (auto simp: php_memc_setMulti_impl_def split: bind_splits)

lemma cas_type [result_types]: "php_memc_cas_impl E i c sk key v e = Some (r, j) \<Longrightarrow> has_return_type r RT_BOOL"
  by (auto simp: php_memc_cas_impl_def Let_def split: sum.splits bind_splits option.splits if_splits prod.splits)

lemma delete_type [result_types]: "php_memc_delete_impl E i sk key e = (r, j) \<Longrightarrow> has_return_type r RT_BOOL"
  by (auto simp: php_memc_delete_impl_def Let_def split: sum.splits prod.splits if_splits)

lemma deleteMulti_type [result_types]: "php_memc_deleteMulti_impl E i sk es e = (r, j) \<Longrightarrow> has_return_type r RT_ARRAY"
  by (auto simp: php_memc_deleteMulti_impl_def split: prod.splits)

lemma incdec_type [result_types]: "php_memc_incdec_impl E i incr sk key n given v e = (r, j) \<Longrightarrow> has_return_type r RT_LONG_OR_FALSE"
  by (auto simp: php_memc_incdec_impl_def Let_def split: sum.splits prod.splits option.splits if_splits)

lemma getMulti_type [result_types]: "php_memc_getMulti_impl E i sk keys fl = Some (r, j) \<Longrightarrow> has_return_type r RT_ARRAY_OR_FALSE"
  by (auto simp: php_memc_getMulti_impl_def Let_def split: if_splits bind_splits prod.splits)

lemma getDelayed_type [result_types]: "php_memc_getDelayed_impl E i sk keys c cb = Some (r, j) \<Longrightarrow> has_return_type r RT_BOOL"
  by (auto simp: php_memc_getDelayed_impl_def Let_def split: bind_splits prod.splits if_splits)

lemma fetch_type [result_types]:
  "memc_fetch E i = Some (r, j) \<Longrightarrow> has_return_type r RT_ARRAY_OR_FALSE"
  "memc_fetchAll E i = Some (r, j) \<Longrightarrow> has_return_type r RT_ARRAY_OR_FALSE"
  by (auto simp: memc_fetch_def memc_fetchAll_def Let_def split: bind_splits prod.splits)

lemmas read_defs = memc_get_def memc_getByKey_def memc_getMulti_def memc_getMultiByKey_def
  memc_getDelayed_def memc_getDelayedByKey_def

lemmas write_defs = memc_set_def memc_setByKey_def memc_touch_def memc_touchByKey_def memc_setMulti_def
  memc_setMultiByKey_def memc_add_def memc_addByKey_def memc_append_def memc_appendByKey_def memc_prepend_def
  memc_prependByKey_def memc_replace_def memc_replaceByKey_def memc_cas_def memc_casByKey_def memc_delete_def
  memc_deleteByKey_def memc_deleteMulti_def memc_deleteMultiByKey_def memc_increment_def memc_decrement_def
  memc_incrementByKey_def memc_decrementByKey_def

lemma read_call_type [result_types]: "read_call E c i = Some (r, j) \<Longrightarrow> has_return_type r (declared_read c)"
  by (cases c) (auto simp: read_defs split: option.splits simp del: has_return_type.simps(2-)
      dest: result_types)

lemma write_call_type [result_types]: "write_call E c i = Some (r, j) \<Longrightarrow> has_return_type r (declared_write c)"
  by (cases c) (auto simp: write_defs split: option.splits simp del: has_return_type.simps
      dest!: result_types)

lemma server_call_type [result_types]: "server_call E LS c i = (r, j) \<Longrightarrow> has_return_type r (declared_server c)"
  by (cases c)
    (auto simp: memc_addServer_def memc_addServers_def memc_getServerList_def memc_getServerByKey_def
      memc_resetServerList_def memc_quit_def memc_flushBuffers_def memc_getLastErrorMessage_def
      memc_getLastErrorCode_def memc_getLastErrorErrno_def memc_getLastDisconnectedServer_def memc_getStats_def
      memc_getVersion_def memc_getAllKeys_def memc_flush_def Let_def split: prod.splits option.splits if_splits)

lemma setBucket_type [result_types]: "memc_setBucket E LO i hosts fwd replicas = (r, j) \<Longrightarrow> has_return_type r RT_BOOL"
  by (auto simp: memc_setBucket_def Let_def split: prod.splits option.splits if_splits)

lemma option_call_type [result_types]: "option_call E LO c i = Some (r, j) \<Longrightarrow> has_return_type r (declared_option c)"
  by (cases c)
    (auto simp: memc_getResultCode_def memc_getResultMessage_def memc_setOption_def memc_setOptions_def
      memc_setSaslAuthData_def memc_setEncodingKey_def memc_isPersistent_def memc_isPristine_def Let_def
      dest: result_types split: prod.splits option.splits if_splits bind_splits)

text \<open>Methods return what they declare. Whatever method is called with whatever arguments on whatever
  object, whatever the library, the servers and the callbacks do, the value that comes back has the
  return type of the method's argument table.\<close>

theorem results_have_declared_type:
  assumes "memc_calls E LO LS calls i = Some (vs, j)"
  shows "list_all2 (\<lambda>call v. has_return_type v (declared call)) calls vs"
  using assms
proof (induction calls arbitrary: i vs)
  case Nil
  then show ?case by simp
next
  case (Cons call calls)
  then obtain v k vs' where first: "memc_call E LO LS call i = Some (v, k)"
    and rest: "memc_calls E LO LS calls k = Some (vs', j)" and vs: "vs = v # vs'"
    by (auto split: bind_splits)
  have "has_return_type v (declared call)"
    using first by (cases call) (auto dest: result_types)
  then show ?case using Cons.IH [OF rest] vs by simp
qed

section \<open>The user data stays well formed\<close>

text \<open>What every method guarantees of the configuration of its object.\<close>

definition keeps_config :: "config \<Rightarrow> 'm php_memc_object \<Rightarrow> 'm php_memc_object \<Rightarrow> bool" where
  "keeps_config C i j \<longleftrightarrow>
     is_persistent (user_data j) = is_persistent (user_data i) \<and>
     (user_data_ok C (user_data i) \<longrightarrow> user_data_ok C (user_data j))"

lemma keeps_refl [simp]: "keeps_config C i i"
  by (simp add: keeps_config_def)

lemma keeps_trans [trans]: "keeps_config C i j \<Longrightarrow> keeps_config C j k \<Longrightarrow> keeps_config C i k"
  by (simp add: keeps_config_def)

lemma keeps_same: "user_data j = user_data i \<Longrightarrow> keeps_config C i j"
  by (simp add: keeps_config_def)

lemma keeps_update [simp]:
  "keeps_config C i (j\<lparr>memc := m\<rparr>) \<longleftrightarrow> keeps_config C i j"
  "keeps_config C i (j\<lparr>rescode := rc\<rparr>) \<longleftrightarrow> keeps_config C i j"
  "keeps_config C (i\<lparr>memc := m\<rparr>) j \<longleftrightarrow> keeps_config C i j"
  "keeps_config C i (s_memc_set_status j st e) \<longleftrightarrow> keeps_config C i j"
  "keeps_config C (s_memc_set_status i st e) j \<longleftrightarrow> keeps_config C i j"
  by (simp_all add: keeps_config_def)

lemma handle_keeps:
  "s_memc_status_handle_result_code L i st = (ok, j) \<Longrightarrow> user_data j = user_data i"
  using handle_result_code_fields by (metis snd_conv)

lemma object_op_keeps: "object_op C f \<Longrightarrow> keeps_config C i (f i)"
  by (simp add: object_op_def keeps_config_def)

text \<open>The contract of a PHP function that is handed the object.\<close>

definition callback_keeps :: "config \<Rightarrow> ('m php_memc_object \<Rightarrow> 'a \<Rightarrow> 'b \<times> 'm php_memc_object) \<Rightarrow> bool" where
  "callback_keeps C cb \<longleftrightarrow> (\<forall>i a. keeps_config C i (snd (cb i a)))"

lemma result_to_zval_keeps:
  "s_memcached_result_to_zval E i r = Some (v, j) \<Longrightarrow> user_data j = user_data i"
  by (auto simp: s_memcached_result_to_zval_def data_to_zval_def s_unserialize_value_def Let_def
      split: bind_splits if_splits option.splits prod.splits list.splits)

text \<open>Fetching results with a function that keeps the configuration.\<close>

locale config_apply =
  fixes C :: config and f :: "('m, 'd, 'c) apply_fn"
  assumes apply_keeps: "f i key v c fl x = (ret, j, y) \<Longrightarrow> keeps_config C i j"
begin

lemma step_keeps:
  assumes "result_apply_step E f delay st i x = Some (again, st', j, y)"
  shows "keeps_config C i j"
  using assms
  by (auto simp: result_apply_step_def Let_def split: prod.splits option.splits bind_splits if_splits
      dest!: result_to_zval_keeps apply_keeps keeps_same [where C = C] intro: keeps_trans)

lemma loop_keeps:
  assumes "result_apply_loop E f delay st i x = Some (st', j, y)"
  shows "keeps_config C i j"
proof -
  let ?P = "\<lambda>E g delay st i x r. g = f \<longrightarrow> keeps_config C i (fst (snd r))"
  have "?P E f delay st i x (st', j, y)"
  proof (rule result_apply_loop.raw_induct [where P = ?P, OF _ assms], rule impI)
    fix loop :: "('m, 'd) env \<Rightarrow> ('m, 'd, 'c) apply_fn \<Rightarrow> bool \<Rightarrow> memcached_return \<Rightarrow> 'm php_memc_object \<Rightarrow> 'c \<Rightarrow>
        (memcached_return \<times> 'm php_memc_object \<times> 'c) option"
      and E :: "('m, 'd) env" and g :: "('m, 'd, 'c) apply_fn" and delay st i x r
    assume IH: "\<And>E g delay st i x r. loop E g delay st i x = Some r \<Longrightarrow> ?P E g delay st i x r"
      and body: "do {
        (again, st, i, x) \<leftarrow> result_apply_step E g delay st i x;
        if again then loop E g delay st i x else Some (st, i, x)
      } = Some r" and g: "g = f"
    then obtain again st1 i1 x1 where step: "result_apply_step E f delay st i x = Some (again, st1, i1, x1)"
      and rest: "(if again then loop E f delay st1 i1 x1 else Some (st1, i1, x1)) = Some r"
      by (auto split: bind_splits)
    have "keeps_config C i1 (fst (snd r))"
      using rest IH [of E f delay st1 i1 x1 r] by (auto split: if_splits)
    with step_keeps [OF step] show "keeps_config C i (fst (snd r))" by (rule keeps_trans)
  qed
  then show ?thesis by simp
qed

lemma mget_keeps:
  assumes "php_memc_mget_apply E i sk keys (Some f) with_cas x = Some (ok, j, y)"
  shows "keeps_config C i j"
  using assms
  by (auto simp: php_memc_mget_apply_def php_memc_result_apply_def Let_def split: if_splits prod.splits bind_splits
      dest!: loop_keeps handle_keeps keeps_same [where C = C]) (meson keeps_trans)+

end

interpretation get_apply: config_apply C "s_get_apply_fn extended"
  by unfold_locales (auto simp: s_get_apply_fn_def)

interpretation get_multi_apply: config_apply C "s_get_multi_apply_fn Z extended"
  by unfold_locales (auto simp: s_get_multi_apply_fn_def)

interpretation fetch_apply: config_apply C s_fetch_apply
  by unfold_locales (auto simp: s_fetch_apply_def)

interpretation fetch_all_apply: config_apply C s_fetch_all_apply
  by unfold_locales (auto simp: s_fetch_all_apply_def)

lemma callback_config_apply: "callback_keeps C cb \<Longrightarrow> config_apply C (s_result_callback_apply cb)"
  by unfold_locales (auto simp: s_result_callback_apply_def callback_keeps_def split: prod.splits, metis snd_conv)

text \<open>Writing changes the status, the client and the pending exception only.\<close>

lemma write_keeps [config_keeps]: "s_memc_write_zval E i op sk key v e = Some (ok, j) \<Longrightarrow> keeps_config C i j"
  by (auto dest!: s_memc_write_zval_frame intro: keeps_same)

lemma check_key_keeps [config_keeps]: "MEMC_CHECK_KEY L i key = Inl j \<Longrightarrow> keeps_config C i j"
  by (auto simp: MEMC_CHECK_KEY_def split: if_splits)

lemma cache_callback_keeps:
  assumes "s_invoke_cache_callback E i cb with_cas key v = Some (ok, r, j)" "\<And>i key v. keeps_config C i (snd (cb i key v))"
  shows "keeps_config C i j"
proof -
  obtain r' k where cb: "cb i key v = (r', k)" by fastforce
  with assms(2) [of i key v] have k: "keeps_config C i k" by simp
  have "keeps_config C k j"
    using assms(1)
    by (auto simp: s_invoke_cache_callback_def cb split: option.splits prod.splits if_splits zval.splits bind_splits
        intro: write_keeps)
  with k show ?thesis by (rule keeps_trans)
qed

lemma get_keeps:
  assumes "php_memc_get_impl E i sk key cb fl = Some (v, j)"
    "\<And>c i key v. cb = Some c \<Longrightarrow> keeps_config C i (snd (c i key v))"
  shows "keeps_config C i j"
  using assms
  by (auto simp: php_memc_get_impl_def Let_def split: sum.splits bind_splits option.splits if_splits prod.splits
      dest!: check_key_keeps get_apply.mget_keeps [where C = C] cache_callback_keeps [where C = C])
    (meson keeps_trans)+

lemma getMulti_keeps [config_keeps]: "php_memc_getMulti_impl E i sk keys fl = Some (v, j) \<Longrightarrow> keeps_config C i j"
  by (auto simp: php_memc_getMulti_impl_def Let_def split: bind_splits if_splits prod.splits
      dest!: get_multi_apply.mget_keeps [where C = C])

lemma mget_without_fn_keeps:
  "php_memc_mget_apply E i sk keys None with_cas x = Some (ok, j, y) \<Longrightarrow> keeps_config C i j"
  by (auto simp: php_memc_mget_apply_def Let_def split: if_splits prod.splits
      dest!: handle_keeps intro: keeps_same)

lemma getDelayed_keeps:
  assumes "php_memc_getDelayed_impl E i sk keys with_cas cb = Some (v, j)"
    "\<And>c. cb = Some c \<Longrightarrow> callback_keeps C c"
  shows "keeps_config C i j"
proof (cases cb)
  case None
  with assms(1) show ?thesis
    by (auto simp: php_memc_getDelayed_impl_def Let_def split: bind_splits dest!: mget_without_fn_keeps [where C = C])
next
  case (Some c)
  with assms(2) have "config_apply C (s_result_callback_apply c)" by (simp add: callback_config_apply)
  with assms(1) Some show ?thesis
    by (auto simp: php_memc_getDelayed_impl_def Let_def split: bind_splits dest!: config_apply.mget_keeps)
qed

lemma fetch_keeps [config_keeps]:
  "memc_fetch E i = Some (v, j) \<Longrightarrow> keeps_config C i j"
  "memc_fetchAll E i = Some (v, j) \<Longrightarrow> keeps_config C i j"
  by (auto simp: memc_fetch_def memc_fetchAll_def php_memc_result_apply_def Let_def split: bind_splits prod.splits
      dest!: fetch_apply.loop_keeps [where C = C] fetch_all_apply.loop_keeps [where C = C] handle_keeps
        keeps_same [where C = C] intro: keeps_trans)

text \<open>A call whose callbacks keep the configuration.\<close>

fun callbacks_keep :: "config \<Rightarrow> ('m, 'd) memc_method \<Rightarrow> bool" where
  "callbacks_keep C (Read_method (M_get _ _ (Some cb) _)) \<longleftrightarrow> (\<forall>i key v. keeps_config C i (snd (cb i key v)))"
| "callbacks_keep C (Read_method (M_getDelayed _ _ _ (Some cb))) \<longleftrightarrow> callback_keeps C cb"
| "callbacks_keep C _ \<longleftrightarrow> True"

lemma read_keeps [config_keeps]:
  assumes "read_call E c i = Some (v, j)" "callbacks_keep C (Read_method c)"
  shows "keeps_config C i j"
proof (cases c)
  case (M_get sk key cb fl)
  with assms have "php_memc_get_impl E i sk key cb fl = Some (v, j)"
    by (auto simp: read_defs split: option.splits)
  then show ?thesis by (rule get_keeps) (use assms(2) M_get in auto)
next
  case (M_getDelayed sk keys with_cas cb)
  with assms have "php_memc_getDelayed_impl E i sk keys with_cas cb = Some (v, j)"
    by (auto simp: read_defs split: option.splits)
  then show ?thesis by (rule getDelayed_keeps) (use assms(2) M_getDelayed in auto)
qed (use assms(1) in \<open>auto simp: read_defs split: option.splits intro: config_keeps\<close>)

lemma store_keeps [config_keeps]: "php_memc_store_impl E i op sk key v e = Some (r, j) \<Longrightarrow> keeps_config C i j"
  by (auto simp: php_memc_store_impl_def Let_def split: sum.splits if_splits bind_splits
      dest!: check_key_keeps [where C = C] write_keeps [where C = C])

lemma setMulti_loop_keeps: "setMulti_loop E sk e es i = Some j \<Longrightarrow> keeps_config C i j"
  by (induction E sk e es i rule: setMulti_loop.induct)
    (auto split: bind_splits dest!: write_keeps [where C = C] intro: keeps_trans)

lemma setMulti_keeps [config_keeps]: "php_memc_setMulti_impl E i sk es e = Some (r, j) \<Longrightarrow> keeps_config C i j"
  by (auto simp: php_memc_setMulti_impl_def split: bind_splits dest!: setMulti_loop_keeps [where C = C])

lemma to_payload_keeps: "s_zval_to_payload E i v fl = Some (p, fl', j) \<Longrightarrow> keeps_config C i j"
  by (auto dest!: s_zval_to_payload_frame same_but_exceptionD intro: keeps_same)

lemma handle_keeps_config: "s_memc_status_handle_result_code L i st = (ok, j) \<Longrightarrow> keeps_config C i j"
  by (auto dest: handle_keeps intro: keeps_same)

lemma cas_keeps [config_keeps]: "php_memc_cas_impl E i c sk key v e = Some (r, j) \<Longrightarrow> keeps_config C i j"
  by (auto simp: php_memc_cas_impl_def Let_def split: sum.splits if_splits bind_splits option.splits prod.splits
      dest!: check_key_keeps [where C = C] to_payload_keeps [where C = C] handle_keeps_config [where C = C]
      intro: keeps_trans)

lemma delete_keeps [config_keeps]: "php_memc_delete_impl E i sk key e = (r, j) \<Longrightarrow> keeps_config C i j"
  by (auto simp: php_memc_delete_impl_def Let_def split: sum.splits prod.splits
      dest!: check_key_keeps [where C = C] handle_keeps_config [where C = C])

lemma deleteMulti_loop_keeps: "deleteMulti_loop E sk e zvs i ret = (r, j) \<Longrightarrow> keeps_config C i j"
proof (induction zvs arbitrary: i ret)
  case Nil
  then show ?case by simp
next
  case (Cons zv zvs)
  show ?case
  proof (cases "zval_get_string (zend E) zv = []")
    case True
    with Cons show ?thesis by simp
  next
    case False
    with Cons.prems obtain k ret' where "keeps_config C i k" "deleteMulti_loop E sk e zvs k ret' = (r, j)"
      by (auto simp: Let_def split: if_splits prod.splits dest!: handle_keeps_config [where C = C])
    with Cons.IH show ?thesis by (blast intro: keeps_trans)
  qed
qed

lemma deleteMulti_keeps [config_keeps]: "php_memc_deleteMulti_impl E i sk es e = (r, j) \<Longrightarrow> keeps_config C i j"
  by (auto simp: php_memc_deleteMulti_impl_def split: prod.splits dest!: deleteMulti_loop_keeps [where C = C])

lemma incdec_keeps [config_keeps]: "php_memc_incdec_impl E i incr sk key n given v e = (r, j) \<Longrightarrow> keeps_config C i j"
  by (auto simp: php_memc_incdec_impl_def Let_def split: sum.splits prod.splits option.splits if_splits
      dest!: check_key_keeps [where C = C] handle_keeps_config [where C = C])

lemma write_call_keeps [config_keeps]: "write_call E c i = Some (r, j) \<Longrightarrow> keeps_config C i j"
  by (cases c) (auto simp: write_defs split: option.splits
      intro: config_keeps)

lemma addServers_entry_keeps: "addServers_entry E LS x st = (l, j) \<Longrightarrow> keeps_config C (snd st) j"
  by (auto simp: addServers_entry_def Let_def split: prod.splits zval.splits list.splits
      intro!: keeps_same)

lemma addServers_fold_keeps: "fold (addServers_entry E LS) xs st = (l, j) \<Longrightarrow> keeps_config C (snd st) j"
proof (induction xs arbitrary: st)
  case Nil
  then show ?case by simp
next
  case (Cons x xs)
  obtain l1 i1 where "addServers_entry E LS x st = (l1, i1)" by fastforce
  with addServers_entry_keeps [OF this, of C] Cons.IH [of "(l1, i1)"] Cons.prems show ?case
    by (auto intro: keeps_trans)
qed

lemma server_call_keeps [config_keeps]: "server_call E LS c i = (r, j) \<Longrightarrow> keeps_config C i j"
  by (cases c)
    (auto simp: memc_addServer_def memc_addServers_def memc_getServerByKey_def memc_resetServerList_def memc_quit_def
      memc_flushBuffers_def memc_getStats_def memc_getVersion_def memc_getAllKeys_def memc_flush_def Let_def
      split: prod.splits option.splits if_splits
      dest!: addServers_fold_keeps [where C = C] handle_keeps_config [where C = C]
      intro: keeps_trans keeps_same)

lemma setSasl_keeps [config_keeps]: "memc_setSaslAuthData E LO inited ok i u p = Some (r, j) \<Longrightarrow> keeps_config C i j"
  by (auto simp: memc_setSaslAuthData_def Let_def keeps_config_def user_data_ok_def split: bind_splits if_splits prod.splits
      dest!: handle_keeps)

lemma checkKey_keeps [config_keeps]: "checkKey L i key = (ok, j) \<Longrightarrow> keeps_config C i j"
  by (auto simp: checkKey_def Let_def split: sum.splits dest!: check_key_keeps [where C = C])

lemma option_call_keeps [config_keeps]:
  assumes "option_call E LO c i = Some (r, j)"
  shows "keeps_config (cfg E) i j"
proof (cases c)
  case (M_setOption opt v)
  with assms have "j = snd (php_memc_set_option E LO i opt v)"
    by (auto simp: memc_setOption_def split: prod.splits)
  then show ?thesis using object_op_keeps [OF set_option.object_op_axioms] by simp
next
  case (M_setOptions opts)
  with assms have "j = snd (memc_setOptions E LO i opts)" by simp
  then show ?thesis using object_op_keeps [OF set_options.object_op_axioms] by simp
next
  case (M_setBucket hosts fwd replicas)
  with assms have "j = snd (memc_setBucket E LO i hosts fwd replicas)" by simp
  then show ?thesis using object_op_keeps [OF set_bucket.object_op_axioms] by simp
next
  case (M_setEncodingKey old key)
  with assms have "j = snd (memc_setEncodingKey E LO old i key)" by simp
  then show ?thesis using object_op_keeps [OF set_encoding_key.object_op_axioms] by simp
qed (use assms in \<open>auto intro: config_keeps split: prod.splits\<close>)

lemma memc_call_keeps:
  assumes "memc_call E LO LS call i = Some (v, j)" "callbacks_keep (cfg E) call"
  shows "keeps_config (cfg E) i j"
  using assms
  by (cases call) (auto intro: config_keeps)

lemma memc_calls_keep:
  assumes "memc_calls E LO LS calls i = Some (vs, j)" "list_all (callbacks_keep (cfg E)) calls"
  shows "keeps_config (cfg E) i j"
  using assms
proof (induction calls arbitrary: i vs)
  case Nil
  then show ?case by simp
next
  case (Cons call calls)
  from Cons.prems obtain v k ws where "memc_call E LO LS call i = Some (v, k)" "memc_calls E LO LS calls k = Some (ws, j)"
    by (auto split: bind_splits)
  with Cons show ?case by (auto intro: keeps_trans memc_call_keeps)
qed

section \<open>From the settings to the object\<close>

text \<open>Settings of the ini table, applied one after the other; a refused one changes nothing.\<close>

fun ini_updates :: "ini_parse \<Rightarrow> config \<Rightarrow> (string \<times> string) list \<Rightarrow> memc_globals \<Rightarrow> memc_globals" where
  "ini_updates P C [] g = g"
| "ini_updates P C ((name, v) # us) g =
     ini_updates P C us (case memc_ini_update P C name v g of None \<Rightarrow> g | Some (ok, g') \<Rightarrow> g')"

lemma ini_updates_ok: "globals_ok C g \<Longrightarrow> globals_ok C (ini_updates P C us g)"
  by (induction P C us g rule: ini_updates.induct) (simp, force split: option.splits intro: memc_ini_update_ok)

lemma new_user_data_ok: "globals_ok C G \<Longrightarrow> user_data_ok C (new_user_data G persistent)"
  by (simp add: globals_ok_def user_data_ok_def new_user_data_def)

text \<open>C7: The user data of every object is well formed, always. Whatever settings are in force when an
  object is constructed, and whatever methods are called on it afterwards, with whatever arguments,
  its compression type and serializer are ones the build has, its user flags fit their field or are
  off, its item size limit is no negative number, and whether it is persistent never changes; its
  callbacks are assumed to keep this too, which they do if they only call methods.\<close>

theorem user_data_always_ok:
  assumes calls: "memc_calls E LO LS calls i = Some (vs, j)" "list_all (callbacks_keep (cfg E)) calls"
    and new: "user_data i = new_user_data (ini_updates P (cfg E) settings (ginit_memc (cfg E))) persistent"
  shows "user_data_ok (cfg E) (user_data j) \<and> is_persistent (user_data j) = persistent"
proof -
  have "user_data_ok (cfg E) (user_data i)"
    unfolding new by (intro new_user_data_ok ini_updates_ok ginit_ok)
  moreover have "is_persistent (user_data i) = persistent" by (simp add: new new_user_data_def)
  ultimately show ?thesis using memc_calls_keep [OF calls] by (simp add: keeps_config_def)
qed

section \<open>Witnesses\<close>

definition sample_calls :: "(sample_client, bool \<times> rat) memc_method list" where
  "sample_calls =
     [Option_method (M_setOption MEMC_OPT_COMPRESSION_TYPE (IS_LONG 1)),
      Option_method (M_setOption MEMC_OPT_USER_FLAGS (IS_LONG 65536)),
      Option_method (M_checkKey []), Server_method M_getLastErrorErrno, Option_method M_isPersistent]"

definition sample_ini :: ini_parse where
  "sample_ini = \<lparr>ip_long = (\<lambda>_. 0), ip_bool = (\<lambda>_. False), ip_real = (\<lambda>_. 0)\<rparr>"

definition sample_start :: "sample_client php_memc_object" where
  "sample_start = sample_object\<lparr>user_data := new_user_data
     (ini_updates sample_ini (cfg sample_env) [(''memcached.serializer'', ''json'')] (ginit_memc (cfg sample_env))) True\<rparr>"

lemma sample_calls_run:
  "\<exists>j. memc_calls sample_env sample_options sample_servers sample_calls sample_start =
     Some ([IS_TRUE, IS_FALSE, IS_FALSE, IS_LONG 0, IS_TRUE], j)"
proof -
  have "MEMC_OPT_USER_FLAGS \<noteq> MEMC_OPT_COMPRESSION_TYPE" by simp
  then show ?thesis
    by (simp add: sample_calls_def sample_start_def memc_setOption_def php_memc_set_option_def zval_get_long_def
        valid_compression_type_def Let_def checkKey_def MEMC_CHECK_KEY_def key_rejected_def memc_isPersistent_def
        memc_getLastErrorErrno_def new_user_data_def behavior_option_def sample_options_def sample_lib_def)
qed

theorem user_data_always_ok_witness:
  "\<exists>j. memc_calls sample_env sample_options sample_servers sample_calls sample_start =
       Some ([IS_TRUE, IS_FALSE, IS_FALSE, IS_LONG 0, IS_TRUE], j) \<and>
     user_data_ok (cfg sample_env) (user_data j) \<and> is_persistent (user_data j)"
proof -
  obtain j where run: "memc_calls sample_env sample_options sample_servers sample_calls sample_start =
      Some ([IS_TRUE, IS_FALSE, IS_FALSE, IS_LONG 0, IS_TRUE], j)"
    using sample_calls_run by blast
  have "list_all (callbacks_keep (cfg sample_env)) sample_calls" by (simp add: sample_calls_def)
  from user_data_always_ok [OF run this, where P = sample_ini and persistent = True and settings = "[(''memcached.serializer'', ''json'')]"]
  show ?thesis using run by (auto simp: sample_start_def)
qed

theorem results_have_declared_type_witness:
  "list_all2 (\<lambda>call v. has_return_type v (declared call)) sample_calls
     [IS_TRUE :: (bool \<times> rat) zval, IS_FALSE, IS_FALSE, IS_LONG 0, IS_TRUE]"
proof -
  obtain j where "memc_calls sample_env sample_options sample_servers sample_calls sample_start =
      Some ([IS_TRUE, IS_FALSE, IS_FALSE, IS_LONG 0, IS_TRUE], j)"
    using sample_calls_run by blast
  then show ?thesis by (rule results_have_declared_type)
qed

end
