(* ===== verification/Arginfo.thy ===== *)
theory Arginfo
  imports Methods "HOL-Library.Sublist"
begin

text \<open>
  What the classes tell PHP about their methods: the tables of \<open>php_memcached_arginfo.h\<close> (PHP 8) and
  \<open>php_memcached_legacy_arginfo.h\<close> (PHP 7), with the parameters' names, types and defaults, and the
  parameter parsers of the methods. Shown: the two headers declare the same parameters, the
  parsers accept what the headers declare, but for two parameters, and methods return what the
  headers declare.
\<close>

section \<open>Tables\<close>

text \<open>
  The configuration of a build, as far as the tables and the constants depend on it. A
  parameter has a name, a type, whether null is allowed, and a default. A \<open>DEFINE\<close> is a macro
  that names the table of another method. No parameter is by reference.
\<close>

record build = config +
  HAVE_MEMCACHED_SASL :: bool
  HAVE_MEMCACHED_SET_ENCODING_KEY :: bool
  HAVE_MEMCACHED_PROTOCOL :: bool
  HAVE_MEMCACHED_SESSION :: bool
  LIBMEMCACHED_VERSION_HEX :: zend_long

datatype arg_type =
  T_STRING | T_LONG | T_DOUBLE | T_BOOL | T_ARRAY | T_CALLABLE | T_MIXED | T_MASK "arg_type list"

datatype arg_decl = ARG (arg_name: string) (arg_type: arg_type) (arg_nullable: bool) (arg_default: "string option")

datatype ('h, 'a) arginfo = ARG_INFO 'h "'a list" | DEFINE string

type_synonym ('h, 'a) arginfo_table = "(string \<times> ('h, 'a) arginfo) list"

definition resolve :: "('h, 'a) arginfo_table \<Rightarrow> ('h, 'a) arginfo \<Rightarrow> ('h \<times> 'a list) option" where
  "resolve tab e =
     (case e of
        ARG_INFO h args \<Rightarrow> Some (h, args)
      | DEFINE name \<Rightarrow> (case map_of tab name of Some (ARG_INFO h args) \<Rightarrow> Some (h, args) | _ \<Rightarrow> None))"

definition signature :: "('h, 'a) arginfo_table \<Rightarrow> string \<Rightarrow> ('h \<times> 'a list) option" where
  "signature tab name = (case map_of tab name of None \<Rightarrow> None | Some e \<Rightarrow> resolve tab e)"

subsection \<open>PHP 8\<close>

text \<open>The return type (none for the constructor), the number of required parameters, the parameters.\<close>

definition arginfo_read :: "(return_type option \<times> nat, arg_decl) arginfo_table" where
  "arginfo_read =
     [(''__construct'', ARG_INFO (None, 0) [ARG ''persistent_id'' T_STRING True (Some ''null''),
       ARG ''callback'' T_CALLABLE True (Some ''null''),
       ARG ''connection_str'' T_STRING True (Some ''null'')]),
      (''getResultCode'', ARG_INFO ((Some RT_LONG), 0) []),
      (''getResultMessage'', ARG_INFO ((Some RT_STRING), 0) []),
      (''get'', ARG_INFO ((Some RT_MIXED), 1) [ARG ''key'' T_STRING False None,
       ARG ''cache_cb'' T_CALLABLE True (Some ''null''),
       ARG ''get_flags'' T_LONG False (Some ''0'')]),
      (''getByKey'', ARG_INFO ((Some RT_MIXED), 2) [ARG ''server_key'' T_STRING False None,
       ARG ''key'' T_STRING False None,
       ARG ''cache_cb'' T_CALLABLE True (Some ''null''),
       ARG ''get_flags'' T_LONG False (Some ''0'')]),
      (''getMulti'', ARG_INFO ((Some RT_ARRAY_OR_FALSE), 1) [ARG ''keys'' T_ARRAY False None,
       ARG ''get_flags'' T_LONG False (Some ''0'')]),
      (''getMultiByKey'', ARG_INFO ((Some RT_ARRAY_OR_FALSE), 2) [ARG ''server_key'' T_STRING False None,
       ARG ''keys'' T_ARRAY False None,
       ARG ''get_flags'' T_LONG False (Some ''0'')]),
      (''getDelayed'', ARG_INFO ((Some RT_BOOL), 1) [ARG ''keys'' T_ARRAY False None,
       ARG ''with_cas'' T_BOOL False (Some ''false''),
       ARG ''value_cb'' T_CALLABLE True (Some ''null'')]),
      (''getDelayedByKey'', ARG_INFO ((Some RT_BOOL), 2) [ARG ''server_key'' T_STRING False None,
       ARG ''keys'' T_ARRAY False None,
       ARG ''with_cas'' T_BOOL False (Some ''false''),
       ARG ''value_cb'' T_CALLABLE True (Some ''null'')]),
      (''fetch'', ARG_INFO ((Some RT_ARRAY_OR_FALSE), 0) []),
      (''fetchAll'', DEFINE ''fetch'')]"

definition arginfo_store :: "(return_type option \<times> nat, arg_decl) arginfo_table" where
  "arginfo_store =
     [(''set'', ARG_INFO ((Some RT_BOOL), 2) [ARG ''key'' T_STRING False None,
       ARG ''value'' T_MIXED False None,
       ARG ''expiration'' T_LONG False (Some ''0'')]),
      (''setByKey'', ARG_INFO ((Some RT_BOOL), 3) [ARG ''server_key'' T_STRING False None,
       ARG ''key'' T_STRING False None,
       ARG ''value'' T_MIXED False None,
       ARG ''expiration'' T_LONG False (Some ''0'')]),
      (''touch'', ARG_INFO ((Some RT_BOOL), 1) [ARG ''key'' T_STRING False None,
       ARG ''expiration'' T_LONG False (Some ''0'')]),
      (''touchByKey'', ARG_INFO ((Some RT_BOOL), 2) [ARG ''server_key'' T_STRING False None,
       ARG ''key'' T_STRING False None,
       ARG ''expiration'' T_LONG False (Some ''0'')]),
      (''setMulti'', ARG_INFO ((Some RT_BOOL), 1) [ARG ''items'' T_ARRAY False None,
       ARG ''expiration'' T_LONG False (Some ''0'')]),
      (''setMultiByKey'', ARG_INFO ((Some RT_BOOL), 2) [ARG ''server_key'' T_STRING False None,
       ARG ''items'' T_ARRAY False None,
       ARG ''expiration'' T_LONG False (Some ''0'')]),
      (''cas'', ARG_INFO ((Some RT_BOOL), 3) [ARG ''cas_token'' (T_MASK [T_STRING, T_LONG, T_DOUBLE]) False None,
       ARG ''key'' T_STRING False None,
       ARG ''value'' T_MIXED False None,
       ARG ''expiration'' T_LONG False (Some ''0'')]),
      (''casByKey'', ARG_INFO ((Some RT_BOOL), 4) [ARG ''cas_token'' (T_MASK [T_STRING, T_LONG, T_DOUBLE]) False None,
       ARG ''server_key'' T_STRING False None,
       ARG ''key'' T_STRING False None,
       ARG ''value'' T_MIXED False None,
       ARG ''expiration'' T_LONG False (Some ''0'')]),
      (''add'', DEFINE ''set''),
      (''addByKey'', DEFINE ''setByKey''),
      (''append'', ARG_INFO ((Some RT_BOOL_OR_NULL), 2) [ARG ''key'' T_STRING False None,
       ARG ''value'' T_STRING False None]),
      (''appendByKey'', ARG_INFO ((Some RT_BOOL_OR_NULL), 3) [ARG ''server_key'' T_STRING False None,
       ARG ''key'' T_STRING False None,
       ARG ''value'' T_STRING False None]),
      (''prepend'', DEFINE ''append''),
      (''prependByKey'', DEFINE ''appendByKey''),
      (''replace'', DEFINE ''set''),
      (''replaceByKey'', DEFINE ''setByKey'')]"

definition arginfo_update :: "(return_type option \<times> nat, arg_decl) arginfo_table" where
  "arginfo_update =
     [(''delete'', ARG_INFO ((Some RT_BOOL), 1) [ARG ''key'' T_STRING False None,
       ARG ''time'' T_LONG False (Some ''0'')]),
      (''deleteMulti'', ARG_INFO ((Some RT_ARRAY), 1) [ARG ''keys'' T_ARRAY False None,
       ARG ''time'' T_LONG False (Some ''0'')]),
      (''deleteByKey'', ARG_INFO ((Some RT_BOOL), 2) [ARG ''server_key'' T_STRING False None,
       ARG ''key'' T_STRING False None,
       ARG ''time'' T_LONG False (Some ''0'')]),
      (''deleteMultiByKey'', ARG_INFO ((Some RT_ARRAY), 2) [ARG ''server_key'' T_STRING False None,
       ARG ''keys'' T_ARRAY False None,
       ARG ''time'' T_LONG False (Some ''0'')]),
      (''increment'', ARG_INFO ((Some RT_LONG_OR_FALSE), 1) [ARG ''key'' T_STRING False None,
       ARG ''offset'' T_LONG False (Some ''1''),
       ARG ''initial_value'' T_LONG False (Some ''0''),
       ARG ''expiry'' T_LONG False (Some ''0'')]),
      (''decrement'', DEFINE ''increment''),
      (''incrementByKey'', ARG_INFO ((Some RT_LONG_OR_FALSE), 2) [ARG ''server_key'' T_STRING False None,
       ARG ''key'' T_STRING False None,
       ARG ''offset'' T_LONG False (Some ''1''),
       ARG ''initial_value'' T_LONG False (Some ''0''),
       ARG ''expiry'' T_LONG False (Some ''0'')]),
      (''decrementByKey'', DEFINE ''incrementByKey'')]"

definition arginfo_server :: "(return_type option \<times> nat, arg_decl) arginfo_table" where
  "arginfo_server =
     [(''addServer'', ARG_INFO ((Some RT_BOOL), 2) [ARG ''host'' T_STRING False None,
       ARG ''port'' T_LONG False None,
       ARG ''weight'' T_LONG False (Some ''0'')]),
      (''addServers'', ARG_INFO ((Some RT_BOOL), 1) [ARG ''servers'' T_ARRAY False None]),
      (''getServerList'', ARG_INFO ((Some RT_ARRAY), 0) []),
      (''getServerByKey'', ARG_INFO ((Some RT_ARRAY_OR_FALSE), 1) [ARG ''server_key'' T_STRING False None]),
      (''resetServerList'', ARG_INFO ((Some RT_BOOL), 0) []),
      (''quit'', DEFINE ''resetServerList''),
      (''flushBuffers'', DEFINE ''resetServerList''),
      (''getLastErrorMessage'', DEFINE ''getResultMessage''),
      (''getLastErrorCode'', DEFINE ''getResultCode''),
      (''getLastErrorErrno'', DEFINE ''getResultCode''),
      (''getLastDisconnectedServer'', DEFINE ''fetch''),
      (''getStats'', ARG_INFO ((Some RT_ARRAY_OR_FALSE), 0) [ARG ''type'' T_STRING True (Some ''null'')]),
      (''getVersion'', DEFINE ''fetch''),
      (''getAllKeys'', DEFINE ''fetch''),
      (''flush'', ARG_INFO ((Some RT_BOOL), 0) [ARG ''delay'' T_LONG False (Some ''0'')])]"

definition arginfo_option :: "build \<Rightarrow> (return_type option \<times> nat, arg_decl) arginfo_table" where
  "arginfo_option B =
     [(''getOption'', ARG_INFO ((Some RT_MIXED), 1) [ARG ''option'' T_LONG False None]),
      (''setOption'', ARG_INFO ((Some RT_BOOL), 2) [ARG ''option'' T_LONG False None,
       ARG ''value'' T_MIXED False None]),
      (''setOptions'', ARG_INFO ((Some RT_BOOL), 1) [ARG ''options'' T_ARRAY False None]),
      (''setBucket'', ARG_INFO ((Some RT_BOOL), 3) [ARG ''host_map'' T_ARRAY False None,
       ARG ''forward_map'' T_ARRAY True None,
       ARG ''replicas'' T_LONG False None])] @
     (if HAVE_MEMCACHED_SASL B then [(''setSaslAuthData'', ARG_INFO ((Some RT_BOOL), 2) [ARG ''username'' T_STRING False None,
       ARG ''password'' T_STRING False None])] else []) @
     (if HAVE_MEMCACHED_SET_ENCODING_KEY B then [(''setEncodingKey'', ARG_INFO ((Some RT_BOOL), 1) [ARG ''key'' T_STRING False None])] else []) @
     [(''isPersistent'', DEFINE ''resetServerList''),
      (''isPristine'', DEFINE ''resetServerList''),
      (''checkKey'', ARG_INFO ((Some RT_BOOL), 1) [ARG ''key'' T_STRING False None])]"

definition arginfo_protocol :: "build \<Rightarrow> (return_type option \<times> nat, arg_decl) arginfo_table" where
  "arginfo_protocol B =
     (if HAVE_MEMCACHED_PROTOCOL B then [(''run'', ARG_INFO ((Some RT_BOOL), 1) [ARG ''address'' T_STRING False None]),
      (''on'', ARG_INFO ((Some RT_BOOL), 2) [ARG ''event'' T_LONG False None,
       ARG ''callback'' T_CALLABLE False None])] else [])"

definition arginfo :: "build \<Rightarrow> (return_type option \<times> nat, arg_decl) arginfo_table" where
  "arginfo B = arginfo_read @ arginfo_store @ arginfo_update @ arginfo_server @ arginfo_option B @ arginfo_protocol B"

definition class_Memcached_methods :: "build \<Rightarrow> string list" where
  "class_Memcached_methods B =
     [''__construct'', ''getResultCode'', ''getResultMessage'', ''get'', ''getByKey'',
      ''getMulti'', ''getMultiByKey'', ''getDelayed'', ''getDelayedByKey'', ''fetch'',
      ''fetchAll'', ''set'', ''setByKey'', ''touch'', ''touchByKey'', ''setMulti'',
      ''setMultiByKey'', ''cas'', ''casByKey'', ''add'', ''addByKey'', ''append'',
      ''appendByKey'', ''prepend'', ''prependByKey'', ''replace'', ''replaceByKey'',
      ''delete'', ''deleteMulti'', ''deleteByKey'', ''deleteMultiByKey'', ''increment'',
      ''decrement'', ''incrementByKey'', ''decrementByKey'', ''addServer'', ''addServers'',
      ''getServerList'', ''getServerByKey'', ''resetServerList'', ''quit'', ''flushBuffers'',
      ''getLastErrorMessage'', ''getLastErrorCode'', ''getLastErrorErrno'',
      ''getLastDisconnectedServer'', ''getStats'', ''getVersion'', ''getAllKeys'', ''flush'',
      ''getOption'', ''setOption'', ''setOptions'', ''setBucket''] @
     (if HAVE_MEMCACHED_SASL B then [''setSaslAuthData''] else []) @
     (if HAVE_MEMCACHED_SET_ENCODING_KEY B then [''setEncodingKey''] else []) @
     [''isPersistent'', ''isPristine'', ''checkKey'']"

definition class_MemcachedServer_methods :: "build \<Rightarrow> string list" where
  "class_MemcachedServer_methods B =
     (if HAVE_MEMCACHED_PROTOCOL B then [''run'', ''on''] else [])"

subsection \<open>PHP 7\<close>

text \<open>The number of required parameters and the names of the parameters.\<close>

definition legacy_arginfo_read :: "(nat, string) arginfo_table" where
  "legacy_arginfo_read =
     [(''__construct'', ARG_INFO 0 [''persistent_id'', ''callback'', ''connection_str'']),
      (''getResultCode'', ARG_INFO 0 []),
      (''getResultMessage'', DEFINE ''getResultCode''),
      (''get'', ARG_INFO 1 [''key'', ''cache_cb'', ''get_flags'']),
      (''getByKey'', ARG_INFO 2 [''server_key'', ''key'', ''cache_cb'', ''get_flags'']),
      (''getMulti'', ARG_INFO 1 [''keys'', ''get_flags'']),
      (''getMultiByKey'', ARG_INFO 2 [''server_key'', ''keys'', ''get_flags'']),
      (''getDelayed'', ARG_INFO 1 [''keys'', ''with_cas'', ''value_cb'']),
      (''getDelayedByKey'', ARG_INFO 2 [''server_key'', ''keys'', ''with_cas'', ''value_cb'']),
      (''fetch'', DEFINE ''getResultCode''),
      (''fetchAll'', DEFINE ''getResultCode'')]"

definition legacy_arginfo_store :: "(nat, string) arginfo_table" where
  "legacy_arginfo_store =
     [(''set'', ARG_INFO 2 [''key'', ''value'', ''expiration'']),
      (''setByKey'', ARG_INFO 3 [''server_key'', ''key'', ''value'', ''expiration'']),
      (''touch'', ARG_INFO 1 [''key'', ''expiration'']),
      (''touchByKey'', ARG_INFO 2 [''server_key'', ''key'', ''expiration'']),
      (''setMulti'', ARG_INFO 1 [''items'', ''expiration'']),
      (''setMultiByKey'', ARG_INFO 2 [''server_key'', ''items'', ''expiration'']),
      (''cas'', ARG_INFO 3 [''cas_token'', ''key'', ''value'', ''expiration'']),
      (''casByKey'', ARG_INFO 4 [''cas_token'', ''server_key'', ''key'', ''value'', ''expiration'']),
      (''add'', DEFINE ''set''),
      (''addByKey'', DEFINE ''setByKey''),
      (''append'', ARG_INFO 2 [''key'', ''value'']),
      (''appendByKey'', ARG_INFO 3 [''server_key'', ''key'', ''value'']),
      (''prepend'', DEFINE ''append''),
      (''prependByKey'', DEFINE ''appendByKey''),
      (''replace'', DEFINE ''set''),
      (''replaceByKey'', DEFINE ''setByKey'')]"

definition legacy_arginfo_update :: "(nat, string) arginfo_table" where
  "legacy_arginfo_update =
     [(''delete'', ARG_INFO 1 [''key'', ''time'']),
      (''deleteMulti'', ARG_INFO 1 [''keys'', ''time'']),
      (''deleteByKey'', ARG_INFO 2 [''server_key'', ''key'', ''time'']),
      (''deleteMultiByKey'', ARG_INFO 2 [''server_key'', ''keys'', ''time'']),
      (''increment'', ARG_INFO 1 [''key'', ''offset'', ''initial_value'', ''expiry'']),
      (''decrement'', DEFINE ''increment''),
      (''incrementByKey'', ARG_INFO 2 [''server_key'', ''key'', ''offset'', ''initial_value'', ''expiry'']),
      (''decrementByKey'', DEFINE ''incrementByKey'')]"

definition legacy_arginfo_server :: "(nat, string) arginfo_table" where
  "legacy_arginfo_server =
     [(''addServer'', ARG_INFO 2 [''host'', ''port'', ''weight'']),
      (''addServers'', ARG_INFO 1 [''servers'']),
      (''getServerList'', DEFINE ''getResultCode''),
      (''getServerByKey'', ARG_INFO 1 [''server_key'']),
      (''resetServerList'', DEFINE ''getResultCode''),
      (''quit'', DEFINE ''getResultCode''),
      (''flushBuffers'', DEFINE ''getResultCode''),
      (''getLastErrorMessage'', DEFINE ''getResultCode''),
      (''getLastErrorCode'', DEFINE ''getResultCode''),
      (''getLastErrorErrno'', DEFINE ''getResultCode''),
      (''getLastDisconnectedServer'', DEFINE ''getResultCode''),
      (''getStats'', ARG_INFO 0 [''type'']),
      (''getVersion'', DEFINE ''getResultCode''),
      (''getAllKeys'', DEFINE ''getResultCode''),
      (''flush'', ARG_INFO 0 [''delay''])]"

definition legacy_arginfo_option :: "build \<Rightarrow> (nat, string) arginfo_table" where
  "legacy_arginfo_option B =
     [(''getOption'', ARG_INFO 1 [''option'']),
      (''setOption'', ARG_INFO 2 [''option'', ''value'']),
      (''setOptions'', ARG_INFO 1 [''options'']),
      (''setBucket'', ARG_INFO 3 [''host_map'', ''forward_map'', ''replicas''])] @
     (if HAVE_MEMCACHED_SASL B then [(''setSaslAuthData'', ARG_INFO 2 [''username'', ''password''])] else []) @
     (if HAVE_MEMCACHED_SET_ENCODING_KEY B then [(''setEncodingKey'', ARG_INFO 1 [''key''])] else []) @
     [(''isPersistent'', DEFINE ''getResultCode''),
      (''isPristine'', DEFINE ''getResultCode''),
      (''checkKey'', ARG_INFO 1 [''key''])]"

definition legacy_arginfo_protocol :: "build \<Rightarrow> (nat, string) arginfo_table" where
  "legacy_arginfo_protocol B =
     (if HAVE_MEMCACHED_PROTOCOL B then [(''run'', ARG_INFO 1 [''address'']),
      (''on'', ARG_INFO 2 [''event'', ''callback''])] else [])"

definition legacy_arginfo :: "build \<Rightarrow> (nat, string) arginfo_table" where
  "legacy_arginfo B =
     legacy_arginfo_read @ legacy_arginfo_store @ legacy_arginfo_update @ legacy_arginfo_server @
     legacy_arginfo_option B @ legacy_arginfo_protocol B"

definition legacy_class_Memcached_methods :: "build \<Rightarrow> string list" where
  "legacy_class_Memcached_methods B =
     [''__construct'', ''getResultCode'', ''getResultMessage'', ''get'', ''getByKey'',
      ''getMulti'', ''getMultiByKey'', ''getDelayed'', ''getDelayedByKey'', ''fetch'',
      ''fetchAll'', ''set'', ''setByKey'', ''touch'', ''touchByKey'', ''setMulti'',
      ''setMultiByKey'', ''cas'', ''casByKey'', ''add'', ''addByKey'', ''append'',
      ''appendByKey'', ''prepend'', ''prependByKey'', ''replace'', ''replaceByKey'',
      ''delete'', ''deleteMulti'', ''deleteByKey'', ''deleteMultiByKey'', ''increment'',
      ''decrement'', ''incrementByKey'', ''decrementByKey'', ''addServer'', ''addServers'',
      ''getServerList'', ''getServerByKey'', ''resetServerList'', ''quit'', ''flushBuffers'',
      ''getLastErrorMessage'', ''getLastErrorCode'', ''getLastErrorErrno'',
      ''getLastDisconnectedServer'', ''getStats'', ''getVersion'', ''getAllKeys'', ''flush'',
      ''getOption'', ''setOption'', ''setOptions'', ''setBucket''] @
     (if HAVE_MEMCACHED_SASL B then [''setSaslAuthData''] else []) @
     (if HAVE_MEMCACHED_SET_ENCODING_KEY B then [''setEncodingKey''] else []) @
     [''isPersistent'', ''isPristine'', ''checkKey'']"

definition legacy_class_MemcachedServer_methods :: "build \<Rightarrow> string list" where
  "legacy_class_MemcachedServer_methods B =
     (if HAVE_MEMCACHED_PROTOCOL B then [''run'', ''on''] else [])"

section \<open>Parameter parsers\<close>

text \<open>
  \<open>ZEND_PARSE_PARAMETERS_START(min, max)\<close> with the macros up to its end; the boolean is
  \<open>check_null\<close>. Whether arrays and values are separated does not matter here.
\<close>

datatype z_param =
  Z_PARAM_STR bool | Z_PARAM_LONG | Z_PARAM_BOOL | Z_PARAM_ARRAY bool | Z_PARAM_FUNC bool | Z_PARAM_ZVAL
| Z_PARAM_OPTIONAL

datatype parser = ZEND_PARSE_PARAMETERS (parse_min: nat) (parse_max: nat) (parse_params: "z_param list")

definition zend_parse_parameters_none :: parser where
  "zend_parse_parameters_none = ZEND_PARSE_PARAMETERS 0 0 []"

definition construct_parser :: parser where
  "construct_parser =
     ZEND_PARSE_PARAMETERS 0 3 [Z_PARAM_OPTIONAL, Z_PARAM_STR True, Z_PARAM_FUNC True, Z_PARAM_STR False]"

definition get_parser :: "bool \<Rightarrow> parser" where
  "get_parser by_key =
     (if by_key then ZEND_PARSE_PARAMETERS 2 4
        [Z_PARAM_STR False, Z_PARAM_STR False, Z_PARAM_OPTIONAL, Z_PARAM_FUNC True, Z_PARAM_LONG]
      else ZEND_PARSE_PARAMETERS 1 3 [Z_PARAM_STR False, Z_PARAM_OPTIONAL, Z_PARAM_FUNC True, Z_PARAM_LONG])"

definition getMulti_parser :: "bool \<Rightarrow> parser" where
  "getMulti_parser by_key =
     (if by_key then ZEND_PARSE_PARAMETERS 2 3 [Z_PARAM_STR False, Z_PARAM_ARRAY False, Z_PARAM_OPTIONAL, Z_PARAM_LONG]
      else ZEND_PARSE_PARAMETERS 1 2 [Z_PARAM_ARRAY False, Z_PARAM_OPTIONAL, Z_PARAM_LONG])"

definition getDelayed_parser :: "bool \<Rightarrow> parser" where
  "getDelayed_parser by_key =
     (if by_key then ZEND_PARSE_PARAMETERS 2 4
        [Z_PARAM_STR False, Z_PARAM_ARRAY False, Z_PARAM_OPTIONAL, Z_PARAM_BOOL, Z_PARAM_FUNC True]
      else ZEND_PARSE_PARAMETERS 1 3 [Z_PARAM_ARRAY False, Z_PARAM_OPTIONAL, Z_PARAM_BOOL, Z_PARAM_FUNC True])"

definition setMulti_parser :: "bool \<Rightarrow> parser" where
  "setMulti_parser by_key =
     (if by_key then ZEND_PARSE_PARAMETERS 2 3 [Z_PARAM_STR False, Z_PARAM_ARRAY False, Z_PARAM_OPTIONAL, Z_PARAM_LONG]
      else ZEND_PARSE_PARAMETERS 1 2 [Z_PARAM_ARRAY False, Z_PARAM_OPTIONAL, Z_PARAM_LONG])"

definition store_parser :: "php_memc_write_op \<Rightarrow> bool \<Rightarrow> parser" where
  "store_parser op by_key =
     (if by_key then
        (if op = MEMC_OP_APPEND \<or> op = MEMC_OP_PREPEND
         then ZEND_PARSE_PARAMETERS 3 3 [Z_PARAM_STR False, Z_PARAM_STR False, Z_PARAM_STR False]
         else if op = MEMC_OP_TOUCH
         then ZEND_PARSE_PARAMETERS 2 3 [Z_PARAM_STR False, Z_PARAM_STR False, Z_PARAM_OPTIONAL, Z_PARAM_LONG]
         else ZEND_PARSE_PARAMETERS 3 4 [Z_PARAM_STR False, Z_PARAM_STR False, Z_PARAM_ZVAL, Z_PARAM_OPTIONAL, Z_PARAM_LONG])
      else
        (if op = MEMC_OP_APPEND \<or> op = MEMC_OP_PREPEND
         then ZEND_PARSE_PARAMETERS 2 2 [Z_PARAM_STR False, Z_PARAM_STR False]
         else if op = MEMC_OP_TOUCH
         then ZEND_PARSE_PARAMETERS 1 2 [Z_PARAM_STR False, Z_PARAM_OPTIONAL, Z_PARAM_LONG]
         else ZEND_PARSE_PARAMETERS 2 3 [Z_PARAM_STR False, Z_PARAM_ZVAL, Z_PARAM_OPTIONAL, Z_PARAM_LONG]))"

definition cas_parser :: "bool \<Rightarrow> parser" where
  "cas_parser by_key =
     (if by_key then ZEND_PARSE_PARAMETERS 4 5
        [Z_PARAM_ZVAL, Z_PARAM_STR False, Z_PARAM_STR False, Z_PARAM_ZVAL, Z_PARAM_OPTIONAL, Z_PARAM_LONG]
      else ZEND_PARSE_PARAMETERS 3 4 [Z_PARAM_ZVAL, Z_PARAM_STR False, Z_PARAM_ZVAL, Z_PARAM_OPTIONAL, Z_PARAM_LONG])"

definition delete_parser :: "bool \<Rightarrow> parser" where
  "delete_parser by_key =
     (if by_key then ZEND_PARSE_PARAMETERS 2 3 [Z_PARAM_STR False, Z_PARAM_STR False, Z_PARAM_OPTIONAL, Z_PARAM_LONG]
      else ZEND_PARSE_PARAMETERS 1 2 [Z_PARAM_STR False, Z_PARAM_OPTIONAL, Z_PARAM_LONG])"

definition deleteMulti_parser :: "bool \<Rightarrow> parser" where
  "deleteMulti_parser by_key =
     (if by_key then ZEND_PARSE_PARAMETERS 2 3 [Z_PARAM_STR False, Z_PARAM_ARRAY False, Z_PARAM_OPTIONAL, Z_PARAM_LONG]
      else ZEND_PARSE_PARAMETERS 1 2 [Z_PARAM_ARRAY False, Z_PARAM_OPTIONAL, Z_PARAM_LONG])"

definition incdec_parser :: "bool \<Rightarrow> parser" where
  "incdec_parser by_key =
     (if by_key then ZEND_PARSE_PARAMETERS 2 5
        [Z_PARAM_STR False, Z_PARAM_STR False, Z_PARAM_OPTIONAL, Z_PARAM_LONG, Z_PARAM_LONG, Z_PARAM_LONG]
      else ZEND_PARSE_PARAMETERS 1 4 [Z_PARAM_STR False, Z_PARAM_OPTIONAL, Z_PARAM_LONG, Z_PARAM_LONG, Z_PARAM_LONG])"

definition addServer_parser :: parser where
  "addServer_parser = ZEND_PARSE_PARAMETERS 2 3 [Z_PARAM_STR False, Z_PARAM_LONG, Z_PARAM_OPTIONAL, Z_PARAM_LONG]"
definition addServers_parser :: parser where "addServers_parser = ZEND_PARSE_PARAMETERS 1 1 [Z_PARAM_ARRAY False]"
definition getServerByKey_parser :: parser where "getServerByKey_parser = ZEND_PARSE_PARAMETERS 1 1 [Z_PARAM_STR False]"
definition getStats_parser :: parser where
  "getStats_parser = ZEND_PARSE_PARAMETERS 0 1 [Z_PARAM_OPTIONAL, Z_PARAM_STR True]"
definition flush_parser :: parser where "flush_parser = ZEND_PARSE_PARAMETERS 0 1 [Z_PARAM_OPTIONAL, Z_PARAM_LONG]"
definition getOption_parser :: parser where "getOption_parser = ZEND_PARSE_PARAMETERS 1 1 [Z_PARAM_LONG]"
definition setBucket_parser :: parser where
  "setBucket_parser = ZEND_PARSE_PARAMETERS 3 3 [Z_PARAM_ARRAY False, Z_PARAM_ARRAY True, Z_PARAM_LONG]"
definition setOptions_parser :: parser where "setOptions_parser = ZEND_PARSE_PARAMETERS 1 1 [Z_PARAM_ARRAY False]"
definition setOption_parser :: parser where "setOption_parser = ZEND_PARSE_PARAMETERS 2 2 [Z_PARAM_LONG, Z_PARAM_ZVAL]"
definition setSaslAuthData_parser :: parser where
  "setSaslAuthData_parser = ZEND_PARSE_PARAMETERS 2 2 [Z_PARAM_STR False, Z_PARAM_STR False]"
definition setEncodingKey_parser :: parser where "setEncodingKey_parser = ZEND_PARSE_PARAMETERS 1 1 [Z_PARAM_STR False]"
definition checkKey_parser :: parser where "checkKey_parser = ZEND_PARSE_PARAMETERS 1 1 [Z_PARAM_STR False]"
definition run_parser :: parser where "run_parser = ZEND_PARSE_PARAMETERS 1 1 [Z_PARAM_STR False]"
definition on_parser :: parser where "on_parser = ZEND_PARSE_PARAMETERS 2 2 [Z_PARAM_LONG, Z_PARAM_FUNC True]"

text \<open>The parser each method reaches, as its body passes \<open>by_key\<close> and \<open>op\<close> on.\<close>

definition parsers_read :: "(string \<times> parser) list" where
  "parsers_read =
     [(''__construct'', construct_parser), (''getResultCode'', zend_parse_parameters_none),
      (''getResultMessage'', zend_parse_parameters_none), (''get'', get_parser False),
      (''getByKey'', get_parser True), (''getMulti'', getMulti_parser False),
      (''getMultiByKey'', getMulti_parser True), (''getDelayed'', getDelayed_parser False),
      (''getDelayedByKey'', getDelayed_parser True), (''fetch'', zend_parse_parameters_none),
      (''fetchAll'', zend_parse_parameters_none)]"

definition parsers_store :: "(string \<times> parser) list" where
  "parsers_store =
     [(''set'', store_parser MEMC_OP_SET False), (''setByKey'', store_parser MEMC_OP_SET True),
      (''touch'', store_parser MEMC_OP_TOUCH False),
      (''touchByKey'', store_parser MEMC_OP_TOUCH True), (''setMulti'', setMulti_parser False),
      (''setMultiByKey'', setMulti_parser True), (''cas'', cas_parser False),
      (''casByKey'', cas_parser True), (''add'', store_parser MEMC_OP_ADD False),
      (''addByKey'', store_parser MEMC_OP_ADD True),
      (''append'', store_parser MEMC_OP_APPEND False),
      (''appendByKey'', store_parser MEMC_OP_APPEND True),
      (''prepend'', store_parser MEMC_OP_PREPEND False),
      (''prependByKey'', store_parser MEMC_OP_PREPEND True),
      (''replace'', store_parser MEMC_OP_REPLACE False),
      (''replaceByKey'', store_parser MEMC_OP_REPLACE True)]"

definition parsers_update :: "(string \<times> parser) list" where
  "parsers_update =
     [(''delete'', delete_parser False), (''deleteMulti'', deleteMulti_parser False),
      (''deleteByKey'', delete_parser True), (''deleteMultiByKey'', deleteMulti_parser True),
      (''increment'', incdec_parser False), (''decrement'', incdec_parser False),
      (''incrementByKey'', incdec_parser True), (''decrementByKey'', incdec_parser True)]"

definition parsers_server :: "(string \<times> parser) list" where
  "parsers_server =
     [(''addServer'', addServer_parser), (''addServers'', addServers_parser),
      (''getServerList'', zend_parse_parameters_none), (''getServerByKey'', getServerByKey_parser),
      (''resetServerList'', zend_parse_parameters_none), (''quit'', zend_parse_parameters_none),
      (''flushBuffers'', zend_parse_parameters_none),
      (''getLastErrorMessage'', zend_parse_parameters_none),
      (''getLastErrorCode'', zend_parse_parameters_none),
      (''getLastErrorErrno'', zend_parse_parameters_none),
      (''getLastDisconnectedServer'', zend_parse_parameters_none), (''getStats'', getStats_parser),
      (''getVersion'', zend_parse_parameters_none), (''getAllKeys'', zend_parse_parameters_none),
      (''flush'', flush_parser)]"

definition parsers_option :: "(string \<times> parser) list" where
  "parsers_option =
     [(''getOption'', getOption_parser), (''setOption'', setOption_parser),
      (''setOptions'', setOptions_parser), (''setBucket'', setBucket_parser),
      (''setSaslAuthData'', setSaslAuthData_parser), (''setEncodingKey'', setEncodingKey_parser),
      (''isPersistent'', zend_parse_parameters_none), (''isPristine'', zend_parse_parameters_none),
      (''checkKey'', checkKey_parser)]"

definition parsers_protocol :: "(string \<times> parser) list" where
  "parsers_protocol =
     [(''run'', run_parser), (''on'', on_parser)]"

definition method_parsers :: "(string \<times> parser) list" where
  "method_parsers =
     parsers_read @ parsers_store @ parsers_update @ parsers_server @ parsers_option @ parsers_protocol"

section \<open>Fitting together\<close>

fun same_type :: "z_param \<Rightarrow> arg_type \<Rightarrow> bool" where
  "same_type (Z_PARAM_STR _) t \<longleftrightarrow> t = T_STRING"
| "same_type Z_PARAM_LONG t \<longleftrightarrow> t = T_LONG"
| "same_type Z_PARAM_BOOL t \<longleftrightarrow> t = T_BOOL"
| "same_type (Z_PARAM_ARRAY _) t \<longleftrightarrow> t = T_ARRAY"
| "same_type (Z_PARAM_FUNC _) t \<longleftrightarrow> t = T_CALLABLE"
| "same_type Z_PARAM_ZVAL t \<longleftrightarrow> (case t of T_MIXED \<Rightarrow> True | T_MASK _ \<Rightarrow> True | _ \<Rightarrow> False)"
| "same_type Z_PARAM_OPTIONAL t \<longleftrightarrow> False"

fun same_nullability :: "z_param \<Rightarrow> bool \<Rightarrow> bool" where
  "same_nullability (Z_PARAM_STR n) d \<longleftrightarrow> n = d"
| "same_nullability (Z_PARAM_ARRAY n) d \<longleftrightarrow> n = d"
| "same_nullability (Z_PARAM_FUNC n) d \<longleftrightarrow> n = d"
| "same_nullability Z_PARAM_ZVAL d \<longleftrightarrow> True"
| "same_nullability _ d \<longleftrightarrow> \<not> d"

definition value_params :: "parser \<Rightarrow> z_param list" where
  "value_params p = filter (\<lambda>x. x \<noteq> Z_PARAM_OPTIONAL) (parse_params p)"

definition parser_fits :: "parser \<Rightarrow> nat \<Rightarrow> arg_decl list \<Rightarrow> bool" where
  "parser_fits p required args \<longleftrightarrow>
     parse_min p = required \<and> parse_max p = length args \<and>
     length (takeWhile (\<lambda>x. x \<noteq> Z_PARAM_OPTIONAL) (parse_params p)) = required \<and>
     list_all2 same_type (value_params p) (map arg_type args) \<and>
     (\<forall>a \<in> set (take required args). arg_default a = None) \<and> (\<forall>a \<in> set (drop required args). arg_default a \<noteq> None)"

definition null_mismatches :: "parser \<Rightarrow> arg_decl list \<Rightarrow> string list" where
  "null_mismatches p args =
     map (arg_name \<circ> snd) (filter (\<lambda>(x, a). \<not> same_nullability x (arg_nullable a)) (zip (value_params p) args))"

lemmas table_defs = arginfo_def arginfo_read_def arginfo_store_def arginfo_update_def arginfo_server_def
  arginfo_option_def arginfo_protocol_def class_Memcached_methods_def class_MemcachedServer_methods_def
lemmas legacy_table_defs = legacy_arginfo_def legacy_arginfo_read_def legacy_arginfo_store_def
  legacy_arginfo_update_def legacy_arginfo_server_def legacy_arginfo_option_def legacy_arginfo_protocol_def
  legacy_class_Memcached_methods_def legacy_class_MemcachedServer_methods_def
lemmas parser_defs = zend_parse_parameters_none_def construct_parser_def get_parser_def getMulti_parser_def
  getDelayed_parser_def setMulti_parser_def store_parser_def cas_parser_def delete_parser_def
  deleteMulti_parser_def incdec_parser_def addServer_parser_def addServers_parser_def
  getServerByKey_parser_def getStats_parser_def flush_parser_def getOption_parser_def setBucket_parser_def
  setOptions_parser_def setOption_parser_def setSaslAuthData_parser_def setEncodingKey_parser_def
  checkKey_parser_def run_parser_def on_parser_def
lemmas parsers_defs = parsers_read_def parsers_store_def parsers_update_def parsers_server_def
  parsers_option_def parsers_protocol_def

lemma signature_entry:
  "distinct (map fst tab) \<Longrightarrow> (m, e) \<in> set tab \<Longrightarrow> signature tab m = resolve tab e"
  by (simp add: signature_def)

lemma resolve_info [simp]: "resolve tab (ARG_INFO h args) = Some (h, args)"
  by (simp add: resolve_def)

lemma resolve_define:
  "distinct (map fst tab) \<Longrightarrow> (n, ARG_INFO h args) \<in> set tab \<Longrightarrow> resolve tab (DEFINE n) = Some (h, args)"
  by (simp add: resolve_def)

text \<open>Both headers have a table for every method, in the order of the classes.\<close>

lemma arginfo_names: "map fst (arginfo B) = class_Memcached_methods B @ class_MemcachedServer_methods B"
  by (simp add: table_defs)

lemma legacy_arginfo_names: "map fst (legacy_arginfo B) = legacy_class_Memcached_methods B @ legacy_class_MemcachedServer_methods B"
  by (simp add: legacy_table_defs)

lemma same_names: "map fst (legacy_arginfo B) = map fst (arginfo B)"
  by (simp add: table_defs legacy_table_defs)

lemma distinct_parsers: "distinct (map fst method_parsers)"
  by (simp add: method_parsers_def parsers_defs)

lemma arginfo_distinct: "distinct (map fst (arginfo B))"
proof -
  have "subseq (map fst (arginfo_option B)) (map fst parsers_option)"
    by (cases "HAVE_MEMCACHED_SASL B"; cases "HAVE_MEMCACHED_SET_ENCODING_KEY B"; simp add: arginfo_option_def parsers_option_def)
  moreover have "subseq (map fst (arginfo_protocol B)) (map fst parsers_protocol)"
    by (simp add: arginfo_protocol_def parsers_protocol_def)
  moreover have "map fst arginfo_read = map fst parsers_read" "map fst arginfo_store = map fst parsers_store"
    "map fst arginfo_update = map fst parsers_update" "map fst arginfo_server = map fst parsers_server"
    by (simp_all add: table_defs parsers_defs)
  ultimately have "subseq (map fst (arginfo B)) (map fst method_parsers)"
    unfolding arginfo_def method_parsers_def map_append by (intro list_emb_append_mono) simp_all
  then show ?thesis using distinct_parsers by (auto simp: subseq_conv_nths intro: distinct_nthsI)
qed

lemma legacy_arginfo_distinct: "distinct (map fst (legacy_arginfo B))"
  using arginfo_distinct same_names by simp

lemma arginfo_members:
  "e \<in> set arginfo_read \<Longrightarrow> e \<in> set (arginfo B)" "e \<in> set arginfo_store \<Longrightarrow> e \<in> set (arginfo B)"
  "e \<in> set arginfo_update \<Longrightarrow> e \<in> set (arginfo B)" "e \<in> set arginfo_server \<Longrightarrow> e \<in> set (arginfo B)"
  "e \<in> set (arginfo_option B) \<Longrightarrow> e \<in> set (arginfo B)" "e \<in> set (arginfo_protocol B) \<Longrightarrow> e \<in> set (arginfo B)"
  by (simp_all add: arginfo_def)

lemma legacy_arginfo_members:
  "e \<in> set legacy_arginfo_read \<Longrightarrow> e \<in> set (legacy_arginfo B)" "e \<in> set legacy_arginfo_store \<Longrightarrow> e \<in> set (legacy_arginfo B)"
  "e \<in> set legacy_arginfo_update \<Longrightarrow> e \<in> set (legacy_arginfo B)"
  by (simp_all add: legacy_arginfo_def)

text \<open>What the macros stand for.\<close>

lemmas of_read = resolve_define [OF arginfo_distinct arginfo_members(1)]
lemmas of_store = resolve_define [OF arginfo_distinct arginfo_members(2)]
lemmas of_update = resolve_define [OF arginfo_distinct arginfo_members(3)]
lemmas of_server = resolve_define [OF arginfo_distinct arginfo_members(4)]

lemma aliases:
  "resolve (arginfo B) (DEFINE ''fetch'') = Some ((Some RT_ARRAY_OR_FALSE, 0), [])"
  "resolve (arginfo B) (DEFINE ''getResultCode'') = Some ((Some RT_LONG, 0), [])"
  "resolve (arginfo B) (DEFINE ''getResultMessage'') = Some ((Some RT_STRING, 0), [])"
  "resolve (arginfo B) (DEFINE ''set'') = Some ((Some RT_BOOL, 2),
     [ARG ''key'' T_STRING False None, ARG ''value'' T_MIXED False None, ARG ''expiration'' T_LONG False (Some ''0'')])"
  "resolve (arginfo B) (DEFINE ''setByKey'') = Some ((Some RT_BOOL, 3),
     [ARG ''server_key'' T_STRING False None, ARG ''key'' T_STRING False None, ARG ''value'' T_MIXED False None,
      ARG ''expiration'' T_LONG False (Some ''0'')])"
  "resolve (arginfo B) (DEFINE ''append'') = Some ((Some RT_BOOL_OR_NULL, 2),
     [ARG ''key'' T_STRING False None, ARG ''value'' T_STRING False None])"
  "resolve (arginfo B) (DEFINE ''appendByKey'') = Some ((Some RT_BOOL_OR_NULL, 3),
     [ARG ''server_key'' T_STRING False None, ARG ''key'' T_STRING False None, ARG ''value'' T_STRING False None])"
  "resolve (arginfo B) (DEFINE ''increment'') = Some ((Some RT_LONG_OR_FALSE, 1),
     [ARG ''key'' T_STRING False None, ARG ''offset'' T_LONG False (Some ''1''),
      ARG ''initial_value'' T_LONG False (Some ''0''), ARG ''expiry'' T_LONG False (Some ''0'')])"
  "resolve (arginfo B) (DEFINE ''incrementByKey'') = Some ((Some RT_LONG_OR_FALSE, 2),
     [ARG ''server_key'' T_STRING False None, ARG ''key'' T_STRING False None, ARG ''offset'' T_LONG False (Some ''1''),
      ARG ''initial_value'' T_LONG False (Some ''0''), ARG ''expiry'' T_LONG False (Some ''0'')])"
  "resolve (arginfo B) (DEFINE ''resetServerList'') = Some ((Some RT_BOOL, 0), [])"
  by (rule of_read of_store of_update of_server,
      simp add: arginfo_read_def arginfo_store_def arginfo_update_def arginfo_server_def; fail)+

lemmas legacy_of_read = resolve_define [OF legacy_arginfo_distinct legacy_arginfo_members(1)]
lemmas legacy_of_store = resolve_define [OF legacy_arginfo_distinct legacy_arginfo_members(2)]
lemmas legacy_of_update = resolve_define [OF legacy_arginfo_distinct legacy_arginfo_members(3)]

lemma legacy_aliases:
  "resolve (legacy_arginfo B) (DEFINE ''getResultCode'') = Some (0, [])"
  "resolve (legacy_arginfo B) (DEFINE ''set'') = Some (2, [''key'', ''value'', ''expiration''])"
  "resolve (legacy_arginfo B) (DEFINE ''setByKey'') = Some (3, [''server_key'', ''key'', ''value'', ''expiration''])"
  "resolve (legacy_arginfo B) (DEFINE ''append'') = Some (2, [''key'', ''value''])"
  "resolve (legacy_arginfo B) (DEFINE ''appendByKey'') = Some (3, [''server_key'', ''key'', ''value''])"
  "resolve (legacy_arginfo B) (DEFINE ''increment'') = Some (1, [''key'', ''offset'', ''initial_value'', ''expiry''])"
  "resolve (legacy_arginfo B) (DEFINE ''incrementByKey'') =
     Some (2, [''server_key'', ''key'', ''offset'', ''initial_value'', ''expiry''])"
  by (rule legacy_of_read legacy_of_store legacy_of_update,
      simp add: legacy_arginfo_read_def legacy_arginfo_store_def legacy_arginfo_update_def; fail)+

section \<open>Entry by entry\<close>

definition same_parameters ::
  "build \<Rightarrow> string \<times> (return_type option \<times> nat, arg_decl) arginfo \<Rightarrow> string \<times> (nat, string) arginfo \<Rightarrow> bool" where
  "same_parameters B = (\<lambda>(m, e) (m', e'). m = m' \<and>
     (\<exists>ret n args. resolve (arginfo B) e = Some ((ret, n), args) \<and>
        resolve (legacy_arginfo B) e' = Some (n, map arg_name args)))"

lemma same_parameters_all: "list_all2 (same_parameters B) (arginfo B) (legacy_arginfo B)"
  unfolding arginfo_def legacy_arginfo_def
proof (intro list_all2_appendI)
  show "list_all2 (same_parameters B) arginfo_read legacy_arginfo_read"
    by (simp add: arginfo_read_def legacy_arginfo_read_def same_parameters_def aliases legacy_aliases)
  show "list_all2 (same_parameters B) arginfo_store legacy_arginfo_store"
    by (simp add: arginfo_store_def legacy_arginfo_store_def same_parameters_def aliases legacy_aliases)
  show "list_all2 (same_parameters B) arginfo_update legacy_arginfo_update"
    by (simp add: arginfo_update_def legacy_arginfo_update_def same_parameters_def aliases legacy_aliases)
  show "list_all2 (same_parameters B) arginfo_server legacy_arginfo_server"
    by (simp add: arginfo_server_def legacy_arginfo_server_def same_parameters_def aliases legacy_aliases)
  show "list_all2 (same_parameters B) (arginfo_option B) (legacy_arginfo_option B)"
    by (simp add: arginfo_option_def legacy_arginfo_option_def same_parameters_def aliases legacy_aliases)
  show "list_all2 (same_parameters B) (arginfo_protocol B) (legacy_arginfo_protocol B)"
    by (simp add: arginfo_protocol_def legacy_arginfo_protocol_def same_parameters_def)
qed

definition same_kinds :: "build \<Rightarrow> string \<times> (return_type option \<times> nat, arg_decl) arginfo \<Rightarrow> string \<times> parser \<Rightarrow> bool" where
  "same_kinds B = (\<lambda>(m, e) (m', p). m = m' \<and>
     (\<exists>ret n args. resolve (arginfo B) e = Some ((ret, n), args) \<and> parser_fits p n args \<and>
        null_mismatches p args =
          (if m = ''__construct'' then [''connection_str''] else if m = ''on'' then [''callback''] else [])))"

lemmas same_kinds_simps = same_kinds_def aliases parser_fits_def value_params_def null_mismatches_def parser_defs

lemma same_kinds_read: "list_all2 (same_kinds B) arginfo_read parsers_read"
  by (simp add: arginfo_read_def parsers_read_def same_kinds_simps)
lemma same_kinds_store: "list_all2 (same_kinds B) arginfo_store parsers_store"
  by (simp add: arginfo_store_def parsers_store_def same_kinds_simps)
lemma same_kinds_update: "list_all2 (same_kinds B) arginfo_update parsers_update"
  by (simp add: arginfo_update_def parsers_update_def same_kinds_simps)
lemma same_kinds_server: "list_all2 (same_kinds B) arginfo_server parsers_server"
  by (simp add: arginfo_server_def parsers_server_def same_kinds_simps)

lemma same_kinds_option:
  "list_all2 (same_kinds B) (arginfo_option B)
     (filter (\<lambda>(m, _). (m = ''setSaslAuthData'' \<longrightarrow> HAVE_MEMCACHED_SASL B) \<and>
        (m = ''setEncodingKey'' \<longrightarrow> HAVE_MEMCACHED_SET_ENCODING_KEY B)) parsers_option)"
  by (cases "HAVE_MEMCACHED_SASL B"; cases "HAVE_MEMCACHED_SET_ENCODING_KEY B";
    simp add: arginfo_option_def parsers_option_def same_kinds_simps)
lemma same_kinds_protocol:
  "HAVE_MEMCACHED_PROTOCOL B \<Longrightarrow> list_all2 (same_kinds B) (arginfo_protocol B) parsers_protocol"
  by (simp add: arginfo_protocol_def parsers_protocol_def same_kinds_simps)

lemma list_all2_partner: "list_all2 P xs ys \<Longrightarrow> x \<in> set xs \<Longrightarrow> \<exists>y \<in> set ys. P x y"
  by (metis in_set_conv_nth list_all2_conv_all_nth)

lemma same_kinds_all:
  assumes "x \<in> set (arginfo B)"
  shows "\<exists>y \<in> set method_parsers. same_kinds B x y"
proof -
  have protocol: "HAVE_MEMCACHED_PROTOCOL B" if "x \<in> set (arginfo_protocol B)"
    using that by (auto simp: arginfo_protocol_def split: if_splits)
  from assms consider "x \<in> set arginfo_read" | "x \<in> set arginfo_store" | "x \<in> set arginfo_update"
    | "x \<in> set arginfo_server" | "x \<in> set (arginfo_option B)" | "x \<in> set (arginfo_protocol B)"
    unfolding arginfo_def set_append by blast
  then have "\<exists>y \<in> set parsers_read \<union> set parsers_store \<union> set parsers_update \<union> set parsers_server \<union>
      set parsers_option \<union> set parsers_protocol. same_kinds B x y"
  proof cases
    case 1
    from list_all2_partner [OF same_kinds_read 1] show ?thesis by blast
  next
    case 2
    from list_all2_partner [OF same_kinds_store 2] show ?thesis by blast
  next
    case 3
    from list_all2_partner [OF same_kinds_update 3] show ?thesis by blast
  next
    case 4
    from list_all2_partner [OF same_kinds_server 4] show ?thesis by blast
  next
    case 5
    from list_all2_partner [OF same_kinds_option 5] show ?thesis by auto
  next
    case 6
    from list_all2_partner [OF same_kinds_protocol [OF protocol [OF 6]] 6] show ?thesis by blast
  qed
  then show ?thesis unfolding method_parsers_def set_append by blast
qed

section \<open>Return types\<close>

text \<open>The name under which a call of the model appears in the tables.\<close>

fun read_name :: "('m, 'd) read_method \<Rightarrow> string" where
  "read_name (M_get sk _ _ _) = (case sk of None \<Rightarrow> ''get'' | Some _ \<Rightarrow> ''getByKey'')"
| "read_name (M_getMulti sk _ _) = (case sk of None \<Rightarrow> ''getMulti'' | Some _ \<Rightarrow> ''getMultiByKey'')"
| "read_name (M_getDelayed sk _ _ _) = (case sk of None \<Rightarrow> ''getDelayed'' | Some _ \<Rightarrow> ''getDelayedByKey'')"
| "read_name M_fetch = ''fetch''"
| "read_name M_fetchAll = ''fetchAll''"

fun write_name :: "'d write_method \<Rightarrow> string" where
  "write_name (M_set sk _ _ _) = (case sk of None \<Rightarrow> ''set'' | Some _ \<Rightarrow> ''setByKey'')"
| "write_name (M_touch sk _ _) = (case sk of None \<Rightarrow> ''touch'' | Some _ \<Rightarrow> ''touchByKey'')"
| "write_name (M_setMulti sk _ _) = (case sk of None \<Rightarrow> ''setMulti'' | Some _ \<Rightarrow> ''setMultiByKey'')"
| "write_name (M_cas _ sk _ _ _) = (case sk of None \<Rightarrow> ''cas'' | Some _ \<Rightarrow> ''casByKey'')"
| "write_name (M_add sk _ _ _) = (case sk of None \<Rightarrow> ''add'' | Some _ \<Rightarrow> ''addByKey'')"
| "write_name (M_append sk _ _) = (case sk of None \<Rightarrow> ''append'' | Some _ \<Rightarrow> ''appendByKey'')"
| "write_name (M_prepend sk _ _) = (case sk of None \<Rightarrow> ''prepend'' | Some _ \<Rightarrow> ''prependByKey'')"
| "write_name (M_replace sk _ _ _) = (case sk of None \<Rightarrow> ''replace'' | Some _ \<Rightarrow> ''replaceByKey'')"
| "write_name (M_delete sk _ _) = (case sk of None \<Rightarrow> ''delete'' | Some _ \<Rightarrow> ''deleteByKey'')"
| "write_name (M_deleteMulti sk _ _) = (case sk of None \<Rightarrow> ''deleteMulti'' | Some _ \<Rightarrow> ''deleteMultiByKey'')"
| "write_name (M_increment sk _ _ _ _ _) = (case sk of None \<Rightarrow> ''increment'' | Some _ \<Rightarrow> ''incrementByKey'')"
| "write_name (M_decrement sk _ _ _ _ _) = (case sk of None \<Rightarrow> ''decrement'' | Some _ \<Rightarrow> ''decrementByKey'')"

fun server_name :: "'d server_method \<Rightarrow> string" where
  "server_name (M_addServer _ _ _) = ''addServer''"
| "server_name (M_addServers _) = ''addServers''"
| "server_name M_getServerList = ''getServerList''"
| "server_name (M_getServerByKey _) = ''getServerByKey''"
| "server_name M_resetServerList = ''resetServerList''"
| "server_name M_quit = ''quit''"
| "server_name M_flushBuffers = ''flushBuffers''"
| "server_name M_getLastErrorMessage = ''getLastErrorMessage''"
| "server_name M_getLastErrorCode = ''getLastErrorCode''"
| "server_name M_getLastErrorErrno = ''getLastErrorErrno''"
| "server_name M_getLastDisconnectedServer = ''getLastDisconnectedServer''"
| "server_name (M_getStats _) = ''getStats''"
| "server_name M_getVersion = ''getVersion''"
| "server_name M_getAllKeys = ''getAllKeys''"
| "server_name (M_flush _) = ''flush''"

fun option_name :: "'d option_method \<Rightarrow> string" where
  "option_name M_getResultCode = ''getResultCode''"
| "option_name M_getResultMessage = ''getResultMessage''"
| "option_name (M_getOption _) = ''getOption''"
| "option_name (M_setOption _ _) = ''setOption''"
| "option_name (M_setOptions _) = ''setOptions''"
| "option_name (M_setBucket _ _ _) = ''setBucket''"
| "option_name (M_setSaslAuthData _ _ _ _) = ''setSaslAuthData''"
| "option_name (M_setEncodingKey _ _) = ''setEncodingKey''"
| "option_name M_isPersistent = ''isPersistent''"
| "option_name M_isPristine = ''isPristine''"
| "option_name (M_checkKey _) = ''checkKey''"

fun method_name :: "('m, 'd) memc_method \<Rightarrow> string" where
  "method_name (Read_method c) = read_name c"
| "method_name (Write_method c) = write_name c"
| "method_name (Server_method c) = server_name c"
| "method_name (Option_method c) = option_name c"

text \<open>The return types by name, which both the tables and \<open>declared\<close> are compared with.\<close>

definition returns_read :: "(string \<times> return_type) list" where
  "returns_read =
     [(''getResultCode'', RT_LONG), (''getResultMessage'', RT_STRING), (''get'', RT_MIXED),
      (''getByKey'', RT_MIXED), (''getMulti'', RT_ARRAY_OR_FALSE),
      (''getMultiByKey'', RT_ARRAY_OR_FALSE), (''getDelayed'', RT_BOOL),
      (''getDelayedByKey'', RT_BOOL), (''fetch'', RT_ARRAY_OR_FALSE),
      (''fetchAll'', RT_ARRAY_OR_FALSE)]"

definition returns_store :: "(string \<times> return_type) list" where
  "returns_store =
     [(''set'', RT_BOOL), (''setByKey'', RT_BOOL), (''touch'', RT_BOOL), (''touchByKey'', RT_BOOL),
      (''setMulti'', RT_BOOL), (''setMultiByKey'', RT_BOOL), (''cas'', RT_BOOL),
      (''casByKey'', RT_BOOL), (''add'', RT_BOOL), (''addByKey'', RT_BOOL),
      (''append'', RT_BOOL_OR_NULL), (''appendByKey'', RT_BOOL_OR_NULL),
      (''prepend'', RT_BOOL_OR_NULL), (''prependByKey'', RT_BOOL_OR_NULL), (''replace'', RT_BOOL),
      (''replaceByKey'', RT_BOOL)]"

definition returns_update :: "(string \<times> return_type) list" where
  "returns_update =
     [(''delete'', RT_BOOL), (''deleteMulti'', RT_ARRAY), (''deleteByKey'', RT_BOOL),
      (''deleteMultiByKey'', RT_ARRAY), (''increment'', RT_LONG_OR_FALSE),
      (''decrement'', RT_LONG_OR_FALSE), (''incrementByKey'', RT_LONG_OR_FALSE),
      (''decrementByKey'', RT_LONG_OR_FALSE)]"

definition returns_server :: "(string \<times> return_type) list" where
  "returns_server =
     [(''addServer'', RT_BOOL), (''addServers'', RT_BOOL), (''getServerList'', RT_ARRAY),
      (''getServerByKey'', RT_ARRAY_OR_FALSE), (''resetServerList'', RT_BOOL), (''quit'', RT_BOOL),
      (''flushBuffers'', RT_BOOL), (''getLastErrorMessage'', RT_STRING),
      (''getLastErrorCode'', RT_LONG), (''getLastErrorErrno'', RT_LONG),
      (''getLastDisconnectedServer'', RT_ARRAY_OR_FALSE), (''getStats'', RT_ARRAY_OR_FALSE),
      (''getVersion'', RT_ARRAY_OR_FALSE), (''getAllKeys'', RT_ARRAY_OR_FALSE), (''flush'', RT_BOOL)]"

definition returns_option :: "(string \<times> return_type) list" where
  "returns_option =
     [(''getOption'', RT_MIXED), (''setOption'', RT_BOOL), (''setOptions'', RT_BOOL),
      (''setBucket'', RT_BOOL), (''setSaslAuthData'', RT_BOOL), (''setEncodingKey'', RT_BOOL),
      (''isPersistent'', RT_BOOL), (''isPristine'', RT_BOOL), (''checkKey'', RT_BOOL)]"

definition method_returns :: "(string \<times> return_type) list" where
  "method_returns = returns_read @ returns_store @ returns_update @ returns_server @ returns_option"

lemmas returns_defs = method_returns_def returns_read_def returns_store_def returns_update_def
  returns_server_def returns_option_def

lemma distinct_returns: "distinct (map fst method_returns)"
  by (simp add: returns_defs)

lemma read_declared: "(read_name x, declared_read x) \<in> set returns_read"
  by (cases x) (simp_all add: returns_read_def split: option.split)
lemma write_declared: "(write_name x, declared_write x) \<in> set returns_store \<union> set returns_update"
  by (cases x) (simp_all add: returns_store_def returns_update_def split: option.split)
lemma server_declared: "(server_name x, declared_server x) \<in> set returns_server"
  by (cases x) (simp_all add: returns_server_def)
lemma option_declared: "(option_name x, declared_option x) \<in> set returns_read \<union> set returns_option"
  by (cases x) (simp_all add: returns_read_def returns_option_def)

lemma declared_by_name: "map_of method_returns (method_name c) = Some (declared c)"
proof (rule map_of_is_SomeI [OF distinct_returns])
  show "(method_name c, declared c) \<in> set method_returns"
    using read_declared write_declared server_declared option_declared
    unfolding method_returns_def set_append by (cases c) (simp_all, blast+)
qed

definition same_return ::
  "build \<Rightarrow> string \<times> (return_type option \<times> nat, arg_decl) arginfo \<Rightarrow> string \<times> return_type \<Rightarrow> bool" where
  "same_return B = (\<lambda>(m, e) (m', r). m = m' \<and> (\<exists>n args. resolve (arginfo B) e = Some ((Some r, n), args)))"

lemma same_return_read: "list_all2 (same_return B) (tl arginfo_read) returns_read"
  by (simp add: arginfo_read_def returns_read_def same_return_def aliases)
lemma same_return_store: "list_all2 (same_return B) arginfo_store returns_store"
  by (simp add: arginfo_store_def returns_store_def same_return_def aliases)
lemma same_return_update: "list_all2 (same_return B) arginfo_update returns_update"
  by (simp add: arginfo_update_def returns_update_def same_return_def aliases)
lemma same_return_server: "list_all2 (same_return B) arginfo_server returns_server"
  by (simp add: arginfo_server_def returns_server_def same_return_def aliases)
lemma same_return_option:
  "list_all2 (same_return B) (arginfo_option B)
     (filter (\<lambda>(m, _). (m = ''setSaslAuthData'' \<longrightarrow> HAVE_MEMCACHED_SASL B) \<and>
        (m = ''setEncodingKey'' \<longrightarrow> HAVE_MEMCACHED_SET_ENCODING_KEY B)) returns_option)"
  by (cases "HAVE_MEMCACHED_SASL B"; cases "HAVE_MEMCACHED_SET_ENCODING_KEY B";
    simp add: arginfo_option_def returns_option_def same_return_def aliases)

lemma not_declared: "map_of method_returns ''__construct'' = None" "map_of method_returns ''run'' = None"
  "map_of method_returns ''on'' = None"
  by (simp_all add: returns_defs)

lemma signature_returns:
  assumes "(m, e) \<in> set (arginfo B)" "map_of method_returns m = Some r"
  shows "\<exists>n args. resolve (arginfo B) e = Some ((Some r, n), args)"
proof -
  have "fst ` set (arginfo_protocol B) \<subseteq> {''run'', ''on''}"
    by (cases "HAVE_MEMCACHED_PROTOCOL B") (simp_all add: arginfo_protocol_def)
  then have "m = ''run'' \<or> m = ''on''" if "(m, e) \<in> set (arginfo_protocol B)"
    using imageI [OF that, of fst] unfolding fst_conv by blast
  then have *: "(m, e) \<notin> set (arginfo_protocol B)" "m \<noteq> ''__construct''"
    using assms(2) not_declared by (metis option.distinct(1))+
  have "arginfo_read = hd arginfo_read # tl arginfo_read" "fst (hd arginfo_read) = ''__construct''"
    by (simp_all add: arginfo_read_def)
  with * have "(m, e) \<notin> set arginfo_read - set (tl arginfo_read)" by (metis DiffE fst_conv insert_iff list.set(2))
  with * assms(1) consider "(m, e) \<in> set (tl arginfo_read)" | "(m, e) \<in> set arginfo_store" | "(m, e) \<in> set arginfo_update"
    | "(m, e) \<in> set arginfo_server" | "(m, e) \<in> set (arginfo_option B)"
    unfolding arginfo_def set_append by blast
  then have "\<exists>y \<in> set returns_read \<union> set returns_store \<union> set returns_update \<union> set returns_server \<union>
      set returns_option. same_return B (m, e) y"
  proof cases
    case 1
    from list_all2_partner [OF same_return_read 1] show ?thesis by blast
  next
    case 2
    from list_all2_partner [OF same_return_store 2] show ?thesis by blast
  next
    case 3
    from list_all2_partner [OF same_return_update 3] show ?thesis by blast
  next
    case 4
    from list_all2_partner [OF same_return_server 4] show ?thesis by blast
  next
    case 5
    from list_all2_partner [OF same_return_option 5] show ?thesis by auto
  qed
  then obtain r' where "(m, r') \<in> set method_returns" "same_return B (m, e) (m, r')"
    unfolding method_returns_def set_append by (auto simp: same_return_def)
  moreover from this(1) assms(2) distinct_returns have "r' = r" by simp
  ultimately show ?thesis by (simp add: same_return_def)
qed

section \<open>Properties\<close>

lemma signature_cases:
  assumes "m \<in> set (class_Memcached_methods B @ class_MemcachedServer_methods B)"
  obtains e where "(m, e) \<in> set (arginfo B)" "signature (arginfo B) m = resolve (arginfo B) e"
proof -
  from assms obtain e where "(m, e) \<in> set (arginfo B)"
    unfolding arginfo_names [symmetric] by auto
  with that signature_entry [OF arginfo_distinct this] show thesis by blast
qed

text \<open>C36: The headers for PHP 7 and PHP 8 declare the same classes, in every build: the same methods in
  the same order, and for each the same number of required parameters and the same parameters.\<close>

theorem headers_declare_same_parameters:
  "legacy_class_Memcached_methods B = class_Memcached_methods B \<and>
   legacy_class_MemcachedServer_methods B = class_MemcachedServer_methods B \<and>
   list_all (\<lambda>m. \<exists>ret n args. signature (arginfo B) m = Some ((ret, n), args) \<and>
       signature (legacy_arginfo B) m = Some (n, map arg_name args))
     (class_Memcached_methods B @ class_MemcachedServer_methods B)"
proof (intro conjI)
  show "list_all (\<lambda>m. \<exists>ret n args. signature (arginfo B) m = Some ((ret, n), args) \<and>
       signature (legacy_arginfo B) m = Some (n, map arg_name args))
     (class_Memcached_methods B @ class_MemcachedServer_methods B)"
    unfolding list_all_iff
  proof
    fix m assume "m \<in> set (class_Memcached_methods B @ class_MemcachedServer_methods B)"
    then obtain e where e: "(m, e) \<in> set (arginfo B)" "signature (arginfo B) m = resolve (arginfo B) e"
      by (rule signature_cases)
    from list_all2_partner [OF same_parameters_all e(1)] obtain x
      where x: "x \<in> set (legacy_arginfo B)" "same_parameters B (m, e) x" by blast
    then obtain e' where "(m, e') \<in> set (legacy_arginfo B)" "same_parameters B (m, e) (m, e')"
      by (cases x) (auto simp: same_parameters_def)
    with signature_entry [OF legacy_arginfo_distinct this(1)] e(2)
    show "\<exists>ret n args. signature (arginfo B) m = Some ((ret, n), args) \<and>
        signature (legacy_arginfo B) m = Some (n, map arg_name args)"
      by (auto simp: same_parameters_def)
  qed
qed (simp_all add: table_defs legacy_table_defs)


text \<open>C12: Every method returns a value of the type its header declares: in any run of method calls on an
  object, the value of each call has the return type in the table of the method's name, for every
  method the build has. PHP's engine relies on it; a debug build aborts otherwise.\<close>

theorem results_have_arginfo_type:
  assumes run: "memc_calls E LO LS calls i = Some (vs, j)"
    and methods: "\<forall>c \<in> set calls. method_name c \<in> set (class_Memcached_methods B)"
  shows "list_all2 (\<lambda>c v. \<exists>rt n args. signature (arginfo B) (method_name c) = Some ((Some rt, n), args) \<and>
    has_return_type v rt) calls vs"
proof -
  have "\<exists>rt n args. signature (arginfo B) (method_name c) = Some ((Some rt, n), args) \<and> has_return_type v rt"
    if c: "c \<in> set calls" "has_return_type v (declared c)" for c v
  proof -
    from methods c(1) have "method_name c \<in> set (class_Memcached_methods B @ class_MemcachedServer_methods B)" by simp
    then obtain e where "(method_name c, e) \<in> set (arginfo B)" "signature (arginfo B) (method_name c) = resolve (arginfo B) e"
      by (rule signature_cases)
    with signature_returns [OF _ declared_by_name] c(2) show ?thesis by metis
  qed
  with results_have_declared_type [OF run] show ?thesis unfolding list_all2_conv_all_nth by (metis nth_mem)
qed

definition sample_build :: build where
  "sample_build = \<lparr>HAVE_MEMCACHED_IGBINARY = False, HAVE_JSON_API = True, HAVE_MEMCACHED_MSGPACK = False,
     HAVE_ZSTD_H = True, HAVE_MEMCACHED_SASL = True, HAVE_MEMCACHED_SET_ENCODING_KEY = False,
     HAVE_MEMCACHED_PROTOCOL = True, HAVE_MEMCACHED_SESSION = True, LIBMEMCACHED_VERSION_HEX = 16777240\<rparr>"

theorem results_have_arginfo_type_witness:
  "list_all2 (\<lambda>c v. \<exists>rt n args. signature (arginfo sample_build) (method_name c) = Some ((Some rt, n), args) \<and>
     has_return_type v rt) sample_calls [IS_TRUE :: (bool \<times> rat) zval, IS_FALSE, IS_FALSE, IS_LONG 0, IS_TRUE]"
proof -
  obtain j where "memc_calls sample_env sample_options sample_servers sample_calls sample_start =
      Some ([IS_TRUE, IS_FALSE, IS_FALSE, IS_LONG 0, IS_TRUE], j)"
    using sample_calls_run by blast
  moreover have "\<forall>c \<in> set sample_calls. method_name c \<in> set (class_Memcached_methods sample_build)"
    by (simp add: sample_calls_def class_Memcached_methods_def)
  ultimately show ?thesis by (rule results_have_arginfo_type)
qed

end
