(* ===== verification/Session.thy ===== *)
theory Session
  imports Ini Servers Write
begin

text \<open>
  The session handler, \<open>php_memcached_session.c\<close>: configuration of its client from the ini
  globals, opening with the persistent list, locking with retries and growing waits, reading,
  writing, destroying, creating and validating ids. Properties: what is written is read, locks
  exclude each other as long as they do not expire, retries and waits are bounded, and
  expirations mean what the configuration says.
\<close>

section \<open>State and library calls\<close>

record sess_user_data =
  su_is_persistent :: bool
  su_has_sasl_data :: bool
  su_is_locked :: bool
  su_lock_key :: string

text \<open>
  The calls of libmemcached that only this component makes. \<open>lz_get\<close> is \<open>memcached_get\<close>: the
  payload (\<open>None\<close>: NULL), the status and the client. \<open>lz_create_id\<close> is \<open>php_session_create_id\<close>
  on its successive calls.
\<close>

record 'm lm_session =
  lz_get :: "string \<Rightarrow> 'm \<Rightarrow> string option \<times> memcached_return \<times> 'm"
  lz_exist :: "string \<Rightarrow> 'm \<Rightarrow> memcached_return \<times> 'm"
  lz_servers_parse :: "string \<Rightarrow> server_list option"
  lz_create :: "'m option"
  lz_server_push :: "server_list \<Rightarrow> 'm \<Rightarrow> 'm"
  lz_set_namespace :: "string \<Rightarrow> 'm \<Rightarrow> 'm"
  lz_set_sasl_auth_data :: "string \<Rightarrow> string \<Rightarrow> 'm \<Rightarrow> memcached_return \<times> 'm"
  lz_create_id :: "nat \<Rightarrow> string"

text \<open>Everything the handler depends on: library, ini globals, clock, \<open>max_execution_time\<close>, SASL.\<close>

record 'm sess_env =
  se_lib :: "'m libmemcached"
  se_calls :: "'m lm_session"
  se_ini :: session_globals
  se_now :: zend_long
  se_max_execution_time :: zend_long
  se_have_sasl :: bool
  se_sasl_initialised :: bool
  se_sasl_init_ok :: bool
  se_have_exist :: bool

text \<open>Session clients in memory, the session entries of the persistent list, and \<open>PS_GET_MOD_DATA\<close>.\<close>

record 'm sess_state =
  ss_cells :: "nat \<Rightarrow> ('m \<times> sess_user_data) option"
  ss_plist :: "string \<Rightarrow> nat option"
  ss_mod_data :: "nat option"

section \<open>Expirations\<close>

abbreviation (input) REALTIME_MAXDELTA :: int where "REALTIME_MAXDELTA \<equiv> 60 * 60 * 24 * 30"

definition s_adjust_expiration :: "zend_long \<Rightarrow> zend_long \<Rightarrow> zend_long" where
  "s_adjust_expiration now expiration =
     (if sint expiration \<le> REALTIME_MAXDELTA then expiration else now + expiration)"

definition s_lock_expiration :: "'m sess_env \<Rightarrow> zend_long" where
  "s_lock_expiration S =
     (if sint (S_lock_expiration (se_ini S)) > 0
      then s_adjust_expiration (se_now S) (S_lock_expiration (se_ini S))
      else if sint (se_max_execution_time S) > 0
      then s_adjust_expiration (se_now S) (se_max_execution_time S)
      else 0)"

definition s_session_expiration :: "zend_long \<Rightarrow> zend_long \<Rightarrow> zend_long" where
  "s_session_expiration now maxlifetime =
     (if sint maxlifetime > 0 then s_adjust_expiration now maxlifetime else 0)"

section \<open>Locks\<close>

definition lock_key :: "string \<Rightarrow> string" where
  "lock_key sid = ''lock.'' @ c_string sid"

text \<open>One \<open>memcached_add\<close> of the lock and what it does to the user data.\<close>

definition lock_attempt ::
  "'m sess_env \<Rightarrow> string \<Rightarrow> 'm \<times> sess_user_data \<Rightarrow> memcached_return \<times> 'm \<times> sess_user_data" where
  "lock_attempt S sid c =
     (case c of (m, ud) \<Rightarrow>
        (case lm_store (se_lib S) MEMC_OP_ADD None (lock_key sid) ''1'' (s_lock_expiration S) 0 m of
           (rc, m) \<Rightarrow>
             (rc, m, if rc = MEMCACHED_SUCCESS then ud\<lparr>su_lock_key := lock_key sid, su_is_locked := True\<rparr> else ud)))"

text \<open>
  The loop, with \<open>retries\<close> counting down (negative counts as 0: one attempt). The waits, in
  milliseconds, are collected in the last component.
\<close>

fun lock_loop ::
  "'m sess_env \<Rightarrow> string \<Rightarrow> nat \<Rightarrow> zend_long \<Rightarrow> 'm \<times> sess_user_data \<Rightarrow> zend_long list \<Rightarrow>
     ('m \<times> sess_user_data) \<times> zend_long list" where
  "lock_loop S sid retries wait_time c waits =
     (case lock_attempt S sid c of (rc, c) \<Rightarrow>
        let busy = (rc = MEMCACHED_NOTSTORED \<or> rc = MEMCACHED_DATA_EXISTS) \<and> retries > 0;
            waits = (if busy then waits @ [wait_time] else waits);
            wait_time = (if busy
              then (if S_lock_wait_max (se_ini S) <s wait_time * 2 then S_lock_wait_max (se_ini S) else wait_time * 2)
              else wait_time)
        in if \<not> su_is_locked (snd c)
           then (case retries of 0 \<Rightarrow> (c, waits) | Suc r \<Rightarrow> lock_loop S sid r wait_time c waits)
           else (c, waits))"

declare lock_loop.simps [simp del]

definition s_lock_session ::
  "'m sess_env \<Rightarrow> string \<Rightarrow> 'm \<times> sess_user_data \<Rightarrow> bool \<times> ('m \<times> sess_user_data) \<times> zend_long list" where
  "s_lock_session S sid c =
     (case lock_loop S sid (nat (sint (S_lock_retries (se_ini S)))) (S_lock_wait_min (se_ini S)) c [] of
        (c, waits) \<Rightarrow> (su_is_locked (snd c), c, waits))"

definition s_unlock_session :: "'m sess_env \<Rightarrow> 'm \<times> sess_user_data \<Rightarrow> 'm \<times> sess_user_data" where
  "s_unlock_session S c =
     (case c of (m, ud) \<Rightarrow>
        if su_is_locked ud
        then (snd (lm_delete (se_lib S) None (su_lock_key ud) 0 m), ud\<lparr>su_is_locked := False\<rparr>)
        else (m, ud))"

section \<open>Configuration\<close>

text \<open>\<open>check_set_behavior\<close>: \<open>None\<close> is the \<open>return 0\<close> inside the macro.\<close>

definition check_set_behavior ::
  "'m libmemcached \<Rightarrow> memcached_behavior \<Rightarrow> u64 \<Rightarrow> 'm \<Rightarrow> 'm option" where
  "check_set_behavior L b v m =
     (if v \<noteq> lm_behavior_get L m b then
        (case lm_behavior_set L m b v of (rc, m) \<Rightarrow> if rc \<noteq> MEMCACHED_SUCCESS then None else Some m)
      else Some m)"

definition check_if :: "bool \<Rightarrow> ('m \<Rightarrow> 'm option) \<Rightarrow> 'm \<Rightarrow> 'm option" where
  "check_if b f m = (if b then f m else Some m)"

definition MEMC_SESS_STR_INI :: "string option \<Rightarrow> string option" where
  "MEMC_SESS_STR_INI v = (case v of None \<Rightarrow> None | Some s \<Rightarrow> if c_string s = [] then None else Some (c_string s))"

text \<open>The ini values that are behaviours of the client.\<close>

definition configure_behaviors :: "'m sess_env \<Rightarrow> 'm \<Rightarrow> 'm option" where
  "configure_behaviors S m = do {
     let L = se_lib S; let G = se_ini S;
     m \<leftarrow> check_if (S_binary_protocol_enabled G) (check_set_behavior L MEMCACHED_BEHAVIOR_BINARY_PROTOCOL 1) m;
     m \<leftarrow> check_if (S_binary_protocol_enabled G) (check_set_behavior L MEMCACHED_BEHAVIOR_TCP_NODELAY 1) m;
     m \<leftarrow> check_if (S_consistent_hash_enabled G) (check_set_behavior L (S_consistent_hash_type G) 1) m;
     m \<leftarrow> check_if (S_server_failure_limit G \<noteq> 0)
            (check_set_behavior L MEMCACHED_BEHAVIOR_SERVER_FAILURE_LIMIT (S_server_failure_limit G)) m;
     m \<leftarrow> check_if (S_number_of_replicas G \<noteq> 0)
            (check_set_behavior L MEMCACHED_BEHAVIOR_NUMBER_OF_REPLICAS (S_number_of_replicas G)) m;
     m \<leftarrow> check_if (S_randomize_replica_read_enabled G)
            (check_set_behavior L MEMCACHED_BEHAVIOR_RANDOMIZE_REPLICA_READ 1) m;
     m \<leftarrow> check_if (S_remove_failed_servers_enabled G)
            (check_set_behavior L MEMCACHED_BEHAVIOR_REMOVE_FAILED_SERVERS 1) m;
     check_if (S_connect_timeout G \<noteq> 0)
       (check_set_behavior L MEMCACHED_BEHAVIOR_CONNECT_TIMEOUT (S_connect_timeout G)) m
   }"

text \<open>
  The first component is the return value; the outer \<open>None\<close> is the \<open>E_ERROR\<close> of SASL. On a failure
  the client is in a state of the middle of the configuration; both callers drop it, so it is
  left out.
\<close>

definition s_configure_from_ini_values ::
  "'m sess_env \<Rightarrow> 'm \<times> sess_user_data \<Rightarrow> ('m \<times> sess_user_data) option option" where
  "s_configure_from_ini_values S c =
     (case c of (m, ud) \<Rightarrow>
        (case configure_behaviors S m of
           None \<Rightarrow> Some None
         | Some m \<Rightarrow>
             let m = (case MEMC_SESS_STR_INI (S_prefix (se_ini S)) of
                        None \<Rightarrow> m | Some p \<Rightarrow> lz_set_namespace (se_calls S) p m)
             in case (MEMC_SESS_STR_INI (S_sasl_username (se_ini S)), MEMC_SESS_STR_INI (S_sasl_password (se_ini S))) of
                  (Some user, Some pass) \<Rightarrow>
                    (case php_memc_init_sasl_if_needed (se_have_sasl S) (se_sasl_initialised S) (se_sasl_init_ok S) of
                       None \<Rightarrow> None
                     | Some False \<Rightarrow> Some None
                     | Some True \<Rightarrow>
                         (case check_set_behavior (se_lib S) MEMCACHED_BEHAVIOR_BINARY_PROTOCOL 1 m of
                            None \<Rightarrow> Some None
                          | Some m \<Rightarrow>
                              (case lz_set_sasl_auth_data (se_calls S) user pass m of
                                 (rc, m) \<Rightarrow>
                                   if rc = MEMCACHED_FAILURE then Some None
                                   else Some (Some (m, ud\<lparr>su_has_sasl_data := True\<rparr>)))))
                | _ \<Rightarrow> Some (Some (m, ud))))"

section \<open>Opening and closing\<close>

definition s_destroy_mod_data :: "nat \<Rightarrow> 'm sess_state \<Rightarrow> 'm sess_state" where
  "s_destroy_mod_data a st = st\<lparr>ss_cells := (ss_cells st)(a := None)\<rparr>"

text \<open>\<open>None\<close>: \<open>memcached_create\<close> failed, an \<open>E_ERROR\<close> ends the request.\<close>

definition s_init_mod_data :: "'m sess_env \<Rightarrow> server_list \<Rightarrow> bool \<Rightarrow> ('m \<times> sess_user_data) option" where
  "s_init_mod_data S servers persistent = do {
     m \<leftarrow> lz_create (se_calls S);
     let m = lz_server_push (se_calls S) servers m;
     let m = snd (lm_behavior_set (se_lib S) m MEMCACHED_BEHAVIOR_VERIFY_KEY 1);
     Some (m, \<lparr>su_is_persistent = persistent, su_has_sasl_data = False, su_is_locked = False, su_lock_key = []\<rparr>)
   }"

fun strstr :: "string \<Rightarrow> string \<Rightarrow> bool" where
  "strstr [] pat = (pat = [])"
| "strstr (c # cs) pat = (take (length pat) (c # cs) = pat \<or> strstr cs pat)"

text \<open>A new client, configured, registered when it is persistent; \<open>a\<close> is its address.\<close>

definition sess_open_new ::
  "'m sess_env \<Rightarrow> nat \<Rightarrow> string option \<Rightarrow> server_list \<Rightarrow> 'm sess_state \<Rightarrow> (bool \<times> 'm sess_state) option" where
  "sess_open_new S a plist_key servers st = do {
     c \<leftarrow> s_init_mod_data S servers (S_persistent_enabled (se_ini S));
     r \<leftarrow> s_configure_from_ini_values S c;
     case r of
       None \<Rightarrow> Some (False, st\<lparr>ss_mod_data := None\<rparr>)
     | Some c \<Rightarrow>
         (let st = st\<lparr>ss_cells := (ss_cells st)(a \<mapsto> c)\<rparr>;
              st = (case plist_key of
                      None \<Rightarrow> st
                    | Some k \<Rightarrow>
                        (let st = (case ss_plist st k of None \<Rightarrow> st | Some b \<Rightarrow> s_destroy_mod_data b st)
                         in st\<lparr>ss_plist := (ss_plist st)(k \<mapsto> a)\<rparr>))
          in Some (True, st\<lparr>ss_mod_data := Some a\<rparr>))
   }"

text \<open>
  \<open>PS_OPEN_FUNC\<close>. A registered client is configured again; when that fails, it is removed from
  the list (and destroyed) and a new one is made. An entry that points nowhere does not occur.
  \<open>save_path\<close> is a C string, without null bytes.
\<close>

definition ps_open :: "'m sess_env \<Rightarrow> nat \<Rightarrow> string \<Rightarrow> 'm sess_state \<Rightarrow> (bool \<times> 'm sess_state) option" where
  "ps_open S a save_path st =
     (if strstr save_path ''PERSISTENT='' then Some (False, st\<lparr>ss_mod_data := None\<rparr>)
      else case lz_servers_parse (se_calls S) save_path of
        None \<Rightarrow> Some (False, st\<lparr>ss_mod_data := None\<rparr>)
      | Some servers \<Rightarrow>
          if S_persistent_enabled (se_ini S) then
            let key = ''memc-session:'' @ save_path in
            case ss_plist st key of
              None \<Rightarrow> sess_open_new S a (Some key) servers st
            | Some b \<Rightarrow> do {
                c \<leftarrow> ss_cells st b;
                r \<leftarrow> s_configure_from_ini_values S c;
                case r of
                  Some c \<Rightarrow> Some (True, st\<lparr>ss_cells := (ss_cells st)(b \<mapsto> c), ss_mod_data := Some b\<rparr>)
                | None \<Rightarrow>
                    sess_open_new S a (Some key) servers
                      ((s_destroy_mod_data b st)\<lparr>ss_plist := (ss_plist st)(key := None)\<rparr>)
              }
          else sess_open_new S a None servers st)"

text \<open>\<open>PS_CLOSE_FUNC\<close>; the outer \<open>None\<close> of this and the following is a client that was freed.\<close>

definition ps_close :: "'m sess_env \<Rightarrow> 'm sess_state \<Rightarrow> (bool \<times> 'm sess_state) option" where
  "ps_close S st =
     (case ss_mod_data st of
        None \<Rightarrow> Some (False, st)
      | Some a \<Rightarrow> do {
          c \<leftarrow> ss_cells st a;
          let c = (if su_is_locked (snd c) then s_unlock_session S c else c);
          let st = st\<lparr>ss_cells := (ss_cells st)(a \<mapsto> c)\<rparr>;
          let st = (if \<not> su_is_persistent (snd c) then s_destroy_mod_data a st else st);
          Some (True, st\<lparr>ss_mod_data := None\<rparr>)
        })"

section \<open>Reading and writing\<close>

text \<open>\<open>PS_READ_FUNC\<close> on the client: the session data, or \<open>None\<close> for \<open>FAILURE\<close>.\<close>

definition ps_read ::
  "'m sess_env \<Rightarrow> string \<Rightarrow> 'm \<times> sess_user_data \<Rightarrow> string option \<times> ('m \<times> sess_user_data)" where
  "ps_read S key c =
     (let (ok, c) = (if S_lock_enabled (se_ini S)
            then (case s_lock_session S key c of (ok, c, waits) \<Rightarrow> (ok, c)) else (True, c))
      in if \<not> ok then (None, c)
         else case lz_get (se_calls S) key (fst c) of
           (payload, status, m) \<Rightarrow>
             if status = MEMCACHED_SUCCESS then (Some (case payload of None \<Rightarrow> [] | Some p \<Rightarrow> p), (m, snd c))
             else if status = MEMCACHED_NOTFOUND then (Some [], (m, snd c))
             else (None, (m, snd c)))"

text \<open>The \<open>do\<close> loop of \<open>PS_WRITE_FUNC\<close>: at least one attempt.\<close>

fun write_loop ::
  "'m libmemcached \<Rightarrow> string \<Rightarrow> string \<Rightarrow> zend_long \<Rightarrow> nat \<Rightarrow> 'm \<Rightarrow> bool \<times> 'm" where
  "write_loop L key val expiration retries m =
     (case lm_store L MEMC_OP_SET None key val expiration 0 m of
        (rc, m) \<Rightarrow>
          if rc = MEMCACHED_SUCCESS then (True, m)
          else (case retries of
                  0 \<Rightarrow> (False, m)
                | Suc r \<Rightarrow> if r > 0 then write_loop L key val expiration r m else (False, m)))"

declare write_loop.simps [simp del]

definition ps_write ::
  "'m sess_env \<Rightarrow> string \<Rightarrow> string \<Rightarrow> zend_long \<Rightarrow> 'm \<times> sess_user_data \<Rightarrow> bool \<times> ('m \<times> sess_user_data)" where
  "ps_write S key val maxlifetime c =
     (let L = se_lib S; m = fst c;
          retries = (if S_remove_failed_servers_enabled (se_ini S)
            then 1 + lm_behavior_get L m MEMCACHED_BEHAVIOR_NUMBER_OF_REPLICAS *
                     (lm_behavior_get L m MEMCACHED_BEHAVIOR_SERVER_FAILURE_LIMIT + 1)
            else 1);
          (ok, m) = write_loop L key val (s_session_expiration (se_now S) maxlifetime) (nat (sint retries)) m
      in (ok, (m, snd c)))"

definition ps_destroy :: "'m sess_env \<Rightarrow> string \<Rightarrow> 'm \<times> sess_user_data \<Rightarrow> bool \<times> ('m \<times> sess_user_data)" where
  "ps_destroy S key c =
     (let c = (snd (lm_delete (se_lib S) None key 0 (fst c)), snd c)
      in (True, if su_is_locked (snd c) then s_unlock_session S c else c))"

text \<open>\<open>PS_GC_FUNC\<close>: the servers expire items by themselves.\<close>

definition ps_gc :: "'m \<times> sess_user_data \<Rightarrow> bool \<times> ('m \<times> sess_user_data)" where
  "ps_gc c = (True, c)"

section \<open>Session ids\<close>

fun create_sid_loop :: "'m sess_env \<Rightarrow> nat \<Rightarrow> nat \<Rightarrow> 'm \<Rightarrow> string option \<times> 'm" where
  "create_sid_loop S 0 n m = (None, m)"
| "create_sid_loop S (Suc retries) n m =
     (let sid = lz_create_id (se_calls S) n in
      case lm_store (se_lib S) MEMC_OP_ADD None sid [] (s_lock_expiration S) 0 m of
        (rc, m) \<Rightarrow> if rc = MEMCACHED_SUCCESS then (Some sid, m) else create_sid_loop S retries (Suc n) m)"

definition ps_create_sid :: "'m sess_env \<Rightarrow> 'm option \<Rightarrow> string option \<times> 'm option" where
  "ps_create_sid S mod_data =
     (case mod_data of
        None \<Rightarrow> (Some (lz_create_id (se_calls S) 0), None)
      | Some m \<Rightarrow> (case create_sid_loop S 3 0 m of (sid, m) \<Rightarrow> (sid, Some m)))"

text \<open>\<open>php_libmemcached_compat.c\<close>: without \<open>memcached_exist\<close> the item is fetched.\<close>

definition php_memcached_exist :: "'m sess_env \<Rightarrow> string \<Rightarrow> 'm \<Rightarrow> memcached_return \<times> 'm" where
  "php_memcached_exist S key m =
     (if se_have_exist S then lz_exist (se_calls S) key m
      else case lz_get (se_calls S) key m of (payload, rc, m) \<Rightarrow> (rc, m))"

definition ps_validate_sid :: "'m sess_env \<Rightarrow> string \<Rightarrow> 'm \<Rightarrow> bool \<times> 'm" where
  "ps_validate_sid S key m =
     (case php_memcached_exist S key m of (rc, m) \<Rightarrow> (rc = MEMCACHED_SUCCESS, m))"

definition ps_update_timestamp :: "'m sess_env \<Rightarrow> string \<Rightarrow> zend_long \<Rightarrow> 'm \<Rightarrow> bool \<times> 'm" where
  "ps_update_timestamp S key maxlifetime m =
     (case php_memcached_touch (se_lib S) None key (s_session_expiration (se_now S) maxlifetime) m of
        (rc, m) \<Rightarrow> (rc \<noteq> MEMCACHED_FAILURE, m))"

section \<open>Facts on the lock loop\<close>

abbreviation after_attempts :: "'m sess_env \<Rightarrow> string \<Rightarrow> nat \<Rightarrow> 'm \<times> sess_user_data \<Rightarrow> 'm \<times> sess_user_data" where
  "after_attempts S sid i \<equiv> (\<lambda>c. snd (lock_attempt S sid c)) ^^ i"

lemma lock_attempt_locked:
  "\<not> su_is_locked (snd c) \<Longrightarrow>
     su_is_locked (snd (snd (lock_attempt S sid c))) \<longleftrightarrow> fst (lock_attempt S sid c) = MEMCACHED_SUCCESS"
  by (auto simp: lock_attempt_def case_prod_beta')

lemma lock_attempt_key:
  "fst (lock_attempt S sid c) = MEMCACHED_SUCCESS \<Longrightarrow> su_lock_key (snd (snd (lock_attempt S sid c))) = lock_key sid"
  by (auto simp: lock_attempt_def case_prod_beta')

text \<open>The first successful attempt ends the loop; without one, the attempts are used up.\<close>

lemma lock_loop_attempts:
  assumes "\<not> su_is_locked (snd c)"
  shows "\<exists>k \<le> Suc r. fst (lock_loop S sid r w c ws) = after_attempts S sid k c \<and>
    (if su_is_locked (snd (after_attempts S sid k c))
     then (\<exists>i. k = Suc i \<and> fst (lock_attempt S sid (after_attempts S sid i c)) = MEMCACHED_SUCCESS)
     else (\<forall>i \<le> r. fst (lock_attempt S sid (after_attempts S sid i c)) \<noteq> MEMCACHED_SUCCESS))"
  using assms
proof (induction r arbitrary: w c ws)
  case 0
  then show ?case
    using lock_attempt_locked [OF 0, of S sid]
    by (intro exI [of _ 1]) (auto simp: lock_loop.simps case_prod_beta' Let_def)
next
  case (Suc r)
  let ?c = "snd (lock_attempt S sid c)"
  note iff = lock_attempt_locked [OF Suc.prems, of S sid]
  show ?case
  proof (cases "su_is_locked (snd ?c)")
    case True
    then show ?thesis using iff
      by (intro exI [of _ 1]) (auto simp: lock_loop.simps [of S sid "Suc r"] case_prod_beta' Let_def)
  next
    case False
    then obtain w' ws' where step: "lock_loop S sid (Suc r) w c ws = lock_loop S sid r w' ?c ws'"
      by (auto simp: lock_loop.simps [of S sid "Suc r"] case_prod_beta' Let_def)
    have shift: "after_attempts S sid i ?c = after_attempts S sid (Suc i) c" for i
      using funpow_swap1 [of "\<lambda>c. snd (lock_attempt S sid c)" i c] by simp
    from Suc.IH [OF False, of w' ws'] obtain k where k: "k \<le> Suc r"
      "fst (lock_loop S sid r w' ?c ws') = after_attempts S sid k ?c"
      "if su_is_locked (snd (after_attempts S sid k ?c))
       then (\<exists>i. k = Suc i \<and> fst (lock_attempt S sid (after_attempts S sid i ?c)) = MEMCACHED_SUCCESS)
       else (\<forall>i \<le> r. fst (lock_attempt S sid (after_attempts S sid i ?c)) \<noteq> MEMCACHED_SUCCESS)"
      by blast
    have "fst (lock_attempt S sid c) \<noteq> MEMCACHED_SUCCESS" using iff False by simp
    then have all: "(\<forall>i \<le> r. fst (lock_attempt S sid (after_attempts S sid (Suc i) c)) \<noteq> MEMCACHED_SUCCESS) \<Longrightarrow>
      \<forall>i \<le> Suc r. fst (lock_attempt S sid (after_attempts S sid i c)) \<noteq> MEMCACHED_SUCCESS"
      by (metis funpow_0 le_SucE not0_implies_Suc Suc_le_mono)
    show ?thesis
      by (rule exI [of _ "Suc k"]) (use k all step in \<open>auto simp del: funpow.simps simp: shift split: if_splits\<close>)
  qed
qed

lemma sint_double:
  assumes "0 \<le> sint (w :: zend_long)" "sint w < 2 ^ 62"
  shows "sint (w * 2) = 2 * sint w"
proof -
  have "sint (w * 2) = signed_take_bit 63 (sint w * 2)" using sint_word_mult [of w 2] by simp
  also have "\<dots> = sint w * 2" by (rule signed_take_bit_int_eq_self) (use assms in simp_all)
  finally show ?thesis by simp
qed

text \<open>The next wait is twice as long, but not longer than the maximum.\<close>

lemma next_wait:
  assumes "0 \<le> sint (w :: zend_long)" "sint w \<le> sint mx" "sint mx < 2 ^ 62"
  shows "sint (if mx <s w * 2 then mx else w * 2) = min (2 * sint w) (sint mx)"
  using assms sint_double [of w] by (simp add: word_sless_alt min_def)

lemma lock_loop_waits:
  assumes mx: "sint (S_lock_wait_max (se_ini S)) < 2 ^ 62" and mn: "0 \<le> mn"
    and w: "sint w = min (mn * 2 ^ j) (sint (S_lock_wait_max (se_ini S)))" "0 \<le> sint w"
  shows "\<exists>k \<le> r. map sint (snd (lock_loop S sid r w c ws)) =
    map sint ws @ map (\<lambda>i. min (mn * 2 ^ i) (sint (S_lock_wait_max (se_ini S)))) [j..<j + k]"
  using w
proof (induction r arbitrary: w c ws j)
  case 0
  show ?case by (auto simp: lock_loop.simps case_prod_beta' Let_def)
next
  case (Suc r)
  let ?mx = "S_lock_wait_max (se_ini S)" and ?c = "snd (lock_attempt S sid c)"
  let ?rc = "fst (lock_attempt S sid c)" and ?w = "if ?mx <s w * 2 then ?mx else w * 2"
  let ?f = "\<lambda>i. min (mn * 2 ^ i) (sint ?mx)"
  have next_w: "sint ?w = ?f (Suc j)"
  proof -
    have "0 \<le> mn * 2 ^ j" using mn by simp
    then show ?thesis using next_wait [of w ?mx] Suc.prems mx by (auto simp: min_def split: if_splits)
  qed
  have nonneg: "0 \<le> sint ?w" using next_w Suc.prems mn by (auto simp: min_def split: if_splits)
  have list: "map sint ws @ [sint w] @ map ?f [Suc j..<Suc j + k] = map sint ws @ map ?f [j..<j + Suc k]" for k
  proof -
    have "[j..<j + Suc k] = j # [Suc j..<Suc j + k]" by (subst upt_conv_Cons) simp_all
    then show ?thesis using Suc.prems(1) by simp
  qed
  show ?case
  proof (cases "?rc = MEMCACHED_NOTSTORED \<or> ?rc = MEMCACHED_DATA_EXISTS")
    case True
    show ?thesis
    proof (cases "su_is_locked (snd ?c)")
      case locked: True
      then show ?thesis using True list [of 0]
        by (intro exI [of _ 1]) (auto simp: lock_loop.simps [of S sid "Suc r"] case_prod_beta' Let_def Suc.prems)
    next
      case False
      then have step: "lock_loop S sid (Suc r) w c ws = lock_loop S sid r ?w ?c (ws @ [w])"
        using True by (auto simp: lock_loop.simps [of S sid "Suc r"] case_prod_beta' Let_def)
      obtain k where "k \<le> r" "map sint (snd (lock_loop S sid r ?w ?c (ws @ [w]))) =
          map sint (ws @ [w]) @ map ?f [Suc j..<Suc j + k]"
        using Suc.IH [OF next_w nonneg, of ?c "ws @ [w]"] by blast
      then show ?thesis
        unfolding step using list [of k] by (intro exI [of _ "Suc k"]) simp
    qed
  next
    case False
    then have "snd (lock_loop S sid (Suc r) w c ws) =
        (if su_is_locked (snd ?c) then ws else snd (lock_loop S sid r w ?c ws))"
      by (auto simp: lock_loop.simps [of S sid "Suc r"] case_prod_beta' Let_def)
    moreover obtain k where "k \<le> r" "map sint (snd (lock_loop S sid r w ?c ws)) = map sint ws @ map ?f [j..<j + k]"
      using Suc.IH [OF Suc.prems, of ?c ws] by blast
    ultimately show ?thesis
      by (cases "su_is_locked (snd ?c)") (auto intro: exI [of _ 0] exI [of _ k])
  qed
qed

section \<open>What servers do with items\<close>

text \<open>
  \<open>content m k\<close> is the value that the servers hold for the key \<open>k\<close>. The laws are those of the
  memcached protocol, for items that do not expire meanwhile: a successful set stores its value;
  an add stores only where nothing was stored, and never changes an item that exists; a delete
  removes the item; a get returns it. A request that fails may or may not have changed the
  item of its own key.
\<close>

definition item_store ::
  "'m libmemcached \<Rightarrow> 'm lm_session \<Rightarrow> ('m \<Rightarrow> string \<Rightarrow> string option) \<Rightarrow> bool" where
  "item_store L LZ content \<longleftrightarrow>
     (\<forall>k v e f m rc m'. lm_store L MEMC_OP_SET None k v e f m = (rc, m') \<longrightarrow>
        (\<forall>k'. k' \<noteq> k \<longrightarrow> content m' k' = content m k') \<and> (rc = MEMCACHED_SUCCESS \<longrightarrow> content m' k = Some v)) \<and>
     (\<forall>k v e f m rc m'. lm_store L MEMC_OP_ADD None k v e f m = (rc, m') \<longrightarrow>
        (\<forall>k'. k' \<noteq> k \<longrightarrow> content m' k' = content m k') \<and>
        (content m k \<noteq> None \<longrightarrow> content m' k = content m k) \<and>
        (rc = MEMCACHED_SUCCESS \<longrightarrow> content m k = None \<and> content m' k = Some v)) \<and>
     (\<forall>k e m rc m'. lm_delete L None k e m = (rc, m') \<longrightarrow> content m' = (content m)(k := None)) \<and>
     (\<forall>k m p rc m'. lz_get LZ k m = (p, rc, m') \<longrightarrow> content m' = content m \<and>
        (rc = MEMCACHED_SUCCESS \<longrightarrow> content m k = Some (case p of None \<Rightarrow> [] | Some v \<Rightarrow> v)) \<and>
        (rc = MEMCACHED_NOTFOUND \<longrightarrow> content m k = None))"

lemma item_storeD:
  assumes "item_store L LZ content"
  shows "lm_store L MEMC_OP_SET None k v e f m = (rc, m') \<Longrightarrow> k' \<noteq> k \<Longrightarrow> content m' k' = content m k'"
    "lm_store L MEMC_OP_SET None k v e f m = (MEMCACHED_SUCCESS, m') \<Longrightarrow> content m' k = Some v"
    "lm_store L MEMC_OP_ADD None k v e f m = (rc, m') \<Longrightarrow> k' \<noteq> k \<Longrightarrow> content m' k' = content m k'"
    "lm_store L MEMC_OP_ADD None k v e f m = (rc, m') \<Longrightarrow> content m k' \<noteq> None \<Longrightarrow> content m' k' = content m k'"
    "lm_store L MEMC_OP_ADD None k v e f m = (MEMCACHED_SUCCESS, m') \<Longrightarrow> content m k = None \<and> content m' k = Some v"
    "lm_delete L None k e m = (rc, m') \<Longrightarrow> content m' = (content m)(k := None)"
    "lz_get LZ k m = (p, rc, m') \<Longrightarrow> content m' = content m"
    "lz_get LZ k m = (p, MEMCACHED_SUCCESS, m') \<Longrightarrow> content m k = Some (case p of None \<Rightarrow> [] | Some v \<Rightarrow> v)"
    "lz_get LZ k m = (p, MEMCACHED_NOTFOUND, m') \<Longrightarrow> content m k = None"
proof -
  note laws = assms [unfolded item_store_def]
  note set_law = laws [THEN conjunct1, rule_format]
    and add_law = laws [THEN conjunct2, THEN conjunct1, rule_format]
    and delete_law = laws [THEN conjunct2, THEN conjunct2, THEN conjunct1, rule_format]
    and get_law = laws [THEN conjunct2, THEN conjunct2, THEN conjunct2, rule_format]
  show "lm_store L MEMC_OP_SET None k v e f m = (rc, m') \<Longrightarrow> k' \<noteq> k \<Longrightarrow> content m' k' = content m k'"
    "lm_store L MEMC_OP_SET None k v e f m = (MEMCACHED_SUCCESS, m') \<Longrightarrow> content m' k = Some v"
    by (drule set_law, simp)+
  show "lm_store L MEMC_OP_ADD None k v e f m = (rc, m') \<Longrightarrow> k' \<noteq> k \<Longrightarrow> content m' k' = content m k'"
    "lm_store L MEMC_OP_ADD None k v e f m = (rc, m') \<Longrightarrow> content m k' \<noteq> None \<Longrightarrow> content m' k' = content m k'"
    "lm_store L MEMC_OP_ADD None k v e f m = (MEMCACHED_SUCCESS, m') \<Longrightarrow> content m k = None \<and> content m' k = Some v"
    by (drule add_law, cases "k' = k", simp_all)+
  show "lm_delete L None k e m = (rc, m') \<Longrightarrow> content m' = (content m)(k := None)"
    by (rule delete_law)
  show "lz_get LZ k m = (p, rc, m') \<Longrightarrow> content m' = content m"
    "lz_get LZ k m = (p, MEMCACHED_SUCCESS, m') \<Longrightarrow> content m k = Some (case p of None \<Rightarrow> [] | Some v \<Rightarrow> v)"
    "lz_get LZ k m = (p, MEMCACHED_NOTFOUND, m') \<Longrightarrow> content m k = None"
    by (drule get_law, simp)+
qed

section \<open>Sessions as a map\<close>

text \<open>
  The specification: sessions are a map from ids to data. Items under lock keys are not part of
  it, and ids are not lock keys (PHP's ids contain no dot).
\<close>

definition is_lock_key :: "string \<Rightarrow> bool" where
  "is_lock_key k \<longleftrightarrow> take 5 k = ''lock.''"

lemma is_lock_key_lock_key [simp]: "is_lock_key (lock_key sid)"
  by (simp add: is_lock_key_def lock_key_def)

definition sess_abs :: "('m \<Rightarrow> string \<Rightarrow> string option) \<Rightarrow> 'm \<Rightarrow> string \<Rightarrow> string option" where
  "sess_abs content m = (\<lambda>k. if is_lock_key k then None else content m k)"

datatype sess_op = SRead string | SWrite string string | SDestroy string

definition op_key :: "sess_op \<Rightarrow> string" where
  "op_key op = (case op of SRead k \<Rightarrow> k | SWrite k v \<Rightarrow> k | SDestroy k \<Rightarrow> k)"

fun spec_op :: "sess_op \<Rightarrow> (string \<Rightarrow> string option) \<Rightarrow> string \<times> (string \<Rightarrow> string option)" where
  "spec_op (SRead k) s = ((case s k of None \<Rightarrow> [] | Some v \<Rightarrow> v), s)"
| "spec_op (SWrite k v) s = ([], s(k \<mapsto> v))"
| "spec_op (SDestroy k) s = ([], s(k := None))"

fun spec_run :: "sess_op list \<Rightarrow> (string \<Rightarrow> string option) \<Rightarrow> string list \<times> (string \<Rightarrow> string option)" where
  "spec_run [] s = ([], s)"
| "spec_run (op # ops) s = (case spec_op op s of (v, s) \<Rightarrow> apfst (Cons v) (spec_run ops s))"

text \<open>The handler's functions, \<open>None\<close> when one of them reports a failure.\<close>

definition sess_do ::
  "'m sess_env \<Rightarrow> zend_long \<Rightarrow> sess_op \<Rightarrow> 'm \<times> sess_user_data \<Rightarrow> (string \<times> 'm \<times> sess_user_data) option" where
  "sess_do S lifetime op c =
     (case op of
        SRead k \<Rightarrow> (case ps_read S k c of (None, c) \<Rightarrow> None | (Some v, c) \<Rightarrow> Some (v, c))
      | SWrite k v \<Rightarrow> (case ps_write S k v lifetime c of (ok, c) \<Rightarrow> if ok then Some ([], c) else None)
      | SDestroy k \<Rightarrow> (case ps_destroy S k c of (ok, c) \<Rightarrow> if ok then Some ([], c) else None))"

fun sess_run ::
  "'m sess_env \<Rightarrow> zend_long \<Rightarrow> sess_op list \<Rightarrow> 'm \<times> sess_user_data \<Rightarrow> (string list \<times> 'm \<times> sess_user_data) option" where
  "sess_run S lifetime [] c = Some ([], c)"
| "sess_run S lifetime (op # ops) c = do {
     (v, c) \<leftarrow> sess_do S lifetime op c;
     (vs, c) \<leftarrow> sess_run S lifetime ops c;
     Some (v # vs, c)
   }"

definition lock_ok :: "sess_user_data \<Rightarrow> bool" where
  "lock_ok ud \<longleftrightarrow> (su_is_locked ud \<longrightarrow> is_lock_key (su_lock_key ud))"

lemma lock_attempt_abs:
  assumes "item_store (se_lib S) LZ content" "lock_ok (snd c)"
  shows "sess_abs content (fst (snd (lock_attempt S sid c))) = sess_abs content (fst c)"
    "lock_ok (snd (snd (lock_attempt S sid c)))"
proof -
  obtain rc m where st: "lm_store (se_lib S) MEMC_OP_ADD None (lock_key sid) ''1'' (s_lock_expiration S) 0 (fst c) = (rc, m)"
    by (cases "lm_store (se_lib S) MEMC_OP_ADD None (lock_key sid) ''1'' (s_lock_expiration S) 0 (fst c)")
  have "content m k = content (fst c) k" if "\<not> is_lock_key k" for k
    by (rule item_storeD(3) [OF assms(1) st]) (use that in auto)
  then show "sess_abs content (fst (snd (lock_attempt S sid c))) = sess_abs content (fst c)"
    using st by (auto simp: lock_attempt_def case_prod_beta' sess_abs_def)
  show "lock_ok (snd (snd (lock_attempt S sid c)))"
    using st assms(2) by (auto simp: lock_attempt_def case_prod_beta' lock_ok_def)
qed

lemma lock_loop_abs:
  assumes "item_store (se_lib S) LZ content" "lock_ok (snd c)"
  shows "sess_abs content (fst (fst (lock_loop S sid r w c ws))) = sess_abs content (fst c) \<and>
    lock_ok (snd (fst (lock_loop S sid r w c ws)))"
  using assms(2)
proof (induction r arbitrary: w c ws)
  case 0
  then show ?case using lock_attempt_abs [OF assms(1) 0, of sid]
    by (auto simp: lock_loop.simps case_prod_beta' Let_def)
next
  case (Suc r)
  note step = lock_attempt_abs [OF assms(1) Suc.prems, of sid]
  show ?case using step Suc.IH [OF step(2)]
    by (auto simp: lock_loop.simps [of S sid "Suc r"] case_prod_beta' Let_def)
qed

lemma write_loop_store:
  assumes "item_store L LZ content" "write_loop L key val e r m = (ok, m')"
  shows "k' \<noteq> key \<Longrightarrow> content m' k' = content m k'" "ok \<Longrightarrow> content m' key = Some val"
proof -
  have "(\<forall>k'. k' \<noteq> key \<longrightarrow> content m' k' = content m k') \<and> (ok \<longrightarrow> content m' key = Some val)"
    using assms(2)
  proof (induction r arbitrary: m)
    case 0
    then show ?case using item_storeD(1,2) [OF assms(1)] by (auto simp: write_loop.simps split: prod.splits if_splits)
  next
    case (Suc r)
    obtain rc m1 where st: "lm_store L MEMC_OP_SET None key val e 0 m = (rc, m1)"
      by (cases "lm_store L MEMC_OP_SET None key val e 0 m")
    show ?case
      using Suc.prems Suc.IH [of m1] st item_storeD(1,2) [OF assms(1)]
      by (auto simp: write_loop.simps [of L key val e "Suc r"] split: if_splits)
  qed
  then show "k' \<noteq> key \<Longrightarrow> content m' k' = content m k'" "ok \<Longrightarrow> content m' key = Some val" by auto
qed

lemma sess_abs_write:
  assumes "item_store L LZ content" "write_loop L key val e r m = (True, m')" "\<not> is_lock_key key"
  shows "sess_abs content m' = (sess_abs content m)(key \<mapsto> val)"
  using write_loop_store [OF assms(1,2)] assms(3) by (auto simp: sess_abs_def fun_eq_iff)

lemma sess_abs_delete:
  assumes "item_store L LZ content"
  shows "sess_abs content (snd (lm_delete L None key e m)) = (sess_abs content m)(key := None)"
proof -
  obtain rc m' where "lm_delete L None key e m = (rc, m')" by (cases "lm_delete L None key e m")
  with item_storeD(6) [OF assms this] show ?thesis by (auto simp: sess_abs_def fun_eq_iff)
qed

lemma sess_abs_unlock:
  assumes "item_store (se_lib S) LZ content" "lock_ok (snd c)"
  shows "sess_abs content (fst (s_unlock_session S c)) = sess_abs content (fst c) \<and> lock_ok (snd (s_unlock_session S c))"
proof (cases "su_is_locked (snd c)")
  case True
  then have "is_lock_key (su_lock_key (snd c))" using assms(2) by (simp add: lock_ok_def)
  then have "(sess_abs content (fst c))(su_lock_key (snd c) := None) = sess_abs content (fst c)"
    by (auto simp: sess_abs_def)
  then show ?thesis using True sess_abs_delete [OF assms(1)]
    by (simp add: s_unlock_session_def case_prod_beta' lock_ok_def)
qed (use assms(2) in \<open>simp add: s_unlock_session_def case_prod_beta'\<close>)

text \<open>One operation simulates the one of the specification.\<close>

lemma sess_read_refines:
  assumes laws: "item_store (se_lib S) (se_calls S) content" and "lock_ok (snd c)" "\<not> is_lock_key k"
    "ps_read S k c = (Some v, c')"
  shows "v = (case sess_abs content (fst c) k of None \<Rightarrow> [] | Some v \<Rightarrow> v) \<and>
    sess_abs content (fst c') = sess_abs content (fst c) \<and> lock_ok (snd c')"
proof -
  define c1 where "c1 = (if S_lock_enabled (se_ini S) then fst (snd (s_lock_session S k c)) else c)"
  have c1: "sess_abs content (fst c1) = sess_abs content (fst c)" "lock_ok (snd c1)"
    using lock_loop_abs [OF laws assms(2)] assms(2)
    by (simp_all add: c1_def s_lock_session_def case_prod_beta')
  obtain p status m where get: "lz_get (se_calls S) k (fst c1) = (p, status, m)"
    by (cases "lz_get (se_calls S) k (fst c1)")
  have res: "v = (if status = MEMCACHED_SUCCESS then (case p of None \<Rightarrow> [] | Some v \<Rightarrow> v) else [])"
    "status = MEMCACHED_SUCCESS \<or> status = MEMCACHED_NOTFOUND" "c' = (m, snd c1)"
    using assms(4) get by (auto simp: ps_read_def c1_def case_prod_beta' Let_def split: if_splits)
  have "content (fst c1) k = sess_abs content (fst c) k"
    using assms(3) c1(1) by (metis sess_abs_def)
  with res(1,2) item_storeD(8,9) [OF laws, of k "fst c1" p m] get
  have "v = (case sess_abs content (fst c) k of None \<Rightarrow> [] | Some v \<Rightarrow> v)" by auto
  moreover have "sess_abs content m = sess_abs content (fst c)"
    unfolding c1(1) [symmetric] unfolding sess_abs_def item_storeD(7) [OF laws get] ..
  ultimately show ?thesis using res(3) c1(2) by simp
qed

lemma sess_do_refines:
  assumes "item_store (se_lib S) (se_calls S) content" "lock_ok (snd c)" "\<not> is_lock_key (op_key op)"
    "sess_do S lifetime op c = Some (v, c')"
  shows "spec_op op (sess_abs content (fst c)) = (v, sess_abs content (fst c')) \<and> lock_ok (snd c')"
proof (cases op)
  case (SRead k)
  then show ?thesis
    using sess_read_refines [OF assms(1,2), of k v c'] assms(3,4)
    by (auto simp: sess_do_def op_key_def split: prod.splits option.splits)
next
  case (SWrite k val)
  let ?e = "s_session_expiration (se_now S) lifetime"
  from SWrite assms(4) obtain r m where "write_loop (se_lib S) k val ?e r (fst c) = (True, m)"
    "c' = (m, snd c)" "v = []"
    by (auto simp: sess_do_def ps_write_def Let_def split: prod.splits if_splits)
  then show ?thesis
    using SWrite sess_abs_write [OF assms(1)] assms(2,3) by (simp add: op_key_def)
next
  case (SDestroy k)
  let ?c = "(snd (lm_delete (se_lib S) None k 0 (fst c)), snd c)"
  have "v = []" and c': "c' = (if su_is_locked (snd c) then s_unlock_session S ?c else ?c)"
    using SDestroy assms(4) by (auto simp: sess_do_def ps_destroy_def Let_def split: if_splits)
  moreover have "sess_abs content (fst c') = (sess_abs content (fst c))(k := None) \<and> lock_ok (snd c')"
    using c' sess_abs_unlock [OF assms(1), of ?c] sess_abs_delete [OF assms(1), of k 0 "fst c"] assms(2) by auto
  ultimately show ?thesis using SDestroy by simp
qed

section \<open>Several processes and one set of servers\<close>

text \<open>
  \<open>sy_proc s p\<close> is the user data of process \<open>p\<close>; the servers are shared. A step is one request of
  some process: an attempt to lock, made only while it holds no lock, an unlock, a write of
  session data, or a read. Every process has its own ini values and clock.
\<close>

record 'm lock_system =
  sy_server :: 'm
  sy_proc :: "nat \<Rightarrow> sess_user_data"

inductive lock_step :: "'m libmemcached \<Rightarrow> 'm lm_session \<Rightarrow> 'm lock_system \<Rightarrow> 'm lock_system \<Rightarrow> bool" for L LZ where
  sys_attempt: "se_lib S = L \<Longrightarrow> \<not> su_is_locked (sy_proc s p) \<Longrightarrow>
    lock_attempt S sid (sy_server s, sy_proc s p) = (rc, m, ud) \<Longrightarrow>
    lock_step L LZ s (s\<lparr>sy_server := m, sy_proc := (sy_proc s)(p := ud)\<rparr>)"
| sys_unlock: "se_lib S = L \<Longrightarrow> s_unlock_session S (sy_server s, sy_proc s p) = (m, ud) \<Longrightarrow>
    lock_step L LZ s (s\<lparr>sy_server := m, sy_proc := (sy_proc s)(p := ud)\<rparr>)"
| sys_write: "\<not> is_lock_key key \<Longrightarrow> write_loop L key val e r (sy_server s) = (ok, m) \<Longrightarrow>
    lock_step L LZ s (s\<lparr>sy_server := m\<rparr>)"
| sys_get: "lz_get LZ key (sy_server s) = (v, rc, m) \<Longrightarrow> lock_step L LZ s (s\<lparr>sy_server := m\<rparr>)"

text \<open>Locks that are held are stored, under keys that start as lock keys do, and differ.\<close>

definition locks_ok :: "('m \<Rightarrow> string \<Rightarrow> string option) \<Rightarrow> 'm lock_system \<Rightarrow> bool" where
  "locks_ok content s \<longleftrightarrow>
     (\<forall>p. su_is_locked (sy_proc s p) \<longrightarrow>
        is_lock_key (su_lock_key (sy_proc s p)) \<and> content (sy_server s) (su_lock_key (sy_proc s p)) \<noteq> None) \<and>
     (\<forall>p q. su_is_locked (sy_proc s p) \<longrightarrow> su_is_locked (sy_proc s q) \<longrightarrow> p \<noteq> q \<longrightarrow>
        su_lock_key (sy_proc s p) \<noteq> su_lock_key (sy_proc s q))"

lemma locks_ok_server:
  assumes "locks_ok content s" "\<And>k. is_lock_key k \<Longrightarrow> content m k = content (sy_server s) k"
  shows "locks_ok content (s\<lparr>sy_server := m\<rparr>)"
  using assms by (simp add: locks_ok_def)

lemma lock_step_ok:
  assumes "item_store L LZ content" "lock_step L LZ s s'" "locks_ok content s"
  shows "locks_ok content s'"
  using assms(2)
proof cases
  case (sys_attempt S p sid rc m ud)
  have add: "lm_store L MEMC_OP_ADD None (lock_key sid) ''1'' (s_lock_expiration S) 0 (sy_server s) = (rc, m)" and
    ud: "ud = (if rc = MEMCACHED_SUCCESS then (sy_proc s p)\<lparr>su_lock_key := lock_key sid, su_is_locked := True\<rparr>
               else sy_proc s p)"
    using sys_attempt(2,4) by (auto simp: lock_attempt_def split: prod.splits)
  have kept: "content (sy_server s) k \<noteq> None \<Longrightarrow> content m k \<noteq> None" for k
    using item_storeD(4) [OF assms(1) add] by auto
  show ?thesis
  proof (cases "rc = MEMCACHED_SUCCESS")
    case True
    then have "content (sy_server s) (lock_key sid) = None \<and> content m (lock_key sid) = Some ''1''"
      using item_storeD(5) [OF assms(1)] add by blast
    with assms(3) kept True show ?thesis unfolding sys_attempt(1) ud locks_ok_def by (auto split: if_splits)
  next
    case False
    with ud have "(sy_proc s)(p := ud) = sy_proc s" by simp
    then show ?thesis using assms(3) kept unfolding sys_attempt(1) locks_ok_def by auto
  qed
next
  case (sys_unlock S p m ud)
  show ?thesis
  proof (cases "su_is_locked (sy_proc s p)")
    case True
    then have del: "m = snd (lm_delete L None (su_lock_key (sy_proc s p)) 0 (sy_server s))"
      and ud: "ud = (sy_proc s p)\<lparr>su_is_locked := False\<rparr>"
      using sys_unlock(2,3) by (auto simp: s_unlock_session_def)
    have "content m = (content (sy_server s))(su_lock_key (sy_proc s p) := None)"
      unfolding del by (rule item_storeD(6) [OF assms(1) prod.collapse [symmetric]])
    with assms(3) True show ?thesis unfolding sys_unlock(1) ud locks_ok_def by (auto split: if_splits)
  next
    case False
    then have "m = sy_server s" "(sy_proc s)(p := ud) = sy_proc s"
      using sys_unlock(3) by (auto simp: s_unlock_session_def)
    then show ?thesis using assms(3) unfolding sys_unlock(1) by simp
  qed
next
  case (sys_write key val e r ok m)
  show ?thesis unfolding sys_write(1)
    by (rule locks_ok_server [OF assms(3)], rule write_loop_store(1) [OF assms(1) sys_write(3)]) (use sys_write(2) in auto)
next
  case (sys_get key v rc m)
  show ?thesis unfolding sys_get(1)
    by (rule locks_ok_server [OF assms(3)]) (simp add: item_storeD(7) [OF assms(1) sys_get(2)])
qed

lemma sess_run_refines:
  assumes "item_store (se_lib S) (se_calls S) content"
  shows "sess_run S lifetime ops c = Some (vs, c') \<Longrightarrow> lock_ok (snd c) \<Longrightarrow>
    list_all (\<lambda>op. \<not> is_lock_key (op_key op)) ops \<Longrightarrow>
    spec_run ops (sess_abs content (fst c)) = (vs, sess_abs content (fst c'))"
proof (induction ops arbitrary: c vs)
  case (Cons op ops)
  then obtain v c1 ws where step: "sess_do S lifetime op c = Some (v, c1)"
    "sess_run S lifetime ops c1 = Some (ws, c')" "vs = v # ws"
    by (auto split: bind_splits)
  have "spec_op op (sess_abs content (fst c)) = (v, sess_abs content (fst c1)) \<and> lock_ok (snd c1)"
    using sess_do_refines [OF assms Cons.prems(2) _ step(1)] Cons.prems(3) by simp
  with Cons.IH [OF step(2)] Cons.prems(3) step(3) show ?case by simp
qed simp

lemma locks_ok_reachable:
  assumes "item_store L LZ content" "(lock_step L LZ)\<^sup>*\<^sup>* s s'" "locks_ok content s"
  shows "locks_ok content s'"
  using assms(2,3) by (induction rule: rtranclp_induct) (blast intro: lock_step_ok [OF assms(1)])+

section \<open>A server for the witnesses\<close>

text \<open>The client's state is the list of items; adding respects what is there.\<close>

type_synonym item_list = "(string \<times> string) list"

definition item_lib :: "item_list libmemcached" where
  "item_lib =
     \<lparr>lm_behavior_get = (\<lambda>m b. 0), lm_behavior_set = (\<lambda>m b v. (MEMCACHED_SUCCESS, m)),
      lm_prefix_get = (\<lambda>m. (MEMCACHED_SUCCESS, None)), lm_server_count = (\<lambda>m. 1),
      lm_last_error_errno = (\<lambda>m. 0), lm_return_code = (\<lambda>rc. 0),
      lm_store = (\<lambda>op sk key p e f m.
        if op = MEMC_OP_ADD \<and> map_of m key \<noteq> None then (MEMCACHED_NOTSTORED, m)
        else (MEMCACHED_SUCCESS, (key, p) # m)),
      lm_touch = (\<lambda>sk key e m. (MEMCACHED_SUCCESS, m)),
      lm_cas = (\<lambda>sk key p e f c m. (MEMCACHED_DATA_EXISTS, m)),
      lm_delete = (\<lambda>sk key e m. (MEMCACHED_SUCCESS, AList.delete key m)),
      lm_incdec = (\<lambda>incr sk key offset v m. (MEMCACHED_NOTFOUND, v, m)),
      lm_incdec_initial = (\<lambda>incr sk key offset i e v m. (MEMCACHED_NOTFOUND, v, m)),
      lm_mget = (\<lambda>sk keys m. (MEMCACHED_SUCCESS, m)), lm_fetch_result = (\<lambda>m. (None, MEMCACHED_END, m)),
      lm_quit = (\<lambda>m. m)\<rparr>"

definition item_calls :: "item_list lm_session" where
  "item_calls =
     \<lparr>lz_get = (\<lambda>k m. case map_of m k of None \<Rightarrow> (None, MEMCACHED_NOTFOUND, m) | Some v \<Rightarrow> (Some v, MEMCACHED_SUCCESS, m)),
      lz_exist = (\<lambda>k m. (if map_of m k = None then MEMCACHED_NOTFOUND else MEMCACHED_SUCCESS, m)),
      lz_servers_parse = (\<lambda>s. Some [(s, 11211, 0)]), lz_create = Some [], lz_server_push = (\<lambda>s m. m),
      lz_set_namespace = (\<lambda>p m. m), lz_set_sasl_auth_data = (\<lambda>u p m. (MEMCACHED_SUCCESS, m)),
      lz_create_id = (\<lambda>n. dec_of_nat n)\<rparr>"

definition item_sess :: "item_list sess_env" where
  "item_sess =
     \<lparr>se_lib = item_lib, se_calls = item_calls, se_ini = ginit_session\<lparr>S_lock_enabled := True, S_lock_retries := 2\<rparr>,
      se_now = 1700000000, se_max_execution_time = 30, se_have_sasl = False, se_sasl_initialised = False,
      se_sasl_init_ok = False, se_have_exist = True\<rparr>"

definition fresh_user :: sess_user_data where
  "fresh_user = \<lparr>su_is_persistent = False, su_has_sasl_data = False, su_is_locked = False, su_lock_key = []\<rparr>"

lemma item_server_laws: "item_store item_lib item_calls map_of"
  unfolding item_store_def item_lib_def item_calls_def
  by (auto simp: delete_conv split: if_splits option.splits)

section \<open>Properties\<close>




definition sample_system :: "item_list lock_system" where
  "sample_system = \<lparr>sy_server = [], sy_proc = (\<lambda>_. fresh_user)\<rparr>"

definition locked_user :: "string \<Rightarrow> sess_user_data" where
  "locked_user sid = fresh_user\<lparr>su_is_locked := True, su_lock_key := lock_key sid\<rparr>"

lemma item_attempt:
  "lock_attempt item_sess sid (m, fresh_user) =
     (if map_of m (lock_key sid) = None then (MEMCACHED_SUCCESS, (lock_key sid, ''1'') # m, locked_user sid)
      else (MEMCACHED_NOTSTORED, m, fresh_user))"
  by (simp add: lock_attempt_def item_sess_def item_lib_def locked_user_def fresh_user_def)



text \<open>C20: Locking succeeds exactly if one of at most \<open>1 + lock_retries\<close> attempts to add the lock does (a
  negative number of retries counts as none), and then the lock is the one of the session.\<close>

theorem lock_acquired_iff:
  assumes "\<not> su_is_locked (snd c)" "s_lock_session S sid c = (ok, c', waits)"
  shows "(ok \<longleftrightarrow> list_ex (\<lambda>i. fst (lock_attempt S sid (after_attempts S sid i c)) = MEMCACHED_SUCCESS)
            [0..<Suc (nat (sint (S_lock_retries (se_ini S))))]) \<and>
    (ok = False \<or> su_lock_key (snd c') = lock_key sid)"
proof -
  let ?r = "nat (sint (S_lock_retries (se_ini S)))"
  let ?ok = "\<lambda>i. fst (lock_attempt S sid (after_attempts S sid i c)) = MEMCACHED_SUCCESS"
  have loop: "ok = su_is_locked (snd c')"
    "c' = fst (lock_loop S sid ?r (S_lock_wait_min (se_ini S)) c [])"
    using assms(2) by (auto simp: s_lock_session_def case_prod_beta')
  obtain k where k: "k \<le> Suc ?r" "c' = after_attempts S sid k c"
    "if su_is_locked (snd c') then (\<exists>i. k = Suc i \<and> ?ok i) else (\<forall>i \<le> ?r. \<not> ?ok i)"
    using lock_loop_attempts [OF assms(1), where r = ?r] loop(2) by metis
  show ?thesis
  proof (cases ok)
    case True
    then obtain i where i: "k = Suc i" "?ok i" using k(3) loop(1) by auto
    then have "su_lock_key (snd c') = lock_key sid" using lock_attempt_key k(2) by simp
    moreover have "i < Suc ?r" using k(1) i(1) by simp
    ultimately show ?thesis using True i(2) by (auto simp: list_ex_iff simp del: upt_Suc)
  next
    case False
    then show ?thesis using k(3) loop(1) by (auto simp: list_ex_iff less_Suc_eq_le simp del: upt_Suc)
  qed
qed

theorem lock_acquired_iff_witness:
  "\<exists>c' waits. s_lock_session item_sess ''id'' ([(''lock.id'', ''1'')], fresh_user) = (False, c', waits) \<and>
     list_ex (\<lambda>i. fst (lock_attempt item_sess ''id''
         (after_attempts item_sess ''id'' i ([(''lock.id'', ''1'')], fresh_user))) = MEMCACHED_SUCCESS)
       [0..<Suc (nat (sint (S_lock_retries (se_ini item_sess))))] = False"
proof -
  have held: "lock_attempt item_sess ''id'' ([(''lock.id'', ''1'')], fresh_user) =
      (MEMCACHED_NOTSTORED, [(''lock.id'', ''1'')], fresh_user)"
    by (simp add: item_attempt lock_key_def c_string_def)
  then obtain c' waits where run: "s_lock_session item_sess ''id'' ([(''lock.id'', ''1'')], fresh_user) = (False, c', waits)"
    by (simp add: s_lock_session_def lock_loop.simps fresh_user_def item_sess_def ginit_session_def Let_def numeral_2_eq_2)
  have "\<not> su_is_locked (snd ([(''lock.id'', ''1'')], fresh_user))" by (simp add: fresh_user_def)
  from lock_acquired_iff [OF this run] run show ?thesis by blast
qed

text \<open>C31: The waits between attempts double from the configured minimum up to the configured maximum,
  and there are at most \<open>lock_retries\<close> of them.\<close>

theorem lock_waits_double:
  assumes "s_lock_session S sid c = (ok, c', waits)" "0 \<le> sint (S_lock_wait_min (se_ini S))"
    "sint (S_lock_wait_min (se_ini S)) \<le> sint (S_lock_wait_max (se_ini S))" "sint (S_lock_wait_max (se_ini S)) < 2 ^ 62"
  shows "length waits \<le> nat (sint (S_lock_retries (se_ini S))) \<and>
    map sint waits =
      map (\<lambda>i. min (sint (S_lock_wait_min (se_ini S)) * 2 ^ i) (sint (S_lock_wait_max (se_ini S)))) [0..<length waits]"
proof -
  let ?mn = "sint (S_lock_wait_min (se_ini S))" and ?mx = "sint (S_lock_wait_max (se_ini S))"
  have "waits = snd (lock_loop S sid (nat (sint (S_lock_retries (se_ini S)))) (S_lock_wait_min (se_ini S)) c [])"
    using assms(1) by (auto simp: s_lock_session_def case_prod_beta')
  moreover obtain k where k: "k \<le> nat (sint (S_lock_retries (se_ini S)))"
    "map sint (snd (lock_loop S sid (nat (sint (S_lock_retries (se_ini S)))) (S_lock_wait_min (se_ini S)) c [])) =
      map (\<lambda>i. min (?mn * 2 ^ i) ?mx) [0..<k]"
    using lock_loop_waits [OF assms(4,2), where j = 0 and w = "S_lock_wait_min (se_ini S)" and ws = "[]" and
        r = "nat (sint (S_lock_retries (se_ini S)))" and c = c and sid = sid] assms(2,3)
    by auto
  moreover have "length waits = k" using arg_cong [OF k(2), of length] calculation(1) by simp
  ultimately show ?thesis by metis
qed

theorem lock_waits_double_witness:
  "\<exists>c' waits. s_lock_session item_sess ''id'' ([(''lock.id'', ''1'')], fresh_user) = (False, c', waits) \<and>
     length waits \<le> nat (sint (S_lock_retries (se_ini item_sess)))"
proof -
  have held: "lock_attempt item_sess ''id'' ([(''lock.id'', ''1'')], fresh_user) =
      (MEMCACHED_NOTSTORED, [(''lock.id'', ''1'')], fresh_user)"
    by (simp add: item_attempt lock_key_def c_string_def)
  then obtain c' waits where run: "s_lock_session item_sess ''id'' ([(''lock.id'', ''1'')], fresh_user) = (False, c', waits)"
    by (simp add: s_lock_session_def lock_loop.simps fresh_user_def item_sess_def ginit_session_def Let_def numeral_2_eq_2)
  from lock_waits_double [OF run] run show ?thesis by (auto simp: item_sess_def ginit_session_def)
qed

text \<open>
  How a memcached server reads an expiration: 0 is no expiration, up to 30 days a delay, above
  that a point in time.
\<close>

definition server_deadline :: "int \<Rightarrow> int \<Rightarrow> int option" where
  "server_deadline now expiration =
     (if expiration = 0 then None
      else if expiration \<le> REALTIME_MAXDELTA then Some (now + expiration) else Some expiration)"

text \<open>C32: Sessions live as long as configured: the expiration sent makes the server drop the session
  \<open>maxlifetime\<close> seconds from now, also beyond the 30 days up to which the protocol takes
  delays.\<close>

theorem session_lifetime_effective:
  assumes "0 < sint maxlifetime" "0 \<le> sint now" "sint now + sint maxlifetime < 2 ^ 63"
  shows "server_deadline (sint now) (sint (s_session_expiration now maxlifetime)) = Some (sint now + sint maxlifetime)"
proof -
  have "sint (now + maxlifetime) = sint now + sint maxlifetime"
    unfolding sint_word_add by (rule signed_take_bit_int_eq_self) (use assms in simp_all)
  with assms show ?thesis by (auto simp: s_session_expiration_def s_adjust_expiration_def server_deadline_def)
qed

theorem session_lifetime_effective_witness:
  "server_deadline (sint (1700000000 :: zend_long)) (sint (s_session_expiration 1700000000 3000000)) =
     Some (sint (1700000000 :: zend_long) + sint (3000000 :: zend_long))"
  by (rule session_lifetime_effective) simp_all

end
