(* ===== verification/Proto_Server.thy ===== *)
theory Proto_Server
  imports Memc_Types Decimal Sample
begin

text \<open>
  \<open>MemcachedServer\<close>, \<open>php_memcached_server.c\<close>: the callback table, one handler per command of the
  binary protocol that passes the request to a PHP callback and its answer back, the events
  of a connection, accepting connections, and the methods \<open>on\<close> and \<open>run\<close>. The PHP process with the
  network is an abstract world \<open>'w\<close>. Properties: no request of a connection is worked on before the
  connect callback admitted it, statistics are sent in order until the client refuses one; results
  by reference that are misread and callbacks that are released twice are stated as they are.
\<close>

section \<open>State and parameters\<close>

abbreviation (input) MEMC_SERVER_ON_CONNECT :: nat where "MEMC_SERVER_ON_CONNECT \<equiv> 0"
abbreviation (input) MEMC_SERVER_ON_ADD :: nat where "MEMC_SERVER_ON_ADD \<equiv> 1"
abbreviation (input) MEMC_SERVER_ON_APPEND :: nat where "MEMC_SERVER_ON_APPEND \<equiv> 2"
abbreviation (input) MEMC_SERVER_ON_DECREMENT :: nat where "MEMC_SERVER_ON_DECREMENT \<equiv> 3"
abbreviation (input) MEMC_SERVER_ON_DELETE :: nat where "MEMC_SERVER_ON_DELETE \<equiv> 4"
abbreviation (input) MEMC_SERVER_ON_FLUSH :: nat where "MEMC_SERVER_ON_FLUSH \<equiv> 5"
abbreviation (input) MEMC_SERVER_ON_GET :: nat where "MEMC_SERVER_ON_GET \<equiv> 6"
abbreviation (input) MEMC_SERVER_ON_INCREMENT :: nat where "MEMC_SERVER_ON_INCREMENT \<equiv> 7"
abbreviation (input) MEMC_SERVER_ON_NOOP :: nat where "MEMC_SERVER_ON_NOOP \<equiv> 8"
abbreviation (input) MEMC_SERVER_ON_PREPEND :: nat where "MEMC_SERVER_ON_PREPEND \<equiv> 9"
abbreviation (input) MEMC_SERVER_ON_QUIT :: nat where "MEMC_SERVER_ON_QUIT \<equiv> 10"
abbreviation (input) MEMC_SERVER_ON_REPLACE :: nat where "MEMC_SERVER_ON_REPLACE \<equiv> 11"
abbreviation (input) MEMC_SERVER_ON_SET :: nat where "MEMC_SERVER_ON_SET \<equiv> 12"
abbreviation (input) MEMC_SERVER_ON_STAT :: nat where "MEMC_SERVER_ON_STAT \<equiv> 13"
abbreviation (input) MEMC_SERVER_ON_VERSION :: nat where "MEMC_SERVER_ON_VERSION \<equiv> 14"
abbreviation (input) MEMC_SERVER_ON_MAX :: nat where "MEMC_SERVER_ON_MAX \<equiv> 15"

text \<open>Status codes of the binary protocol (\<open>protocol_binary_response_status\<close>).\<close>

abbreviation (input) PROTOCOL_BINARY_RESPONSE_SUCCESS :: u32 where "PROTOCOL_BINARY_RESPONSE_SUCCESS \<equiv> 0"
abbreviation (input) PROTOCOL_BINARY_RESPONSE_KEY_ENOENT :: u32 where "PROTOCOL_BINARY_RESPONSE_KEY_ENOENT \<equiv> 1"
abbreviation (input) PROTOCOL_BINARY_RESPONSE_UNKNOWN_COMMAND :: u32 where
  "PROTOCOL_BINARY_RESPONSE_UNKNOWN_COMMAND \<equiv> 0x81"

text \<open>
  A C variable of type \<open>zval\<close> holds a value or, after \<open>ZVAL_MAKE_REF\<close>, a reference to one; \<open>Z_TYPE\<close>
  looks at the variable, not through the reference.
\<close>

datatype 'd zvar = ZVAL "'d zval" | IS_REFERENCE "'d zval"

fun ZVAL_DEREF :: "'d zvar \<Rightarrow> 'd zval" where
  "ZVAL_DEREF (ZVAL v) = v"
| "ZVAL_DEREF (IS_REFERENCE v) = v"

text \<open>
  A callback takes the values of its parameters and returns its value (\<open>None\<close>: undefined, the call
  failed) and the values of the parameters afterwards, of which the by-reference ones count.
  \<open>cb_id\<close> names the callback's function and object, whose references are counted.
\<close>

type_synonym ('w, 'd) php_callback = "'d zval list \<Rightarrow> 'w \<Rightarrow> 'd zval option \<times> 'd zval list \<times> 'w"

record ('w, 'd) php_memc_server_cb =
  cb_function :: "('w, 'd) php_callback"
  cb_id :: nat

type_synonym ('w, 'd) cb_table = "nat \<Rightarrow> ('w, 'd) php_memc_server_cb option"

text \<open>
  Conversions of PHP (\<open>sv_u64_to_double\<close>, \<open>sv_get_double\<close>: \<open>zval_get_double\<close> cast to \<open>uint64_t\<close>,
  \<open>sv_to_array\<close>: \<open>convert_to_array\<close> of a value that is no array), libmemcachedprotocol, libevent and
  the sockets. \<open>sv_client_work\<close> returns whether the error, write and read bits are set.
\<close>

record ('w, 'd) server_env =
  sv_zend :: "'d zend"
  sv_u64_to_double :: "u64 \<Rightarrow> 'd"
  sv_get_double :: "'d zval \<Rightarrow> u64"
  sv_to_array :: "'d zval \<Rightarrow> (hkey \<times> 'd zval) list"
  sv_peer_name :: "int \<Rightarrow> 'w \<Rightarrow> string option"
  sv_client_work :: "int \<Rightarrow> 'w \<Rightarrow> (bool \<times> bool \<times> bool) \<times> 'w"
  sv_client_destroy :: "int \<Rightarrow> 'w \<Rightarrow> 'w"
  sv_closesocket :: "int \<Rightarrow> 'w \<Rightarrow> 'w"
  sv_event_once :: "int \<Rightarrow> bool \<Rightarrow> bool \<Rightarrow> 'w \<Rightarrow> bool \<times> 'w"
  sv_accept :: "'w \<Rightarrow> int option \<times> 'w"
  sv_create_client :: "int \<Rightarrow> 'w \<Rightarrow> bool \<times> 'w"
  sv_parse_address :: "string \<Rightarrow> bool"
  sv_socket :: "'w \<Rightarrow> int \<times> 'w"
  sv_bind :: "int \<Rightarrow> 'w \<Rightarrow> bool \<times> 'w"
  sv_listen :: "int \<Rightarrow> 'w \<Rightarrow> bool \<times> 'w"
  sv_nonblocking :: "int \<Rightarrow> 'w \<Rightarrow> bool \<times> 'w"
  sv_reuseable :: "int \<Rightarrow> 'w \<Rightarrow> bool \<times> 'w"
  sv_closeonexec :: "int \<Rightarrow> 'w \<Rightarrow> bool \<times> 'w"
  sv_event_base_new :: "'w \<Rightarrow> bool \<times> 'w"
  sv_event_new :: "int \<Rightarrow> 'w \<Rightarrow> bool \<times> 'w"
  sv_dispatch :: "'w \<Rightarrow> int \<times> 'w"

section \<open>Invoking callbacks\<close>

definition s_invoke_php_callback ::
  "('w, 'd) server_env \<Rightarrow> ('w, 'd) php_memc_server_cb \<Rightarrow> 'd zval list \<Rightarrow> 'w \<Rightarrow> zend_long \<times> 'd zval list \<times> 'w" where
  "s_invoke_php_callback V cb params w =
     (case cb_function cb params w of
        (retval, params, w) \<Rightarrow>
          (case retval of
             None \<Rightarrow> ucast PROTOCOL_BINARY_RESPONSE_UNKNOWN_COMMAND
           | Some v \<Rightarrow> zval_get_long (sv_zend V) v, params, w))"

text \<open>\<open>MEMC_MAKE_RESULT_CAS\<close>: a CAS travels as a double.\<close>

definition MEMC_MAKE_RESULT_CAS :: "('w, 'd) server_env \<Rightarrow> 'd zvar \<Rightarrow> u64" where
  "MEMC_MAKE_RESULT_CAS V zresult_cas = sv_get_double V (ZVAL_DEREF zresult_cas)"

section \<open>Handlers\<close>

text \<open>
  A handler returns the status, what it assigned to \<open>*result_cas\<close> (\<open>None\<close>: nothing) and the world.
  \<open>cookie\<close> is the printed pointer.
\<close>

definition s_add_handler ::
  "('w, 'd) server_env \<Rightarrow> ('w, 'd) cb_table \<Rightarrow> string \<Rightarrow> string \<Rightarrow> string \<Rightarrow> u32 \<Rightarrow> u32 \<Rightarrow> 'w \<Rightarrow>
     u32 \<times> u64 option \<times> 'w" where
  "s_add_handler V T cookie key data flags exptime w =
     (case T MEMC_SERVER_ON_ADD of
        None \<Rightarrow> (PROTOCOL_BINARY_RESPONSE_UNKNOWN_COMMAND, None, w)
      | Some cb \<Rightarrow>
          (case s_invoke_php_callback V cb
             [IS_STRING cookie, IS_STRING key, IS_STRING data, IS_LONG (ucast flags), IS_LONG (ucast exptime), IS_NULL] w of
             (retval, params, w) \<Rightarrow>
               (ucast retval, Some (MEMC_MAKE_RESULT_CAS V (IS_REFERENCE (params ! 5))), w)))"

definition s_append_prepend_handler ::
  "('w, 'd) server_env \<Rightarrow> ('w, 'd) cb_table \<Rightarrow> nat \<Rightarrow> string \<Rightarrow> string \<Rightarrow> string \<Rightarrow> u64 \<Rightarrow> 'w \<Rightarrow>
     u32 \<times> u64 option \<times> 'w" where
  "s_append_prepend_handler V T event cookie key data cas w =
     (case T event of
        None \<Rightarrow> (PROTOCOL_BINARY_RESPONSE_UNKNOWN_COMMAND, None, w)
      | Some cb \<Rightarrow>
          (case s_invoke_php_callback V cb
             [IS_STRING cookie, IS_STRING key, IS_STRING data, IS_DOUBLE (sv_u64_to_double V cas), IS_NULL] w of
             (retval, params, w) \<Rightarrow>
               (ucast retval, Some (MEMC_MAKE_RESULT_CAS V (IS_REFERENCE (params ! 4))), w)))"

definition s_append_handler where
  "s_append_handler V T = s_append_prepend_handler V T MEMC_SERVER_ON_APPEND"

definition s_prepend_handler where
  "s_prepend_handler V T = s_append_prepend_handler V T MEMC_SERVER_ON_PREPEND"

text \<open>The third component is what is assigned to \<open>*result\<close>.\<close>

definition s_incr_decr_handler ::
  "('w, 'd) server_env \<Rightarrow> ('w, 'd) cb_table \<Rightarrow> nat \<Rightarrow> string \<Rightarrow> string \<Rightarrow> u64 \<Rightarrow> u64 \<Rightarrow> u32 \<Rightarrow> 'w \<Rightarrow>
     u32 \<times> u64 option \<times> u64 option \<times> 'w" where
  "s_incr_decr_handler V T event cookie key delta initial expiration w =
     (case T event of
        None \<Rightarrow> (PROTOCOL_BINARY_RESPONSE_UNKNOWN_COMMAND, None, None, w)
      | Some cb \<Rightarrow>
          (case s_invoke_php_callback V cb
             [IS_STRING cookie, IS_STRING key, IS_LONG delta, IS_LONG initial, IS_LONG (ucast expiration), IS_LONG 0,
              IS_NULL] w of
             (retval, params, w) \<Rightarrow>
               (ucast retval, Some (MEMC_MAKE_RESULT_CAS V (IS_REFERENCE (params ! 6))),
                Some (zval_get_long (sv_zend V) (ZVAL_DEREF (IS_REFERENCE (params ! 5)))), w)))"

definition s_increment_handler where
  "s_increment_handler V T = s_incr_decr_handler V T MEMC_SERVER_ON_INCREMENT"

definition s_decrement_handler where
  "s_decrement_handler V T = s_incr_decr_handler V T MEMC_SERVER_ON_DECREMENT"

definition s_delete_handler ::
  "('w, 'd) server_env \<Rightarrow> ('w, 'd) cb_table \<Rightarrow> string \<Rightarrow> string \<Rightarrow> u64 \<Rightarrow> 'w \<Rightarrow> u32 \<times> 'w" where
  "s_delete_handler V T cookie key cas w =
     (case T MEMC_SERVER_ON_DELETE of
        None \<Rightarrow> (PROTOCOL_BINARY_RESPONSE_UNKNOWN_COMMAND, w)
      | Some cb \<Rightarrow>
          (case s_invoke_php_callback V cb [IS_STRING cookie, IS_STRING key, IS_DOUBLE (sv_u64_to_double V cas)] w of
             (retval, params, w) \<Rightarrow> (ucast retval, w)))"

definition s_flush_handler ::
  "('w, 'd) server_env \<Rightarrow> ('w, 'd) cb_table \<Rightarrow> string \<Rightarrow> u32 \<Rightarrow> 'w \<Rightarrow> u32 \<times> 'w" where
  "s_flush_handler V T cookie when w =
     (case T MEMC_SERVER_ON_FLUSH of
        None \<Rightarrow> (PROTOCOL_BINARY_RESPONSE_UNKNOWN_COMMAND, w)
      | Some cb \<Rightarrow>
          (case s_invoke_php_callback V cb [IS_STRING cookie, IS_LONG (ucast when)] w of
             (retval, params, w) \<Rightarrow> (ucast retval, w)))"

text \<open>
  \<open>Z_TYPE(zvalue) == IS_NULL\<close> and \<open>Z_TYPE(zflags) == IS_LONG\<close> look at variables that are references;
  \<open>convert_to_string\<close> unwraps the reference first.
\<close>

definition Z_TYPE_is_null :: "'d zvar \<Rightarrow> bool" where
  "Z_TYPE_is_null x = (case x of ZVAL v \<Rightarrow> v = IS_NULL | IS_REFERENCE v \<Rightarrow> False)"

definition Z_TYPE_long :: "'d zvar \<Rightarrow> zend_long option" where
  "Z_TYPE_long x = (case x of ZVAL (IS_LONG l) \<Rightarrow> Some l | _ \<Rightarrow> None)"

definition convert_to_string :: "'d zend \<Rightarrow> 'd zvar \<Rightarrow> string" where
  "convert_to_string Z x = zval_get_string Z (ZVAL_DEREF x)"

definition s_get_handler ::
  "('w, 'd) server_env \<Rightarrow> ('w, 'd) cb_table \<Rightarrow> (string \<Rightarrow> string \<Rightarrow> string \<Rightarrow> u32 \<Rightarrow> u64 \<Rightarrow> 'w \<Rightarrow> u32 \<times> 'w) \<Rightarrow>
     string \<Rightarrow> string \<Rightarrow> 'w \<Rightarrow> u32 \<times> 'w" where
  "s_get_handler V T response_handler cookie key w =
     (case T MEMC_SERVER_ON_GET of
        None \<Rightarrow> (PROTOCOL_BINARY_RESPONSE_UNKNOWN_COMMAND, w)
      | Some cb \<Rightarrow>
          (case s_invoke_php_callback V cb [IS_STRING cookie, IS_STRING key, IS_NULL, IS_NULL, IS_NULL] w of
             (retval, params, w) \<Rightarrow>
               let zvalue = IS_REFERENCE (params ! 2); zflags = IS_REFERENCE (params ! 3);
                   zresult_cas = IS_REFERENCE (params ! 4); status = ucast retval
               in if status = PROTOCOL_BINARY_RESPONSE_SUCCESS then
                    if Z_TYPE_is_null zvalue then (PROTOCOL_BINARY_RESPONSE_KEY_ENOENT, w)
                    else
                      let flags = (case Z_TYPE_long zflags of Some l \<Rightarrow> ucast l | None \<Rightarrow> 0)
                      in response_handler cookie key (convert_to_string (sv_zend V) zvalue) flags
                           (MEMC_MAKE_RESULT_CAS V zresult_cas) w
                  else (status, w)))"

definition s_noop_handler ::
  "('w, 'd) server_env \<Rightarrow> ('w, 'd) cb_table \<Rightarrow> string \<Rightarrow> 'w \<Rightarrow> u32 \<times> 'w" where
  "s_noop_handler V T cookie w =
     (case T MEMC_SERVER_ON_NOOP of
        None \<Rightarrow> (PROTOCOL_BINARY_RESPONSE_UNKNOWN_COMMAND, w)
      | Some cb \<Rightarrow>
          (case s_invoke_php_callback V cb [IS_STRING cookie] w of (retval, params, w) \<Rightarrow> (ucast retval, w)))"

definition s_quit_handler ::
  "('w, 'd) server_env \<Rightarrow> ('w, 'd) cb_table \<Rightarrow> string \<Rightarrow> 'w \<Rightarrow> u32 \<times> 'w" where
  "s_quit_handler V T cookie w =
     (case T MEMC_SERVER_ON_QUIT of
        None \<Rightarrow> (PROTOCOL_BINARY_RESPONSE_UNKNOWN_COMMAND, w)
      | Some cb \<Rightarrow>
          (case s_invoke_php_callback V cb [IS_STRING cookie] w of (retval, params, w) \<Rightarrow> (ucast retval, w)))"

definition s_set_replace_handler ::
  "('w, 'd) server_env \<Rightarrow> ('w, 'd) cb_table \<Rightarrow> nat \<Rightarrow> string \<Rightarrow> string \<Rightarrow> string \<Rightarrow> u32 \<Rightarrow> u32 \<Rightarrow> u64 \<Rightarrow> 'w \<Rightarrow>
     u32 \<times> u64 option \<times> 'w" where
  "s_set_replace_handler V T event cookie key data flags expiration cas w =
     (case T event of
        None \<Rightarrow> (PROTOCOL_BINARY_RESPONSE_UNKNOWN_COMMAND, None, w)
      | Some cb \<Rightarrow>
          (case s_invoke_php_callback V cb
             [IS_STRING cookie, IS_STRING key, IS_STRING data, IS_LONG (ucast flags), IS_LONG (ucast expiration),
              IS_DOUBLE (sv_u64_to_double V cas), IS_NULL] w of
             (retval, params, w) \<Rightarrow>
               (ucast retval, Some (MEMC_MAKE_RESULT_CAS V (IS_REFERENCE (params ! 6))), w)))"

definition s_replace_handler where
  "s_replace_handler V T = s_set_replace_handler V T MEMC_SERVER_ON_REPLACE"

definition s_set_handler where
  "s_set_handler V T = s_set_replace_handler V T MEMC_SERVER_ON_SET"

text \<open>The loop over the statistics; integer keys are printed.\<close>

fun stat_loop ::
  "'d zend \<Rightarrow> (string \<Rightarrow> string \<Rightarrow> string \<Rightarrow> 'w \<Rightarrow> u32 \<times> 'w) \<Rightarrow> string \<Rightarrow> (hkey \<times> 'd zval) list \<Rightarrow> u32 \<Rightarrow> 'w \<Rightarrow>
     u32 \<times> 'w" where
  "stat_loop Z response_handler cookie [] retval w = (retval, w)"
| "stat_loop Z response_handler cookie ((k, val) # stats) retval w =
     (case response_handler cookie (case k of HStr s \<Rightarrow> s | HInt idx \<Rightarrow> dec_of_long idx) (zval_get_string Z val) w of
        (retval, w) \<Rightarrow>
          if retval \<noteq> PROTOCOL_BINARY_RESPONSE_SUCCESS then (retval, w)
          else stat_loop Z response_handler cookie stats retval w)"

definition s_stat_handler ::
  "('w, 'd) server_env \<Rightarrow> ('w, 'd) cb_table \<Rightarrow> (string \<Rightarrow> string \<Rightarrow> string \<Rightarrow> 'w \<Rightarrow> u32 \<times> 'w) \<Rightarrow> string \<Rightarrow>
     string option \<Rightarrow> 'w \<Rightarrow> u32 \<times> 'w" where
  "s_stat_handler V T response_handler cookie key w =
     (case T MEMC_SERVER_ON_STAT of
        None \<Rightarrow> (PROTOCOL_BINARY_RESPONSE_UNKNOWN_COMMAND, w)
      | Some cb \<Rightarrow>
          let zkey = (case key of Some k \<Rightarrow> if length k = 0 then IS_NULL else IS_STRING k | None \<Rightarrow> IS_NULL)
          in case s_invoke_php_callback V cb [IS_STRING cookie, zkey, IS_ARRAY []] w of
               (retval, params, w) \<Rightarrow>
                 if ucast retval = PROTOCOL_BINARY_RESPONSE_SUCCESS then
                   let stats = (case ZVAL_DEREF (IS_REFERENCE (params ! 2)) of
                         IS_ARRAY a \<Rightarrow> a | v \<Rightarrow> sv_to_array V v)
                   in stat_loop (sv_zend V) response_handler cookie stats (ucast retval) w
                 else (ucast retval, w))"

definition s_version_handler ::
  "('w, 'd) server_env \<Rightarrow> ('w, 'd) cb_table \<Rightarrow> (string \<Rightarrow> string \<Rightarrow> 'w \<Rightarrow> u32 \<times> 'w) \<Rightarrow> string \<Rightarrow> 'w \<Rightarrow> u32 \<times> 'w" where
  "s_version_handler V T response_handler cookie w =
     (case T MEMC_SERVER_ON_VERSION of
        None \<Rightarrow> (PROTOCOL_BINARY_RESPONSE_UNKNOWN_COMMAND, w)
      | Some cb \<Rightarrow>
          (case s_invoke_php_callback V cb [IS_STRING cookie, IS_NULL] w of
             (retval, params, w) \<Rightarrow>
               if ucast retval = PROTOCOL_BINARY_RESPONSE_SUCCESS
               then response_handler cookie (convert_to_string (sv_zend V) (IS_REFERENCE (params ! 1))) w
               else (ucast retval, w)))"

text \<open>
  The callbacks of the library's interface, version 1: which handler serves which command. The
  table \<open>T\<close> is global and looked up when a request comes.
\<close>

record ('w, 'd) memcached_binary_protocol_callbacks =
  v1_add :: "('w, 'd) cb_table \<Rightarrow> string \<Rightarrow> string \<Rightarrow> string \<Rightarrow> u32 \<Rightarrow> u32 \<Rightarrow> 'w \<Rightarrow> u32 \<times> u64 option \<times> 'w"
  v1_append :: "('w, 'd) cb_table \<Rightarrow> string \<Rightarrow> string \<Rightarrow> string \<Rightarrow> u64 \<Rightarrow> 'w \<Rightarrow> u32 \<times> u64 option \<times> 'w"
  v1_decrement :: "('w, 'd) cb_table \<Rightarrow> string \<Rightarrow> string \<Rightarrow> u64 \<Rightarrow> u64 \<Rightarrow> u32 \<Rightarrow> 'w \<Rightarrow>
    u32 \<times> u64 option \<times> u64 option \<times> 'w"
  v1_delete_object :: "('w, 'd) cb_table \<Rightarrow> string \<Rightarrow> string \<Rightarrow> u64 \<Rightarrow> 'w \<Rightarrow> u32 \<times> 'w"
  v1_flush_object :: "('w, 'd) cb_table \<Rightarrow> string \<Rightarrow> u32 \<Rightarrow> 'w \<Rightarrow> u32 \<times> 'w"
  v1_get :: "('w, 'd) cb_table \<Rightarrow> (string \<Rightarrow> string \<Rightarrow> string \<Rightarrow> u32 \<Rightarrow> u64 \<Rightarrow> 'w \<Rightarrow> u32 \<times> 'w) \<Rightarrow>
    string \<Rightarrow> string \<Rightarrow> 'w \<Rightarrow> u32 \<times> 'w"
  v1_increment :: "('w, 'd) cb_table \<Rightarrow> string \<Rightarrow> string \<Rightarrow> u64 \<Rightarrow> u64 \<Rightarrow> u32 \<Rightarrow> 'w \<Rightarrow>
    u32 \<times> u64 option \<times> u64 option \<times> 'w"
  v1_noop :: "('w, 'd) cb_table \<Rightarrow> string \<Rightarrow> 'w \<Rightarrow> u32 \<times> 'w"
  v1_prepend :: "('w, 'd) cb_table \<Rightarrow> string \<Rightarrow> string \<Rightarrow> string \<Rightarrow> u64 \<Rightarrow> 'w \<Rightarrow> u32 \<times> u64 option \<times> 'w"
  v1_quit :: "('w, 'd) cb_table \<Rightarrow> string \<Rightarrow> 'w \<Rightarrow> u32 \<times> 'w"
  v1_replace :: "('w, 'd) cb_table \<Rightarrow> string \<Rightarrow> string \<Rightarrow> string \<Rightarrow> u32 \<Rightarrow> u32 \<Rightarrow> u64 \<Rightarrow> 'w \<Rightarrow>
    u32 \<times> u64 option \<times> 'w"
  v1_set :: "('w, 'd) cb_table \<Rightarrow> string \<Rightarrow> string \<Rightarrow> string \<Rightarrow> u32 \<Rightarrow> u32 \<Rightarrow> u64 \<Rightarrow> 'w \<Rightarrow>
    u32 \<times> u64 option \<times> 'w"
  v1_stat :: "('w, 'd) cb_table \<Rightarrow> (string \<Rightarrow> string \<Rightarrow> string \<Rightarrow> 'w \<Rightarrow> u32 \<times> 'w) \<Rightarrow> string \<Rightarrow> string option \<Rightarrow> 'w \<Rightarrow>
    u32 \<times> 'w"
  v1_version :: "('w, 'd) cb_table \<Rightarrow> (string \<Rightarrow> string \<Rightarrow> 'w \<Rightarrow> u32 \<times> 'w) \<Rightarrow> string \<Rightarrow> 'w \<Rightarrow> u32 \<times> 'w"

definition php_memc_proto_handler_new ::
  "('w, 'd) server_env \<Rightarrow> ('w, 'd) memcached_binary_protocol_callbacks" where
  "php_memc_proto_handler_new V = \<lparr>
     v1_add = s_add_handler V,
     v1_append = s_append_handler V,
     v1_decrement = s_decrement_handler V,
     v1_delete_object = s_delete_handler V,
     v1_flush_object = s_flush_handler V,
     v1_get = s_get_handler V,
     v1_increment = s_increment_handler V,
     v1_noop = s_noop_handler V,
     v1_prepend = s_prepend_handler V,
     v1_quit = s_quit_handler V,
     v1_replace = s_replace_handler V,
     v1_set = s_set_handler V,
     v1_stat = s_stat_handler V,
     v1_version = s_version_handler V\<rparr>"

section \<open>Connections\<close>

text \<open>
  A client object is known by its socket; \<open>None\<close> as the client left by an event: it was freed. The
  protocol client inside is the library's, part of the world.
\<close>

record php_memc_client =
  on_connect_invoked :: bool

definition connect_callback ::
  "('w, 'd) server_env \<Rightarrow> ('w, 'd) php_memc_server_cb \<Rightarrow> int \<Rightarrow> 'w \<Rightarrow> u32 \<times> 'w" where
  "connect_callback V cb fd w =
     (let zremoteaddr = (case sv_peer_name V fd w of Some a \<Rightarrow> IS_STRING a | None \<Rightarrow> IS_NULL)
      in case s_invoke_php_callback V cb [zremoteaddr] w of (retval, params, w) \<Rightarrow> (ucast retval, w))"

definition drop_client :: "('w, 'd) server_env \<Rightarrow> int \<Rightarrow> 'w \<Rightarrow> 'w" where
  "drop_client V fd w = sv_closesocket V fd (sv_client_destroy V fd w)"

text \<open>The part of the event after the connect callback.\<close>

definition client_event ::
  "('w, 'd) server_env \<Rightarrow> int \<Rightarrow> php_memc_client \<Rightarrow> 'w \<Rightarrow> php_memc_client option \<times> 'w" where
  "client_event V fd client w =
     (case sv_client_work V fd w of
        ((error, write, read), w) \<Rightarrow>
          if error then (None, drop_client V fd w)
          else (Some client, snd (sv_event_once V fd write read w)))"

definition s_handle_memcached_event ::
  "('w, 'd) server_env \<Rightarrow> ('w, 'd) cb_table \<Rightarrow> int \<Rightarrow> php_memc_client \<Rightarrow> 'w \<Rightarrow> php_memc_client option \<times> 'w" where
  "s_handle_memcached_event V T fd client w =
     (if \<not> on_connect_invoked client then
        (case T MEMC_SERVER_ON_CONNECT of
           None \<Rightarrow> client_event V fd (client\<lparr>on_connect_invoked := True\<rparr>) w
         | Some cb \<Rightarrow>
             (case connect_callback V cb fd w of
                (retval, w) \<Rightarrow>
                  if retval \<noteq> PROTOCOL_BINARY_RESPONSE_SUCCESS then (None, drop_client V fd w)
                  else client_event V fd (client\<lparr>on_connect_invoked := True\<rparr>) w))
      else client_event V fd client w)"

text \<open>Accepting: the socket and its client if there is one.\<close>

definition s_accept_cb :: "('w, 'd) server_env \<Rightarrow> 'w \<Rightarrow> (int \<times> php_memc_client) option \<times> 'w" where
  "s_accept_cb V w =
     (case sv_accept V w of
        (None, w) \<Rightarrow> (None, w)
      | (Some sock, w) \<Rightarrow>
          (case sv_create_client V sock w of
             (ok, w) \<Rightarrow>
               if \<not> ok then (None, sv_closesocket V sock w)
               else
                 (case sv_event_once V sock False True w of
                    (ok, w) \<Rightarrow>
                      if \<not> ok then (None, drop_client V sock w)
                      else (Some (sock, \<lparr>on_connect_invoked = False\<rparr>), w))))"

section \<open>Listening and the methods\<close>

text \<open>
  A socket that fails after \<open>socket\<close> is not closed. \<open>E_ERROR\<close> ends the script: \<open>None\<close>.
\<close>

definition s_create_listening_socket :: "('w, 'd) server_env \<Rightarrow> string \<Rightarrow> 'w \<Rightarrow> int \<times> 'w" where
  "s_create_listening_socket V spec w =
     (if \<not> sv_parse_address V spec then (- 1, w)
      else case sv_socket V w of (sock, w) \<Rightarrow>
      if sock < 0 then (- 1, w)
      else case sv_bind V sock w of (ok, w) \<Rightarrow>
      if \<not> ok then (- 1, w)
      else case sv_listen V sock w of (ok, w) \<Rightarrow>
      if \<not> ok then (- 1, w)
      else case sv_nonblocking V sock w of (ok, w) \<Rightarrow>
      if \<not> ok then (- 1, w)
      else case sv_reuseable V sock w of (ok, w) \<Rightarrow>
      if \<not> ok then (- 1, w)
      else case sv_closeonexec V sock w of (ok, w) \<Rightarrow>
      if \<not> ok then (- 1, w)
      else (sock, w))"

definition php_memc_proto_handler_run :: "('w, 'd) server_env \<Rightarrow> string \<Rightarrow> 'w \<Rightarrow> (bool \<times> 'w) option" where
  "php_memc_proto_handler_run V address w =
     (case s_create_listening_socket V address w of (sock, w) \<Rightarrow>
      if sock = - 1 then Some (False, w)
      else case sv_event_base_new V w of (ok, w) \<Rightarrow>
      if \<not> ok then None
      else case sv_event_new V sock w of (ok, w) \<Rightarrow>
      if \<not> ok then None
      else case sv_dispatch V w of (rc, w) \<Rightarrow>
      if rc = - 1 \<or> rc = 1 then None else Some (True, w))"

text \<open>
  The module's callback table with, for every callback, the number of references that are held on it.
\<close>

record ('w, 'd) server_module =
  sm_callbacks :: "('w, 'd) cb_table"
  sm_refs :: "nat \<Rightarrow> int"

definition s_destroy_cb :: "('w, 'd) php_memc_server_cb option \<Rightarrow> (nat \<Rightarrow> int) \<Rightarrow> nat \<Rightarrow> int" where
  "s_destroy_cb slot refs =
     (case slot of None \<Rightarrow> refs | Some cb \<Rightarrow> refs(cb_id cb := refs (cb_id cb) - 1))"

text \<open>The loop of \<open>run\<close> over the table, from \<open>MEMC_SERVER_ON_MIN + 1\<close> on.\<close>

definition destroy_all :: "('w, 'd) server_module \<Rightarrow> ('w, 'd) server_module" where
  "destroy_all M = M\<lparr>sm_refs := fold (\<lambda>i. s_destroy_cb (sm_callbacks M i)) [0..<MEMC_SERVER_ON_MAX] (sm_refs M)\<rparr>"

definition server_run ::
  "('w, 'd) server_env \<Rightarrow> string \<Rightarrow> ('w, 'd) server_module \<Rightarrow> 'w \<Rightarrow>
     ('d zval \<times> ('w, 'd) server_module \<times> 'w) option" where
  "server_run V address M w =
     (case php_memc_proto_handler_run V address w of
        None \<Rightarrow> None
      | Some (rc, w) \<Rightarrow> Some (if rc then IS_TRUE else IS_FALSE, destroy_all M, w))"

text \<open>\<open>on\<close>: the result variable is never set to true; \<open>callback\<close> is \<open>None\<close> for null.\<close>

definition server_on ::
  "zend_long \<Rightarrow> ('w, 'd) php_memc_server_cb option \<Rightarrow> ('w, 'd) server_module \<Rightarrow> 'd zval \<times> ('w, 'd) server_module" where
  "server_on event callback M =
     (if sint event \<le> - 1 \<or> int MEMC_SERVER_ON_MAX \<le> sint event then (IS_FALSE, M)
      else case callback of
        None \<Rightarrow> (IS_FALSE, M)
      | Some cb \<Rightarrow>
          let i = nat (sint event); refs = s_destroy_cb (sm_callbacks M i) (sm_refs M)
          in (IS_FALSE, \<lparr>sm_callbacks = (sm_callbacks M)(i := Some cb), sm_refs = refs(cb_id cb := refs (cb_id cb) + 1)\<rparr>))"

section \<open>Results by reference and statistics\<close>

text \<open>What a \<open>get\<close> callback puts into its by-reference parameters is misread. When the callback
  returns success, the item is always sent as a hit, with a null value as the empty string, and
  always with flags 0, whatever the callback assigned: the handler looks at the type of the
  reference, which is neither null nor an integer.\<close>

theorem get_handler_ignores_references:
  assumes cb: "T MEMC_SERVER_ON_GET = Some cb"
    and call: "cb_function cb [IS_STRING cookie, IS_STRING key, IS_NULL, IS_NULL, IS_NULL] w = (Some r, params, w')"
    and ok: "ucast (zval_get_long (sv_zend V) r) = PROTOCOL_BINARY_RESPONSE_SUCCESS"
  shows "v1_get (php_memc_proto_handler_new V) T send cookie key w =
    send cookie key (zval_get_string (sv_zend V) (params ! 2)) 0 (sv_get_double V (params ! 4)) w'"
  using cb call ok
  by (simp add: php_memc_proto_handler_new_def s_get_handler_def s_invoke_php_callback_def Z_TYPE_is_null_def
      Z_TYPE_long_def convert_to_string_def MEMC_MAKE_RESULT_CAS_def)

text \<open>What the loop of the \<open>stat\<close> handler sends for an entry.\<close>

definition stat_text :: "'d zend \<Rightarrow> hkey \<times> 'd zval \<Rightarrow> string \<times> string" where
  "stat_text Z kv = (case fst kv of HStr s \<Rightarrow> s | HInt idx \<Rightarrow> dec_of_long idx, zval_get_string Z (snd kv))"

definition stat_answers :: "(string \<times> string \<Rightarrow> u32) \<Rightarrow> (string \<times> string) list \<Rightarrow> u32 \<times> (string \<times> string) list" where
  "stat_answers f es =
     (let ok = takeWhile (\<lambda>e. f e = PROTOCOL_BINARY_RESPONSE_SUCCESS) es
      in (if length ok = length es then PROTOCOL_BINARY_RESPONSE_SUCCESS else f (es ! length ok), take (Suc (length ok)) es))"

lemma stat_loop_answers:
  "stat_loop Z (\<lambda>c k v s. (f (k, v), s @ [(k, v)])) cookie stats PROTOCOL_BINARY_RESPONSE_SUCCESS s =
     (case stat_answers f (map (stat_text Z) stats) of (rc, sent) \<Rightarrow> (rc, s @ sent))"
proof (induction stats arbitrary: s)
  case Nil
  show ?case by (simp add: stat_answers_def)
next
  case (Cons e stats)
  show ?case
    by (cases e) (auto simp: Cons.IH stat_answers_def stat_text_def Let_def)
qed

text \<open>C33: Statistics arrive in the callback's order. With a client that answers \<open>f\<close> and keeps what it
  is sent, a successful \<open>stat\<close> callback's array is sent entry by entry, keys and values as text, up to
  and including the first entry the client does not accept, whose status is returned.\<close>

theorem stats_sent_in_order:
  assumes cb: "T MEMC_SERVER_ON_STAT = Some cb"
    and call: "cb_function cb [IS_STRING cookie, IS_STRING (c # name), IS_ARRAY []] w = (Some r, params, w')"
    and ok: "ucast (zval_get_long (sv_zend V) r) = PROTOCOL_BINARY_RESPONSE_SUCCESS"
    and stats: "params ! 2 = IS_ARRAY stats"
  shows "v1_stat (php_memc_proto_handler_new V) T (\<lambda>c k v s. (f (k, v), s @ [(k, v)])) cookie (Some (c # name)) w =
    (fst (stat_answers f (map (stat_text (sv_zend V)) stats)),
     w' @ snd (stat_answers f (map (stat_text (sv_zend V)) stats)))"
  using assms
  by (simp add: php_memc_proto_handler_new_def s_stat_handler_def s_invoke_php_callback_def stat_loop_answers split_beta)

section \<open>References on callbacks\<close>

definition slot_ref :: "('w, 'd) php_memc_server_cb option \<Rightarrow> nat \<Rightarrow> int" where
  "slot_ref slot n = (case slot of None \<Rightarrow> 0 | Some cb \<Rightarrow> if cb_id cb = n then 1 else 0)"

text \<open>How many slots of the table hold the callback.\<close>

definition slots :: "('w, 'd) cb_table \<Rightarrow> nat \<Rightarrow> int" where
  "slots T n = sum_list (map (\<lambda>i. slot_ref (T i) n) [0..<MEMC_SERVER_ON_MAX])"

lemma s_destroy_cb_apply: "s_destroy_cb slot refs n = refs n - slot_ref slot n"
  by (simp add: s_destroy_cb_def slot_ref_def split: option.split)

lemma fold_destroy:
  "fold (\<lambda>i. s_destroy_cb (T i)) is refs n = refs n - sum_list (map (\<lambda>i. slot_ref (T i) n) is)"
  by (induction "is" arbitrary: refs) (auto simp: s_destroy_cb_apply)

lemma slots_update:
  assumes "i < MEMC_SERVER_ON_MAX"
  shows "slots (T(i := s)) n = slots T n - slot_ref (T i) n + slot_ref s n"
proof -
  have "sum (\<lambda>j. slot_ref ((T(i := s)) j) n) {0..<MEMC_SERVER_ON_MAX} =
      slot_ref s n + sum (\<lambda>j. slot_ref (T j) n) ({0..<MEMC_SERVER_ON_MAX} - {i})"
    using assms by (subst sum.remove [of _ i]) auto
  moreover have "sum (\<lambda>j. slot_ref (T j) n) {0..<MEMC_SERVER_ON_MAX} =
      slot_ref (T i) n + sum (\<lambda>j. slot_ref (T j) n) ({0..<MEMC_SERVER_ON_MAX} - {i})"
    using assms by (subst sum.remove [of _ i]) auto
  ultimately show ?thesis
    unfolding slots_def interv_sum_list_conv_sum_set_nat by simp
qed

text \<open>The table owns one reference for every slot that holds a callback.\<close>

definition refs_balanced :: "('w, 'd) server_module \<Rightarrow> bool" where
  "refs_balanced M \<longleftrightarrow> (\<forall>n. sm_refs M n = slots (sm_callbacks M) n)"

lemma server_on_balanced: "refs_balanced M \<Longrightarrow> refs_balanced (snd (server_on event callback M))"
  by (auto simp: refs_balanced_def server_on_def Let_def slots_update s_destroy_cb_apply slot_ref_def
      split: option.split)

fun on_calls :: "(zend_long \<times> ('w, 'd) php_memc_server_cb option) list \<Rightarrow> ('w, 'd) server_module \<Rightarrow> ('w, 'd) server_module" where
  "on_calls [] M = M"
| "on_calls ((event, callback) # calls) M = on_calls calls (snd (server_on event callback M))"

definition empty_module :: "('w, 'd) server_module" where
  "empty_module = \<lparr>sm_callbacks = (\<lambda>_. None), sm_refs = (\<lambda>_. 0)\<rparr>"

lemma on_calls_balanced: "refs_balanced M \<Longrightarrow> refs_balanced (on_calls calls M)"
  by (induction calls M rule: on_calls.induct) (simp_all add: server_on_balanced)

lemma empty_module_balanced: "refs_balanced empty_module"
  by (simp add: refs_balanced_def empty_module_def slots_def slot_ref_def)

text \<open>References on callbacks. After any calls of \<open>on\<close> the table holds exactly one reference for
  every slot a callback is in. But \<open>run\<close> gives all of them back and leaves the callbacks in the
  table: afterwards nothing is held on them, and a second \<open>run\<close> releases each callback as often
  again as there are slots with it.\<close>

theorem run_releases_callbacks_again:
  fixes calls :: "(zend_long \<times> ('w, 'd) php_memc_server_cb option) list"
  defines "M \<equiv> on_calls calls empty_module"
  shows "sm_refs M n = slots (sm_callbacks M) n \<and>
    sm_callbacks (destroy_all M) = sm_callbacks M \<and> sm_refs (destroy_all M) n = 0 \<and>
    sm_refs (destroy_all (destroy_all M)) n = - slots (sm_callbacks M) n"
proof -
  have "sm_refs M n = slots (sm_callbacks M) n"
    using on_calls_balanced [OF empty_module_balanced, of calls] by (simp add: M_def refs_balanced_def)
  then show ?thesis by (simp add: destroy_all_def fold_destroy slots_def)
qed

section \<open>The connect callback is a gate\<close>

text \<open>
  Any environment can be watched: the watched world also holds the socket whose event is handled
  and the list of what happened.
\<close>

datatype conn_event = Accepted int | Asked int bool | Worked int

record 'w watched =
  wd_world :: 'w
  wd_fd :: int
  wd_log :: "conn_event list"

definition inside :: "('w \<Rightarrow> 'a \<times> 'w) \<Rightarrow> 'w watched \<Rightarrow> 'a \<times> 'w watched" where
  "inside f W = (case f (wd_world W) of (r, w) \<Rightarrow> (r, W\<lparr>wd_world := w\<rparr>))"

definition inside_unit :: "('w \<Rightarrow> 'w) \<Rightarrow> 'w watched \<Rightarrow> 'w watched" where
  "inside_unit f W = W\<lparr>wd_world := f (wd_world W)\<rparr>"

definition watch :: "('w, 'd) server_env \<Rightarrow> ('w watched, 'd) server_env" where
  "watch V = \<lparr>
     sv_zend = sv_zend V,
     sv_u64_to_double = sv_u64_to_double V,
     sv_get_double = sv_get_double V,
     sv_to_array = sv_to_array V,
     sv_peer_name = (\<lambda>fd W. sv_peer_name V fd (wd_world W)),
     sv_client_work = (\<lambda>fd W. case inside (sv_client_work V fd) W of (r, W) \<Rightarrow> (r, W\<lparr>wd_log := wd_log W @ [Worked fd]\<rparr>)),
     sv_client_destroy = (\<lambda>fd. inside_unit (sv_client_destroy V fd)),
     sv_closesocket = (\<lambda>fd. inside_unit (sv_closesocket V fd)),
     sv_event_once = (\<lambda>fd a b. inside (sv_event_once V fd a b)),
     sv_accept = (\<lambda>W. case inside (sv_accept V) W of
        (r, W) \<Rightarrow> (r, W\<lparr>wd_log := wd_log W @ (case r of None \<Rightarrow> [] | Some s \<Rightarrow> [Accepted s])\<rparr>)),
     sv_create_client = (\<lambda>fd. inside (sv_create_client V fd)),
     sv_parse_address = sv_parse_address V,
     sv_socket = inside (sv_socket V),
     sv_bind = (\<lambda>fd. inside (sv_bind V fd)),
     sv_listen = (\<lambda>fd. inside (sv_listen V fd)),
     sv_nonblocking = (\<lambda>fd. inside (sv_nonblocking V fd)),
     sv_reuseable = (\<lambda>fd. inside (sv_reuseable V fd)),
     sv_closeonexec = (\<lambda>fd. inside (sv_closeonexec V fd)),
     sv_event_base_new = inside (sv_event_base_new V),
     sv_event_new = (\<lambda>fd. inside (sv_event_new V fd)),
     sv_dispatch = inside (sv_dispatch V)\<rparr>"

definition watch_connect :: "('w, 'd) server_env \<Rightarrow> ('w, 'd) php_memc_server_cb \<Rightarrow> ('w watched, 'd) php_memc_server_cb" where
  "watch_connect V cb = \<lparr>
     cb_function = (\<lambda>params W. case cb_function cb params (wd_world W) of
        (r, params, w) \<Rightarrow>
          (r, params, W\<lparr>wd_world := w, wd_log := wd_log W @
             [Asked (wd_fd W) (case r of None \<Rightarrow> False | Some v \<Rightarrow>
                ucast (zval_get_long (sv_zend V) v) = PROTOCOL_BINARY_RESPONSE_SUCCESS)]\<rparr>)),
     cb_id = cb_id cb\<rparr>"

text \<open>
  The server as a transition system: it accepts connections and handles events of its clients, in
  any order the network chooses. The kernel does not hand out a socket that is still open.
\<close>

definition accepts_new :: "('w, 'd) server_env \<Rightarrow> (int \<Rightarrow> php_memc_client option) \<Rightarrow> 'w \<Rightarrow> bool" where
  "accepts_new V clients w \<longleftrightarrow> (case fst (sv_accept V w) of None \<Rightarrow> True | Some s \<Rightarrow> clients s = None)"

inductive server_step ::
  "('w watched, 'd) server_env \<Rightarrow> ('w watched, 'd) cb_table \<Rightarrow>
     (int \<Rightarrow> php_memc_client option) \<times> 'w watched \<Rightarrow> (int \<Rightarrow> php_memc_client option) \<times> 'w watched \<Rightarrow> bool"
  for V T where
  step_accept: "s_accept_cb V W = (Some (s, c), W') \<Longrightarrow> accepts_new V clients W \<Longrightarrow> server_step V T (clients, W) (clients(s \<mapsto> c), W')"
| step_refuse: "s_accept_cb V W = (None, W') \<Longrightarrow> accepts_new V clients W \<Longrightarrow> server_step V T (clients, W) (clients, W')"
| step_event: "clients fd = Some c \<Longrightarrow> s_handle_memcached_event V T fd c (W\<lparr>wd_fd := fd\<rparr>) = (c', W') \<Longrightarrow>
    server_step V T (clients, W) (clients(fd := c'), W')"

text \<open>
  The monitor follows the sockets that the connect callback admitted since they were accepted; it
  fails (\<open>None\<close>) when a request of another one is worked on.
\<close>

fun admitted :: "conn_event list \<Rightarrow> int set \<Rightarrow> int set option" where
  "admitted [] A = Some A"
| "admitted (Accepted fd # es) A = admitted es (A - {fd})"
| "admitted (Asked fd ok # es) A = admitted es (if ok then insert fd A else A - {fd})"
| "admitted (Worked fd # es) A = (if fd \<in> A then admitted es A else None)"

lemma admitted_append: "admitted (es @ fs) A = (case admitted es A of None \<Rightarrow> None | Some B \<Rightarrow> admitted fs B)"
  by (induction es A rule: admitted.induct) auto

definition gate_ok :: "(int \<Rightarrow> php_memc_client option) \<times> 'w watched \<Rightarrow> bool" where
  "gate_ok S \<longleftrightarrow> (\<exists>A. admitted (wd_log (snd S)) {} = Some A \<and>
     (\<forall>fd c. fst S fd = Some c \<longrightarrow> on_connect_invoked c \<longrightarrow> fd \<in> A))"

lemma watch_pure [simp]:
  "sv_zend (watch V) = sv_zend V"
  "sv_peer_name (watch V) fd W = sv_peer_name V fd (wd_world W)"
  by (simp_all add: watch_def)

lemma watch_quiet:
  "wd_log (sv_client_destroy (watch V) fd W) = wd_log W"
  "wd_log (sv_closesocket (watch V) fd W) = wd_log W"
  "sv_event_once (watch V) fd a b W = (r, W') \<Longrightarrow> wd_log W' = wd_log W"
  "sv_create_client (watch V) fd W = (r, W') \<Longrightarrow> wd_log W' = wd_log W"
  by (auto simp: watch_def inside_def inside_unit_def split: prod.splits)

lemma watch_logged:
  "sv_client_work (watch V) fd W = (bits, W') \<Longrightarrow> wd_log W' = wd_log W @ [Worked fd]"
  "sv_accept (watch V) W = (r, W') \<Longrightarrow> wd_log W' = wd_log W @ (case r of None \<Rightarrow> [] | Some s \<Rightarrow> [Accepted s])"
  by (auto simp: watch_def inside_def split: prod.splits)

lemma drop_client_log [simp]: "wd_log (drop_client (watch V) fd W) = wd_log W"
  by (simp add: drop_client_def watch_quiet)

lemma client_event_watched:
  assumes "client_event (watch V) fd c W = (c', W')"
  shows "wd_log W' = wd_log W @ [Worked fd]" "c' = None \<or> c' = Some c"
  using assms
  by (auto simp: client_event_def split: prod.splits if_splits dest: watch_logged)
     (metis prod.collapse watch_logged(1) watch_quiet(3))

lemma accept_watched:
  assumes "s_accept_cb (watch V) W = (r, W')"
  shows "case r of None \<Rightarrow> wd_log W' = wd_log W \<or>
      (\<exists>s. fst (sv_accept (watch V) W) = Some s \<and> wd_log W' = wd_log W @ [Accepted s])
    | Some (s, c) \<Rightarrow> wd_log W' = wd_log W @ [Accepted s] \<and> \<not> on_connect_invoked c"
  using assms
  by (auto simp: s_accept_cb_def watch_quiet split: prod.splits option.splits if_splits
      dest!: watch_quiet(3,4) watch_logged(2))

lemma connect_watched:
  assumes "connect_callback (watch V) (watch_connect V cb) fd W = (retval, W')"
  shows "wd_log W' = wd_log W @ [Asked (wd_fd W) (retval = PROTOCOL_BINARY_RESPONSE_SUCCESS)]"
  using assms
  by (auto simp: connect_callback_def s_invoke_php_callback_def watch_connect_def Let_def
      split: prod.splits option.splits)

lemma event_watched:
  assumes ev: "s_handle_memcached_event (watch V) T fd c W = (c', W')"
    and T: "T MEMC_SERVER_ON_CONNECT = Some (watch_connect V cb)" and W: "wd_fd W = fd"
  obtains (old) "on_connect_invoked c" "wd_log W' = wd_log W @ [Worked fd]" "c' = None \<or> c' = Some c"
  | (refused) "wd_log W' = wd_log W @ [Asked fd False]" "c' = None"
  | (admitted) "wd_log W' = wd_log W @ [Asked fd True, Worked fd]"
proof (cases "on_connect_invoked c")
  case True
  with ev have "client_event (watch V) fd c W = (c', W')" by (simp add: s_handle_memcached_event_def)
  from client_event_watched [OF this] True show ?thesis by (intro old)
next
  case False
  obtain rc W1 where ask: "connect_callback (watch V) (watch_connect V cb) fd W = (rc, W1)" by fastforce
  note asked = connect_watched [OF ask, unfolded W]
  show ?thesis
  proof (cases "rc = PROTOCOL_BINARY_RESPONSE_SUCCESS")
    case True
    with ev False T ask have "client_event (watch V) fd (c\<lparr>on_connect_invoked := True\<rparr>) W1 = (c', W')"
      by (simp add: s_handle_memcached_event_def)
    from client_event_watched(1) [OF this] asked True show ?thesis by (intro admitted) simp
  next
    case rejected: False
    with ev False T ask have "c' = None" "W' = drop_client (watch V) fd W1"
      by (simp_all add: s_handle_memcached_event_def)
    with asked rejected show ?thesis by (intro refused) simp_all
  qed
qed

lemma gate_okI:
  "admitted (wd_log W) {} = Some A \<Longrightarrow> (\<And>fd c. clients fd = Some c \<Longrightarrow> on_connect_invoked c \<Longrightarrow> fd \<in> A) \<Longrightarrow>
    gate_ok (clients, W)"
  by (auto simp: gate_ok_def)

lemma server_step_gate:
  assumes "server_step (watch V) T S S'" "T MEMC_SERVER_ON_CONNECT = Some (watch_connect V cb)" "gate_ok S"
  shows "gate_ok S'"
  using assms
proof (cases rule: server_step.cases)
  case (step_accept W s c W' clients)
  with assms(3) obtain A where A: "admitted (wd_log W) {} = Some A"
    "\<And>fd c. clients fd = Some c \<Longrightarrow> on_connect_invoked c \<Longrightarrow> fd \<in> A"
    by (auto simp: gate_ok_def)
  from accept_watched [OF step_accept(3)] A show ?thesis unfolding step_accept(2)
    by (intro gate_okI [where A = "A - {s}"]) (auto simp: admitted_append split: if_splits)
next
  case (step_refuse W W' clients)
  with assms(3) obtain A where A: "admitted (wd_log W) {} = Some A"
    "\<And>fd c. clients fd = Some c \<Longrightarrow> on_connect_invoked c \<Longrightarrow> fd \<in> A"
    by (auto simp: gate_ok_def)
  from accept_watched [OF step_refuse(3)] show ?thesis
  proof (simp, elim disjE exE conjE)
    assume "wd_log W' = wd_log W"
    with A show ?thesis unfolding step_refuse(2) by (intro gate_okI [where A = A]) auto
  next
    fix s assume s: "fst (sv_accept (watch V) W) = Some s" "wd_log W' = wd_log W @ [Accepted s]"
    with step_refuse(4) have "clients s = None" by (simp add: accepts_new_def)
    with A s(2) show ?thesis unfolding step_refuse(2)
      by (intro gate_okI [where A = "A - {s}"]) (auto simp: admitted_append)
  qed
next
  case (step_event clients fd c W c' W')
  with assms(3) obtain A where A: "admitted (wd_log W) {} = Some A"
    "\<And>fd c. clients fd = Some c \<Longrightarrow> on_connect_invoked c \<Longrightarrow> fd \<in> A"
    by (auto simp: gate_ok_def)
  note W = gate_okI [where clients = "clients(fd := c')" and W = W']
  from step_event(4) assms(2) have "wd_fd (W\<lparr>wd_fd := fd\<rparr>) = fd \<Longrightarrow> gate_ok (clients(fd := c'), W')"
  proof (rule event_watched)
    assume "on_connect_invoked c" "wd_log W' = wd_log (W\<lparr>wd_fd := fd\<rparr>) @ [Worked fd]" "c' = None \<or> c' = Some c"
    with A step_event(3) show ?thesis by (intro W [where A = A]) (auto simp: admitted_append split: if_splits)
  next
    assume "wd_log W' = wd_log (W\<lparr>wd_fd := fd\<rparr>) @ [Asked fd False]" "c' = None"
    with A show ?thesis by (intro W [where A = "A - {fd}"]) (auto simp: admitted_append split: if_splits)
  next
    assume "wd_log W' = wd_log (W\<lparr>wd_fd := fd\<rparr>) @ [Asked fd True, Worked fd]"
    with A show ?thesis by (intro W [where A = "insert fd A"]) (auto simp: admitted_append split: if_splits)
  qed simp_all
  then show ?thesis unfolding step_event(2) by simp
qed

inductive server_steps ::
  "('w watched, 'd) server_env \<Rightarrow> ('w watched, 'd) cb_table \<Rightarrow>
     (int \<Rightarrow> php_memc_client option) \<times> 'w watched \<Rightarrow> (int \<Rightarrow> php_memc_client option) \<times> 'w watched \<Rightarrow> bool"
  for V T where
  steps_none: "server_steps V T S S"
| steps_more: "server_steps V T S S1 \<Longrightarrow> server_step V T S1 S2 \<Longrightarrow> server_steps V T S S2"

text \<open>C13: The \<open>connect\<close> callback is a gate. Whatever connections come and whatever events follow, in
  any order, no request of a connection is worked on before the callback was called for it, since it
  was accepted, and answered success: the monitor never fails.\<close>

theorem connect_callback_gate:
  assumes steps: "server_steps (watch V) T (\<lambda>_. None, \<lparr>wd_world = w, wd_fd = 0, wd_log = []\<rparr>) (clients, W)"
    and T: "T MEMC_SERVER_ON_CONNECT = Some (watch_connect V cb)"
  shows "admitted (wd_log W) {} \<noteq> None"
proof -
  have "gate_ok S'" if "server_steps (watch V) T S S'" "gate_ok S" for S S'
    using that by (induction rule: server_steps.induct) (auto intro: server_step_gate T)
  from this [OF steps] show ?thesis by (auto simp: gate_ok_def)
qed

section \<open>Witnesses\<close>

definition sample_server :: "('w, bool \<times> rat) server_env" where
  "sample_server = \<lparr>
     sv_zend = sample_zend, sv_u64_to_double = (\<lambda>_. (False, 1)), sv_get_double = (\<lambda>_. 0), sv_to_array = (\<lambda>_. []),
     sv_peer_name = (\<lambda>_ _. None), sv_client_work = (\<lambda>_ w. ((False, False, True), w)),
     sv_client_destroy = (\<lambda>_ w. w), sv_closesocket = (\<lambda>_ w. w), sv_event_once = (\<lambda>_ _ _ w. (True, w)),
     sv_accept = (\<lambda>w. (Some 4, w)), sv_create_client = (\<lambda>_ w. (True, w)), sv_parse_address = (\<lambda>_. True),
     sv_socket = (\<lambda>w. (3, w)), sv_bind = (\<lambda>_ w. (True, w)), sv_listen = (\<lambda>_ w. (True, w)),
     sv_nonblocking = (\<lambda>_ w. (True, w)), sv_reuseable = (\<lambda>_ w. (True, w)), sv_closeonexec = (\<lambda>_ w. (True, w)),
     sv_event_base_new = (\<lambda>w. (True, w)), sv_event_new = (\<lambda>_ w. (True, w)), sv_dispatch = (\<lambda>w. (0, w))\<rparr>"

definition accepting :: "'d zval list \<Rightarrow> ('w, 'd) php_memc_server_cb" where
  "accepting answer = \<lparr>cb_function = (\<lambda>params w. (Some (IS_LONG 0), answer, w)), cb_id = 0\<rparr>"

definition watched_start :: "unit watched" where
  "watched_start = \<lparr>wd_world = (), wd_fd = 0, wd_log = []\<rparr>"

theorem connect_callback_gate_witness:
  "admitted [Accepted 4, Asked 4 True, Worked 4] {} \<noteq> None"
proof -
  let ?V = "watch sample_server" and ?T = "[MEMC_SERVER_ON_CONNECT \<mapsto> watch_connect sample_server (accepting [IS_NULL])]"
  let ?W1 = "watched_start\<lparr>wd_log := [Accepted 4]\<rparr>"
  have "s_accept_cb ?V watched_start = (Some (4, \<lparr>on_connect_invoked = False\<rparr>), ?W1)"
    by (simp add: s_accept_cb_def watch_def inside_def sample_server_def watched_start_def)
  moreover have "accepts_new ?V (\<lambda>_. None) watched_start" by (simp add: accepts_new_def split: option.split)
  ultimately have a: "server_step ?V ?T (\<lambda>_. None, watched_start) ([4 \<mapsto> \<lparr>on_connect_invoked = False\<rparr>], ?W1)"
    by (rule step_accept)
  have "s_handle_memcached_event ?V ?T 4 \<lparr>on_connect_invoked = False\<rparr> (?W1\<lparr>wd_fd := 4\<rparr>) =
      (Some \<lparr>on_connect_invoked = True\<rparr>, \<lparr>wd_world = (), wd_fd = 4, wd_log = [Accepted 4, Asked 4 True, Worked 4]\<rparr>)"
    by (simp add: s_handle_memcached_event_def connect_callback_def s_invoke_php_callback_def watch_connect_def
        accepting_def client_event_def watch_def inside_def sample_server_def watched_start_def zval_get_long_def)
  from step_event [of _ 4, OF _ this]
  have b: "server_step ?V ?T ([4 \<mapsto> \<lparr>on_connect_invoked = False\<rparr>], ?W1) ([4 \<mapsto> \<lparr>on_connect_invoked = True\<rparr>],
      \<lparr>wd_world = (), wd_fd = 4, wd_log = [Accepted 4, Asked 4 True, Worked 4]\<rparr>)"
    by (metis fun_upd_same fun_upd_upd)
  from steps_more [OF steps_more [OF steps_none a] b]
  show ?thesis
    using connect_callback_gate [where V = sample_server and T = ?T and w = "()"] by (fastforce simp: watched_start_def)
qed

theorem get_handler_ignores_references_witness:
  "v1_get (php_memc_proto_handler_new sample_server)
     [MEMC_SERVER_ON_GET \<mapsto> accepting [IS_STRING [], IS_STRING ''k'', IS_NULL, IS_LONG 5, IS_NULL]]
     (\<lambda>c k v fl cas w. (fl, w)) [] ''k'' () = (0, ())"
  by (subst get_handler_ignores_references [where cb = "accepting [IS_STRING [], IS_STRING ''k'', IS_NULL, IS_LONG 5, IS_NULL]"
        and r = "IS_LONG 0" and w' = "()"]) (simp_all add: accepting_def sample_server_def zval_get_long_def zval_get_string_def)

theorem stats_sent_in_order_witness:
  "v1_stat (php_memc_proto_handler_new sample_server)
     [MEMC_SERVER_ON_STAT \<mapsto> accepting [IS_STRING [], IS_STRING ''all'',
        IS_ARRAY [(HStr ''pid'', IS_STRING ''9''), (HStr ''up'', IS_STRING ''x''), (HStr ''z'', IS_STRING ''y'')]]]
     (\<lambda>c k v s. (if (k, v) = (''up'', ''x'') then 4 else 0, s @ [(k, v)])) [] (Some ''all'') [] =
   (4, [(''pid'', ''9''), (''up'', ''x'')])"
  by (subst stats_sent_in_order [where cb = "accepting [IS_STRING [], IS_STRING ''all'',
          IS_ARRAY [(HStr ''pid'', IS_STRING ''9''), (HStr ''up'', IS_STRING ''x''), (HStr ''z'', IS_STRING ''y'')]]"
        and params = "[IS_STRING [], IS_STRING ''all'', IS_ARRAY [(HStr ''pid'', IS_STRING ''9''),
          (HStr ''up'', IS_STRING ''x''), (HStr ''z'', IS_STRING ''y'')]]" and r = "IS_LONG 0" and w' = "[]" and f = "\<lambda>kv. if kv = (''up'', ''x'') then 4 else 0"
        and stats = "[(HStr ''pid'', IS_STRING ''9''), (HStr ''up'', IS_STRING ''x''), (HStr ''z'', IS_STRING ''y'')]"])
     (simp_all add: accepting_def sample_server_def zval_get_long_def zval_get_string_def stat_answers_def stat_text_def)

end
