(* ===== verification/Module.thy ===== *)
theory Module
  imports Arginfo Session Proto_Server
begin

text \<open>
  Loading the module: the class constants, the ini entries with their defaults,
  \<open>PHP_MINIT\<close>, \<open>PHP_MSHUTDOWN\<close> and \<open>PHP_MINFO\<close>. Shown: in every build configuration all
  constants are declared, every result code an object can report has its constant, the \<open>HAVE_\<close>
  constants say what the methods accept, and which globals are in force after loading.
\<close>

section \<open>Class constants\<close>

text \<open>
  Declaring a constant twice is a fatal error (\<open>None\<close>). \<open>K\<close> gives the numbers of the
  libmemcached enumerators that no other component names.
\<close>

type_synonym 'd constants = "(string \<times> 'd zval) list"

primrec zend_declare_class_constants :: "'d constants \<Rightarrow> 'd constants \<Rightarrow> 'd constants option" where
  "zend_declare_class_constants [] tab = Some tab"
| "zend_declare_class_constants (c # cs) tab =
     (if fst c \<in> fst ` set tab then None else zend_declare_class_constants cs (tab @ [c]))"

definition constants_options :: "build \<Rightarrow> 'd constants" where
  "constants_options B =
     [(''LIBMEMCACHED_VERSION_HEX'', IS_LONG (LIBMEMCACHED_VERSION_HEX B)),
      (''OPT_COMPRESSION'', IS_LONG MEMC_OPT_COMPRESSION),
      (''OPT_COMPRESSION_TYPE'', IS_LONG MEMC_OPT_COMPRESSION_TYPE),
      (''OPT_COMPRESSION_LEVEL'', IS_LONG MEMC_OPT_COMPRESSION_LEVEL),
      (''OPT_PREFIX_KEY'', IS_LONG MEMC_OPT_PREFIX_KEY),
      (''OPT_SERIALIZER'', IS_LONG MEMC_OPT_SERIALIZER),
      (''OPT_USER_FLAGS'', IS_LONG MEMC_OPT_USER_FLAGS),
      (''OPT_STORE_RETRY_COUNT'', IS_LONG MEMC_OPT_STORE_RETRY_COUNT),
      (''OPT_ITEM_SIZE_LIMIT'', IS_LONG MEMC_OPT_ITEM_SIZE_LIMIT)]"

definition constants_have :: "build \<Rightarrow> 'd constants" where
  "constants_have B =
     [(''HAVE_IGBINARY'', ZVAL_BOOL (HAVE_MEMCACHED_IGBINARY B)),
      (''HAVE_ZSTD'', ZVAL_BOOL (HAVE_ZSTD_H B)),
      (''HAVE_JSON'', ZVAL_BOOL (HAVE_JSON_API B)),
      (''HAVE_MSGPACK'', ZVAL_BOOL (HAVE_MEMCACHED_MSGPACK B)),
      (''HAVE_ENCODING'', ZVAL_BOOL (HAVE_MEMCACHED_SET_ENCODING_KEY B)),
      (''HAVE_SESSION'', ZVAL_BOOL (HAVE_MEMCACHED_SESSION B)),
      (''HAVE_SASL'', ZVAL_BOOL (HAVE_MEMCACHED_SASL B))]"

definition constants_behaviors :: "build \<Rightarrow> 'm lm_options \<Rightarrow> (string \<Rightarrow> zend_long) \<Rightarrow> 'd constants" where
  "constants_behaviors B LO K =
     [(''OPT_HASH'', IS_LONG (K ''MEMCACHED_BEHAVIOR_HASH'')),
      (''HASH_DEFAULT'', IS_LONG (K ''MEMCACHED_HASH_DEFAULT'')),
      (''HASH_MD5'', IS_LONG (K ''MEMCACHED_HASH_MD5'')),
      (''HASH_CRC'', IS_LONG (K ''MEMCACHED_HASH_CRC'')),
      (''HASH_FNV1_64'', IS_LONG (K ''MEMCACHED_HASH_FNV1_64'')),
      (''HASH_FNV1A_64'', IS_LONG (K ''MEMCACHED_HASH_FNV1A_64'')),
      (''HASH_FNV1_32'', IS_LONG (K ''MEMCACHED_HASH_FNV1_32'')),
      (''HASH_FNV1A_32'', IS_LONG (K ''MEMCACHED_HASH_FNV1A_32'')),
      (''HASH_HSIEH'', IS_LONG (K ''MEMCACHED_HASH_HSIEH'')),
      (''HASH_MURMUR'', IS_LONG (K ''MEMCACHED_HASH_MURMUR'')),
      (''OPT_DISTRIBUTION'', IS_LONG (behavior_option LO MEMCACHED_BEHAVIOR_DISTRIBUTION)),
      (''DISTRIBUTION_MODULA'', IS_LONG (K ''MEMCACHED_DISTRIBUTION_MODULA'')),
      (''DISTRIBUTION_CONSISTENT'', IS_LONG (K ''MEMCACHED_DISTRIBUTION_CONSISTENT'')),
      (''DISTRIBUTION_VIRTUAL_BUCKET'', IS_LONG (K ''MEMCACHED_DISTRIBUTION_VIRTUAL_BUCKET'')),
      (''OPT_LIBKETAMA_COMPATIBLE'', IS_LONG (behavior_option LO MEMCACHED_BEHAVIOR_KETAMA_WEIGHTED)),
      (''OPT_LIBKETAMA_HASH'', IS_LONG (K ''MEMCACHED_BEHAVIOR_KETAMA_HASH'')),
      (''OPT_TCP_KEEPALIVE'', IS_LONG (K ''MEMCACHED_BEHAVIOR_TCP_KEEPALIVE'')),
      (''OPT_BUFFER_WRITES'', IS_LONG (K ''MEMCACHED_BEHAVIOR_BUFFER_REQUESTS'')),
      (''OPT_BINARY_PROTOCOL'', IS_LONG (behavior_option LO MEMCACHED_BEHAVIOR_BINARY_PROTOCOL)),
      (''OPT_NO_BLOCK'', IS_LONG (behavior_option LO MEMCACHED_BEHAVIOR_NO_BLOCK)),
      (''OPT_TCP_NODELAY'', IS_LONG (behavior_option LO MEMCACHED_BEHAVIOR_TCP_NODELAY)),
      (''OPT_SOCKET_SEND_SIZE'', IS_LONG (behavior_option LO MEMCACHED_BEHAVIOR_SOCKET_SEND_SIZE)),
      (''OPT_SOCKET_RECV_SIZE'', IS_LONG (behavior_option LO MEMCACHED_BEHAVIOR_SOCKET_RECV_SIZE)),
      (''OPT_CONNECT_TIMEOUT'', IS_LONG (behavior_option LO MEMCACHED_BEHAVIOR_CONNECT_TIMEOUT)),
      (''OPT_RETRY_TIMEOUT'', IS_LONG (K ''MEMCACHED_BEHAVIOR_RETRY_TIMEOUT''))] @
     (if 0x01000003 \<le> LIBMEMCACHED_VERSION_HEX B then [(''OPT_DEAD_TIMEOUT'', IS_LONG (K ''MEMCACHED_BEHAVIOR_DEAD_TIMEOUT''))] else []) @
     [(''OPT_SEND_TIMEOUT'', IS_LONG (K ''MEMCACHED_BEHAVIOR_SND_TIMEOUT'')),
      (''OPT_RECV_TIMEOUT'', IS_LONG (K ''MEMCACHED_BEHAVIOR_RCV_TIMEOUT'')),
      (''OPT_POLL_TIMEOUT'', IS_LONG (K ''MEMCACHED_BEHAVIOR_POLL_TIMEOUT'')),
      (''OPT_CACHE_LOOKUPS'', IS_LONG (K ''MEMCACHED_BEHAVIOR_CACHE_LOOKUPS'')),
      (''OPT_SERVER_FAILURE_LIMIT'', IS_LONG (behavior_option LO MEMCACHED_BEHAVIOR_SERVER_FAILURE_LIMIT)),
      (''OPT_AUTO_EJECT_HOSTS'', IS_LONG (K ''MEMCACHED_BEHAVIOR_AUTO_EJECT_HOSTS'')),
      (''OPT_HASH_WITH_PREFIX_KEY'', IS_LONG (K ''MEMCACHED_BEHAVIOR_HASH_WITH_PREFIX_KEY'')),
      (''OPT_NOREPLY'', IS_LONG (K ''MEMCACHED_BEHAVIOR_NOREPLY'')),
      (''OPT_SORT_HOSTS'', IS_LONG (K ''MEMCACHED_BEHAVIOR_SORT_HOSTS'')),
      (''OPT_VERIFY_KEY'', IS_LONG (behavior_option LO MEMCACHED_BEHAVIOR_VERIFY_KEY)),
      (''OPT_USE_UDP'', IS_LONG (K ''MEMCACHED_BEHAVIOR_USE_UDP'')),
      (''OPT_NUMBER_OF_REPLICAS'', IS_LONG (behavior_option LO MEMCACHED_BEHAVIOR_NUMBER_OF_REPLICAS)),
      (''OPT_RANDOMIZE_REPLICA_READ'', IS_LONG (behavior_option LO MEMCACHED_BEHAVIOR_RANDOMIZE_REPLICA_READ)),
      (''OPT_REMOVE_FAILED_SERVERS'', IS_LONG (behavior_option LO MEMCACHED_BEHAVIOR_REMOVE_FAILED_SERVERS))] @
     (if 0x01000018 \<le> LIBMEMCACHED_VERSION_HEX B then [(''OPT_SERVER_TIMEOUT_LIMIT'', IS_LONG (K ''MEMCACHED_BEHAVIOR_SERVER_TIMEOUT_LIMIT''))] else [])"

definition constants_results :: "build \<Rightarrow> 'm libmemcached \<Rightarrow> 'd constants" where
  "constants_results B L =
     [(''RES_SUCCESS'', IS_LONG (lm_return_code L MEMCACHED_SUCCESS)),
      (''RES_FAILURE'', IS_LONG (lm_return_code L MEMCACHED_FAILURE)),
      (''RES_HOST_LOOKUP_FAILURE'', IS_LONG (lm_return_code L MEMCACHED_HOST_LOOKUP_FAILURE)),
      (''RES_CONNECTION_FAILURE'', IS_LONG (lm_return_code L MEMCACHED_CONNECTION_FAILURE)),
      (''RES_CONNECTION_BIND_FAILURE'', IS_LONG (lm_return_code L MEMCACHED_CONNECTION_BIND_FAILURE)),
      (''RES_WRITE_FAILURE'', IS_LONG (lm_return_code L MEMCACHED_WRITE_FAILURE)),
      (''RES_READ_FAILURE'', IS_LONG (lm_return_code L MEMCACHED_READ_FAILURE)),
      (''RES_UNKNOWN_READ_FAILURE'', IS_LONG (lm_return_code L MEMCACHED_UNKNOWN_READ_FAILURE)),
      (''RES_PROTOCOL_ERROR'', IS_LONG (lm_return_code L MEMCACHED_PROTOCOL_ERROR)),
      (''RES_CLIENT_ERROR'', IS_LONG (lm_return_code L MEMCACHED_CLIENT_ERROR)),
      (''RES_SERVER_ERROR'', IS_LONG (lm_return_code L MEMCACHED_SERVER_ERROR)),
      (''RES_DATA_EXISTS'', IS_LONG (lm_return_code L MEMCACHED_DATA_EXISTS)),
      (''RES_DATA_DOES_NOT_EXIST'', IS_LONG (lm_return_code L MEMCACHED_DATA_DOES_NOT_EXIST)),
      (''RES_NOTSTORED'', IS_LONG (lm_return_code L MEMCACHED_NOTSTORED)),
      (''RES_STORED'', IS_LONG (lm_return_code L MEMCACHED_STORED)),
      (''RES_NOTFOUND'', IS_LONG (lm_return_code L MEMCACHED_NOTFOUND)),
      (''RES_PARTIAL_READ'', IS_LONG (lm_return_code L MEMCACHED_PARTIAL_READ)),
      (''RES_SOME_ERRORS'', IS_LONG (lm_return_code L MEMCACHED_SOME_ERRORS)),
      (''RES_NO_SERVERS'', IS_LONG (lm_return_code L MEMCACHED_NO_SERVERS)),
      (''RES_END'', IS_LONG (lm_return_code L MEMCACHED_END)),
      (''RES_DELETED'', IS_LONG (lm_return_code L MEMCACHED_DELETED)),
      (''RES_VALUE'', IS_LONG (lm_return_code L MEMCACHED_VALUE)),
      (''RES_STAT'', IS_LONG (lm_return_code L MEMCACHED_STAT)),
      (''RES_ITEM'', IS_LONG (lm_return_code L MEMCACHED_ITEM)),
      (''RES_ERRNO'', IS_LONG (lm_return_code L MEMCACHED_ERRNO)),
      (''RES_FAIL_UNIX_SOCKET'', IS_LONG (lm_return_code L MEMCACHED_FAIL_UNIX_SOCKET)),
      (''RES_NOT_SUPPORTED'', IS_LONG (lm_return_code L MEMCACHED_NOT_SUPPORTED)),
      (''RES_NO_KEY_PROVIDED'', IS_LONG (lm_return_code L MEMCACHED_NO_KEY_PROVIDED)),
      (''RES_FETCH_NOTFINISHED'', IS_LONG (lm_return_code L MEMCACHED_FETCH_NOTFINISHED)),
      (''RES_TIMEOUT'', IS_LONG (lm_return_code L MEMCACHED_TIMEOUT)),
      (''RES_BUFFERED'', IS_LONG (lm_return_code L MEMCACHED_BUFFERED)),
      (''RES_BAD_KEY_PROVIDED'', IS_LONG (lm_return_code L MEMCACHED_BAD_KEY_PROVIDED)),
      (''RES_INVALID_HOST_PROTOCOL'', IS_LONG (lm_return_code L MEMCACHED_INVALID_HOST_PROTOCOL)),
      (''RES_SERVER_MARKED_DEAD'', IS_LONG (lm_return_code L MEMCACHED_SERVER_MARKED_DEAD)),
      (''RES_UNKNOWN_STAT_KEY'', IS_LONG (lm_return_code L MEMCACHED_UNKNOWN_STAT_KEY)),
      (''RES_INVALID_ARGUMENTS'', IS_LONG (lm_return_code L MEMCACHED_INVALID_ARGUMENTS)),
      (''RES_PARSE_ERROR'', IS_LONG (lm_return_code L MEMCACHED_PARSE_ERROR)),
      (''RES_PARSE_USER_ERROR'', IS_LONG (lm_return_code L MEMCACHED_PARSE_USER_ERROR)),
      (''RES_DEPRECATED'', IS_LONG (lm_return_code L MEMCACHED_DEPRECATED)),
      (''RES_IN_PROGRESS'', IS_LONG (lm_return_code L MEMCACHED_IN_PROGRESS)),
      (''RES_MAXIMUM_RETURN'', IS_LONG (lm_return_code L MEMCACHED_MAXIMUM_RETURN)),
      (''RES_MEMORY_ALLOCATION_FAILURE'', IS_LONG (lm_return_code L MEMCACHED_MEMORY_ALLOCATION_FAILURE)),
      (''RES_CONNECTION_SOCKET_CREATE_FAILURE'', IS_LONG (lm_return_code L MEMCACHED_CONNECTION_SOCKET_CREATE_FAILURE)),
      (''RES_E2BIG'', IS_LONG (lm_return_code L MEMCACHED_E2BIG)),
      (''RES_KEY_TOO_BIG'', IS_LONG (lm_return_code L MEMCACHED_KEY_TOO_BIG)),
      (''RES_SERVER_TEMPORARILY_DISABLED'', IS_LONG (lm_return_code L MEMCACHED_SERVER_TEMPORARILY_DISABLED))] @
     (if 0x01000008 \<le> LIBMEMCACHED_VERSION_HEX B then [(''RES_SERVER_MEMORY_ALLOCATION_FAILURE'', IS_LONG (lm_return_code L MEMCACHED_SERVER_MEMORY_ALLOCATION_FAILURE))] else []) @
     (if HAVE_MEMCACHED_SASL B then [(''RES_AUTH_PROBLEM'', IS_LONG (lm_return_code L MEMCACHED_AUTH_PROBLEM)),
        (''RES_AUTH_FAILURE'', IS_LONG (lm_return_code L MEMCACHED_AUTH_FAILURE)),
        (''RES_AUTH_CONTINUE'', IS_LONG (lm_return_code L MEMCACHED_AUTH_CONTINUE))] else []) @
     [(''RES_PAYLOAD_FAILURE'', IS_LONG (- 1001))]"

definition constants_types :: "'d constants" where
  "constants_types =
     [(''SERIALIZER_PHP'', IS_LONG (ucast SERIALIZER_PHP)),
      (''SERIALIZER_IGBINARY'', IS_LONG (ucast SERIALIZER_IGBINARY)),
      (''SERIALIZER_JSON'', IS_LONG (ucast SERIALIZER_JSON)),
      (''SERIALIZER_JSON_ARRAY'', IS_LONG (ucast SERIALIZER_JSON_ARRAY)),
      (''SERIALIZER_MSGPACK'', IS_LONG (ucast SERIALIZER_MSGPACK)),
      (''COMPRESSION_FASTLZ'', IS_LONG (ucast COMPRESSION_TYPE_FASTLZ)),
      (''COMPRESSION_ZLIB'', IS_LONG (ucast COMPRESSION_TYPE_ZLIB)),
      (''COMPRESSION_ZSTD'', IS_LONG (ucast COMPRESSION_TYPE_ZSTD)),
      (''GET_PRESERVE_ORDER'', IS_LONG MEMC_GET_PRESERVE_ORDER),
      (''GET_EXTENDED'', IS_LONG MEMC_GET_EXTENDED)]"

definition constants_server :: "build \<Rightarrow> (string \<Rightarrow> zend_long) \<Rightarrow> 'd constants" where
  "constants_server B K =
     (if HAVE_MEMCACHED_PROTOCOL B then [(''ON_CONNECT'', IS_LONG (of_nat MEMC_SERVER_ON_CONNECT)),
        (''ON_ADD'', IS_LONG (of_nat MEMC_SERVER_ON_ADD)),
        (''ON_APPEND'', IS_LONG (of_nat MEMC_SERVER_ON_APPEND)),
        (''ON_DECREMENT'', IS_LONG (of_nat MEMC_SERVER_ON_DECREMENT)),
        (''ON_DELETE'', IS_LONG (of_nat MEMC_SERVER_ON_DELETE)),
        (''ON_FLUSH'', IS_LONG (of_nat MEMC_SERVER_ON_FLUSH)),
        (''ON_GET'', IS_LONG (of_nat MEMC_SERVER_ON_GET)),
        (''ON_INCREMENT'', IS_LONG (of_nat MEMC_SERVER_ON_INCREMENT)),
        (''ON_NOOP'', IS_LONG (of_nat MEMC_SERVER_ON_NOOP)),
        (''ON_PREPEND'', IS_LONG (of_nat MEMC_SERVER_ON_PREPEND)),
        (''ON_QUIT'', IS_LONG (of_nat MEMC_SERVER_ON_QUIT)),
        (''ON_REPLACE'', IS_LONG (of_nat MEMC_SERVER_ON_REPLACE)),
        (''ON_SET'', IS_LONG (of_nat MEMC_SERVER_ON_SET)),
        (''ON_STAT'', IS_LONG (of_nat MEMC_SERVER_ON_STAT)),
        (''ON_VERSION'', IS_LONG (of_nat MEMC_SERVER_ON_VERSION)),
        (''RESPONSE_SUCCESS'', IS_LONG (ucast PROTOCOL_BINARY_RESPONSE_SUCCESS)),
        (''RESPONSE_KEY_ENOENT'', IS_LONG (ucast PROTOCOL_BINARY_RESPONSE_KEY_ENOENT)),
        (''RESPONSE_KEY_EEXISTS'', IS_LONG (K ''PROTOCOL_BINARY_RESPONSE_KEY_EEXISTS'')),
        (''RESPONSE_E2BIG'', IS_LONG (K ''PROTOCOL_BINARY_RESPONSE_E2BIG'')),
        (''RESPONSE_EINVAL'', IS_LONG (K ''PROTOCOL_BINARY_RESPONSE_EINVAL'')),
        (''RESPONSE_NOT_STORED'', IS_LONG (K ''PROTOCOL_BINARY_RESPONSE_NOT_STORED'')),
        (''RESPONSE_DELTA_BADVAL'', IS_LONG (K ''PROTOCOL_BINARY_RESPONSE_DELTA_BADVAL'')),
        (''RESPONSE_NOT_MY_VBUCKET'', IS_LONG (K ''PROTOCOL_BINARY_RESPONSE_NOT_MY_VBUCKET'')),
        (''RESPONSE_AUTH_ERROR'', IS_LONG (K ''PROTOCOL_BINARY_RESPONSE_AUTH_ERROR'')),
        (''RESPONSE_AUTH_CONTINUE'', IS_LONG (K ''PROTOCOL_BINARY_RESPONSE_AUTH_CONTINUE'')),
        (''RESPONSE_UNKNOWN_COMMAND'', IS_LONG (ucast PROTOCOL_BINARY_RESPONSE_UNKNOWN_COMMAND)),
        (''RESPONSE_ENOMEM'', IS_LONG (K ''PROTOCOL_BINARY_RESPONSE_ENOMEM'')),
        (''RESPONSE_NOT_SUPPORTED'', IS_LONG (K ''PROTOCOL_BINARY_RESPONSE_NOT_SUPPORTED'')),
        (''RESPONSE_EINTERNAL'', IS_LONG (K ''PROTOCOL_BINARY_RESPONSE_EINTERNAL'')),
        (''RESPONSE_EBUSY'', IS_LONG (K ''PROTOCOL_BINARY_RESPONSE_EBUSY'')),
        (''RESPONSE_ETMPFAIL'', IS_LONG (K ''PROTOCOL_BINARY_RESPONSE_ETMPFAIL''))] else [])"


definition all_constants :: "build \<Rightarrow> 'm libmemcached \<Rightarrow> 'm lm_options \<Rightarrow> (string \<Rightarrow> zend_long) \<Rightarrow> 'd constants" where
  "all_constants B L LO K =
     constants_options B @ constants_have B @ constants_behaviors B LO K @ constants_results B L @
     constants_types @ constants_server B K @ [(''GET_ERROR_RETURN_VALUE'', IS_FALSE)]"

definition php_memc_register_constants ::
  "build \<Rightarrow> 'm libmemcached \<Rightarrow> 'm lm_options \<Rightarrow> (string \<Rightarrow> zend_long) \<Rightarrow> 'd constants option" where
  "php_memc_register_constants B L LO K = zend_declare_class_constants (all_constants B L LO K) []"

subsection \<open>The names are distinct\<close>

lemma declare_constants_distinct:
  "distinct (map fst (tab @ cs)) \<Longrightarrow> zend_declare_class_constants cs tab = Some (tab @ cs)"
  by (induction cs arbitrary: tab) auto

text \<open>The build with everything has all names; any other has some of them.\<close>

abbreviation full_build :: build where
  "full_build \<equiv> \<lparr>HAVE_MEMCACHED_IGBINARY = True, HAVE_JSON_API = True, HAVE_MEMCACHED_MSGPACK = True,
     HAVE_ZSTD_H = True, HAVE_MEMCACHED_SASL = True, HAVE_MEMCACHED_SET_ENCODING_KEY = True,
     HAVE_MEMCACHED_PROTOCOL = True, HAVE_MEMCACHED_SESSION = True, LIBMEMCACHED_VERSION_HEX = 0x01000018\<rparr>"

lemma full_guards:
  "HAVE_MEMCACHED_SASL full_build = True" "HAVE_MEMCACHED_PROTOCOL full_build = True"
  "(0x01000003 \<le> LIBMEMCACHED_VERSION_HEX full_build) = True"
  "(0x01000008 \<le> LIBMEMCACHED_VERSION_HEX full_build) = True"
  "(0x01000018 \<le> LIBMEMCACHED_VERSION_HEX full_build) = True"
  by simp_all

lemma subseq_if_nil: "subseq (if b then xs else []) xs"
  by simp

lemmas names_subseq = list_emb_append_mono subseq_if_nil subseq_order.order_refl

lemma names_behaviors:
  "subseq (map fst (constants_behaviors B LO K :: 'd constants)) (map fst (constants_behaviors full_build LO K :: 'd constants))"
  unfolding constants_behaviors_def map_append if_distrib [of "map fst"] list.map fst_conv
  unfolding full_guards if_True by (intro names_subseq)

lemma names_results:
  "subseq (map fst (constants_results B L :: 'd constants)) (map fst (constants_results full_build L :: 'd constants))"
  unfolding constants_results_def map_append if_distrib [of "map fst"] list.map fst_conv
  unfolding full_guards if_True by (intro names_subseq)

lemma names_server:
  "subseq (map fst (constants_server B K :: 'd constants)) (map fst (constants_server full_build K :: 'd constants))"
  unfolding constants_server_def map_append if_distrib [of "map fst"] list.map fst_conv
  unfolding full_guards if_True by (intro names_subseq)

lemma names_all:
  "subseq (map fst (all_constants B L LO K :: 'd constants)) (map fst (all_constants full_build L LO K :: 'd constants))"
  unfolding all_constants_def map_append
  by (intro list_emb_append_mono names_behaviors names_results names_server)
    (simp_all add: constants_options_def constants_have_def)

text \<open>Names are told apart by a number that has no collision on them.\<close>

definition name_key :: "string \<Rightarrow> nat" where
  "name_key = foldl (\<lambda>h c. (2 * h + of_char c) mod 16381) 0"

lemma distinct_by_key: "distinct (map name_key xs) \<Longrightarrow> distinct xs"
  by (simp add: distinct_map)

lemma names_full_distinct: "distinct (map fst (all_constants full_build L LO K :: 'd constants))"
  unfolding all_constants_def constants_options_def constants_have_def constants_behaviors_def
    constants_results_def constants_types_def constants_server_def full_guards if_True map_append
    list.map fst_conv
  by (rule distinct_by_key) (simp add: name_key_def del: distinct_append)

lemma subseq_distinct: "subseq xs ys \<Longrightarrow> distinct ys \<Longrightarrow> distinct xs"
  by (auto simp: subseq_conv_nths intro: distinct_nthsI)

lemma names_distinct: "distinct (map fst (all_constants B L LO K :: 'd constants))"
  by (rule subseq_distinct [OF names_all names_full_distinct])

lemma register_constants: "php_memc_register_constants B L LO K = Some (all_constants B L LO K)"
  unfolding php_memc_register_constants_def
  using declare_constants_distinct [of "[]" "all_constants B L LO K"] names_distinct [of B L LO K] by simp


lemma constant_lookup:
  assumes "(name, v) \<in> set (all_constants B L LO K)"
  shows "map_of (all_constants B L LO K :: 'd constants) name = Some v"
  by (rule map_of_is_SomeI [OF names_distinct assms])

subsection \<open>Every result code has a constant\<close>

text \<open>The codes that a build's library has; a code without a name is one the extension does not know.\<close>

definition code_in_build :: "build \<Rightarrow> memcached_return \<Rightarrow> bool" where
  "code_in_build B rc =
     (case rc of
        MEMCACHED_OTHER n \<Rightarrow> False
      | MEMCACHED_SERVER_MEMORY_ALLOCATION_FAILURE \<Rightarrow> 0x01000008 \<le> LIBMEMCACHED_VERSION_HEX B
      | MEMCACHED_AUTH_PROBLEM \<Rightarrow> HAVE_MEMCACHED_SASL B
      | MEMCACHED_AUTH_FAILURE \<Rightarrow> HAVE_MEMCACHED_SASL B
      | MEMCACHED_AUTH_CONTINUE \<Rightarrow> HAVE_MEMCACHED_SASL B
      | _ \<Rightarrow> True)"

lemma result_names: "c \<in> set (constants_results B L :: 'd constants) \<Longrightarrow> take 4 (fst c) = ''RES_''"
  unfolding constants_results_def set_append by (auto split: if_splits)

definition result_codes :: "build \<Rightarrow> memcached_return list" where
  "result_codes B =
     [MEMCACHED_SUCCESS, MEMCACHED_FAILURE, MEMCACHED_HOST_LOOKUP_FAILURE,
      MEMCACHED_CONNECTION_FAILURE, MEMCACHED_CONNECTION_BIND_FAILURE, MEMCACHED_WRITE_FAILURE,
      MEMCACHED_READ_FAILURE, MEMCACHED_UNKNOWN_READ_FAILURE, MEMCACHED_PROTOCOL_ERROR,
      MEMCACHED_CLIENT_ERROR, MEMCACHED_SERVER_ERROR, MEMCACHED_DATA_EXISTS,
      MEMCACHED_DATA_DOES_NOT_EXIST, MEMCACHED_NOTSTORED, MEMCACHED_STORED, MEMCACHED_NOTFOUND,
      MEMCACHED_PARTIAL_READ, MEMCACHED_SOME_ERRORS, MEMCACHED_NO_SERVERS, MEMCACHED_END,
      MEMCACHED_DELETED, MEMCACHED_VALUE, MEMCACHED_STAT, MEMCACHED_ITEM, MEMCACHED_ERRNO,
      MEMCACHED_FAIL_UNIX_SOCKET, MEMCACHED_NOT_SUPPORTED, MEMCACHED_NO_KEY_PROVIDED,
      MEMCACHED_FETCH_NOTFINISHED, MEMCACHED_TIMEOUT, MEMCACHED_BUFFERED, MEMCACHED_BAD_KEY_PROVIDED,
      MEMCACHED_INVALID_HOST_PROTOCOL, MEMCACHED_SERVER_MARKED_DEAD, MEMCACHED_UNKNOWN_STAT_KEY,
      MEMCACHED_INVALID_ARGUMENTS, MEMCACHED_PARSE_ERROR, MEMCACHED_PARSE_USER_ERROR,
      MEMCACHED_DEPRECATED, MEMCACHED_IN_PROGRESS, MEMCACHED_MAXIMUM_RETURN,
      MEMCACHED_MEMORY_ALLOCATION_FAILURE, MEMCACHED_CONNECTION_SOCKET_CREATE_FAILURE,
      MEMCACHED_E2BIG, MEMCACHED_KEY_TOO_BIG, MEMCACHED_SERVER_TEMPORARILY_DISABLED] @
     (if 0x01000008 \<le> LIBMEMCACHED_VERSION_HEX B then [MEMCACHED_SERVER_MEMORY_ALLOCATION_FAILURE] else []) @
     (if HAVE_MEMCACHED_SASL B then [MEMCACHED_AUTH_PROBLEM, MEMCACHED_AUTH_FAILURE, MEMCACHED_AUTH_CONTINUE] else []) @
     [MEMC_RES_PAYLOAD_FAILURE]"

lemma code_in_build_listed: "code_in_build B rc \<Longrightarrow> rc \<in> set (result_codes B)"
  by (cases rc) (simp_all add: code_in_build_def result_codes_def)

definition result_number :: "'m libmemcached \<Rightarrow> memcached_return \<Rightarrow> 'd zval" where
  "result_number L rc = IS_LONG (if rc = MEMC_RES_PAYLOAD_FAILURE then - 1001 else lm_return_code L rc)"

lemma result_numbers: "map snd (constants_results B L :: 'd constants) = map (result_number L) (result_codes B)"
  unfolding constants_results_def result_codes_def map_append if_distrib [of "map snd"]
    if_distrib [of "map (result_number L)"] list.map snd_conv result_number_def
  by simp



section \<open>Ini entries\<close>

text \<open>The entries of the ini table with their default values.\<close>

definition session_ini_entries :: "build \<Rightarrow> (string \<times> string) list" where
  "session_ini_entries B =
     [(''memcached.sess_locking'', ''1''), (''memcached.sess_lock_wait_min'', ''150''),
      (''memcached.sess_lock_wait_max'', ''150''), (''memcached.sess_lock_retries'', ''5''),
      (''memcached.sess_lock_expire'', ''0''),
      (''memcached.sess_binary_protocol'', if LIBMEMCACHED_VERSION_HEX B < 0x01000018 then ''0'' else ''1''),
      (''memcached.sess_consistent_hash'', ''1''), (''memcached.sess_consistent_hash_type'', ''ketama''),
      (''memcached.sess_number_of_replicas'', ''0''), (''memcached.sess_randomize_replica_read'', ''0''),
      (''memcached.sess_remove_failed_servers'', ''0''), (''memcached.sess_server_failure_limit'', ''0''),
      (''memcached.sess_connect_timeout'', ''0''), (''memcached.sess_sasl_username'', []),
      (''memcached.sess_sasl_password'', []), (''memcached.sess_persistent'', ''0''),
      (''memcached.sess_prefix'', ''memc.sess.key.''), (''memcached.sess_lock_wait'', ''not set''),
      (''memcached.sess_lock_max_wait'', ''not set'')]"

definition SERIALIZER_DEFAULT_NAME :: "config \<Rightarrow> string" where
  "SERIALIZER_DEFAULT_NAME C =
     (if HAVE_MEMCACHED_IGBINARY C then ''igbinary''
      else if HAVE_MEMCACHED_MSGPACK C then ''msgpack'' else ''php'')"

definition memc_ini_entries :: "config \<Rightarrow> (string \<times> string) list" where
  "memc_ini_entries C =
     [(''memcached.compression_type'', ''fastlz''), (''memcached.compression_factor'', ''1.3''),
      (''memcached.compression_level'', ''3''), (''memcached.compression_threshold'', ''2000''),
      (''memcached.serializer'', SERIALIZER_DEFAULT_NAME C), (''memcached.store_retry_count'', ''0''),
      (''memcached.item_size_limit'', ''0''), (''memcached.default_consistent_hash'', ''0''),
      (''memcached.default_binary_protocol'', ''0''), (''memcached.default_connect_timeout'', ''0'')]"

text \<open>
  \<open>REGISTER_INI_ENTRIES\<close>: an entry takes the value of the configuration file (\<open>conf\<close>), if there is one
  and its handler accepts it, and its default otherwise; the result of the handler on the
  default is ignored.
\<close>

definition register_ini_entry ::
  "(string \<Rightarrow> string \<Rightarrow> 'g \<Rightarrow> (bool \<times> 'g) option) \<Rightarrow> (string \<Rightarrow> string option) \<Rightarrow> string \<times> string \<Rightarrow> 'g \<Rightarrow> 'g" where
  "register_ini_entry upd conf e g =
     (let with_default = (case upd (fst e) (snd e) g of None \<Rightarrow> g | Some (_, g') \<Rightarrow> g') in
      case conf (fst e) of
        None \<Rightarrow> with_default
      | Some v \<Rightarrow> (case upd (fst e) v g of Some (True, g') \<Rightarrow> g' | _ \<Rightarrow> with_default))"

definition REGISTER_INI_ENTRIES ::
  "build \<Rightarrow> ini_parse \<Rightarrow> (string \<Rightarrow> string option) \<Rightarrow> memc_globals \<times> session_globals \<Rightarrow> memc_globals \<times> session_globals" where
  "REGISTER_INI_ENTRIES B P conf gs =
     (let C = config.truncate B;
          s = (if HAVE_MEMCACHED_SESSION B
               then fold (register_ini_entry (session_ini_update P) conf) (session_ini_entries B) (snd gs)
               else snd gs)
      in (fold (register_ini_entry (memc_ini_update P C) conf) (memc_ini_entries C) (fst gs), s))"

text \<open>The names of the entries.\<close>

definition ini_names :: "build \<Rightarrow> string list" where
  "ini_names B =
     (if HAVE_MEMCACHED_SESSION B then map fst (session_ini_entries B) else []) @
     map fst (memc_ini_entries (config.truncate B))"

text \<open>PHP's reading of the literals in the table.\<close>

definition ini_literals :: "ini_parse \<Rightarrow> bool" where
  "ini_literals P \<longleftrightarrow>
     ip_long P ''150'' = 150 \<and> ip_long P ''5'' = 5 \<and> ip_long P ''0'' = 0 \<and> ip_long P ''3'' = 3 \<and>
     ip_long P ''2000'' = 2000 \<and> ip_bool P ''1'' \<and> \<not> ip_bool P ''0'' \<and> ip_real P ''1.3'' = 13 / 10"

definition memc_defaults :: "config \<Rightarrow> memc_globals" where
  "memc_defaults C =
     \<lparr>G_serializer_name = Some (SERIALIZER_DEFAULT_NAME C), G_compression_name = Some ''fastlz'',
      G_compression_threshold = 2000, G_compression_factor = 13 / 10, G_store_retry_count = 0,
      G_compression_level = 3, G_item_size_limit = 0, G_serializer_type = SERIALIZER_DEFAULT C,
      G_compression_type = COMPRESSION_TYPE_FASTLZ, G_sasl_initialised = False,
      G_consistent_hash_enabled = False, G_binary_protocol_enabled = False, G_connect_timeout = 0\<rparr>"

definition session_defaults :: "build \<Rightarrow> session_globals" where
  "session_defaults B =
     \<lparr>S_lock_enabled = True, S_lock_wait_max = 150, S_lock_wait_min = 150, S_lock_retries = 5,
      S_lock_expiration = 0, S_binary_protocol_enabled = (\<not> LIBMEMCACHED_VERSION_HEX B < 0x01000018),
      S_consistent_hash_enabled = True, S_consistent_hash_name = Some ''ketama'',
      S_consistent_hash_type = MEMCACHED_BEHAVIOR_KETAMA, S_server_failure_limit = 0,
      S_number_of_replicas = 0, S_randomize_replica_read_enabled = False,
      S_remove_failed_servers_enabled = False, S_connect_timeout = 0, S_prefix = Some ''memc.sess.key.'',
      S_persistent_enabled = False, S_sasl_username = Some [], S_sasl_password = Some []\<rparr>"

lemma register_default: "register_ini_entry upd (\<lambda>_. None) (n, v) g = (case upd n v g of None \<Rightarrow> g | Some (_, g') \<Rightarrow> g')"
  by (simp add: register_ini_entry_def)

lemma memc_ini_update_names:
  "memc_ini_update P C ''memcached.compression_type'' v g = Some (OnUpdateCompressionType C (Some v) g)"
  "memc_ini_update P C ''memcached.compression_factor'' v g = Some (True, g\<lparr>G_compression_factor := ip_real P v\<rparr>)"
  "memc_ini_update P C ''memcached.compression_level'' v g = Some (True, g\<lparr>G_compression_level := ip_long P v\<rparr>)"
  "memc_ini_update P C ''memcached.compression_threshold'' v g = Some (True, g\<lparr>G_compression_threshold := ip_long P v\<rparr>)"
  "memc_ini_update P C ''memcached.serializer'' v g = Some (OnUpdateSerializer C (Some v) g)"
  "memc_ini_update P C ''memcached.store_retry_count'' v g = Some (True, g\<lparr>G_store_retry_count := ip_long P v\<rparr>)"
  "memc_ini_update P C ''memcached.item_size_limit'' v g =
     Some (OnUpdateLongGEZero P (\<lambda>l. g\<lparr>G_item_size_limit := l\<rparr>) v g)"
  "memc_ini_update P C ''memcached.default_consistent_hash'' v g = Some (True, g\<lparr>G_consistent_hash_enabled := ip_bool P v\<rparr>)"
  "memc_ini_update P C ''memcached.default_binary_protocol'' v g = Some (True, g\<lparr>G_binary_protocol_enabled := ip_bool P v\<rparr>)"
  "memc_ini_update P C ''memcached.default_connect_timeout'' v g = Some (True, g\<lparr>G_connect_timeout := ip_long P v\<rparr>)"
  by (simp_all add: memc_ini_update_def OnUpdateLong_def)

lemma memc_defaults_in_effect:
  assumes "ini_literals P"
  shows "fold (register_ini_entry (memc_ini_update P C) (\<lambda>_. None)) (memc_ini_entries C) (ginit_memc C) = memc_defaults C"
  using assms
  by (simp add: memc_ini_entries_def register_default memc_ini_update_names ini_literals_def ginit_memc_def
      memc_defaults_def OnUpdateCompressionType_def OnUpdateLongGEZero_def OnUpdateSerializer_def
      SERIALIZER_DEFAULT_NAME_def SERIALIZER_DEFAULT_def c_string_id)

lemma default_prefix_valid: "s_memc_valid_key_ascii ''memc.sess.key.'' 1"
  by (simp add: s_memc_valid_key_ascii_iff isgraph_def)

lemma session_defaults_in_effect:
  assumes "ini_literals P"
  shows "fold (register_ini_entry (session_ini_update P) (\<lambda>_. None)) (session_ini_entries B) ginit_session = session_defaults B"
  using assms
  by (simp add: session_ini_entries_def register_default session_ini_update_def ini_literals_def ginit_session_def
      session_defaults_def OnUpdateLong_def OnUpdateLongGEZero_def OnUpdateConsistentHash_def
      OnUpdateSessionPrefixString_def OnUpdateDeprecatedLockValue_def c_string_id default_prefix_valid)

text \<open>What the handlers guarantee for the session globals, whatever the configuration says.\<close>

definition session_globals_ok :: "session_globals \<Rightarrow> bool" where
  "session_globals_ok s \<longleftrightarrow>
     0 \<le> sint (S_lock_wait_min s) \<and> 0 \<le> sint (S_lock_wait_max s) \<and> 0 \<le> sint (S_lock_expiration s) \<and>
     0 \<le> sint (S_number_of_replicas s) \<and> 0 \<le> sint (S_server_failure_limit s) \<and>
     S_consistent_hash_type s \<in> {MEMCACHED_BEHAVIOR_KETAMA, MEMCACHED_BEHAVIOR_KETAMA_WEIGHTED} \<and>
     (\<forall>p. S_prefix s = Some p \<longrightarrow> length p \<le> MEMCACHED_MAX_KEY \<and> (p = [] \<or> s_memc_valid_key_ascii p 1))"

lemma ginit_session_ok: "session_globals_ok ginit_session"
  by (simp add: session_globals_ok_def ginit_session_def)

lemma session_ini_update_ok:
  assumes "session_ini_update P name v s = Some (ok, s')" "session_globals_ok s"
  shows "session_globals_ok s'"
  using assms unfolding session_ini_update_def
  by (auto simp: OnUpdateLong_def OnUpdateLongGEZero_def OnUpdateConsistentHash_def
      OnUpdateSessionPrefixString_def OnUpdateDeprecatedLockValue_def session_globals_ok_def
      split: if_split_asm)

lemma register_ini_entry_keeps:
  assumes "\<And>n v g ok g'. upd n v g = Some (ok, g') \<Longrightarrow> I g \<Longrightarrow> I g'" and "I g"
  shows "I (register_ini_entry upd conf e g)"
  unfolding register_ini_entry_def Let_def using assms(2)
  by (auto split: option.split prod.split bool.split intro: assms(1))

lemma register_ini_entries_keep:
  assumes "\<And>n v g ok g'. upd n v g = Some (ok, g') \<Longrightarrow> I g \<Longrightarrow> I g'" and "I g"
  shows "I (fold (register_ini_entry upd conf) es g)"
  using assms(2)
proof (induction es arbitrary: g)
  case (Cons e es)
  have "I (register_ini_entry upd conf e g)"
    using assms(1) Cons.prems by (rule register_ini_entry_keeps)
  then show ?case using Cons.IH by simp
qed simp

lemma memc_ini_update_sasl:
  "memc_ini_update P C name v g = Some (ok, g') \<Longrightarrow> G_sasl_initialised g' = G_sasl_initialised g"
  unfolding memc_ini_update_def
  by (auto simp: OnUpdateLong_def OnUpdateLongGEZero_def OnUpdateCompressionType_def OnUpdateSerializer_def Let_def
      split: if_split_asm)

section \<open>The module's functions\<close>

text \<open>
  What loading leaves behind: the class table (by the lower-case name, as PHP keeps it), the
  kinds of persistent resources, the session handlers, the handlers of both kinds of objects
  (\<open>None\<close> as \<open>clone_obj\<close>: the object cannot be cloned) and the globals. \<open>spl_ce_RuntimeException\<close> is the
  engine's variable.
\<close>

record 'd class_entry =
  ce_name :: string
  ce_parent :: "string option"
  ce_methods :: "string list"
  ce_constants :: "'d constants"
  ce_create_object :: string
  ce_sensitive :: "(string \<times> nat) list"

record object_handlers =
  clone_obj :: "string option"
  free_obj :: string

record 'd module_state =
  class_table :: "(string \<times> 'd class_entry) list"
  spl_ce_RuntimeException :: "string option"
  list_destructors :: "string list"
  session_modules :: "string list"
  ini_directives :: "string list"
  memcached_object_handlers :: object_handlers
  memcached_server_object_handlers :: object_handlers
  memc_globals_of :: memc_globals
  session_globals_of :: session_globals

definition INIT_CLASS_ENTRY :: "string \<Rightarrow> string option \<Rightarrow> string list \<Rightarrow> 'd class_entry" where
  "INIT_CLASS_ENTRY name parent methods =
     \<lparr>ce_name = name, ce_parent = parent, ce_methods = methods, ce_constants = [],
      ce_create_object = [], ce_sensitive = []\<rparr>"

definition register_class_Memcached :: "build \<Rightarrow> bool \<Rightarrow> 'd class_entry" where
  "register_class_Memcached B php82 =
     (let ce = INIT_CLASS_ENTRY ''Memcached'' None (class_Memcached_methods B) in
      if php82 \<and> HAVE_MEMCACHED_SASL B then ce\<lparr>ce_sensitive := [(''setsaslauthdata'', 1)]\<rparr> else ce)"

definition register_class_MemcachedServer :: "build \<Rightarrow> 'd class_entry" where
  "register_class_MemcachedServer B = INIT_CLASS_ENTRY ''MemcachedServer'' None (class_MemcachedServer_methods B)"

text \<open>The class the exception class extends; looking it up may set the engine's variable.\<close>

definition php_memc_get_exception_base :: "bool \<Rightarrow> 'd module_state \<Rightarrow> string \<times> 'd module_state" where
  "php_memc_get_exception_base base_of_all st =
     (if \<not> base_of_all then
        case spl_ce_RuntimeException st of
          None \<Rightarrow>
            (case map_of (class_table st) ''runtimeexception'' of
               Some pce \<Rightarrow> (ce_name pce, st\<lparr>spl_ce_RuntimeException := Some (ce_name pce)\<rparr>)
             | None \<Rightarrow> (''Exception'', st))
        | Some pce \<Rightarrow> (pce, st)
      else (''Exception'', st))"

definition php_memc_session_minit :: "'d module_state \<Rightarrow> 'd module_state" where
  "php_memc_session_minit st =
     st\<lparr>list_destructors := list_destructors st @ [''Memcached Sessions persistent connection''],
        session_modules := session_modules st @ [''memcached'']\<rparr>"

text \<open>Entering a class, or its entry with the constants, in the class table.\<close>

definition zend_register_class :: "string \<Rightarrow> 'd class_entry \<Rightarrow> 'd module_state \<Rightarrow> 'd module_state" where
  "zend_register_class lcname ce st = st\<lparr>class_table := AList.update lcname ce (class_table st)\<rparr>"

text \<open>\<open>PHP_MINIT\<close>; \<open>None\<close>: a fatal error.\<close>

definition PHP_MINIT ::
  "build \<Rightarrow> bool \<Rightarrow> ini_parse \<Rightarrow> (string \<Rightarrow> string option) \<Rightarrow> 'm libmemcached \<Rightarrow> 'm lm_options \<Rightarrow>
     (string \<Rightarrow> zend_long) \<Rightarrow> 'd module_state \<Rightarrow> 'd module_state option" where
  "PHP_MINIT B php82 P conf L LO K st = do {
     let st = st\<lparr>memcached_object_handlers := \<lparr>clone_obj = None, free_obj = ''php_memc_object_free_storage''\<rparr>,
                 list_destructors := list_destructors st @ [''Memcached persistent connection'']\<rparr>;
     let memcached_ce = (register_class_Memcached B php82)\<lparr>ce_create_object := ''php_memc_object_new''\<rparr>;
     let st = zend_register_class ''memcached'' memcached_ce st;
     let st = (if HAVE_MEMCACHED_PROTOCOL B
               then zend_register_class ''memcachedserver''
                 ((register_class_MemcachedServer B)\<lparr>ce_create_object := ''php_memc_server_new''\<rparr>)
                 (st\<lparr>memcached_server_object_handlers :=
                       \<lparr>clone_obj = None, free_obj = ''php_memc_server_free_storage''\<rparr>\<rparr>)
               else st);
     let (base, st) = php_memc_get_exception_base False st;
     let st = zend_register_class ''memcachedexception'' (INIT_CLASS_ENTRY ''MemcachedException'' (Some base) []) st;
     T \<leftarrow> php_memc_register_constants B L LO K;
     let st = zend_register_class ''memcached'' (memcached_ce\<lparr>ce_constants := T\<rparr>) st;
     let (g, s) = REGISTER_INI_ENTRIES B P conf (memc_globals_of st, session_globals_of st);
     let st = st\<lparr>memc_globals_of := g, session_globals_of := s, ini_directives := ini_directives st @ ini_names B\<rparr>;
     Some (if HAVE_MEMCACHED_SESSION B then php_memc_session_minit st else st)
   }"

text \<open>Whether \<open>sasl_done\<close> is called at shutdown, and what remains.\<close>

definition PHP_MSHUTDOWN :: "build \<Rightarrow> 'd module_state \<Rightarrow> bool \<times> 'd module_state" where
  "PHP_MSHUTDOWN B st =
     (HAVE_MEMCACHED_SASL B \<and> G_sasl_initialised (memc_globals_of st),
      st\<lparr>ini_directives := filter (\<lambda>n. n \<notin> set (ini_names B)) (ini_directives st)\<rparr>)"

text \<open>The rows \<open>phpinfo\<close> shows; the version strings of the headers and of the library are given.\<close>

definition info_row :: "string \<Rightarrow> bool \<Rightarrow> string \<times> string" where
  "info_row name have = (name, if have then ''yes'' else ''no'')"

definition PHP_MINFO :: "build \<Rightarrow> bool \<Rightarrow> string \<Rightarrow> string \<Rightarrow> string \<Rightarrow> (string \<times> string) list" where
  "PHP_MINFO B LIBMEMCACHED_AWESOME version headers library =
     (let lm = (if LIBMEMCACHED_AWESOME then ''libmemcached-awesome'' else ''libmemcached'') in
      [(''memcached support'', ''enabled''), (''Version'', version)] @
      (if headers \<noteq> library
       then [(lm @ '' headers version'', headers), (lm @ '' library version'', library)]
       else [(lm @ '' version'', library)]) @
      [info_row ''SASL support'' (HAVE_MEMCACHED_SASL B),
       if HAVE_MEMCACHED_SESSION B then (''Session support'', ''yes'') else (''Session support '', ''no''),
       info_row ''igbinary support'' (HAVE_MEMCACHED_IGBINARY B),
       info_row ''json support'' (HAVE_JSON_API B),
       info_row ''msgpack support'' (HAVE_MEMCACHED_MSGPACK B),
       info_row ''zstd support'' (HAVE_ZSTD_H B)])"

section \<open>Properties\<close>

lemma class_table_register [simp]:
  "map_of (class_table (zend_register_class k ce st)) n = (if n = k then Some ce else map_of (class_table st) n)"
  by (simp add: zend_register_class_def update_conv')

lemma register_class_other [simp]:
  "memc_globals_of (zend_register_class k ce st) = memc_globals_of st"
  "session_globals_of (zend_register_class k ce st) = session_globals_of st"
  "session_modules (zend_register_class k ce st) = session_modules st"
  "ini_directives (zend_register_class k ce st) = ini_directives st"
  "memcached_object_handlers (zend_register_class k ce st) = memcached_object_handlers st"
  "memcached_server_object_handlers (zend_register_class k ce st) = memcached_server_object_handlers st"
  "spl_ce_RuntimeException (zend_register_class k ce st) = spl_ce_RuntimeException st"
  by (simp_all add: zend_register_class_def)

lemma exception_base_keeps:
  assumes "php_memc_get_exception_base r st = (base, st')"
  shows "st' = st\<lparr>spl_ce_RuntimeException := spl_ce_RuntimeException st'\<rparr>"
  using assms unfolding php_memc_get_exception_base_def by (auto split: if_splits option.splits)

lemma exception_base:
  assumes "map_of (class_table st) ''runtimeexception'' = Some ce" "ce_name ce = ''RuntimeException''"
    and "spl_ce_RuntimeException st \<in> {None, Some ''RuntimeException''}"
  shows "fst (php_memc_get_exception_base False st) = ''RuntimeException''"
  using assms unfolding php_memc_get_exception_base_def by (auto split: option.splits)

lemma registered_globals_ok:
  assumes "REGISTER_INI_ENTRIES B P conf (ginit_memc (config.truncate B), ginit_session) = (g, s)"
  shows "globals_ok (config.truncate B) g" "session_globals_ok s" "\<not> G_sasl_initialised g"
proof -
  let ?reg = "\<lambda>g. fold (register_ini_entry (memc_ini_update P (config.truncate B)) conf) (memc_ini_entries (config.truncate B)) g"
  have g: "g = ?reg (ginit_memc (config.truncate B))"
    using assms by (auto simp: REGISTER_INI_ENTRIES_def Let_def)
  show "globals_ok (config.truncate B) g"
    unfolding g by (rule register_ini_entries_keep) (auto intro: memc_ini_update_ok ginit_ok)
  have "G_sasl_initialised g = False"
    unfolding g by (rule register_ini_entries_keep) (auto dest: memc_ini_update_sasl simp: ginit_memc_def)
  then show "\<not> G_sasl_initialised g" by simp
  have "session_globals_ok (fold (register_ini_entry (session_ini_update P) conf) es ginit_session)" for es
    by (rule register_ini_entries_keep) (auto intro: session_ini_update_ok ginit_session_ok)
  then show "session_globals_ok s"
    using assms ginit_session_ok by (auto simp: REGISTER_INI_ENTRIES_def Let_def split: if_splits)
qed

text \<open>C37: Loading succeeds. It leaves class Memcached with the methods of the argument tables and
  the declared constants, the exception class below RuntimeException, MemcachedServer and the
  session handler exactly if they are compiled in, objects that cannot be cloned, and, whatever
  the configuration file says, well-formed globals; shutdown removes the ini entries and does not
  call \<open>sasl_done\<close>.
\<close>

theorem module_loads:
  fixes K :: "string \<Rightarrow> zend_long" and st0 :: "'d module_state"
  assumes globals: "memc_globals_of st0 = ginit_memc (config.truncate B)" "session_globals_of st0 = ginit_session"
    and engine: "map_of (class_table st0) ''runtimeexception'' = Some rte" "ce_name rte = ''RuntimeException''"
      "spl_ce_RuntimeException st0 \<in> {None, Some ''RuntimeException''}"
    and fresh: "map_of (class_table st0) ''memcachedserver'' = None" "''memcached'' \<notin> set (session_modules st0)"
      "set (ini_names B) \<inter> set (ini_directives st0) = {}"
  shows "\<exists>st memc exn. PHP_MINIT B php82 P conf L LO K st0 = Some st \<and>
    map_of (class_table st) ''memcached'' = Some memc \<and> ce_methods memc = class_Memcached_methods B \<and>
    php_memc_register_constants B L LO K = Some (ce_constants memc) \<and>
    map_of (class_table st) ''memcachedexception'' = Some exn \<and> ce_parent exn = Some ''RuntimeException'' \<and>
    (map_of (class_table st) ''memcachedserver'' \<noteq> None) = HAVE_MEMCACHED_PROTOCOL B \<and>
    (''memcached'' \<in> set (session_modules st)) = HAVE_MEMCACHED_SESSION B \<and>
    clone_obj (memcached_object_handlers st) = None \<and>
    globals_ok (config.truncate B) (memc_globals_of st) \<and> session_globals_ok (session_globals_of st) \<and>
    \<not> fst (PHP_MSHUTDOWN B st) \<and> ini_directives (snd (PHP_MSHUTDOWN B st)) = ini_directives st0"
proof -
  obtain g s where gs: "REGISTER_INI_ENTRIES B P conf (ginit_memc (config.truncate B), ginit_session) = (g, s)"
    by fastforce
  let ?h = "\<lparr>clone_obj = None, free_obj = ''php_memc_object_free_storage''\<rparr>"
  let ?ce = "(register_class_Memcached B php82)\<lparr>ce_create_object := ''php_memc_object_new''\<rparr> :: 'd class_entry"
  define sa where "sa = zend_register_class ''memcached'' ?ce (st0\<lparr>memcached_object_handlers := ?h,
    list_destructors := list_destructors st0 @ [''Memcached persistent connection'']\<rparr>)"
  define sb where "sb = (if HAVE_MEMCACHED_PROTOCOL B
    then zend_register_class ''memcachedserver''
      ((register_class_MemcachedServer B)\<lparr>ce_create_object := ''php_memc_server_new''\<rparr>)
      (sa\<lparr>memcached_server_object_handlers := \<lparr>clone_obj = None, free_obj = ''php_memc_server_free_storage''\<rparr>\<rparr>)
    else sa)"
  have sb: "map_of (class_table sb) ''runtimeexception'' = Some rte"
    "spl_ce_RuntimeException sb = spl_ce_RuntimeException st0"
    "(map_of (class_table sb) ''memcachedserver'' \<noteq> None) = HAVE_MEMCACHED_PROTOCOL B"
    "session_modules sb = session_modules st0" "ini_directives sb = ini_directives st0" "memcached_object_handlers sb = ?h"
    "memc_globals_of sb = memc_globals_of st0" "session_globals_of sb = session_globals_of st0"
    using engine(1) fresh(1) by (auto simp: sb_def sa_def)
  obtain sc where sc: "php_memc_get_exception_base False sb = (''RuntimeException'', sc)"
    using exception_base [OF sb(1) engine(2)] engine(3) sb(2) by (metis prod.collapse)
  obtain x where x: "sc = sb\<lparr>spl_ce_RuntimeException := x\<rparr>"
    using exception_base_keeps [OF sc] by blast
  let ?exn = "INIT_CLASS_ENTRY ''MemcachedException'' (Some ''RuntimeException'') [] :: 'd class_entry"
  define sd where "sd = (zend_register_class ''memcached'' (?ce\<lparr>ce_constants := all_constants B L LO K\<rparr>)
    (zend_register_class ''memcachedexception'' ?exn sc))\<lparr>memc_globals_of := g, session_globals_of := s,
      ini_directives := ini_directives st0 @ ini_names B\<rparr>"
  have "PHP_MINIT B php82 P conf L LO K st0 =
      Some (if HAVE_MEMCACHED_SESSION B then php_memc_session_minit sd else sd)" (is "_ = Some ?st")
    unfolding PHP_MINIT_def Let_def sa_def [symmetric] sb_def [symmetric] sc prod.case register_constants
    using gs sb(5,7,8) globals by (simp add: sd_def x)
  moreover have "map_of (class_table ?st) ''memcached'' = Some (?ce\<lparr>ce_constants := all_constants B L LO K\<rparr>)"
    "map_of (class_table ?st) ''memcachedexception'' = Some ?exn"
    "(map_of (class_table ?st) ''memcachedserver'' \<noteq> None) = HAVE_MEMCACHED_PROTOCOL B"
    "(''memcached'' \<in> set (session_modules ?st)) = HAVE_MEMCACHED_SESSION B"
    "memcached_object_handlers ?st = ?h" "memc_globals_of ?st = g" "session_globals_of ?st = s"
    "ini_directives ?st = ini_directives st0 @ ini_names B"
    using sb fresh(2) by (simp_all add: sd_def x php_memc_session_minit_def)
  moreover have "ce_methods (?ce\<lparr>ce_constants := all_constants B L LO K\<rparr>) = class_Memcached_methods B"
    by (simp add: register_class_Memcached_def INIT_CLASS_ENTRY_def Let_def)
  moreover have "ce_parent ?exn = Some ''RuntimeException''"
    by (simp add: INIT_CLASS_ENTRY_def)
  moreover have "php_memc_register_constants B L LO K = Some (ce_constants (?ce\<lparr>ce_constants := all_constants B L LO K\<rparr>))"
    by (simp add: register_constants)
  moreover have "\<not> fst (PHP_MSHUTDOWN B ?st)"
    using registered_globals_ok(3) [OF gs] calculation(7) by (simp add: PHP_MSHUTDOWN_def)
  moreover have "ini_directives (snd (PHP_MSHUTDOWN B ?st)) = ini_directives st0"
    unfolding PHP_MSHUTDOWN_def using calculation(9) fresh(3) by (auto simp: filter_id_conv filter_empty_conv)
  ultimately show ?thesis
    using registered_globals_ok(1,2) [OF gs]
    by (intro exI [of _ ?st] exI [of _ "?ce\<lparr>ce_constants := all_constants B L LO K\<rparr>"] exI [of _ ?exn] conjI)
      simp_all
qed

definition sample_engine :: "build \<Rightarrow> 'd module_state" where
  "sample_engine B =
     \<lparr>class_table = [(''runtimeexception'', INIT_CLASS_ENTRY ''RuntimeException'' (Some ''Exception'') [])],
      spl_ce_RuntimeException = None, list_destructors = [], session_modules = [''files''], ini_directives = [''memory_limit''],
      memcached_object_handlers = \<lparr>clone_obj = Some ''std'', free_obj = ''std''\<rparr>,
      memcached_server_object_handlers = \<lparr>clone_obj = Some ''std'', free_obj = ''std''\<rparr>,
      memc_globals_of = ginit_memc (config.truncate B), session_globals_of = ginit_session\<rparr>"

lemma module_loads_witness:
  "\<exists>st memc exn. PHP_MINIT sample_build True sample_ini (\<lambda>n. if n = ''memcached.serializer'' then Some ''igbinary'' else None)
      sample_lib sample_options (\<lambda>_. 0) (sample_engine sample_build :: (bool \<times> rat) module_state) = Some st \<and>
    map_of (class_table st) ''memcached'' = Some memc \<and> ce_methods memc = class_Memcached_methods sample_build \<and>
    php_memc_register_constants sample_build sample_lib sample_options (\<lambda>_. 0) = Some (ce_constants memc) \<and>
    map_of (class_table st) ''memcachedexception'' = Some exn \<and> ce_parent exn = Some ''RuntimeException'' \<and>
    (map_of (class_table st) ''memcachedserver'' \<noteq> None) = HAVE_MEMCACHED_PROTOCOL sample_build \<and>
    (''memcached'' \<in> set (session_modules st)) = HAVE_MEMCACHED_SESSION sample_build \<and>
    clone_obj (memcached_object_handlers st) = None \<and>
    globals_ok (config.truncate sample_build) (memc_globals_of st) \<and> session_globals_ok (session_globals_of st) \<and>
    \<not> fst (PHP_MSHUTDOWN sample_build st) \<and>
    ini_directives (snd (PHP_MSHUTDOWN sample_build st)) =
      ini_directives (sample_engine sample_build :: (bool \<times> rat) module_state)"
  by (rule module_loads [where rte = "INIT_CLASS_ENTRY ''RuntimeException'' (Some ''Exception'') []"])
    (simp_all add: sample_engine_def INIT_CLASS_ENTRY_def ini_names_def session_ini_entries_def memc_ini_entries_def)


definition sample_literals :: ini_parse where
  "sample_literals =
     \<lparr>ip_long = (\<lambda>s. of_nat (foldl (\<lambda>n c. 10 * n + (of_char c - 48)) 0 s)), ip_bool = (\<lambda>s. s = ''1''),
      ip_real = (\<lambda>s. if s = ''1.3'' then 13 / 10 else 0)\<rparr>"


lemma lookup_section:
  "(n, v) \<in> set (constants_options B) \<Longrightarrow> map_of (all_constants B L LO K :: 'd constants) n = Some v"
  "(n, v) \<in> set (constants_have B) \<Longrightarrow> map_of (all_constants B L LO K :: 'd constants) n = Some v"
  "(n, v) \<in> set constants_types \<Longrightarrow> map_of (all_constants B L LO K :: 'd constants) n = Some v"
  by (rule constant_lookup; simp add: all_constants_def)+

lemma option_constants:
  "map_of (all_constants B L LO K :: 'd constants) ''OPT_SERIALIZER'' = Some (IS_LONG MEMC_OPT_SERIALIZER)"
  "map_of (all_constants B L LO K :: 'd constants) ''OPT_COMPRESSION_TYPE'' = Some (IS_LONG MEMC_OPT_COMPRESSION_TYPE)"
  by (rule lookup_section(1); simp add: constants_options_def)+

lemma type_constants:
  "map_of (all_constants B L LO K :: 'd constants) ''SERIALIZER_IGBINARY'' = Some (IS_LONG (ucast SERIALIZER_IGBINARY))"
  "map_of (all_constants B L LO K :: 'd constants) ''SERIALIZER_JSON'' = Some (IS_LONG (ucast SERIALIZER_JSON))"
  "map_of (all_constants B L LO K :: 'd constants) ''SERIALIZER_JSON_ARRAY'' = Some (IS_LONG (ucast SERIALIZER_JSON_ARRAY))"
  "map_of (all_constants B L LO K :: 'd constants) ''SERIALIZER_MSGPACK'' = Some (IS_LONG (ucast SERIALIZER_MSGPACK))"
  "map_of (all_constants B L LO K :: 'd constants) ''COMPRESSION_ZSTD'' = Some (IS_LONG (ucast COMPRESSION_TYPE_ZSTD))"
  by (rule lookup_section(3); simp add: constants_types_def)+

lemma have_constants:
  "map_of (all_constants B L LO K :: 'd constants) ''HAVE_IGBINARY'' = Some (ZVAL_BOOL (HAVE_MEMCACHED_IGBINARY B))"
  "map_of (all_constants B L LO K :: 'd constants) ''HAVE_JSON'' = Some (ZVAL_BOOL (HAVE_JSON_API B))"
  "map_of (all_constants B L LO K :: 'd constants) ''HAVE_MSGPACK'' = Some (ZVAL_BOOL (HAVE_MEMCACHED_MSGPACK B))"
  "map_of (all_constants B L LO K :: 'd constants) ''HAVE_ZSTD'' = Some (ZVAL_BOOL (HAVE_ZSTD_H B))"
  "map_of (all_constants B L LO K :: 'd constants) ''HAVE_SASL'' = Some (ZVAL_BOOL (HAVE_MEMCACHED_SASL B))"
  "map_of (all_constants B L LO K :: 'd constants) ''HAVE_ENCODING'' = Some (ZVAL_BOOL (HAVE_MEMCACHED_SET_ENCODING_KEY B))"
  by (rule lookup_section(2); simp add: constants_have_def)+

lemma set_type_accepted:
  "fst (php_memc_set_option E LO intern MEMC_OPT_SERIALIZER (IS_LONG l)) = valid_serializer (cfg E) l"
  "fst (php_memc_set_option E LO intern MEMC_OPT_COMPRESSION_TYPE (IS_LONG l)) = valid_compression_type (cfg E) l"
  by (simp_all add: php_memc_set_option_def Let_def zval_get_long_def)

lemma valid_types:
  "valid_serializer C 2 = HAVE_MEMCACHED_IGBINARY C"
  "valid_serializer C 3 = HAVE_JSON_API C"
  "valid_serializer C 4 = HAVE_JSON_API C"
  "valid_serializer C 5 = HAVE_MEMCACHED_MSGPACK C"
  "valid_compression_type C 3 = HAVE_ZSTD_H C"
  by (simp_all add: valid_serializer_def valid_compression_type_def)

lemma truncate_config [simp]:
  "HAVE_MEMCACHED_IGBINARY (config.truncate B) = HAVE_MEMCACHED_IGBINARY B"
  "HAVE_JSON_API (config.truncate B) = HAVE_JSON_API B"
  "HAVE_MEMCACHED_MSGPACK (config.truncate B) = HAVE_MEMCACHED_MSGPACK B"
  "HAVE_ZSTD_H (config.truncate B) = HAVE_ZSTD_H B"
  by (simp_all add: config.truncate_def)

lemma minfo_rows:
  "(''igbinary support'', if HAVE_MEMCACHED_IGBINARY B then ''yes'' else ''no'') \<in> set (PHP_MINFO B a v h l)"
  "(''json support'', if HAVE_JSON_API B then ''yes'' else ''no'') \<in> set (PHP_MINFO B a v h l)"
  "(''msgpack support'', if HAVE_MEMCACHED_MSGPACK B then ''yes'' else ''no'') \<in> set (PHP_MINFO B a v h l)"
  "(''zstd support'', if HAVE_ZSTD_H B then ''yes'' else ''no'') \<in> set (PHP_MINFO B a v h l)"
  unfolding PHP_MINFO_def Let_def info_row_def set_append by simp_all

lemma methods_in_build:
  "''setSaslAuthData'' \<in> set (class_Memcached_methods B) \<longleftrightarrow> HAVE_MEMCACHED_SASL B"
  "''setEncodingKey'' \<in> set (class_Memcached_methods B) \<longleftrightarrow> HAVE_MEMCACHED_SET_ENCODING_KEY B"
  by (simp_all add: class_Memcached_methods_def)

text \<open>C38: The class tells the truth about its build. \<open>HAVE_IGBINARY\<close>, \<open>HAVE_JSON\<close>, \<open>HAVE_MSGPACK\<close> and
  \<open>HAVE_ZSTD\<close> are true exactly if \<open>setOption\<close>, given the class's own option and type constants,
  accepts that serializer or compression, and \<open>phpinfo\<close> says the same; \<open>HAVE_SASL\<close> and
  \<open>HAVE_ENCODING\<close> are true exactly if the class has the method.
\<close>

theorem have_constants_truthful:
  fixes intern :: "'m php_memc_object" and E :: "('m, 'd) env"
  assumes "cfg E = config.truncate B"
  shows "\<exists>T. php_memc_register_constants B (lib E) LO K = Some (T :: 'd constants) \<and>
    (\<forall>(have, opt, type, row) \<in> set
        [(''HAVE_IGBINARY'', ''OPT_SERIALIZER'', ''SERIALIZER_IGBINARY'', ''igbinary support''),
         (''HAVE_JSON'', ''OPT_SERIALIZER'', ''SERIALIZER_JSON'', ''json support''),
         (''HAVE_JSON'', ''OPT_SERIALIZER'', ''SERIALIZER_JSON_ARRAY'', ''json support''),
         (''HAVE_MSGPACK'', ''OPT_SERIALIZER'', ''SERIALIZER_MSGPACK'', ''msgpack support''),
         (''HAVE_ZSTD'', ''OPT_COMPRESSION_TYPE'', ''COMPRESSION_ZSTD'', ''zstd support'')].
      \<exists>option type_number accepted.
        map_of T opt = Some (IS_LONG option) \<and> map_of T type = Some (IS_LONG type_number) \<and>
        accepted = fst (php_memc_set_option E LO intern option (IS_LONG type_number)) \<and>
        map_of T have = Some (ZVAL_BOOL accepted) \<and>
        (row, if accepted then ''yes'' else ''no'') \<in> set (PHP_MINFO B awesome version headers library)) \<and>
    map_of T ''HAVE_SASL'' = Some (ZVAL_BOOL (''setSaslAuthData'' \<in> set (class_Memcached_methods B))) \<and>
    map_of T ''HAVE_ENCODING'' = Some (ZVAL_BOOL (''setEncodingKey'' \<in> set (class_Memcached_methods B)))"
  unfolding register_constants option.inject methods_in_build
  by (intro exI [of _ "all_constants B (lib E) LO K"])
    (simp add: option_constants type_constants have_constants set_type_accepted valid_types assms minfo_rows
      del: if_split)

lemma have_constants_truthful_witness:
  "\<exists>T. php_memc_register_constants sample_build (lib sample_env) sample_options (\<lambda>_. 0) = Some (T :: (bool \<times> rat) constants) \<and>
    map_of T ''HAVE_SASL'' = Some IS_TRUE \<and> map_of T ''HAVE_ENCODING'' = Some IS_FALSE"
proof -
  have C: "cfg sample_env = config.truncate sample_build"
    by (simp add: sample_env_def sample_build_def config.truncate_def)
  obtain T where "php_memc_register_constants sample_build (lib sample_env) sample_options (\<lambda>_. 0) =
      Some (T :: (bool \<times> rat) constants)"
    "map_of T ''HAVE_SASL'' = Some (ZVAL_BOOL (''setSaslAuthData'' \<in> set (class_Memcached_methods sample_build)))"
    "map_of T ''HAVE_ENCODING'' = Some (ZVAL_BOOL (''setEncodingKey'' \<in> set (class_Memcached_methods sample_build)))"
    using have_constants_truthful [OF C, of sample_options "\<lambda>_. 0" sample_object True "[]" "[]" "[]"]
    by (elim exE conjE) (rule that)
  then show ?thesis unfolding methods_in_build by (intro exI conjI) (simp_all add: sample_build_def)
qed

end
