(* ===== verification/Session_Life.thy ===== *)
theory Session_Life
  imports Session
begin

text \<open>
  The life of session clients across requests: opening finds or makes a client, closing destroys it
  unless it is persistent, the functions in between work on it. The settings may be other ones at
  every step. Shown is that a client in use or on the persistent list is never a destroyed one.
\<close>

definition php_memc_sess_dtor :: "nat option \<Rightarrow> 'm sess_state \<Rightarrow> 'm sess_state" where
  "php_memc_sess_dtor ptr st = (case ptr of None \<Rightarrow> st | Some a \<Rightarrow> s_destroy_mod_data a st)"

text \<open>
  One step: an open (with a new client at a free address \<open>a\<close>), a close, or one of the functions that
  use the open client; at the end of the process the persistent list is destroyed, entry by entry.
\<close>

inductive sess_step :: "'m sess_state \<Rightarrow> 'm sess_state \<Rightarrow> bool" where
  sess_open: "ss_cells st a = None \<Longrightarrow> ps_open S a path st = Some (ok, st') \<Longrightarrow> sess_step st st'"
| sess_close: "ps_close S st = Some (ok, st') \<Longrightarrow> sess_step st st'"
| sess_read: "ss_mod_data st = Some a \<Longrightarrow> ss_cells st a = Some c \<Longrightarrow>
    sess_step st (st\<lparr>ss_cells := (ss_cells st)(a \<mapsto> snd (ps_read S key c))\<rparr>)"
| sess_write: "ss_mod_data st = Some a \<Longrightarrow> ss_cells st a = Some c \<Longrightarrow>
    sess_step st (st\<lparr>ss_cells := (ss_cells st)(a \<mapsto> snd (ps_write S key v lifetime c))\<rparr>)"
| sess_destroy: "ss_mod_data st = Some a \<Longrightarrow> ss_cells st a = Some c \<Longrightarrow>
    sess_step st (st\<lparr>ss_cells := (ss_cells st)(a \<mapsto> snd (ps_destroy S key c))\<rparr>)"
| sess_end: "ss_mod_data st = None \<Longrightarrow> ss_plist st k = Some a \<Longrightarrow>
    sess_step st ((php_memc_sess_dtor (Some a) st)\<lparr>ss_plist := (ss_plist st)(k := None)\<rparr>)"

definition persistent_at :: "'m sess_state \<Rightarrow> nat \<Rightarrow> bool" where
  "persistent_at st a \<longleftrightarrow> (case ss_cells st a of None \<Rightarrow> False | Some c \<Rightarrow> su_is_persistent (snd c))"

text \<open>
  The invariant: entries of the list point to persistent clients in memory, each to its own, and
  the open client is in memory.
\<close>

definition sess_ok :: "'m sess_state \<Rightarrow> bool" where
  "sess_ok st \<longleftrightarrow>
     (\<forall>k b. ss_plist st k = Some b \<longrightarrow> persistent_at st b) \<and>
     (\<forall>k k' b. ss_plist st k = Some b \<longrightarrow> ss_plist st k' = Some b \<longrightarrow> k = k') \<and>
     (\<forall>a. ss_mod_data st = Some a \<longrightarrow> ss_cells st a \<noteq> None)"

lemma sess_okI:
  assumes "\<And>k b. ss_plist st k = Some b \<Longrightarrow> persistent_at st b"
    "\<And>k k' b. ss_plist st k = Some b \<Longrightarrow> ss_plist st k' = Some b \<Longrightarrow> k = k'"
    "\<And>a. ss_mod_data st = Some a \<Longrightarrow> ss_cells st a \<noteq> None"
  shows "sess_ok st"
  using assms by (auto simp: sess_ok_def)

lemma sess_okD:
  assumes "sess_ok st"
  shows "ss_plist st k = Some b \<Longrightarrow> persistent_at st b"
    "ss_plist st k = Some b \<Longrightarrow> ss_plist st k' = Some b \<Longrightarrow> k = k'"
    "ss_mod_data st = Some a \<Longrightarrow> ss_cells st a \<noteq> None"
  using assms unfolding sess_ok_def by blast+

section \<open>Operations keep whether their client is persistent\<close>

lemma configure_persistent:
  "s_configure_from_ini_values S c = Some (Some c') \<Longrightarrow> su_is_persistent (snd c') = su_is_persistent (snd c)"
  by (auto simp: s_configure_from_ini_values_def Let_def split: prod.splits option.splits if_splits bool.splits)

lemma lock_attempt_persistent: "lock_attempt S sid c = (rc, c') \<Longrightarrow> su_is_persistent (snd c') = su_is_persistent (snd c)"
  by (auto simp: lock_attempt_def split: prod.splits if_splits)

lemma lock_loop_persistent:
  "su_is_persistent (snd (fst (lock_loop S sid r w c waits))) = su_is_persistent (snd c)"
proof (induction r arbitrary: w c waits)
  case 0
  obtain rc c' where a: "lock_attempt S sid c = (rc, c')" by (cases "lock_attempt S sid c")
  show ?case by (subst lock_loop.simps) (simp add: a Let_def lock_attempt_persistent [OF a])
next
  case (Suc r)
  obtain rc c' where a: "lock_attempt S sid c = (rc, c')" by (cases "lock_attempt S sid c")
  show ?case by (subst lock_loop.simps) (simp add: a Let_def Suc.IH lock_attempt_persistent [OF a])
qed

lemma unlock_persistent [simp]: "su_is_persistent (snd (s_unlock_session S c)) = su_is_persistent (snd c)"
  by (simp add: s_unlock_session_def split: prod.split)

lemma ps_read_persistent [simp]: "su_is_persistent (snd (snd (ps_read S key c))) = su_is_persistent (snd c)"
proof -
  have "su_is_persistent (snd c') = su_is_persistent (snd c)" if "s_lock_session S key c = (ok, c', waits)" for ok c' waits
    using that lock_loop_persistent [of S key _ _ c "[]"]
    by (metis (no_types, lifting) fst_conv s_lock_session_def case_prod_beta' snd_conv)
  then show ?thesis by (auto simp: ps_read_def Let_def split: prod.splits)
qed

lemma ps_write_persistent [simp]: "su_is_persistent (snd (snd (ps_write S key v lifetime c))) = su_is_persistent (snd c)"
  by (simp add: ps_write_def Let_def split: prod.split)

lemma ps_destroy_persistent [simp]: "su_is_persistent (snd (snd (ps_destroy S key c))) = su_is_persistent (snd c)"
  by (simp add: ps_destroy_def Let_def)

lemma init_persistent:
  "s_init_mod_data S servers p = Some c \<Longrightarrow> su_is_persistent (snd c) = p"
  by (auto simp: s_init_mod_data_def Let_def split: bind_splits)


section \<open>Steps keep the invariant\<close>

lemma persistent_at_update:
  "ss_cells st a = Some c \<Longrightarrow> su_is_persistent (snd c') = su_is_persistent (snd c) \<Longrightarrow>
    persistent_at (st\<lparr>ss_cells := (ss_cells st)(a \<mapsto> c')\<rparr>) b = persistent_at st b"
  by (simp add: persistent_at_def)

lemma sess_ok_update:
  assumes "sess_ok st" "ss_cells st a = Some c" "su_is_persistent (snd c') = su_is_persistent (snd c)"
  shows "sess_ok (st\<lparr>ss_cells := (ss_cells st)(a \<mapsto> c')\<rparr>)"
  using sess_okD [OF assms(1)] persistent_at_update [OF assms(2,3)] by (intro sess_okI) auto

lemma persistent_at_cell: "persistent_at st a \<Longrightarrow> ss_cells st a \<noteq> None"
  by (auto simp: persistent_at_def split: option.splits)

lemma open_new_ok:
  assumes ok: "sess_ok (st\<lparr>ss_mod_data := None\<rparr>)" and free: "ss_cells st a = None"
    and plist_key: "\<And>k. plist_key = Some k \<Longrightarrow> ss_plist st k = None \<and> S_persistent_enabled (se_ini S)"
    and "open": "sess_open_new S a plist_key servers st = Some (r, st')"
  shows "sess_ok st'"
proof -
  let ?st = "st\<lparr>ss_mod_data := None\<rparr>"
  obtain c where init: "s_init_mod_data S servers (S_persistent_enabled (se_ini S)) = Some c"
    and rest: "st' = ?st \<or> (\<exists>c'. s_configure_from_ini_values S c = Some (Some c') \<and>
       st' = \<lparr>ss_cells = (ss_cells st)(a \<mapsto> c'),
              ss_plist = (case plist_key of None \<Rightarrow> ss_plist st | Some k \<Rightarrow> (ss_plist st)(k \<mapsto> a)),
              ss_mod_data = Some a\<rparr>)"
    using "open" plist_key
    by (cases st) (auto simp: sess_open_new_def Let_def split: bind_splits option.splits)
  from rest show ?thesis
  proof (elim disjE exE conjE)
    assume "st' = ?st"
    with ok show ?thesis by simp
  next
    fix c' assume conf: "s_configure_from_ini_values S c = Some (Some c')"
      and st': "st' = \<lparr>ss_cells = (ss_cells st)(a \<mapsto> c'),
        ss_plist = (case plist_key of None \<Rightarrow> ss_plist st | Some k \<Rightarrow> (ss_plist st)(k \<mapsto> a)), ss_mod_data = Some a\<rparr>"
    have p: "su_is_persistent (snd c') = S_persistent_enabled (se_ini S)"
      using configure_persistent [OF conf] init_persistent [OF init] by simp
    have unused: "ss_plist st k \<noteq> Some a" for k
      using sess_okD(1) [OF ok, of k a] free by (auto simp: persistent_at_def)
    show ?thesis
    proof (rule sess_okI)
      fix k b assume "ss_plist st' k = Some b"
      then show "persistent_at st' b"
        using sess_okD(1) [OF ok, of k b] p plist_key unused
        by (auto simp: st' persistent_at_def split: option.splits if_splits)
    next
      fix k k' b assume "ss_plist st' k = Some b" "ss_plist st' k' = Some b"
      then show "k = k'"
        using sess_okD(2) [OF ok, of k b k'] unused by (auto simp: st' split: option.splits if_splits)
    next
      fix b assume "ss_mod_data st' = Some b"
      then show "ss_cells st' b \<noteq> None" by (simp add: st')
    qed
  qed
qed

lemma drop_entry_ok:
  assumes "sess_ok st" "ss_plist st k = Some b" "ss_mod_data st = None"
  shows "sess_ok ((s_destroy_mod_data b st)\<lparr>ss_plist := (ss_plist st)(k := None)\<rparr>)"
  using sess_okD [OF assms(1)] assms(2,3)
  by (intro sess_okI) (auto simp: s_destroy_mod_data_def persistent_at_def split: if_splits)

lemma no_mod_ok: "sess_ok st \<Longrightarrow> sess_ok (st\<lparr>ss_mod_data := None\<rparr>)"
  by (auto simp: sess_ok_def persistent_at_def)

lemma ps_open_ok:
  assumes ok: "sess_ok st" and free: "ss_cells st a = None" and "open": "ps_open S a path st = Some (r, st')"
  shows "sess_ok st'"
proof -
  let ?key = "''memc-session:'' @ path"
  consider "st' = st\<lparr>ss_mod_data := None\<rparr>"
    | plist_key servers where "sess_open_new S a plist_key servers st = Some (r, st')"
        "\<And>k. plist_key = Some k \<Longrightarrow> ss_plist st k = None \<and> S_persistent_enabled (se_ini S)"
    | b c c' where "ss_plist st ?key = Some b" "ss_cells st b = Some c" "s_configure_from_ini_values S c = Some (Some c')"
        "st' = st\<lparr>ss_cells := (ss_cells st)(b \<mapsto> c'), ss_mod_data := Some b\<rparr>"
    | b servers where "ss_plist st ?key = Some b" "S_persistent_enabled (se_ini S)"
        "sess_open_new S a (Some ?key) servers
          ((s_destroy_mod_data b st)\<lparr>ss_plist := (ss_plist st)(?key := None)\<rparr>) = Some (r, st')"
    using "open" by (auto simp: ps_open_def Let_def split: if_splits option.splits bind_splits)
  then show ?thesis
  proof cases
    case 1
    with no_mod_ok [OF ok] show ?thesis by simp
  next
    case 2
    with no_mod_ok [OF ok] free show ?thesis by (auto intro: open_new_ok)
  next
    case 3
    with sess_ok_update [OF ok 3(2) configure_persistent [OF 3(3)]] show ?thesis
      by (auto simp: sess_ok_def persistent_at_def)
  next
    case 4
    let ?st = "(s_destroy_mod_data b st)\<lparr>ss_plist := (ss_plist st)(?key := None)\<rparr>"
    have "sess_ok (?st\<lparr>ss_mod_data := None\<rparr>)"
      using drop_entry_ok [OF no_mod_ok [OF ok], of ?key b] 4(1) by (cases st) (simp add: s_destroy_mod_data_def)
    with 4 free show ?thesis by (auto intro!: open_new_ok [OF _ _ _ 4(3)] simp: s_destroy_mod_data_def)
  qed
qed

lemma ps_close_ok:
  assumes ok: "sess_ok st" and "close": "ps_close S st = Some (r, st')"
  shows "sess_ok st'"
proof (cases "ss_mod_data st")
  case None
  with assms show ?thesis by (simp add: ps_close_def)
next
  case (Some a)
  then obtain c where c: "ss_cells st a = Some c" using sess_okD(3) [OF ok] by blast
  define c' where "c' = (if su_is_locked (snd c) then s_unlock_session S c else c)"
  have p: "su_is_persistent (snd c') = su_is_persistent (snd c)" by (simp add: c'_def)
  let ?st = "st\<lparr>ss_cells := (ss_cells st)(a \<mapsto> c')\<rparr>"
  have st': "st' = (if su_is_persistent (snd c') then ?st else s_destroy_mod_data a ?st)\<lparr>ss_mod_data := None\<rparr>"
    using "close" by (auto simp: ps_close_def Some c Let_def c'_def split: if_splits)
  have upd: "sess_ok ?st" by (rule sess_ok_update [OF ok c p])
  show ?thesis
  proof (cases "su_is_persistent (snd c')")
    case True
    with no_mod_ok [OF upd] show ?thesis by (simp add: st')
  next
    case False
    have "b \<noteq> a" if "ss_plist st k = Some b" for k b
      using sess_okD(1) [OF ok that] False p c by (auto simp: persistent_at_def)
    with False sess_okD [OF upd] show ?thesis unfolding st'
      by (intro sess_okI) (auto simp: s_destroy_mod_data_def persistent_at_def split: if_splits)
  qed
qed

lemma sess_step_ok: "sess_step st st' \<Longrightarrow> sess_ok st \<Longrightarrow> sess_ok st'"
  by (induction rule: sess_step.induct)
    (auto intro: ps_open_ok ps_close_ok sess_ok_update drop_entry_ok simp: php_memc_sess_dtor_def)

definition no_clients :: "'m sess_state" where
  "no_clients = \<lparr>ss_cells = (\<lambda>_. None), ss_plist = (\<lambda>_. None), ss_mod_data = None\<rparr>"

text \<open>C15: No session is served by a destroyed client. After any sequence of opens, closes, reads, writes
  and destructions, with any settings at each of them and any answers of the library, the open
  session's client is in memory, so that closing works, and every entry of the persistent list
  points to a client in memory that was made to persist.\<close>

theorem session_client_never_destroyed:
  assumes "sess_step\<^sup>*\<^sup>* no_clients st"
  shows "(case ss_mod_data st of None \<Rightarrow> True | Some a \<Rightarrow> ss_cells st a \<noteq> None) \<and> ps_close S st \<noteq> None \<and>
    (case ss_plist st k of None \<Rightarrow> True | Some b \<Rightarrow> persistent_at st b)"
proof -
  have "sess_ok no_clients" by (simp add: sess_ok_def no_clients_def)
  with assms have "sess_ok st" by (induction rule: rtranclp_induct) (auto intro: sess_step_ok)
  then show ?thesis by (auto simp: sess_ok_def ps_close_def Let_def ex_bool_eq split: option.split)
qed

theorem session_client_never_destroyed_witness:
  "\<exists>st. sess_step\<^sup>*\<^sup>* no_clients st \<and> ss_mod_data st = Some 3 \<and> ps_close item_sess st \<noteq> None"
proof -
  obtain st where open_run: "ps_open item_sess 3 ''localhost'' no_clients = Some (True, st)" "ss_mod_data st = Some 3"
    by (auto simp: ps_open_def sess_open_new_def s_init_mod_data_def s_configure_from_ini_values_def
        configure_behaviors_def check_if_def check_set_behavior_def MEMC_SESS_STR_INI_def item_sess_def item_lib_def
        item_calls_def ginit_session_def no_clients_def Let_def)
  have "sess_step no_clients st"
    by (rule sess_open [OF _ open_run(1)]) (simp add: no_clients_def)
  then have "sess_step\<^sup>*\<^sup>* no_clients st" by (rule r_into_rtranclp)
  with session_client_never_destroyed [OF this, of item_sess "''id''"] open_run(2) show ?thesis by blast
qed

end
